(* ===== verification/GoFloat.thy ===== *)
theory GoFloat
  imports Complex_Main
begin

text \<open>
  IEEE 754 binary64 as Go's \<open>float64\<close>: a value is a rational, and every arithmetic operation is
  the exact one followed by \<open>fl\<close>, rounding to 53 significant bits with ties to even. Overflow to
  infinity and subnormals are outside the magnitudes the rate limiter reaches (its rules are
  within \<open>2 ^ 53\<close> tokens and nanoseconds), so the exponent is unbounded. A multiplication and the
  addition that uses it are rounded separately, as the compiler does on amd64.

  The locale \<open>rounding\<close> is what the limiter's error analysis relies on; \<open>fl\<close> provides it.
\<close>

section \<open>Rounding to 53 bits\<close>

fun bit_length :: "int \<Rightarrow> nat" where
  "bit_length n = (if n \<le> 0 then 0 else Suc (bit_length (n div 2)))"

declare bit_length.simps [simp del]

definition pow2 :: "int \<Rightarrow> rat" where
  "pow2 e = (if 0 \<le> e then 2 ^ nat e else 1 / 2 ^ nat (- e))"

definition round_even :: "rat \<Rightarrow> int" where
  "round_even x =
     (let f = \<lfloor>x\<rfloor>; d = x - of_int f
      in if d < 1/2 then f else if 1/2 < d then f + 1
         else if even f then f else f + 1)"

definition ilog2 :: "rat \<Rightarrow> int" where
  "ilog2 x =
     (let (a, b) = quotient_of x;
          e = int (bit_length a) - int (bit_length b)
      in if pow2 e \<le> x then e else e - 1)"

definition fl_pos :: "rat \<Rightarrow> rat" where
  "fl_pos x = (let e = ilog2 x - 52 in of_int (round_even (x * pow2 (- e))) * pow2 e)"

definition fl :: "rat \<Rightarrow> rat" where
  "fl x = (if x = 0 then 0 else if 0 < x then fl_pos x else - fl_pos (- x))"



lemma bit_length_bounds: "0 < n \<Longrightarrow> 2 ^ (bit_length n - 1) \<le> n \<and> n < 2 ^ bit_length n"
proof (induction n rule: bit_length.induct)
  case (1 n)
  show ?case
  proof (cases "n div 2 \<le> 0")
    case True
    with 1 have "n = 1" by simp
    then show ?thesis by (simp add: bit_length.simps)
  next
    case False
    with 1 have IH: "2 ^ (bit_length (n div 2) - 1) \<le> n div 2 \<and> n div 2 < 2 ^ bit_length (n div 2)"
      by simp
    from False obtain k where k: "bit_length (n div 2) = Suc k"
      using bit_length.simps [of "n div 2"] by simp
    have "bit_length n = Suc (Suc k)" using 1(2) k by (simp add: bit_length.simps [of n])
    moreover have "2 ^ k \<le> n div 2" "n div 2 < 2 * 2 ^ k" using IH k by auto
    moreover have "2 * (n div 2) \<le> n" "n < 2 * (n div 2) + 2" by auto
    ultimately show ?thesis by simp
  qed
qed

lemma pow2_powi: "pow2 e = 2 powi e"
  by (simp add: pow2_def power_int_def power_one_over inverse_eq_divide)

lemma pow2_pos [simp]: "0 < pow2 e"
  by (simp add: pow2_powi)

lemma pow2_nonzero [simp]: "pow2 e \<noteq> 0"
  using pow2_pos [of e] by linarith

lemma pow2_add: "pow2 (a + b) = pow2 a * pow2 b"
  by (simp add: pow2_powi power_int_add)

lemma pow2_mono: "a \<le> b \<Longrightarrow> pow2 a \<le> pow2 b"
  using pow2_add [of a "b - a"] by (simp add: pow2_def [of "b - a"])

lemma pow2_less_iff: "pow2 a < pow2 b \<longleftrightarrow> a < b"
proof
  assume "pow2 a < pow2 b"
  then show "a < b" using pow2_mono [of b a] by linarith
next
  assume "a < b"
  then have "pow2 (a + 1) \<le> pow2 b" by (intro pow2_mono) simp
  moreover have "pow2 (a + 1) = 2 * pow2 a" using pow2_add [of a 1] by (simp add: pow2_def [of 1])
  ultimately show "pow2 a < pow2 b" using pow2_pos [of a] by linarith
qed

lemma pow2_of_nat: "pow2 (int n) = 2 ^ n"
  by (simp add: pow2_def)

lemma pow2_minus: "pow2 (- e) = 1 / pow2 e"
  by (simp add: pow2_powi power_int_minus divide_inverse)

lemma pow2_diff: "pow2 (a - b) = pow2 a / pow2 b"
  using pow2_add [of a "- b"] by (simp add: pow2_minus)

lemma of_int_pow2_le: "2 ^ k \<le> (n :: int) \<Longrightarrow> pow2 (int k) \<le> of_int n"
  by (metis of_int_le_iff of_int_numeral of_int_power pow2_of_nat)

lemma of_int_pow2_less: "(n :: int) < 2 ^ k \<Longrightarrow> of_int n < pow2 (int k)"
  by (metis of_int_less_iff of_int_numeral of_int_power pow2_of_nat)

lemma of_int_le_pow2: "(n :: int) \<le> 2 ^ k \<Longrightarrow> of_int n \<le> pow2 (int k)"
  by (metis of_int_le_iff of_int_numeral of_int_power pow2_of_nat)

lemma ilog2_bounds:
  assumes "0 < x"
  shows "pow2 (ilog2 x) \<le> x" and "x < pow2 (ilog2 x + 1)"
proof -
  obtain a b where q: "quotient_of x = (a, b)" by fastforce
  have b: "0 < b" using q quotient_of_denom_pos by blast
  have x: "x = of_int a / of_int b" using q quotient_of_div by blast
  have a: "0 < a" using assms x b by (simp add: zero_less_divide_iff)
  define la lb where "la = bit_length a" and "lb = bit_length b"
  have la: "2 ^ (la - 1) \<le> a" "a < 2 ^ la" and lb: "2 ^ (lb - 1) \<le> b" "b < 2 ^ lb"
    using bit_length_bounds a b by (auto simp: la_def lb_def)
  have pos: "0 < la" "0 < lb" using a b by (auto simp: la_def lb_def bit_length.simps)
  have ra: "pow2 (int la - 1) \<le> of_int a" "of_int a < pow2 (int la)"
    using of_int_pow2_le [OF la(1)] of_int_pow2_less [OF la(2)] pos by simp_all
  have rb: "pow2 (int lb - 1) \<le> of_int b" "of_int b < pow2 (int lb)"
    using of_int_pow2_le [OF lb(1)] of_int_pow2_less [OF lb(2)] pos by simp_all
  have up: "x < pow2 (int la - int lb + 1)"
  proof -
    have "x < pow2 (int la) / pow2 (int lb - 1)"
      unfolding x using ra rb a b by (intro frac_less) auto
    then show ?thesis by (simp add: pow2_diff [symmetric] algebra_simps)
  qed
  have lo: "pow2 (int la - int lb - 1) \<le> x"
  proof -
    have "pow2 (int la - 1) / pow2 (int lb) \<le> x"
      unfolding x using ra rb a b by (intro frac_le) auto
    then show ?thesis by (simp add: pow2_diff [symmetric] algebra_simps)
  qed
  show "pow2 (ilog2 x) \<le> x" "x < pow2 (ilog2 x + 1)"
    using up lo by (auto simp: ilog2_def q Let_def la_def lb_def not_le)
qed

lemma ilog2_eqI: "pow2 e \<le> x \<Longrightarrow> x < pow2 (e + 1) \<Longrightarrow> ilog2 x = e"
proof -
  assume *: "pow2 e \<le> x" "x < pow2 (e + 1)"
  then have "0 < x" using pow2_pos [of e] by linarith
  note b = ilog2_bounds [OF this]
  have "pow2 e < pow2 (ilog2 x + 1)" "pow2 (ilog2 x) < pow2 (e + 1)"
    using * b by linarith+
  then show ?thesis by (simp add: pow2_less_iff)
qed

lemma ilog2_mono: "0 < x \<Longrightarrow> x \<le> y \<Longrightarrow> ilog2 x \<le> ilog2 y"
proof -
  assume "0 < x" "x \<le> y"
  then have "pow2 (ilog2 x) < pow2 (ilog2 y + 1)"
    using ilog2_bounds [of x] ilog2_bounds [of y] by linarith
  then show ?thesis by (simp add: pow2_less_iff)
qed

lemma round_even_int [simp]: "round_even (of_int n) = n"
  by (simp add: round_even_def)

lemma round_even_err: "\<bar>of_int (round_even x) - x\<bar> \<le> 1/2"
  by (simp add: round_even_def Let_def abs_if) linarith

lemma round_even_mono: "x \<le> y \<Longrightarrow> round_even x \<le> round_even y"
proof -
  assume xy: "x \<le> y"
  then have f: "\<lfloor>x\<rfloor> \<le> \<lfloor>y\<rfloor>" by (rule floor_mono)
  show ?thesis
  proof (cases "\<lfloor>x\<rfloor> = \<lfloor>y\<rfloor>")
    case True
    with xy show ?thesis by (auto simp: round_even_def Let_def)
  next
    case False
    with f have "\<lfloor>x\<rfloor> + 1 \<le> \<lfloor>y\<rfloor>" by simp
    moreover have "round_even x \<le> \<lfloor>x\<rfloor> + 1" "\<lfloor>y\<rfloor> \<le> round_even y"
      by (auto simp: round_even_def Let_def)
    ultimately show ?thesis by linarith
  qed
qed

lemma fl_pos_bounds:
  assumes "0 < x"
  shows "pow2 (ilog2 x) \<le> fl_pos x" and "fl_pos x \<le> pow2 (ilog2 x + 1)"
proof -
  define e where "e = ilog2 x - 52"
  have b: "pow2 (ilog2 x) \<le> x" "x < pow2 (ilog2 x + 1)" using ilog2_bounds assms by auto
  have "of_int (2 ^ 52) \<le> x * pow2 (- e)"
  proof -
    have "pow2 (ilog2 x) * pow2 (- e) \<le> x * pow2 (- e)"
      using b by (intro mult_right_mono) (auto simp: less_imp_le)
    moreover have "pow2 (ilog2 x) * pow2 (- e) = pow2 52"
      by (simp add: e_def pow2_add [symmetric])
    ultimately show ?thesis by (simp add: pow2_def)
  qed
  then have lo: "2 ^ 52 \<le> round_even (x * pow2 (- e))"
    using round_even_mono round_even_int by metis
  have "x * pow2 (- e) \<le> of_int (2 ^ 53)"
  proof -
    have "x * pow2 (- e) \<le> pow2 (ilog2 x + 1) * pow2 (- e)"
      using b by (intro mult_right_mono) (auto simp: less_imp_le)
    moreover have "pow2 (ilog2 x + 1) * pow2 (- e) = pow2 53"
      by (simp add: e_def pow2_add [symmetric])
    ultimately show ?thesis by (simp add: pow2_def)
  qed
  then have hi: "round_even (x * pow2 (- e)) \<le> 2 ^ 53"
    using round_even_mono round_even_int by metis
  have "pow2 (ilog2 x) = 2 ^ 52 * pow2 e"
    using pow2_add [of 52 e] by (simp add: e_def pow2_def [of 52])
  also have "\<dots> \<le> of_int (round_even (x * pow2 (- e))) * pow2 e"
    using of_int_pow2_le [OF lo] by (intro mult_right_mono) (simp_all add: pow2_def [of 52] less_imp_le)
  finally show "pow2 (ilog2 x) \<le> fl_pos x" by (simp add: fl_pos_def e_def Let_def)
  have "of_int (round_even (x * pow2 (- e))) * pow2 e \<le> 2 ^ 53 * pow2 e"
    using of_int_le_pow2 [OF hi] by (intro mult_right_mono) (simp_all add: pow2_def [of 53] less_imp_le)
  also have "\<dots> = pow2 (ilog2 x + 1)"
    using pow2_add [of 53 e] by (simp add: e_def pow2_def [of 53] add.commute)
  finally show "fl_pos x \<le> pow2 (ilog2 x + 1)" by (simp add: fl_pos_def e_def Let_def)
qed

lemma fl_pos_mono: "0 < x \<Longrightarrow> x \<le> y \<Longrightarrow> fl_pos x \<le> fl_pos y"
proof -
  assume xy: "0 < x" "x \<le> y"
  then have l: "ilog2 x \<le> ilog2 y" by (rule ilog2_mono)
  show ?thesis
  proof (cases "ilog2 x = ilog2 y")
    case True
    have "round_even (x * pow2 (- (ilog2 y - 52))) \<le> round_even (y * pow2 (- (ilog2 y - 52)))"
      using xy by (intro round_even_mono mult_right_mono) (auto simp: less_imp_le)
    then show ?thesis unfolding fl_pos_def Let_def True
      by (intro mult_right_mono) (auto simp: less_imp_le)
  next
    case False
    with l have "pow2 (ilog2 x + 1) \<le> pow2 (ilog2 y)" by (intro pow2_mono) simp
    with fl_pos_bounds [of x] fl_pos_bounds [of y] xy show ?thesis by simp
  qed
qed

lemma fl_pos_pos: "0 < x \<Longrightarrow> 0 < fl_pos x"
  using fl_pos_bounds(1) [of x] pow2_pos [of "ilog2 x"] by linarith

lemma fl_mono: "x \<le> y \<Longrightarrow> fl x \<le> fl y"
  using fl_pos_mono [of x y] fl_pos_mono [of "- y" "- x"] fl_pos_pos [of y] fl_pos_pos [of "- x"]
  by (auto simp: fl_def)

lemma fl_pos_err: "0 < x \<Longrightarrow> \<bar>fl_pos x - x\<bar> \<le> x / 2 ^ 53"
proof -
  assume x: "0 < x"
  define e where "e = ilog2 x - 52"
  have "x = x * pow2 (- e) * pow2 e" by (simp add: pow2_minus)
  then have "fl_pos x - x = (of_int (round_even (x * pow2 (- e))) - x * pow2 (- e)) * pow2 e"
    by (simp add: fl_pos_def e_def Let_def algebra_simps)
  then have "\<bar>fl_pos x - x\<bar> = \<bar>of_int (round_even (x * pow2 (- e))) - x * pow2 (- e)\<bar> * pow2 e"
    by (simp add: abs_mult less_imp_le)
  also have "\<dots> \<le> 1/2 * pow2 e" by (intro mult_right_mono round_even_err) (simp add: less_imp_le)
  also have "\<dots> = pow2 (ilog2 x) / 2 ^ 53" by (simp add: e_def pow2_diff pow2_def [of 52])
  also have "\<dots> \<le> x / 2 ^ 53" using ilog2_bounds(1) [OF x] by (simp add: divide_right_mono)
  finally show ?thesis .
qed

lemma fl_err: "\<bar>fl x - x\<bar> \<le> \<bar>x\<bar> / 2 ^ 53"
  using fl_pos_err [of x] fl_pos_err [of "- x"] by (auto simp: fl_def abs_if split: if_splits)

lemma fl_of_int: "\<bar>n\<bar> \<le> 2 ^ 53 \<Longrightarrow> fl (of_int n) = of_int n"
proof -
  have pos: "fl_pos (of_int n) = of_int n" if n: "0 < n" "n \<le> 2 ^ 53" for n :: int
  proof -
    define e where "e = ilog2 (of_int n) - 52"
    show ?thesis
    proof (cases "e \<le> 0")
      case True
      have m: "of_int n * pow2 (- e) = of_int (n * 2 ^ nat (- e))"
        using True by (simp add: pow2_def)
      then have "fl_pos (of_int n) = of_int n * pow2 (- e) * pow2 e"
        by (simp only: fl_pos_def Let_def flip: e_def) (simp only: round_even_int)
      then show ?thesis by (simp add: pow2_minus)
    next
      case False
      then have "pow2 53 \<le> pow2 (ilog2 (of_int n))" by (intro pow2_mono) (simp add: e_def)
      also have "\<dots> \<le> of_int n" using n ilog2_bounds(1) by simp
      finally have "of_int (2 ^ 53) \<le> (of_int n :: rat)" by (simp add: pow2_def)
      then have "2 ^ 53 \<le> n" by (simp only: of_int_le_iff)
      with n have "n = 2 ^ 53" by simp
      moreover have "ilog2 (of_int (2 ^ 53)) = 53"
        by (rule ilog2_eqI) (auto simp: pow2_def)
      ultimately show ?thesis
        by (simp add: fl_pos_def pow2_def round_even_def)
    qed
  qed
  assume "\<bar>n\<bar> \<le> 2 ^ 53"
  then show ?thesis using pos [of n] pos [of "- n"] by (auto simp: fl_def)
qed

lemma fl_numeral [simp]: "numeral n \<le> (2 ^ 53 :: int) \<Longrightarrow> fl (numeral n) = numeral n"
  using fl_of_int [of "numeral n"] by simp

lemma fl_0 [simp]: "fl 0 = 0" and fl_1 [simp]: "fl 1 = 1"
  using fl_of_int [of 0] fl_of_int [of 1] by auto
text \<open>Evaluating one rounding: give the binary exponent and the integer significand.\<close>

lemma round_even_eqI: "\<bar>x - of_int m\<bar> < 1/2 \<Longrightarrow> round_even x = m"
  using round_even_err [of x] by linarith

lemma fl_eqI:
  assumes "pow2 k \<le> x" and "x < pow2 (k + 1)" and "\<bar>x * pow2 (52 - k) - of_int m\<bar> < 1/2"
  shows "fl x = of_int m * pow2 (k - 52)"
proof -
  have "0 < x" using assms(1) pow2_pos [of k] by linarith
  moreover have "ilog2 x = k" using assms(1,2) by (rule ilog2_eqI)
  ultimately show ?thesis using round_even_eqI [OF assms(3)] by (simp add: fl_def fl_pos_def)
qed

section \<open>The contract of a rounding\<close>

locale rounding =
  fixes rnd :: "rat \<Rightarrow> rat" and u :: rat
  assumes u_pos: "0 < u"
    and u_small: "u \<le> 1 / 1000"
    and rnd_mono: "x \<le> y \<Longrightarrow> rnd x \<le> rnd y"
    and rnd_one: "rnd 1 = 1"
    and rnd_err: "\<bar>rnd x - x\<bar> \<le> u * \<bar>x\<bar>"
begin

lemma rnd_le: "0 \<le> x \<Longrightarrow> rnd x \<le> (1 + u) * x"
  using rnd_err [of x] by (simp add: abs_le_iff algebra_simps)

lemma rnd_ge: "0 \<le> x \<Longrightarrow> (1 - u) * x \<le> rnd x"
  using rnd_err [of x] by (simp add: abs_le_iff algebra_simps)

lemma rnd_nonneg: "0 \<le> x \<Longrightarrow> 0 \<le> rnd x"
proof -
  assume x: "0 \<le> x"
  then have "0 \<le> (1 - u) * x" using u_small by simp
  with rnd_ge [OF x] show "0 \<le> rnd x" by linarith
qed

lemma cube_le: "(1 + u) * (1 + u) * (1 + u) \<le> 1 + 4 * u"
proof -
  have sq: "u * u \<le> u * (1 / 1000)" using u_pos u_small by (intro mult_left_mono) auto
  have "u * u * u \<le> u * (1 / 1000) * 1" using u_pos u_small sq by (intro mult_mono) auto
  with sq have "3 * (u * u) + u * u * u \<le> u" using u_pos by linarith
  then show ?thesis by (simp add: algebra_simps)
qed

text \<open>
  Adding a rounded product to an accumulator: at most five units of rounding more than the exact
  sum, relative to a bound on both summands.
\<close>

lemma accumulate_le:
  assumes "0 \<le> t" and "t \<le> B" and "0 \<le> e" and "0 \<le> q" and "e * q \<le> B"
    and "rt \<le> (1 + u) * q" and "0 \<le> rt"
  shows "rnd (t + rnd (e * rt)) \<le> t + e * q + 5 * u * B"
proof -
  have "e * rt \<le> (1 + u) * (e * q)" using mult_left_mono [OF assms(6,3)] by (simp add: mult_ac)
  then have "(1 + u) * (e * rt) \<le> (1 + u) * ((1 + u) * (e * q))"
    using u_pos by (intro mult_left_mono) auto
  with rnd_le [of "e * rt"] assms(3,7)
  have "t + rnd (e * rt) \<le> t + (1 + u) * (1 + u) * (e * q)" by (simp add: mult_ac)
  then have "(1 + u) * (t + rnd (e * rt)) \<le> (1 + u) * (t + (1 + u) * (1 + u) * (e * q))"
    using u_pos by (intro mult_left_mono) auto
  moreover have "0 \<le> t + rnd (e * rt)" using assms(1,3,7) by (simp add: rnd_nonneg)
  ultimately have "rnd (t + rnd (e * rt)) \<le> (1 + u) * t + (1 + u) * (1 + u) * (1 + u) * (e * q)"
    using rnd_le [of "t + rnd (e * rt)"] by (simp add: algebra_simps)
  also have "\<dots> \<le> (1 + u) * t + (1 + 4 * u) * (e * q)"
    using cube_le assms(3,4) by (intro add_left_mono mult_right_mono) auto
  also have "\<dots> = t + e * q + (u * t + 4 * (u * (e * q)))" by (simp add: algebra_simps)
  also have "\<dots> \<le> t + e * q + (u * B + 4 * (u * B))"
    using u_pos assms(2,5) by (intro add_left_mono add_mono mult_left_mono) auto
  finally show ?thesis by (simp add: algebra_simps)
qed

text \<open>An accumulator whose exact sum reaches 1 after the inner rounding reaches 1 after both.\<close>

lemma accumulate_reaches:
  assumes "1 - t \<le> rnd x"
  shows "1 \<le> rnd (t + rnd x)"
  using rnd_mono [of 1 "t + rnd x"] assms by (simp add: rnd_one)

lemma sub_one_bounds:
  assumes "1 \<le> t" and "t \<le> B"
  shows "0 \<le> rnd (t - 1)" and "rnd (t - 1) \<le> t - 1 + u * B"
proof -
  have "u * (t - 1) \<le> u * B" using u_pos assms by (intro mult_left_mono) auto
  then show "rnd (t - 1) \<le> t - 1 + u * B" using rnd_le [of "t - 1"] assms by (simp add: algebra_simps)
  show "0 \<le> rnd (t - 1)" using assms by (simp add: rnd_nonneg)
qed

end

interpretation f64: rounding fl "1 / 2 ^ 53"
proof (unfold_locales, goal_cases)
  case (5 x)
  then show ?case using fl_err [of x] by simp
qed (simp_all add: fl_mono)

end
