(* ===== verification/Prelude.thy ===== *)
theory Prelude
  imports Main "HOL-Library.AList"
begin

text \<open>
  Shared vocabulary of the development: the collections the component theories add to, Go's
  machine integers, optional pointers, and the list operations that stand for SQL statements
  over one table.
\<close>

named_theorems go_simps \<open>unfolding of small conversions of the Go code\<close>
named_theorems stmt_simps \<open>effect of one SQL statement on the tables and the world\<close>

section \<open>Machine integers\<close>

text \<open>
  Go's \<open>int\<close> and \<open>int64\<close> are 64-bit, the generated row types use \<open>int32\<close>. Values are
  \<open>int\<close>; the wrap-around of a conversion or of an operation at width 32 or 64 is written out.
\<close>

definition wrap :: "nat \<Rightarrow> int \<Rightarrow> int" where
  "wrap w x = (x + 2 ^ (w - 1)) mod 2 ^ w - 2 ^ (w - 1)"

abbreviation to_int32 :: "int \<Rightarrow> int" where
  "to_int32 \<equiv> wrap 32"

abbreviation to_int64 :: "int \<Rightarrow> int" where
  "to_int64 \<equiv> wrap 64"

abbreviation in_int32 :: "int \<Rightarrow> bool" where
  "in_int32 x \<equiv> - 2147483648 \<le> x \<and> x \<le> 2147483647"

lemma wrap32_bounds: "in_int32 (to_int32 x)"
  by (simp add: wrap_def)

lemma wrap32_id [go_simps]: "in_int32 x \<Longrightarrow> to_int32 x = x"
  by (simp add: wrap_def)

lemma wrap64_id [go_simps]:
  "- 9223372036854775808 \<le> x \<Longrightarrow> x \<le> 9223372036854775807 \<Longrightarrow> to_int64 x = x"
  by (simp add: wrap_def)

text \<open>Go's integer division and remainder truncate towards zero.\<close>

definition quot :: "int \<Rightarrow> int \<Rightarrow> int" where
  "quot a b = sgn a * sgn b * (\<bar>a\<bar> div \<bar>b\<bar>)"

lemma quot_nonneg [go_simps]: "0 \<le> a \<Longrightarrow> 0 < b \<Longrightarrow> quot a b = a div b"
  by (cases "a = 0") (simp_all add: quot_def)

section \<open>Optional pointers\<close>

fun default_if_nil :: "'a option \<Rightarrow> 'a \<Rightarrow> 'a" where
  "default_if_nil None d = d"
| "default_if_nil (Some v) _ = v"

lemma default_if_nil_case: "default_if_nil v d = (case v of None \<Rightarrow> d | Some x \<Rightarrow> x)"
  by (cases v) auto

section \<open>Rows of a table\<close>

text \<open>
  A table is the list of its rows. \<open>update_where\<close> is \<open>UPDATE .. SET .. WHERE\<close>; \<open>count_where\<close> is
  \<open>SELECT count( * ) .. WHERE\<close>; a \<open>SELECT .. WHERE\<close> is \<open>filter\<close>, its first row \<open>List.find\<close>.
\<close>

definition update_where :: "('a \<Rightarrow> bool) \<Rightarrow> ('a \<Rightarrow> 'a) \<Rightarrow> 'a list \<Rightarrow> 'a list" where
  "update_where P f rows = map (\<lambda>r. if P r then f r else r) rows"

definition count_where :: "('a \<Rightarrow> bool) \<Rightarrow> 'a list \<Rightarrow> int" where
  "count_where P rows = int (length (filter P rows))"

lemma find_SomeD: "List.find P xs = Some x \<Longrightarrow> P x \<and> x \<in> set xs"
  by (metis find_Some_iff nth_mem)

lemma find_NoneD: "List.find P xs = None \<Longrightarrow> x \<in> set xs \<Longrightarrow> \<not> P x"
  by (simp add: find_None_iff)

lemma find_unique:
  "x \<in> set xs \<Longrightarrow> P x \<Longrightarrow> (\<And>y. y \<in> set xs \<Longrightarrow> P y \<Longrightarrow> y = x) \<Longrightarrow> List.find P xs = Some x"
  by (cases "List.find P xs") (blast dest: find_NoneD find_SomeD)+

lemma set_update_where: "y \<in> set (update_where P f xs) \<longleftrightarrow>
    (\<exists>x \<in> set xs. y = (if P x then f x else x))"
  by (fastforce simp: update_where_def)

lemma update_where_none: "(\<And>x. x \<in> set xs \<Longrightarrow> \<not> P x) \<Longrightarrow> update_where P f xs = xs"
  by (induction xs) (auto simp: update_where_def)

lemma length_update_where [simp]: "length (update_where P f xs) = length xs"
  by (simp add: update_where_def)

lemma map_update_where: "(\<And>x. P x \<Longrightarrow> g (f x) = g x) \<Longrightarrow> map g (update_where P f xs) = map g xs"
  by (auto simp: update_where_def)

lemma find_update_where:
  assumes "\<And>x. P x \<Longrightarrow> key (f x) = key x"
  shows "List.find (\<lambda>r. key r = k) (update_where P f xs) =
    map_option (\<lambda>r. if P r then f r else r) (List.find (\<lambda>r. key r = k) xs)"
  using assms by (induction xs) (auto simp: update_where_def)

lemma find_append: "List.find P (xs @ ys) =
    (case List.find P xs of None \<Rightarrow> List.find P ys | Some x \<Rightarrow> Some x)"
  by (induction xs) auto

lemma count_where_nonneg [simp]: "0 \<le> count_where P xs"
  by (simp add: count_where_def)

lemma count_where_Nil [simp]: "count_where P [] = 0"
  by (simp add: count_where_def)

lemma count_where_Cons [simp]:
  "count_where P (x # xs) = (if P x then 1 else 0) + count_where P xs"
  by (simp add: count_where_def)

lemma count_where_append [simp]: "count_where P (xs @ ys) = count_where P xs + count_where P ys"
  by (simp add: count_where_def)

lemma count_where_zero: "count_where P xs = 0 \<longleftrightarrow> (\<forall>x \<in> set xs. \<not> P x)"
  by (induction xs) (auto simp: add_nonneg_eq_0_iff)

lemma count_where_pos: "0 < count_where P xs \<longleftrightarrow> (\<exists>x \<in> set xs. P x)"
  using count_where_zero [of P xs] count_where_nonneg [of P xs] by (auto simp del: count_where_nonneg)

section \<open>Pages of a result\<close>

text \<open>\<open>LIMIT l OFFSET o\<close> on a list of rows, for the non-negative values SQL accepts.\<close>

definition limit_offset :: "int \<Rightarrow> int \<Rightarrow> 'a list \<Rightarrow> 'a list" where
  "limit_offset l off rows = take (nat l) (drop (nat off) rows)"

lemma length_limit_offset: "length (limit_offset l off rows) \<le> nat l"
  by (simp add: limit_offset_def)

text \<open>
  \<open>ORDER BY k DESC\<close>, ties in either order in SQL: a stable insertion sort, newest key first.
\<close>

fun insert_desc :: "('a \<Rightarrow> 'k::linorder) \<Rightarrow> 'a \<Rightarrow> 'a list \<Rightarrow> 'a list" where
  "insert_desc k x [] = [x]"
| "insert_desc k x (y # ys) = (if k x < k y then y # insert_desc k x ys else x # y # ys)"

definition sort_desc :: "('a \<Rightarrow> 'k::linorder) \<Rightarrow> 'a list \<Rightarrow> 'a list" where
  "sort_desc k xs = foldr (insert_desc k) xs []"

lemma set_insert_desc [simp]: "set (insert_desc k x xs) = insert x (set xs)"
  by (induction xs) auto

lemma set_sort_desc [simp]: "set (sort_desc k xs) = set xs"
  by (induction xs) (auto simp: sort_desc_def)

lemma length_insert_desc [simp]: "length (insert_desc k x xs) = Suc (length xs)"
  by (induction xs) auto

lemma length_sort_desc [simp]: "length (sort_desc k xs) = length xs"
  by (induction xs) (auto simp: sort_desc_def)

lemma sorted_insert_desc:
  "sorted_wrt (\<lambda>a b. k b \<le> k a) xs \<Longrightarrow> sorted_wrt (\<lambda>a b. k b \<le> k a) (insert_desc k x xs)"
  by (induction xs) (auto intro: order.trans less_imp_le)

lemma sorted_sort_desc: "sorted_wrt (\<lambda>a b. k b \<le> k a) (sort_desc k xs)"
  by (induction xs) (auto simp: sort_desc_def intro: sorted_insert_desc)

end
