(* ===== verification/GoText.thy ===== *)
theory GoText
  imports Prelude "HOL-Library.Sublist"
begin

text \<open>
  Go strings are byte sequences, which is what \<open>string\<close> (a list of 8-bit characters) is.
  This theory gives the operations of packages \<open>strings\<close>, \<open>unicode/utf8\<close>, \<open>strconv\<close>, \<open>fmt\<close>
  and \<open>encoding/hex\<close> that the service uses, on bytes.
\<close>

section \<open>UTF-8\<close>

abbreviation byte :: "char \<Rightarrow> nat" where
  "byte \<equiv> of_char"

definition between :: "nat \<Rightarrow> nat \<Rightarrow> nat \<Rightarrow> bool" where
  "between lo hi n \<longleftrightarrow> lo \<le> n \<and> n \<le> hi"

text \<open>
  The width of the rune at the start of a byte string, as \<open>utf8.DecodeRune\<close> reports it: a byte
  that starts no well-formed sequence is one rune of width 1 (\<open>RuneError\<close>).
\<close>

definition cont :: "char \<Rightarrow> bool" where
  "cont c \<longleftrightarrow> between 128 191 (byte c)"

definition well2 :: "char \<Rightarrow> char \<Rightarrow> bool" where
  "well2 a b \<longleftrightarrow> between 194 223 (byte a) \<and> cont b"

definition well3 :: "char \<Rightarrow> char \<Rightarrow> char \<Rightarrow> bool" where
  "well3 a b c \<longleftrightarrow>
     (byte a = 224 \<and> between 160 191 (byte b) \<or>
      byte a = 237 \<and> between 128 159 (byte b) \<or>
      (between 225 236 (byte a) \<or> between 238 239 (byte a)) \<and> cont b) \<and> cont c"

definition well4 :: "char \<Rightarrow> char \<Rightarrow> char \<Rightarrow> char \<Rightarrow> bool" where
  "well4 a b c d \<longleftrightarrow>
     (byte a = 240 \<and> between 144 191 (byte b) \<or>
      byte a = 244 \<and> between 128 143 (byte b) \<or>
      between 241 243 (byte a) \<and> cont b) \<and> cont c \<and> cont d"

fun rune_width :: "string \<Rightarrow> nat" where
  "rune_width [] = 0"
| "rune_width [a] = 1"
| "rune_width [a, b] = (if well2 a b then 2 else 1)"
| "rune_width [a, b, c] = (if well2 a b then 2 else if well3 a b c then 3 else 1)"
| "rune_width (a # b # c # d # s) =
     (if well2 a b then 2 else if well3 a b c then 3 else if well4 a b c d then 4 else 1)"

lemma rune_width_pos: "s \<noteq> [] \<Longrightarrow> 0 < rune_width s"
  by (cases s rule: rune_width.cases) auto

lemma rune_width_le: "rune_width s \<le> length s"
  by (cases s rule: rune_width.cases) auto

text \<open>The runes of a string, each as the bytes it occupies; \<open>utf8.RuneCountInString\<close>.\<close>

function runes :: "string \<Rightarrow> string list" where
  "runes s = (if s = [] then [] else take (rune_width s) s # runes (drop (rune_width s) s))"
  by pat_completeness auto
termination
  by (relation "measure length") (auto simp: rune_width_pos)

declare runes.simps [simp del]

definition rune_count :: "string \<Rightarrow> int" where
  "rune_count s = int (length (runes s))"

lemma runes_Nil [simp]: "runes [] = []"
  by (simp add: runes.simps)

lemma concat_runes: "concat (runes s) = s"
proof (induction s rule: runes.induct)
  case (1 s)
  then show ?case by (cases "s = []") (simp_all add: runes.simps [of s])
qed

lemma rune_count_le_bytes: "rune_count s \<le> int (length s)"
proof (induction s rule: runes.induct)
  case (1 s)
  show ?case
  proof (cases "s = []")
    case False
    then have "0 < rune_width s" by (rule rune_width_pos)
    with 1 False rune_width_le [of s] show ?thesis
      by (simp add: rune_count_def runes.simps [of s])
  qed (simp add: rune_count_def)
qed

lemma rune_count_zero [simp]: "rune_count s = 0 \<longleftrightarrow> s = []"
  by (subst rune_count_def, subst runes.simps) simp

lemma rune_width_ascii: "byte c < 128 \<Longrightarrow> rune_width (c # s) = 1"
  by (cases "c # s" rule: rune_width.cases) (auto simp: well2_def well3_def well4_def between_def)

lemma runes_ascii: "list_all (\<lambda>c. byte c < 128) s \<Longrightarrow> runes s = map (\<lambda>c. [c]) s"
  by (induction s) (simp_all add: runes.simps [of "_ # _"] rune_width_ascii)

lemma rune_count_ascii: "list_all (\<lambda>c. byte c < 128) s \<Longrightarrow> rune_count s = int (length s)"
  by (simp add: rune_count_def runes_ascii)

text \<open>For evaluation: a text of ASCII has a rune for every byte.\<close>

lemma byte_ascii: "byte c < 128 \<longleftrightarrow> \<not> digit7 c"
  by (cases c) simp

lemma rune_count_code [code]:
  "rune_count s = (if list_all (\<lambda>c. \<not> digit7 c) s then int (length s) else int (length (runes s)))"
  using rune_count_ascii [of s] by (simp add: byte_ascii) (simp add: rune_count_def)

text \<open>\<open>string([]rune(s)[:n])\<close>: an ill-formed byte becomes U+FFFD.\<close>

definition encode_rune :: "string \<Rightarrow> string" where
  "encode_rune seg =
     (case seg of
        [a] \<Rightarrow> if byte a < 128 then seg else [CHR 0xEF, CHR 0xBF, CHR 0xBD]
      | _ \<Rightarrow> seg)"

definition take_runes :: "nat \<Rightarrow> string \<Rightarrow> string" where
  "take_runes n s = concat (map encode_rune (take n (runes s)))"

section \<open>Trimming\<close>

text \<open>
  \<open>strings.TrimSpace\<close> removes leading and trailing runes with \<open>unicode.IsSpace\<close>. UTF-8 is
  self-synchronising, so a string begins (ends) with such a rune exactly when it begins (ends)
  with the bytes that encode it; the encodings are listed.
\<close>

definition space_encodings :: "string list" where
  "space_encodings =
     [[CHR 0x09], [CHR 0x0A], [CHR 0x0B], [CHR 0x0C], [CHR 0x0D], [CHR 0x20],
      [CHR 0xC2, CHR 0x85], [CHR 0xC2, CHR 0xA0], [CHR 0xE1, CHR 0x9A, CHR 0x80],
      [CHR 0xE2, CHR 0x80, CHR 0x80], [CHR 0xE2, CHR 0x80, CHR 0x81],
      [CHR 0xE2, CHR 0x80, CHR 0x82], [CHR 0xE2, CHR 0x80, CHR 0x83],
      [CHR 0xE2, CHR 0x80, CHR 0x84], [CHR 0xE2, CHR 0x80, CHR 0x85],
      [CHR 0xE2, CHR 0x80, CHR 0x86], [CHR 0xE2, CHR 0x80, CHR 0x87],
      [CHR 0xE2, CHR 0x80, CHR 0x88], [CHR 0xE2, CHR 0x80, CHR 0x89],
      [CHR 0xE2, CHR 0x80, CHR 0x8A], [CHR 0xE2, CHR 0x80, CHR 0xA8],
      [CHR 0xE2, CHR 0x80, CHR 0xA9], [CHR 0xE2, CHR 0x80, CHR 0xAF],
      [CHR 0xE2, CHR 0x81, CHR 0x9F], [CHR 0xE3, CHR 0x80, CHR 0x80]]"

definition leading :: "string list \<Rightarrow> string \<Rightarrow> string option" where
  "leading es s = List.find (\<lambda>e. e \<noteq> [] \<and> take (length e) s = e) es"

lemma take_eq_prefix: "take (length e) s = e \<longleftrightarrow> prefix e s"
  by (metis append_eq_conv_conj prefix_def)

lemma leading_SomeD: "leading es s = Some e \<Longrightarrow> e \<noteq> [] \<and> prefix e s \<and> e \<in> set es"
  by (auto simp: leading_def take_eq_prefix dest!: find_SomeD)

lemma leading_None: "leading es s = None \<longleftrightarrow> (\<forall>e \<in> set es. e = [] \<or> \<not> prefix e s)"
  by (auto simp: leading_def find_None_iff take_eq_prefix)

function strip_left :: "string list \<Rightarrow> string \<Rightarrow> string" where
  "strip_left es s =
     (case leading es s of None \<Rightarrow> s | Some e \<Rightarrow> strip_left es (drop (length e) s))"
  by pat_completeness auto
termination
proof (relation "measure (\<lambda>(es, s). length s)", goal_cases)
  case (2 es s e)
  then have "e \<noteq> []" "prefix e s" by (auto dest: leading_SomeD)
  then show ?case by (auto simp: prefix_def)
qed simp

declare strip_left.simps [simp del]

definition strip_right :: "string list \<Rightarrow> string \<Rightarrow> string" where
  "strip_right es s = rev (strip_left (map rev es) (rev s))"

definition trim_space :: "string \<Rightarrow> string" where
  "trim_space s = strip_right space_encodings (strip_left space_encodings s)"

lemma strip_left_suffix: "suffix (strip_left es s) s"
proof (induction es s rule: strip_left.induct)
  case (1 es s)
  then show ?case
    by (subst strip_left.simps) (auto split: option.splits intro: suffix_order.trans suffix_drop)
qed

lemma strip_left_None: "leading es (strip_left es s) = None"
proof (induction es s rule: strip_left.induct)
  case (1 es s)
  then show ?case by (subst strip_left.simps) (auto split: option.splits)
qed

lemma strip_left_idem: "leading es s = None \<Longrightarrow> strip_left es s = s"
  by (subst strip_left.simps) simp

lemma strip_right_prefix: "prefix (strip_right es s) s"
  using strip_left_suffix [of "map rev es" "rev s"]
  by (simp add: strip_right_def suffix_to_prefix)

lemma trim_space_idem [simp]: "trim_space (trim_space s) = trim_space s"
proof -
  let ?l = "strip_left space_encodings s" and ?t = "trim_space s"
  have "prefix ?t ?l" by (simp add: trim_space_def strip_right_prefix)
  moreover have "leading space_encodings ?l = None" by (rule strip_left_None)
  ultimately have "leading space_encodings ?t = None"
    by (auto simp: leading_None dest: prefix_order.trans)
  then have "strip_left space_encodings ?t = ?t" by (rule strip_left_idem)
  moreover have "strip_right space_encodings ?t = ?t"
    by (simp add: trim_space_def strip_right_def strip_left_idem strip_left_None)
  ultimately show ?thesis by (simp add: trim_space_def [of ?t])
qed

lemma trim_space_Nil [simp]: "trim_space [] = []"
  using strip_left_suffix [of space_encodings "[]"] strip_right_prefix [of space_encodings "[]"]
  by (simp add: trim_space_def)

lemma length_trim_space: "length (trim_space s) \<le> length s"
proof -
  have "length (trim_space s) \<le> length (strip_left space_encodings s)"
    by (simp add: trim_space_def strip_right_prefix prefix_length_le)
  also have "\<dots> \<le> length s" by (simp add: strip_left_suffix suffix_length_le)
  finally show ?thesis .
qed

section \<open>Case folding\<close>

text \<open>
  \<open>strings.ToLower\<close> and PostgreSQL's \<open>lower\<close> on ASCII letters. Bytes above 127 are left as they
  are, which is exact for every string without non-ASCII capital letters.
\<close>

definition lower_char :: "char \<Rightarrow> char" where
  "lower_char c = (if between 65 90 (byte c) then char_of (byte c + 32) else c)"

lemma lower_char_code [code]:
  "lower_char (Char b0 b1 b2 b3 b4 b5 b6 b7) =
    (if b6 \<and> \<not> b5 \<and> \<not> b7 \<and> (b0 \<or> b1 \<or> b2 \<or> b3 \<or> b4) \<and> \<not> (b4 \<and> b3 \<and> (b2 \<or> b1 \<and> b0))
     then Char b0 b1 b2 b3 b4 True b6 b7 else Char b0 b1 b2 b3 b4 b5 b6 b7)"
  by (cases b0; cases b1; cases b2; cases b3; cases b4; cases b5; cases b6; cases b7;
      simp add: lower_char_def between_def char_of_eq_iff)

definition to_lower :: "string \<Rightarrow> string" where
  "to_lower s = map lower_char s"

lemma lower_char_idem [simp]: "lower_char (lower_char c) = lower_char c"
  by (auto simp: lower_char_def between_def)

lemma to_lower_idem [simp]: "to_lower (to_lower s) = to_lower s"
  by (simp add: to_lower_def)

lemma to_lower_Nil [simp]: "to_lower [] = []" and length_to_lower [simp]: "length (to_lower s) = length s"
  by (simp_all add: to_lower_def)

lemma to_lower_append: "to_lower (s @ t) = to_lower s @ to_lower t"
  by (simp add: to_lower_def)

section \<open>Searching and rendering\<close>

definition has_suffix :: "string \<Rightarrow> string \<Rightarrow> bool" where
  "has_suffix s t \<longleftrightarrow> length t \<le> length s \<and> drop (length s - length t) s = t"

lemma has_suffix_iff: "has_suffix s t \<longleftrightarrow> suffix t s"
  by (auto simp: has_suffix_def suffix_def) (metis append_take_drop_id)

definition trim_suffix :: "string \<Rightarrow> string \<Rightarrow> string" where
  "trim_suffix s t = (if has_suffix s t then take (length s - length t) s else s)"

text \<open>\<open>strings.Contains\<close>.\<close>

fun contains :: "string \<Rightarrow> string \<Rightarrow> bool" where
  "contains [] t = (t = [])"
| "contains (c # s) t = (take (length t) (c # s) = t \<or> contains s t)"

lemma contains_iff: "contains s t \<longleftrightarrow> sublist t s"
proof (induction s)
  case (Cons c s)
  then show ?case unfolding contains.simps take_eq_prefix by (simp only: sublist_Cons_right)
qed simp

text \<open>\<open>strings.LastIndex(s, c)\<close> for a one-byte separator: -1 when it does not occur.\<close>

definition last_index :: "string \<Rightarrow> char \<Rightarrow> int" where
  "last_index s c =
     (if c \<in> set s then int (length s) - 1 - int (length (takeWhile (\<lambda>x. x \<noteq> c) (rev s))) else -1)"

fun digits :: "nat \<Rightarrow> string" where
  "digits n = (if n < 10 then [char_of (48 + n)] else digits (n div 10) @ [char_of (48 + n mod 10)])"

declare digits.simps [simp del]

definition itoa :: "int \<Rightarrow> string" where
  "itoa i = (if i < 0 then CHR ''-'' # digits (nat (- i)) else digits (nat i))"

text \<open>\<open>fmt.Sprintf\<close> with one \<open>%s\<close> verb.\<close>

fun sprintf_s :: "string \<Rightarrow> string \<Rightarrow> string" where
  "sprintf_s [] a = []"
| "sprintf_s (c # s) a =
     (case s of
        [] \<Rightarrow> [c]
      | d # s' \<Rightarrow> if c = CHR ''%'' \<and> d = CHR ''s'' then a @ s' else c # sprintf_s s a)"

definition hex_digit :: "nat \<Rightarrow> char" where
  "hex_digit n = (if n < 10 then char_of (48 + n) else char_of (87 + n))"

definition hex_encode :: "string \<Rightarrow> string" where
  "hex_encode s = concat (map (\<lambda>c. [hex_digit (byte c div 16), hex_digit (byte c mod 16)]) s)"

text \<open>\<open>base64.RawURLEncoding.EncodeToString\<close>: the URL alphabet, without padding.\<close>

definition base64_digit :: "nat \<Rightarrow> char" where
  "base64_digit n =
     (if n < 26 then char_of (65 + n) else if n < 52 then char_of (71 + n)
      else if n < 62 then char_of (n - 4) else if n = 62 then CHR ''-'' else CHR ''_'')"

fun base64_url :: "string \<Rightarrow> string" where
  "base64_url [] = []"
| "base64_url [a] = [base64_digit (byte a div 4), base64_digit (byte a mod 4 * 16)]"
| "base64_url [a, b] =
     [base64_digit (byte a div 4), base64_digit (byte a mod 4 * 16 + byte b div 16),
      base64_digit (byte b mod 16 * 4)]"
| "base64_url (a # b # c # s) =
     base64_digit (byte a div 4) # base64_digit (byte a mod 4 * 16 + byte b div 16) #
     base64_digit (byte b mod 16 * 4 + byte c div 64) # base64_digit (byte c mod 64) # base64_url s"

text \<open>\<open>url.PathEscape\<close>.\<close>

definition path_safe :: "char \<Rightarrow> bool" where
  "path_safe c \<longleftrightarrow> between 48 57 (byte c) \<or> between 65 90 (byte c) \<or> between 97 122 (byte c) \<or>
     c \<in> set ''-_.~$&+:=@''"

definition upper_hex :: "nat \<Rightarrow> char" where
  "upper_hex n = (if n < 10 then char_of (48 + n) else char_of (55 + n))"

definition path_escape :: "string \<Rightarrow> string" where
  "path_escape s = concat (map (\<lambda>c.
     if path_safe c then [c] else [CHR ''%'', upper_hex (byte c div 16), upper_hex (byte c mod 16)]) s)"

lemma base64_digit_safe: "n < 64 \<Longrightarrow> path_safe (base64_digit n)"
  by (auto simp: base64_digit_def path_safe_def between_def)

lemma byte_less [simp]: "byte c < 256"
  using of_char_mod_256 [of c, where 'a = nat] by (metis mod_less_divisor zero_less_numeral)

lemma base64_url_safe: "list_all path_safe (base64_url s)"
proof (induction s rule: base64_url.induct)
  case (4 a b c s)
  have "byte a div 4 < 64" "byte a mod 4 * 16 + byte b div 16 < 64"
    "byte b mod 16 * 4 + byte c div 64 < 64" "byte c mod 64 < 64"
    using byte_less [of a] byte_less [of b] byte_less [of c] by linarith+
  with 4 show ?case by (simp add: base64_digit_safe)
next
  case (2 a)
  have "byte a div 4 < 64" "byte a mod 4 * 16 < 64" using byte_less [of a] by linarith+
  then show ?case by (simp add: base64_digit_safe)
next
  case (3 a b)
  have "byte a div 4 < 64" "byte a mod 4 * 16 + byte b div 16 < 64" "byte b mod 16 * 4 < 64"
    using byte_less [of a] byte_less [of b] by linarith+
  then show ?case by (simp add: base64_digit_safe)
qed simp

lemma path_escape_safe: "list_all path_safe s \<Longrightarrow> path_escape s = s"
  by (induction s) (simp_all add: path_escape_def)

text \<open>An opaque token goes into a link unchanged.\<close>

lemma path_escape_base64: "path_escape (base64_url s) = base64_url s"
  by (rule path_escape_safe [OF base64_url_safe])

text \<open>The bytes of an em dash, of an ellipsis and of a double quote in string constants.\<close>

definition em_dash :: string where
  "em_dash = [CHR 0xE2, CHR 0x80, CHR 0x94]"

definition ellipsis :: string where
  "ellipsis = [CHR 0xE2, CHR 0x80, CHR 0xA6]"

definition dquote :: string where
  "dquote = [CHR 0x22]"

end
