(* ===== verification/RateLimit.thy ===== *)
theory RateLimit
  imports GoFloat GoText
begin

text \<open>
  \<open>internal/ratelimit/ratelimit.go\<close>: the token buckets, keyed by rule and identity, with the code's
  float64 arithmetic, the order in which they were used, and the eviction above the ceiling. An
  operation holds the mutex throughout, so each is one step. Times are nanoseconds.
\<close>

section \<open>Data\<close>

type_synonym time = int
type_synonym duration = int

definition second :: duration where "second = 1000000000"
definition minute :: duration where "minute = 60 * second"
definition hour :: duration where "hour = 60 * minute"

text \<open>\<open>time.Time.Sub\<close> saturates at the range of \<open>time.Duration\<close>.\<close>

definition time_sub :: "time \<Rightarrow> time \<Rightarrow> duration" where
  "time_sub t u = max (- (2 ^ 63)) (min (2 ^ 63 - 1) (t - u))"

definition float64 :: "int \<Rightarrow> rat" where
  "float64 n = fl (of_int n)"

definition trunc :: "rat \<Rightarrow> int" where
  "trunc q = (if 0 \<le> q then \<lfloor>q\<rfloor> else \<lceil>q\<rceil>)"

record rule =
  rule_name :: string
  rule_burst :: int
  rule_window :: duration

record decision =
  ok :: bool
  retry_after :: duration

record bucket =
  tokens :: rat
  last_seen :: time

record limiter =
  buckets :: "(string \<times> bucket) list"
  recency :: "string list"
  max_keys :: int

definition default_max_keys :: int where
  "default_max_keys = 20000"

definition rate :: "rule \<Rightarrow> rat" where
  "rate r = (if rule_window r \<le> 0 \<or> rule_burst r \<le> 0 then 0
             else fl (float64 (rule_burst r) / float64 (rule_window r)))"

definition new_limiter :: "int \<Rightarrow> limiter" where
  "new_limiter n = \<lparr>buckets = [], recency = [],
                    max_keys = (if n \<le> 0 then default_max_keys else n)\<rparr>"

section \<open>Operations\<close>

definition retry_after_of :: "rat \<Rightarrow> rule \<Rightarrow> duration" where
  "retry_after_of tok r =
     (let rt = rate r in
      if rt \<le> 0 then rule_window r
      else let needed = fl (1 - tok) in
      if needed \<le> 0 then 0
      else let d = trunc (fl (needed / rt));
               d = (if d mod second \<noteq> 0 then d + (second - d mod second) else d)
           in if d < second then second else d)"

definition drop_locked :: "string \<Rightarrow> limiter \<Rightarrow> limiter" where
  "drop_locked key l =
     l\<lparr>recency := remove1 key (recency l), buckets := AList.delete key (buckets l)\<rparr>"

function evict_locked :: "limiter \<Rightarrow> limiter" where
  "evict_locked l =
     (if max_keys l < int (length (buckets l))
      then (case rev (recency l) of
              [] \<Rightarrow> l
            | key # _ \<Rightarrow>
                (case map_of (buckets l) key of
                   Some _ \<Rightarrow> evict_locked (drop_locked key l)
                 | None \<Rightarrow> evict_locked (l\<lparr>recency := butlast (recency l)\<rparr>)))
      else l)"
  by pat_completeness auto
termination
  by (relation "measure (\<lambda>l. length (recency l))")
    (auto simp: drop_locked_def length_remove1 rev_eq_Cons_iff)

declare evict_locked.simps [simp del]

definition refill :: "rule \<Rightarrow> time \<Rightarrow> bucket \<Rightarrow> bucket" where
  "refill r now b =
     (let full = float64 (rule_burst r); elapsed = time_sub now (last_seen b) in
      if 0 < elapsed
      then (let t = fl (tokens b + fl (float64 elapsed * rate r))
            in \<lparr>tokens = (if full < t then full else t), last_seen = now\<rparr>)
      else b)"

definition set_bucket :: "string \<Rightarrow> bucket \<Rightarrow> limiter \<Rightarrow> limiter" where
  "set_bucket key b l = l\<lparr>buckets := AList.map_ran (\<lambda>k old. if k = key then b else old) (buckets l)\<rparr>"

definition fetch :: "rule \<Rightarrow> string \<Rightarrow> time \<Rightarrow> limiter \<Rightarrow> bucket \<times> limiter" where
  "fetch r key now l =
     (case map_of (buckets l) key of
        None \<Rightarrow>
          (let b = \<lparr>tokens = float64 (rule_burst r), last_seen = now\<rparr>
           in (b, evict_locked (l\<lparr>recency := key # recency l, buckets := (key, b) # buckets l\<rparr>)))
      | Some b0 \<Rightarrow>
          (let b = refill r now b0
           in (b, set_bucket key b (l\<lparr>recency := key # remove1 key (recency l)\<rparr>))))"

definition consult :: "rule \<Rightarrow> string \<Rightarrow> bool \<Rightarrow> bool \<Rightarrow> time \<Rightarrow> limiter \<Rightarrow> decision \<times> limiter" where
  "consult r key take_it force now l =
     (if rule_burst r \<le> 0 \<or> rule_window r \<le> 0 then (\<lparr>ok = True, retry_after = 0\<rparr>, l)
      else let (b, l) = fetch r key now l in
      if 1 \<le> tokens b then
        (if take_it then
           (\<lparr>ok = True, retry_after = 0\<rparr>, set_bucket key (b\<lparr>tokens := fl (tokens b - 1)\<rparr>) l)
         else if float64 (rule_burst r) \<le> tokens b then
           (\<lparr>ok = True, retry_after = 0\<rparr>, drop_locked key l)
         else (\<lparr>ok = True, retry_after = 0\<rparr>, l))
      else
        (let b = (if take_it \<and> force then b\<lparr>tokens := fl (tokens b - 1)\<rparr> else b)
         in (\<lparr>ok = False, retry_after = retry_after_of (tokens b) r\<rparr>, set_bucket key b l)))"

definition Allow :: "rule \<Rightarrow> string \<Rightarrow> time \<Rightarrow> limiter \<Rightarrow> decision \<times> limiter" where
  "Allow r key now l = consult r key True False now l"

definition Peek :: "rule \<Rightarrow> string \<Rightarrow> time \<Rightarrow> limiter \<Rightarrow> decision \<times> limiter" where
  "Peek r key now l = consult r key False False now l"

definition Spend :: "rule \<Rightarrow> string \<Rightarrow> time \<Rightarrow> limiter \<Rightarrow> decision \<times> limiter" where
  "Spend r key now l = consult r key True True now l"

definition Tracked :: "limiter \<Rightarrow> int" where
  "Tracked l = int (length (buckets l))"

definition Reset :: "limiter \<Rightarrow> limiter" where
  "Reset l = l\<lparr>buckets := [], recency := []\<rparr>"


section \<open>Well-formed limiters\<close>

definition coherent :: "limiter \<Rightarrow> bool" where
  "coherent l \<longleftrightarrow> distinct (recency l) \<and> distinct (map fst (buckets l)) \<and>
     set (recency l) = set (map fst (buckets l))"

definition limiter_ok :: "limiter \<Rightarrow> bool" where
  "limiter_ok l \<longleftrightarrow> coherent l \<and> int (length (buckets l)) \<le> max_keys l \<and> 1 \<le> max_keys l"

lemma coherent_length: "coherent l \<Longrightarrow> length (recency l) = length (buckets l)"
  by (metis coherent_def distinct_card length_map)

lemma coherent_lookup: "coherent l \<Longrightarrow> k \<in> set (recency l) \<longleftrightarrow> map_of (buckets l) k \<noteq> None"
  by (simp add: coherent_def map_of_eq_None_iff)

lemma new_limiter_ok: "limiter_ok (new_limiter n)"
  by (simp add: new_limiter_def limiter_ok_def coherent_def default_max_keys_def)

lemma coherent_drop: "coherent l \<Longrightarrow> coherent (drop_locked key l)"
  by (auto simp: coherent_def drop_locked_def AList.delete_keys distinct_removeAll)

lemma drop_locked_sel [simp]:
  "recency (drop_locked key l) = remove1 key (recency l)"
  "max_keys (drop_locked key l) = max_keys l"
  "map_of (buckets (drop_locked key l)) = (map_of (buckets l))(key := None)"
  by (simp_all add: drop_locked_def AList.delete_conv')

lemma set_bucket_sel [simp]:
  "recency (set_bucket key b l) = recency l"
  "max_keys (set_bucket key b l) = max_keys l"
  "length (buckets (set_bucket key b l)) = length (buckets l)"
  "map fst (buckets (set_bucket key b l)) = map fst (buckets l)"
  by (simp_all add: set_bucket_def)

lemma set_bucket_lookup [simp]:
  "map_of (buckets (set_bucket key b l)) k =
     (if k = key then map_option (\<lambda>_. b) (map_of (buckets l) key) else map_of (buckets l) k)"
  by (cases "map_of (buckets l) k") (auto simp: set_bucket_def AList.map_ran_conv)

lemma coherent_set_bucket [simp]: "coherent (set_bucket key b l) = coherent l"
  by (simp add: coherent_def del: set_map)

lemma length_drop_le: "length (buckets (drop_locked key l)) \<le> length (buckets l)"
  by (simp add: drop_locked_def AList.length_delete_le)

lemma drop_locked_ok: "limiter_ok l \<Longrightarrow> limiter_ok (drop_locked key l)"
  using length_drop_le [of key l] by (auto simp: limiter_ok_def coherent_drop)

lemma set_bucket_ok [simp]: "limiter_ok (set_bucket key b l) = limiter_ok l"
  by (simp add: limiter_ok_def)

text \<open>Eviction keeps exactly the most recently used keys, with their buckets.\<close>

lemma evict_spec:
  assumes "coherent l" and "0 \<le> max_keys l"
  shows "coherent (evict_locked l) \<and> max_keys (evict_locked l) = max_keys l \<and>
    recency (evict_locked l) = take (nat (max_keys l)) (recency l) \<and>
    map_of (buckets (evict_locked l)) =
      (\<lambda>k. if k \<in> set (take (nat (max_keys l)) (recency l)) then map_of (buckets l) k else None)"
  using assms
proof (induction l rule: evict_locked.induct)
  case (1 l)
  note len = coherent_length [OF "1.prems"(1)]
  show ?case
  proof (cases "max_keys l < int (length (buckets l))")
    case False
    then have "take (nat (max_keys l)) (recency l) = recency l" using len by simp
    moreover have "map_of (buckets l) = (\<lambda>k. if k \<in> set (recency l) then map_of (buckets l) k else None)"
      using coherent_lookup [OF "1.prems"(1)] by fastforce
    ultimately show ?thesis using False "1.prems" by (simp add: evict_locked.simps [of l])
  next
    case True
    then have "recency l \<noteq> []" using len "1.prems"(2) by auto
    then obtain xs key where xs: "recency l = xs @ [key]" by (metis rev_exhaust)
    then have rv: "rev (recency l) = key # rev xs" by simp
    obtain b where b: "map_of (buckets l) key = Some b"
      using coherent_lookup [OF "1.prems"(1), of key] xs by auto
    have nk: "key \<notin> set xs" using "1.prems"(1) xs by (simp add: coherent_def)
    have tk: "take (nat (max_keys l)) (recency l) = take (nat (max_keys l)) xs"
      using True len xs by simp
    have step: "evict_locked l = evict_locked (drop_locked key l)"
      using True rv b by (simp add: evict_locked.simps [of l])
    have rm: "recency (drop_locked key l) = xs" using xs nk by (simp add: remove1_append)
    note IH = "1.IH"(2) [OF True rv b coherent_drop [OF "1.prems"(1)]]
    have "key \<notin> set (take (nat (max_keys l)) xs)" using nk by (meson in_set_takeD)
    with IH "1.prems"(2) rm tk show ?thesis by (simp add: step) fastforce
  qed
qed

lemma evict_ok: "coherent l \<Longrightarrow> 1 \<le> max_keys l \<Longrightarrow> limiter_ok (evict_locked l)"
  using evict_spec [of l] coherent_length [of "evict_locked l"]
  by (simp add: limiter_ok_def)

section \<open>What one consultation does\<close>

text \<open>
  The bucket a key has now: the stored one refilled, or a full one when the key is not tracked.
\<close>

definition bucket_now :: "rule \<Rightarrow> time \<Rightarrow> bucket option \<Rightarrow> bucket" where
  "bucket_now r now ob =
     (case ob of None \<Rightarrow> \<lparr>tokens = float64 (rule_burst r), last_seen = now\<rparr> | Some b \<Rightarrow> refill r now b)"

lemma bucket_now_simps:
  "bucket_now r now None = \<lparr>tokens = float64 (rule_burst r), last_seen = now\<rparr>"
  "bucket_now r now (Some b) = refill r now b"
  by (simp_all add: bucket_now_def)

definition level :: "rule \<Rightarrow> time \<Rightarrow> limiter \<Rightarrow> string \<Rightarrow> rat" where
  "level r now l key = tokens (bucket_now r now (map_of (buckets l) key))"

text \<open>After a key is used, the keys tracked are the \<open>max_keys\<close> most recently used.\<close>

definition touched :: "string \<Rightarrow> limiter \<Rightarrow> string list" where
  "touched key l = take (nat (max_keys l)) (key # remove1 key (recency l))"

lemma touched_key: "1 \<le> max_keys l \<Longrightarrow> key \<in> set (touched key l)"
  by (cases "nat (max_keys l)") (auto simp: touched_def)

lemma fetch_spec:
  assumes "limiter_ok l" and "fetch r key now l = (b, l')"
  shows "limiter_ok l' \<and> max_keys l' = max_keys l \<and> b = bucket_now r now (map_of (buckets l) key) \<and>
    recency l' = touched key l \<and> map_of (buckets l') key = Some b \<and>
    (\<forall>k. k \<noteq> key \<longrightarrow> map_of (buckets l') k =
       (if k \<in> set (touched key l) then map_of (buckets l) k else None))"
proof (cases "map_of (buckets l) key")
  case None
  let ?b = "\<lparr>tokens = float64 (rule_burst r), last_seen = now\<rparr>"
  let ?m = "l\<lparr>recency := key # recency l, buckets := (key, ?b) # buckets l\<rparr>"
  have nk: "key \<notin> set (recency l)"
    using None assms(1) coherent_lookup by (auto simp: limiter_ok_def)
  then have rm: "remove1 key (recency l) = recency l" by (rule remove1_idem)
  have co: "coherent ?m"
    using assms(1) nk by (auto simp: limiter_ok_def coherent_def)
  have mx: "1 \<le> max_keys ?m" using assms(1) by (simp add: limiter_ok_def)
  have l': "l' = evict_locked ?m" and b: "b = ?b"
    using assms(2) None by (auto simp: fetch_def Let_def)
  have ev: "recency l' = touched key l" "max_keys l' = max_keys l"
     "map_of (buckets l') = (\<lambda>k. if k \<in> set (touched key l) then map_of (buckets ?m) k else None)"
    using evict_spec [OF co] mx rm by (simp_all add: l' touched_def)
  have "limiter_ok l'" unfolding l' by (rule evict_ok [OF co mx])
  with ev b None touched_key [of l key] mx show ?thesis by (simp add: bucket_now_def)
next
  case (Some b0)
  have co: "coherent l" and le: "int (length (recency l)) \<le> max_keys l"
    using assms(1) coherent_length by (auto simp: limiter_ok_def)
  have mem: "key \<in> set (recency l)" using Some co coherent_lookup by auto
  then have "length (key # remove1 key (recency l)) = length (recency l)"
    by (metis One_nat_def Suc_pred length_Cons length_pos_if_in_set length_remove1)
  with le have t: "touched key l = key # remove1 key (recency l)" by (simp add: touched_def)
  have s: "set (key # remove1 key (recency l)) = set (recency l)"
    using co mem by (auto simp: coherent_def)
  have b: "b = refill r now b0"
    and l': "l' = set_bucket key b (l\<lparr>recency := key # remove1 key (recency l)\<rparr>)"
    using assms(2) Some by (auto simp: fetch_def Let_def)
  have "distinct (key # remove1 key (recency l))" using co by (auto simp: coherent_def)
  then have "coherent (l\<lparr>recency := key # remove1 key (recency l)\<rparr>)"
    using co s by (auto simp: coherent_def simp del: set_remove1_eq)
  then have "limiter_ok l'" using assms(1) by (simp add: l' limiter_ok_def)
  moreover have "map_of (buckets l) k = None" if "k \<notin> set (touched key l)" for k
  proof -
    have "k \<notin> set (recency l)" using that unfolding t s .
    then show ?thesis using coherent_lookup [OF co, of k] by simp
  qed
  ultimately show ?thesis using Some b t by (auto simp: l' bucket_now_simps)
qed

lemma time_sub_self [simp]: "time_sub t t = 0"
  by (simp add: time_sub_def)

lemma refill_refill: "refill r now (refill r now b) = refill r now b"
  by (simp add: refill_def Let_def)

lemma refill_tokens_upd:
  "refill r now ((refill r now b)\<lparr>tokens := x\<rparr>) = (refill r now b)\<lparr>tokens := x\<rparr>"
  by (simp add: refill_def Let_def)

lemma bucket_now_idem: "refill r now (bucket_now r now ob) = bucket_now r now ob"
  by (cases ob) (simp_all add: bucket_now_def refill_refill, simp add: refill_def)

lemma bucket_now_upd:
  "refill r now ((bucket_now r now ob)\<lparr>tokens := x\<rparr>) = (bucket_now r now ob)\<lparr>tokens := x\<rparr>"
  by (cases ob) (simp_all add: bucket_now_def refill_tokens_upd, simp add: refill_def)

abbreviation limited :: "rule \<Rightarrow> bool" where
  "limited r \<equiv> 0 < rule_burst r \<and> 0 < rule_window r"

lemma consult_cases:
  assumes "limiter_ok l" and "limited r" and "consult r key take_it force now l = (d, l')"
  defines "b \<equiv> bucket_now r now (map_of (buckets l) key)"
  obtains
    (taken) l1 where "1 \<le> tokens b" "take_it" "ok d" "retry_after d = 0"
      "fetch r key now l = (b, l1)" "l' = set_bucket key (b\<lparr>tokens := fl (tokens b - 1)\<rparr>) l1"
  | (forgotten) l1 where "1 \<le> tokens b" "\<not> take_it" "float64 (rule_burst r) \<le> tokens b" "ok d"
      "retry_after d = 0" "fetch r key now l = (b, l1)" "l' = drop_locked key l1"
  | (peeked) l1 where "1 \<le> tokens b" "\<not> take_it" "\<not> float64 (rule_burst r) \<le> tokens b" "ok d"
      "retry_after d = 0" "fetch r key now l = (b, l1)" "l' = l1"
  | (forced) l1 where "tokens b < 1" "take_it" "force" "\<not> ok d"
      "retry_after d = retry_after_of (fl (tokens b - 1)) r"
      "fetch r key now l = (b, l1)" "l' = set_bucket key (b\<lparr>tokens := fl (tokens b - 1)\<rparr>) l1"
  | (refused) l1 where "tokens b < 1" "\<not> (take_it \<and> force)" "\<not> ok d"
      "retry_after d = retry_after_of (tokens b) r"
      "fetch r key now l = (b, l1)" "l' = set_bucket key b l1"
proof -
  obtain b1 l1 where f: "fetch r key now l = (b1, l1)" by fastforce
  then have "b1 = b" using fetch_spec [OF assms(1) f] by (simp add: b_def)
  with f assms(2,3) show thesis
    by (auto simp: consult_def Let_def not_le split: if_splits intro: that)
qed

lemma consult_ok_inv:
  assumes "limiter_ok l" and "consult r key t f now l = (d, l')"
  shows "limiter_ok l'" and "max_keys l' = max_keys l"
proof -
  have "limiter_ok l' \<and> max_keys l' = max_keys l"
  proof (cases "limited r")
    case True
    from assms(1) this assms(2) show ?thesis
      by (cases rule: consult_cases) (auto dest!: fetch_spec [OF assms(1)] intro: drop_locked_ok)
  next
    case False
    with assms show ?thesis by (auto simp: consult_def not_less split: if_splits)
  qed
  then show "limiter_ok l'" and "max_keys l' = max_keys l" by auto
qed


text \<open>
  The abstract bucket: a number of tokens available now; a consultation succeeds when there is a
  whole one, and takes one when asked to and either there is one or the spending is forced.
\<close>

definition spec_consult :: "bool \<Rightarrow> bool \<Rightarrow> rat \<Rightarrow> bool \<times> rat" where
  "spec_consult take_it force t = (1 \<le> t, if take_it \<and> (1 \<le> t \<or> force) then fl (t - 1) else t)"

text \<open>A key that is not the one consulted keeps its bucket unless it is evicted.\<close>

lemma consult_other:
  assumes "limiter_ok l" and "limited r" and "consult r key take_it force now l = (d, l')"
    and "k \<noteq> key"
  shows "map_of (buckets l') k = (if k \<in> set (touched key l) then map_of (buckets l) k else None)"
proof -
  have other: "map_of (buckets l1) k = (if k \<in> set (touched key l) then map_of (buckets l) k else None)"
    if "fetch r key now l = (b, l1)" for b l1
    using fetch_spec [OF assms(1) that] assms(4) by simp
  from assms(1-3) show ?thesis
    by (cases rule: consult_cases) (use assms(4) in \<open>auto dest!: other\<close>)
qed

text \<open>The bucket of the consulted key afterwards.\<close>

lemma consult_same:
  assumes "limiter_ok l" and "limited r" and "consult r key take_it force now l = (d, l')"
  defines "b \<equiv> bucket_now r now (map_of (buckets l) key)"
  shows "map_of (buckets l') key =
    (if 1 \<le> tokens b \<and> \<not> take_it \<and> float64 (rule_burst r) \<le> tokens b then None
     else Some (if take_it \<and> (1 \<le> tokens b \<or> force) then b\<lparr>tokens := fl (tokens b - 1)\<rparr> else b))"
proof -
  have fetched: "map_of (buckets l1) key = Some b" if "fetch r key now l = (b, l1)" for l1
    using fetch_spec [OF assms(1) that] by (simp add: b_def)
  from assms(1-3) show ?thesis
    by (cases rule: consult_cases) (auto simp: b_def [symmetric] dest!: fetched)
qed

text \<open>
  On a bucket that is not over-full, a consultation is the abstract one on the level the bucket
  has now, also where the code forgets a full bucket.
\<close>

lemma consult_refines:
  assumes "limiter_ok l" and "limited r" and "consult r key take_it force now l = (d, l')"
    and "\<And>b. map_of (buckets l) key = Some b \<Longrightarrow> tokens b \<le> float64 (rule_burst r)"
  shows "(ok d, level r now l' key) = spec_consult take_it force (level r now l key)"
proof -
  let ?b = "bucket_now r now (map_of (buckets l) key)"
  have le: "tokens ?b \<le> float64 (rule_burst r)"
    using assms(4) by (auto simp: bucket_now_def refill_def Let_def split: option.splits)
  have dec: "ok d \<longleftrightarrow> 1 \<le> tokens ?b"
    using assms(1-3) by (cases rule: consult_cases) auto
  note same = consult_same [OF assms(1-3)]
  show ?thesis
    using le by (auto simp: level_def same dec spec_consult_def bucket_now_simps
      bucket_now_idem bucket_now_upd)
qed

section \<open>Histories of calls\<close>

datatype rl_op =
    RlAllow (op_rule: rule) (op_key: string) (op_time: time)
  | RlPeek (op_rule: rule) (op_key: string) (op_time: time)
  | RlSpend (op_rule: rule) (op_key: string) (op_time: time)

fun rl_step :: "rl_op \<Rightarrow> limiter \<Rightarrow> decision \<times> limiter" where
  "rl_step (RlAllow r k t) l = Allow r k t l"
| "rl_step (RlPeek r k t) l = Peek r k t l"
| "rl_step (RlSpend r k t) l = Spend r k t l"

fun rl_run :: "rl_op list \<Rightarrow> limiter \<Rightarrow> limiter" where
  "rl_run [] l = l"
| "rl_run (x # xs) l = rl_run xs (snd (rl_step x l))"

text \<open>How many \<open>Allow\<close> calls on a key were granted.\<close>

fun granted :: "string \<Rightarrow> rl_op list \<Rightarrow> limiter \<Rightarrow> nat" where
  "granted k [] l = 0"
| "granted k (x # xs) l =
     (case rl_step x l of (d, l') \<Rightarrow>
        (if is_RlAllow x \<and> op_key x = k \<and> ok d then 1 else 0) + granted k xs l')"

lemmas op_defs = Allow_def Peek_def Spend_def

lemma rl_step_consult:
  "rl_step x l = consult (op_rule x) (op_key x) (\<not> is_RlPeek x) (is_RlSpend x) (op_time x) l"
  by (cases x) (simp_all add: op_defs)

lemma rl_step_ok: "limiter_ok l \<Longrightarrow> limiter_ok (snd (rl_step x l))"
  and rl_step_max: "limiter_ok l \<Longrightarrow> max_keys (snd (rl_step x l)) = max_keys l"
  by (metis consult_ok_inv prod.collapse rl_step_consult)+

lemma rl_run_ok: "limiter_ok l \<Longrightarrow> limiter_ok (rl_run xs l) \<and> max_keys (rl_run xs l) = max_keys l"
  by (induction xs arbitrary: l) (simp_all add: rl_step_ok rl_step_max)

end
