(* ===== verification/Store.thy ===== *)
theory Store
  imports RateLimit "HOL-Library.Word" "HOL-Library.State_Monad"
begin

text \<open>
  The database as the service sees it: one record per row type of
  \<open>internal/db/sqlcgen/models.go\<close>, the tables as lists of rows, and the constraints the migrations
  put on them. Timestamps are nanoseconds, dates are day numbers, identifiers are 128-bit words.
  The generated \<open>search\<close> column is not stored.
\<close>

section \<open>Identifiers\<close>

type_synonym uuid = "128 word"
type_synonym date = int

section \<open>Rows\<close>

record user =
  u_id :: uuid
  u_email :: string
  u_username :: string
  u_password_hash :: string
  u_role :: string
  u_verified :: bool
  u_avatar_url :: "string option"
  u_level :: int
  u_star_points :: int
  u_created_at :: time
  u_updated_at :: time
  u_suspended_at :: "time option"
  u_suspended_by :: "uuid option"
  u_suspend_reason :: "string option"
  u_email_notifications :: bool

text \<open>\<open>EmailVerificationToken\<close> and \<open>PasswordResetToken\<close> have the same columns.\<close>

record mail_token =
  mt_token_hash :: string
  mt_user_id :: uuid
  mt_expires_at :: time
  mt_consumed_at :: "time option"
  mt_created_at :: time

record refresh_token =
  rt_token_hash :: string
  rt_user_id :: uuid
  rt_expires_at :: time
  rt_revoked_at :: "time option"
  rt_user_agent :: "string option"
  rt_created_at :: time

record listing =
  l_id :: uuid
  l_owner_id :: uuid
  l_title :: string
  l_body :: string
  l_conditions :: "string list"
  l_price_cents :: int
  l_deposit_cents :: "int option"
  l_start_date :: date
  l_end_date :: date
  l_lease_months :: int
  l_term_tag :: string
  l_unit_type :: string
  l_bedrooms_total :: int
  l_bedroom_of :: "int option"
  l_bathrooms :: rat
  l_bath_type :: string
  l_furnished :: bool
  l_utilities :: "string list"
  l_parking :: bool
  l_pets :: bool
  l_laundry :: bool
  l_address_line :: string
  l_neighbourhood :: string
  l_lat :: "rat option"
  l_lng :: "rat option"
  l_distance_m :: "int option"
  l_commute_minutes :: "int option"
  l_commute_mode :: string
  l_minutes_to_transit :: "int option"
  l_minutes_to_grocery :: "int option"
  l_status :: string
  l_views :: int
  l_replies :: int
  l_saves :: int
  l_created_at :: time
  l_updated_at :: time
  l_published_at :: "time option"
  l_removed_at :: "time option"
  l_removed_by :: "uuid option"
  l_removed_reason :: "string option"
  l_shorter_stays :: bool
  l_min_stay_months :: "int option"
  l_bills_estimate_cents :: "int option"
  l_cross_streets :: string

record housing_request =
  q_id :: uuid
  q_poster_id :: uuid
  q_title :: string
  q_body :: string
  q_budget_cents :: int
  q_start_date :: date
  q_end_date :: date
  q_lease_months :: int
  q_term_tag :: string
  q_occupants :: int
  q_pets :: bool
  q_furnished_preferred :: bool
  q_parking_needed :: bool
  q_laundry_needed :: bool
  q_max_distance_m :: "int option"
  q_neighbourhood :: string
  q_status :: string
  q_published_at :: "time option"
  q_views :: int
  q_created_at :: time
  q_updated_at :: time
  q_removed_at :: "time option"
  q_removed_by :: "uuid option"
  q_removed_reason :: "string option"

record listing_photo =
  ph_id :: uuid
  ph_listing_id :: uuid
  ph_url :: string
  ph_position :: int
  ph_created_at :: time

record request_offer =
  o_id :: uuid
  o_request_id :: uuid
  o_listing_id :: uuid
  o_owner_id :: uuid
  o_note :: string
  o_withdrawn_at :: "time option"
  o_created_at :: time
  o_updated_at :: time
  o_conversation_id :: "uuid option"

record conversation =
  c_id :: uuid
  c_listing_id :: uuid
  c_owner_id :: uuid
  c_enquirer_id :: uuid
  c_opened_by :: uuid
  c_closed_at :: "time option"
  c_closed_by :: "uuid option"
  c_owner_read_at :: "time option"
  c_enquirer_read_at :: "time option"
  c_created_at :: time
  c_updated_at :: time
  c_address_shared_at :: "time option"

record message =
  m_id :: uuid
  m_conversation_id :: uuid
  m_sender_id :: uuid
  m_body :: string
  m_created_at :: time

text \<open>A JSON value; \<open>JCompound\<close> stands for an array or an object nested inside another.\<close>

datatype json = JString string | JBool bool | JNumber rat | JNull | JCompound

record admin_action =
  a_id :: uuid
  a_actor_id :: "uuid option"
  a_action :: string
  a_subject_type :: string
  a_subject_id :: uuid
  a_reason :: string
  a_detail :: "(string \<times> json) list"
  a_created_at :: time

record database =
  users :: "user list"
  verification_tokens :: "mail_token list"
  reset_tokens :: "mail_token list"
  refresh_tokens :: "refresh_token list"
  listings :: "listing list"
  photos :: "listing_photo list"
  requests :: "housing_request list"
  offers :: "request_offer list"
  conversations :: "conversation list"
  messages :: "message list"
  admin_actions :: "admin_action list"

end
