(* ===== verification/World.thy ===== *)
theory World
  imports Store
begin

text \<open>
  What a handler runs against: the database, the limiter, the mailer, the clock and the sources of
  randomness, and how one SQL statement or one transaction acts on them.

  A handler is a computation in the state monad over \<open>world\<close>. Each statement first consumes one
  entry of \<open>events\<close>: the statement may fail, or another request may have changed the database in the
  meantime. A world with no events left runs undisturbed.
\<close>

section \<open>Errors\<close>

datatype error =
    ErrNoRows
  | PgError string
  | OtherError string
  | Wrapped string error
  | ErrReasonRequired | ErrLastAdmin | ErrRoleUnchanged | ErrSelfAction
  | ErrAlreadySuspended | ErrNotSuspended | ErrAlreadyVerified
  | ErrAlreadyRemoved | ErrNotRemoved
  | ErrPasswordTooShort | ErrPasswordTooLong | ErrPasswordMismatch
  | ErrTokenInvalid | ErrTokenExpired

text \<open>\<open>errors.Is\<close>: the error itself or one it wraps.\<close>

fun errors_is :: "error \<Rightarrow> error \<Rightarrow> bool" where
  "errors_is (Wrapped m e) target = (Wrapped m e = target \<or> errors_is e target)"
| "errors_is e target = (e = target)"

fun pg_code :: "error \<Rightarrow> string option" where
  "pg_code (PgError c) = Some c"
| "pg_code (Wrapped _ e) = pg_code e"
| "pg_code _ = None"

definition isUniqueViolation :: "error \<Rightarrow> bool" where
  "isUniqueViolation e = (pg_code e = Some ''23505'')"

abbreviation unique_violation :: error where "unique_violation \<equiv> PgError ''23505''"
abbreviation foreign_key_violation :: error where "foreign_key_violation \<equiv> PgError ''23503''"
abbreviation check_violation :: error where "check_violation \<equiv> PgError ''23514''"
abbreviation value_too_long :: error where "value_too_long \<equiv> PgError ''22001''"

section \<open>The world\<close>

datatype event =
    Quiet
  | Fault error
  | Meanwhile "database \<Rightarrow> database"

record mail =
  mail_id :: string
  mail_to :: string
  mail_subject :: string
  mail_body :: string

text \<open>
  \<open>committed\<close> is set inside a transaction: what the database will be if it rolls back.
  \<open>uuid_source\<close> and \<open>random_source\<close> are what \<open>gen_random_uuid()\<close> and \<open>crypto/rand\<close> yield.
\<close>

record world =
  db :: database
  committed :: "database option"
  events :: "event list"
  clock :: time
  uuid_source :: "nat \<Rightarrow> uuid"
  uuids_drawn :: nat
  random_source :: "nat \<Rightarrow> string option"
  randoms_drawn :: nat
  rl :: limiter
  outbox :: "mail list"
  mail_faults :: "error option list"

type_synonym 'a res = "error + 'a"
type_synonym 'a go = "(world, 'a) state"

definition quiet :: "world \<Rightarrow> bool" where
  "quiet w \<longleftrightarrow> events w = [] \<and> committed w = None"

section \<open>Running computations\<close>

lemma run_bind [simp]:
  "run_state (State_Monad.bind m f) w = (case run_state m w of (a, w') \<Rightarrow> run_state (f a) w')"
  by (simp add: State_Monad.bind_def)

lemma run_return [simp]: "run_state (State_Monad.return a) w = (a, w)"
  by (simp add: State_Monad.return_def)

definition get_world :: "world go" where
  "get_world = State (\<lambda>w. (w, w))"

definition put_world :: "(world \<Rightarrow> world) \<Rightarrow> unit go" where
  "put_world f = State (\<lambda>w. ((), f w))"

lemma run_get_world [simp]: "run_state get_world w = (w, w)"
  and run_put_world [simp]: "run_state (put_world f) w = ((), f w)"
  by (simp_all add: get_world_def put_world_def)

section \<open>Statements\<close>

text \<open>
  A transaction of this request sees another request's commit at once (\<open>READ COMMITTED\<close>); rolling
  back undoes only this request's own writes.
\<close>

definition stmt :: "(world \<Rightarrow> 'a res \<times> world) \<Rightarrow> 'a res go" where
  "stmt f = State (\<lambda>w.
     case events w of
       [] \<Rightarrow> f w
     | Quiet # es \<Rightarrow> f (w\<lparr>events := es\<rparr>)
     | Fault e # es \<Rightarrow> (Inl e, w\<lparr>events := es\<rparr>)
     | Meanwhile g # es \<Rightarrow>
         f (w\<lparr>events := es, db := g (db w), committed := map_option g (committed w)\<rparr>))"

text \<open>The three shapes the generated queries have: \<open>:one\<close>, \<open>:many\<close> and \<open>:exec\<close>.\<close>

definition query :: "(time \<Rightarrow> database \<Rightarrow> 'a) \<Rightarrow> 'a res go" where
  "query f = stmt (\<lambda>w. (Inr (f (clock w) (db w)), w))"

definition query_row :: "(time \<Rightarrow> database \<Rightarrow> 'a option) \<Rightarrow> 'a res go" where
  "query_row f = stmt (\<lambda>w.
     (case f (clock w) (db w) of None \<Rightarrow> Inl ErrNoRows | Some a \<Rightarrow> Inr a, w))"

definition exec :: "(time \<Rightarrow> database \<Rightarrow> 'a res \<times> database) \<Rightarrow> 'a res go" where
  "exec f = stmt (\<lambda>w. case f (clock w) (db w) of (r, d) \<Rightarrow> (r, w\<lparr>db := d\<rparr>))"

text \<open>An \<open>INSERT\<close> into a table whose key column defaults to \<open>gen_random_uuid()\<close>.\<close>

definition insert_row ::
  "(uuid \<Rightarrow> time \<Rightarrow> database \<Rightarrow> 'a res \<times> database) \<Rightarrow> 'a res go" where
  "insert_row f = stmt (\<lambda>w.
     case f (uuid_source w (uuids_drawn w)) (clock w) (db w) of
       (r, d) \<Rightarrow> (r, w\<lparr>db := d, uuids_drawn := Suc (uuids_drawn w)\<rparr>))"

lemma quiet_stmt: "events w = [] \<Longrightarrow> run_state (stmt f) w = f w"
  by (simp add: stmt_def)

lemma quiet_query [stmt_simps]:
  "events w = [] \<Longrightarrow> run_state (query f) w = (Inr (f (clock w) (db w)), w)"
  by (simp add: query_def quiet_stmt)

lemma quiet_query_row [stmt_simps]:
  "events w = [] \<Longrightarrow> run_state (query_row g) w =
     (case g (clock w) (db w) of None \<Rightarrow> Inl ErrNoRows | Some a \<Rightarrow> Inr a, w)"
  by (simp add: query_row_def quiet_stmt)

lemma quiet_exec [stmt_simps]:
  "events w = [] \<Longrightarrow> run_state (exec h) w =
     (fst (h (clock w) (db w)), w\<lparr>db := snd (h (clock w) (db w))\<rparr>)"
  by (simp add: exec_def quiet_stmt split: prod.split)

lemma quiet_insert_row [stmt_simps]:
  "events w = [] \<Longrightarrow> run_state (insert_row k) w =
     (case k (uuid_source w (uuids_drawn w)) (clock w) (db w) of
        (r, d) \<Rightarrow> (r, w\<lparr>db := d, uuids_drawn := Suc (uuids_drawn w)\<rparr>))"
  by (simp add: insert_row_def quiet_stmt)

section \<open>Transactions\<close>

text \<open>
  \<open>pgx.BeginFunc\<close>: begin, run, and commit when the function returns no error, roll back otherwise.
  Both ends are round trips that may fail; a failed commit leaves nothing behind.
\<close>

definition begin_tx :: "unit res go" where
  "begin_tx = stmt (\<lambda>w. (Inr (), w\<lparr>committed := Some (db w)\<rparr>))"

definition rollback :: "unit go" where
  "rollback = put_world (\<lambda>w. w\<lparr>db := (case committed w of None \<Rightarrow> db w | Some d \<Rightarrow> d), committed := None\<rparr>)"

definition commit :: "unit res go" where
  "commit = stmt (\<lambda>w. (Inr (), w\<lparr>committed := None\<rparr>))"

definition in_tx :: "'a res go \<Rightarrow> 'a res go" where
  "in_tx body = do {
     started \<leftarrow> begin_tx;
     case started of
       Inl e \<Rightarrow> State_Monad.return (Inl e)
     | Inr _ \<Rightarrow> do {
         r \<leftarrow> body;
         case r of
           Inl e \<Rightarrow> do { rollback; State_Monad.return (Inl e) }
         | Inr a \<Rightarrow> do {
             c \<leftarrow> commit;
             case c of
               Inl e \<Rightarrow> do { rollback; State_Monad.return (Inl e) }
             | Inr _ \<Rightarrow> State_Monad.return (Inr a) } } }"

lemma quiet_in_tx [stmt_simps]:
  assumes "quiet w" and "run_state body (w\<lparr>committed := Some (db w)\<rparr>) = (r, w')"
    and "events w' = []" and "committed w' = Some (db w)"
  shows "run_state (in_tx body) w =
    (r, w'\<lparr>committed := None, db := (case r of Inl _ \<Rightarrow> db w | Inr _ \<Rightarrow> db w')\<rparr>)"
  using assms
  by (simp add: in_tx_def begin_tx_def commit_def rollback_def quiet_stmt quiet_def split: sum.split)

section \<open>Time, randomness, mail and the limiter\<close>

definition time_now :: "time go" where
  "time_now = State (\<lambda>w. (clock w, w))"

definition rand_read :: "string res go" where
  "rand_read = State (\<lambda>w.
     (case random_source w (randoms_drawn w) of
        None \<Rightarrow> Inl (OtherError ''generate token'') | Some s \<Rightarrow> Inr s,
      w\<lparr>randoms_drawn := Suc (randoms_drawn w)\<rparr>))"

text \<open>\<open>email.Sender.Send\<close>: the provider accepts the message, or fails.\<close>

definition send_mail :: "mail \<Rightarrow> unit res go" where
  "send_mail m = State (\<lambda>w.
     case mail_faults w of
       Some e # fs \<Rightarrow> (Inl e, w\<lparr>mail_faults := fs\<rparr>)
     | None # fs \<Rightarrow> (Inr (), w\<lparr>mail_faults := fs, outbox := outbox w @ [m]\<rparr>)
     | [] \<Rightarrow> (Inr (), w\<lparr>outbox := outbox w @ [m]\<rparr>))"

definition consulting :: "(time \<Rightarrow> limiter \<Rightarrow> decision \<times> limiter) \<Rightarrow> decision go" where
  "consulting f = State (\<lambda>w. case f (clock w) (rl w) of (d, l) \<Rightarrow> (d, w\<lparr>rl := l\<rparr>))"

lemma run_consulting [simp]:
  "run_state (consulting f) w = (fst (f (clock w) (rl w)), w\<lparr>rl := snd (f (clock w) (rl w))\<rparr>)"
  by (simp add: consulting_def split: prod.split)

lemma run_time_now [simp]: "run_state time_now w = (clock w, w)"
  by (simp add: time_now_def)

end
