(* ===== verification/Keeps.thy ===== *)
theory Keeps
  imports World
begin

text \<open>
  Proof rules for what a computation preserves, whatever faults and concurrent changes it meets.
  \<open>db_inv P\<close> says that the database satisfies \<open>P\<close>, that it still would after a rollback, and that
  the other requests' changes preserve \<open>P\<close>; the rules \<open>keeps_intros\<close> reduce the preservation of
  \<open>db_inv P\<close> by a handler to the writes it makes.
\<close>

named_theorems keeps_intros \<open>structural rules for the preservation of an invariant\<close>

definition keeps :: "(world \<Rightarrow> bool) \<Rightarrow> 'a go \<Rightarrow> bool" where
  "keeps I m \<longleftrightarrow> (\<forall>w. I w \<longrightarrow> I (snd (run_state m w)))"

definition db_inv :: "(database \<Rightarrow> bool) \<Rightarrow> world \<Rightarrow> bool" where
  "db_inv P w \<longleftrightarrow> P (db w) \<and> (\<forall>d. committed w = Some d \<longrightarrow> P d) \<and>
     (\<forall>g. Meanwhile g \<in> set (events w) \<longrightarrow> (\<forall>d. P d \<longrightarrow> P (g d)))"

lemma keepsD: "keeps I m \<Longrightarrow> I w \<Longrightarrow> run_state m w = (a, w') \<Longrightarrow> I w'"
  by (auto simp: keeps_def dest: spec [of _ w])

lemma keeps_run: "keeps I m \<Longrightarrow> I w \<Longrightarrow> I (snd (run_state m w))"
  by (simp add: keeps_def)

lemma keeps_bind [keeps_intros]:
  "keeps I m \<Longrightarrow> (\<And>a. keeps I (f a)) \<Longrightarrow> keeps I (State_Monad.bind m f)"
  by (simp add: keeps_def split: prod.split) (metis snd_conv)

lemma keeps_return [keeps_intros]: "keeps I (State_Monad.return a)"
  by (simp add: keeps_def)

lemma keeps_if [keeps_intros]: "(b \<Longrightarrow> keeps I m) \<Longrightarrow> (\<not> b \<Longrightarrow> keeps I n) \<Longrightarrow> keeps I (if b then m else n)"
  by simp

lemma keeps_sum [keeps_intros]:
  "(\<And>e. r = Inl e \<Longrightarrow> keeps I (f e)) \<Longrightarrow> (\<And>a. r = Inr a \<Longrightarrow> keeps I (g a)) \<Longrightarrow>
   keeps I (case r of Inl e \<Rightarrow> f e | Inr a \<Rightarrow> g a)"
  by (cases r) auto

lemma keeps_option [keeps_intros]:
  "(x = None \<Longrightarrow> keeps I m) \<Longrightarrow> (\<And>a. x = Some a \<Longrightarrow> keeps I (f a)) \<Longrightarrow>
   keeps I (case x of None \<Rightarrow> m | Some a \<Rightarrow> f a)"
  by (cases x) auto

lemma keeps_prod [keeps_intros]:
  "(\<And>a b. p = (a, b) \<Longrightarrow> keeps I (f a b)) \<Longrightarrow> keeps I (case p of (a, b) \<Rightarrow> f a b)"
  by (cases p) auto

lemma keeps_Let [keeps_intros]: "(\<And>x. x = t \<Longrightarrow> keeps I (f x)) \<Longrightarrow> keeps I (let x = t in f x)"
  by simp

lemma keeps_get_world [keeps_intros]: "keeps I get_world"
  by (simp add: keeps_def)

lemma keeps_time_now [keeps_intros]: "keeps I time_now"
  by (simp add: keeps_def)

section \<open>Invariants of the database\<close>

lemma db_inv_update [simp]:
  "db_inv P (w\<lparr>rl := l\<rparr>) = db_inv P w" "db_inv P (w\<lparr>outbox := m\<rparr>) = db_inv P w"
  "db_inv P (w\<lparr>mail_faults := fs\<rparr>) = db_inv P w" "db_inv P (w\<lparr>randoms_drawn := n\<rparr>) = db_inv P w"
  "db_inv P (w\<lparr>uuids_drawn := n\<rparr>) = db_inv P w"
  by (simp_all add: db_inv_def)

lemma db_inv_rand [keeps_intros]: "keeps (db_inv P) rand_read"
  by (simp add: keeps_def rand_read_def)

lemma db_inv_mail [keeps_intros]: "keeps (db_inv P) (send_mail m)"
  by (auto simp: keeps_def send_mail_def split: list.splits option.splits)

lemma db_inv_consulting [keeps_intros]: "keeps (db_inv P) (consulting f)"
  by (simp add: keeps_def consulting_def split: prod.splits)

lemma db_inv_stmt:
  assumes "\<And>w. db_inv P w \<Longrightarrow> db_inv P (snd (f w))"
  shows "keeps (db_inv P) (stmt f)"
  unfolding keeps_def
proof (intro allI impI)
  fix w assume "db_inv P w"
  then have "db_inv P (w\<lparr>events := es\<rparr>)" "g \<in> Meanwhile -` set (events w) \<Longrightarrow>
      db_inv P (w\<lparr>events := es, db := g (db w), committed := map_option g (committed w)\<rparr>)"
    if "set es \<subseteq> set (events w)" for es g
    using that by (auto simp: db_inv_def)
  note step = this
  show "db_inv P (snd (run_state (stmt f) w))"
  proof (cases "events w")
    case (Cons e es)
    with step [of es] assms \<open>db_inv P w\<close> show ?thesis by (cases e) (auto simp: stmt_def)
  qed (simp add: stmt_def assms \<open>db_inv P w\<close>)
qed

lemma db_inv_query [keeps_intros]: "keeps (db_inv P) (query f)"
  unfolding query_def by (rule db_inv_stmt) simp

lemma db_inv_query_row [keeps_intros]: "keeps (db_inv P) (query_row f)"
  unfolding query_row_def by (rule db_inv_stmt) simp

lemma db_inv_exec:
  "(\<And>t d. P d \<Longrightarrow> P (snd (f t d))) \<Longrightarrow> keeps (db_inv P) (exec f)"
  unfolding exec_def by (rule db_inv_stmt) (simp add: case_prod_beta db_inv_def)

lemma db_inv_insert_row:
  "(\<And>i t d. P d \<Longrightarrow> P (snd (f i t d))) \<Longrightarrow> keeps (db_inv P) (insert_row f)"
  unfolding insert_row_def by (rule db_inv_stmt) (simp add: case_prod_beta db_inv_def)

lemma db_inv_in_tx [keeps_intros]:
  assumes "keeps (db_inv P) body"
  shows "keeps (db_inv P) (in_tx body)"
proof -
  have "keeps (db_inv P) begin_tx" "keeps (db_inv P) commit"
    unfolding begin_tx_def commit_def by (rule db_inv_stmt; simp add: db_inv_def)+
  moreover have "keeps (db_inv P) rollback"
    by (auto simp: keeps_def rollback_def db_inv_def split: option.splits)
  ultimately show ?thesis unfolding in_tx_def by (intro keeps_intros assms)
qed

end
