(* ===== verification/AccountStore.thy ===== *)
theory AccountStore
  imports Keeps
begin

text \<open>
  The queries of \<open>internal/db/sqlcgen/users.sql.go\<close> and \<open>tokens.sql.go\<close> on the tables \<open>users\<close>,
  \<open>email_verification_tokens\<close>, \<open>password_reset_tokens\<close> and \<open>refresh_tokens\<close>, with the constraints
  the migrations put on these tables.
\<close>

section \<open>Constraints\<close>

definition users_check :: "user \<Rightarrow> bool" where
  "users_check u \<longleftrightarrow>
     1 \<le> u_level u \<and> 0 \<le> u_star_points u \<and>
     u_role u \<in> {''user'', ''moderator'', ''admin''} \<and>
     has_suffix (to_lower (u_email u)) ''@uwaterloo.ca'' \<and>
     (u_suspended_at u = None) = (u_suspend_reason u = None)"

definition users_fit :: "user \<Rightarrow> bool" where
  "users_fit u \<longleftrightarrow> rune_count (u_email u) \<le> 255 \<and> rune_count (u_username u) \<le> 32"

definition users_clash :: "user \<Rightarrow> user \<Rightarrow> bool" where
  "users_clash u v \<longleftrightarrow> u_id u = u_id v \<or> to_lower (u_email u) = to_lower (u_email v) \<or>
     to_lower (u_username u) = to_lower (u_username v)"

definition user_exists :: "database \<Rightarrow> uuid \<Rightarrow> bool" where
  "user_exists d i \<longleftrightarrow> list_ex (\<lambda>u. u_id u = i) (users d)"

definition find_user :: "database \<Rightarrow> uuid \<Rightarrow> user option" where
  "find_user d i = List.find (\<lambda>u. u_id u = i) (users d)"

text \<open>
  \<open>UPDATE users SET .. WHERE .. RETURNING *\<close> on the row of one id: the trigger \<open>set_updated_at\<close>
  stamps it, the constraints are checked, and a statement that matches no row returns \<open>ErrNoRows\<close>.
\<close>

definition update_user ::
  "(user \<Rightarrow> bool) \<Rightarrow> (user \<Rightarrow> user) \<Rightarrow> uuid \<Rightarrow> time \<Rightarrow> database \<Rightarrow> user res \<times> database" where
  "update_user cond f i t d =
     (case List.find (\<lambda>u. u_id u = i \<and> cond u) (users d) of
        None \<Rightarrow> (Inl ErrNoRows, d)
      | Some u \<Rightarrow>
          (let u' = (f u)\<lparr>u_updated_at := t\<rparr>
           in if users_check u'
              then (Inr u', d\<lparr>users := update_where (\<lambda>v. u_id v = i \<and> cond v)
                                       (\<lambda>v. (f v)\<lparr>u_updated_at := t\<rparr>) (users d)\<rparr>)
              else (Inl check_violation, d)))"

section \<open>users\<close>

definition CountUsersByEmailOrUsername :: "string \<Rightarrow> string \<Rightarrow> (int \<times> int) res go" where
  "CountUsersByEmailOrUsername email username = query (\<lambda>_ d.
     (count_where (\<lambda>u. to_lower (u_email u) = to_lower email) (users d),
      count_where (\<lambda>u. to_lower (u_username u) = to_lower username) (users d)))"

definition CreateUser :: "string \<Rightarrow> string \<Rightarrow> string \<Rightarrow> user res go" where
  "CreateUser email username password_hash = insert_row (\<lambda>i t d.
     let u = \<lparr>u_id = i, u_email = email, u_username = username, u_password_hash = password_hash,
              u_role = ''user'', u_verified = False, u_avatar_url = None, u_level = 1,
              u_star_points = 0, u_created_at = t, u_updated_at = t, u_suspended_at = None,
              u_suspended_by = None, u_suspend_reason = None, u_email_notifications = True\<rparr>
     in if \<not> users_fit u then (Inl value_too_long, d)
        else if \<not> users_check u then (Inl check_violation, d)
        else if list_ex (users_clash u) (users d) then (Inl unique_violation, d)
        else (Inr u, d\<lparr>users := users d @ [u]\<rparr>))"

definition GetUserByEmail :: "string \<Rightarrow> user res go" where
  "GetUserByEmail email = query_row (\<lambda>_ d.
     List.find (\<lambda>u. to_lower (u_email u) = to_lower email) (users d))"

definition GetUserByID :: "uuid \<Rightarrow> user res go" where
  "GetUserByID i = query_row (\<lambda>_ d. find_user d i)"

definition GetUserByUsername :: "string \<Rightarrow> user res go" where
  "GetUserByUsername username = query_row (\<lambda>_ d.
     List.find (\<lambda>u. to_lower (u_username u) = to_lower username) (users d))"

definition MarkUserVerified :: "uuid \<Rightarrow> user res go" where
  "MarkUserVerified i = exec (update_user (\<lambda>_. True) (\<lambda>u. u\<lparr>u_verified := True\<rparr>) i)"

definition SetEmailNotifications :: "bool \<Rightarrow> uuid \<Rightarrow> user res go" where
  "SetEmailNotifications b i = exec (update_user (\<lambda>_. True) (\<lambda>u. u\<lparr>u_email_notifications := b\<rparr>) i)"

definition UpdateUserPassword :: "uuid \<Rightarrow> string \<Rightarrow> unit res go" where
  "UpdateUserPassword i h = exec (\<lambda>t d.
     (Inr (), d\<lparr>users := update_where (\<lambda>u. u_id u = i)
                 (\<lambda>u. u\<lparr>u_password_hash := h, u_updated_at := t\<rparr>) (users d)\<rparr>))"

section \<open>email_verification_tokens and password_reset_tokens\<close>

definition mail_token_live :: "time \<Rightarrow> mail_token \<Rightarrow> bool" where
  "mail_token_live t k \<longleftrightarrow> mt_consumed_at k = None \<and> t < mt_expires_at k"

definition consume_where :: "(mail_token \<Rightarrow> bool) \<Rightarrow> time \<Rightarrow> mail_token list \<Rightarrow> mail_token list" where
  "consume_where cond t ks =
     update_where (\<lambda>k. cond k \<and> mt_consumed_at k = None) (\<lambda>k. k\<lparr>mt_consumed_at := Some t\<rparr>) ks"

definition add_mail_token ::
  "string \<Rightarrow> uuid \<Rightarrow> time \<Rightarrow> time \<Rightarrow> mail_token list \<Rightarrow> mail_token list option" where
  "add_mail_token h i expires t ks =
     (if list_ex (\<lambda>k. mt_token_hash k = h) ks then None
      else Some (ks @ [\<lparr>mt_token_hash = h, mt_user_id = i, mt_expires_at = expires,
                        mt_consumed_at = None, mt_created_at = t\<rparr>]))"

definition ConsumeAllEmailVerificationTokensForUser :: "uuid \<Rightarrow> unit res go" where
  "ConsumeAllEmailVerificationTokensForUser i = exec (\<lambda>t d.
     (Inr (), d\<lparr>verification_tokens :=
        consume_where (\<lambda>k. mt_user_id k = i) t (verification_tokens d)\<rparr>))"

definition ConsumeAllPasswordResetTokensForUser :: "uuid \<Rightarrow> unit res go" where
  "ConsumeAllPasswordResetTokensForUser i = exec (\<lambda>t d.
     (Inr (), d\<lparr>reset_tokens := consume_where (\<lambda>k. mt_user_id k = i) t (reset_tokens d)\<rparr>))"

definition ConsumeEmailVerificationToken :: "string \<Rightarrow> unit res go" where
  "ConsumeEmailVerificationToken h = exec (\<lambda>t d.
     (Inr (), d\<lparr>verification_tokens :=
        consume_where (\<lambda>k. mt_token_hash k = h) t (verification_tokens d)\<rparr>))"

definition ConsumePasswordResetToken :: "string \<Rightarrow> unit res go" where
  "ConsumePasswordResetToken h = exec (\<lambda>t d.
     (Inr (), d\<lparr>reset_tokens := consume_where (\<lambda>k. mt_token_hash k = h) t (reset_tokens d)\<rparr>))"

definition CreateEmailVerificationToken :: "string \<Rightarrow> uuid \<Rightarrow> time \<Rightarrow> unit res go" where
  "CreateEmailVerificationToken h i expires = exec (\<lambda>t d.
     if \<not> user_exists d i then (Inl foreign_key_violation, d)
     else case add_mail_token h i expires t (verification_tokens d) of
       None \<Rightarrow> (Inl unique_violation, d)
     | Some ks \<Rightarrow> (Inr (), d\<lparr>verification_tokens := ks\<rparr>))"

definition CreatePasswordResetToken :: "string \<Rightarrow> uuid \<Rightarrow> time \<Rightarrow> unit res go" where
  "CreatePasswordResetToken h i expires = exec (\<lambda>t d.
     if \<not> user_exists d i then (Inl foreign_key_violation, d)
     else case add_mail_token h i expires t (reset_tokens d) of
       None \<Rightarrow> (Inl unique_violation, d)
     | Some ks \<Rightarrow> (Inr (), d\<lparr>reset_tokens := ks\<rparr>))"

definition GetLiveEmailVerificationToken :: "string \<Rightarrow> mail_token res go" where
  "GetLiveEmailVerificationToken h = query_row (\<lambda>t d.
     List.find (\<lambda>k. mt_token_hash k = h \<and> mail_token_live t k) (verification_tokens d))"

definition GetLivePasswordResetToken :: "string \<Rightarrow> mail_token res go" where
  "GetLivePasswordResetToken h = query_row (\<lambda>t d.
     List.find (\<lambda>k. mt_token_hash k = h \<and> mail_token_live t k) (reset_tokens d))"

section \<open>refresh_tokens\<close>

definition refresh_live :: "time \<Rightarrow> refresh_token \<Rightarrow> bool" where
  "refresh_live t k \<longleftrightarrow> rt_revoked_at k = None \<and> t < rt_expires_at k"

definition revoke_where :: "(refresh_token \<Rightarrow> bool) \<Rightarrow> time \<Rightarrow> refresh_token list \<Rightarrow> refresh_token list" where
  "revoke_where cond t ks =
     update_where (\<lambda>k. cond k \<and> rt_revoked_at k = None) (\<lambda>k. k\<lparr>rt_revoked_at := Some t\<rparr>) ks"

definition CreateRefreshToken :: "string \<Rightarrow> uuid \<Rightarrow> time \<Rightarrow> string option \<Rightarrow> unit res go" where
  "CreateRefreshToken h i expires agent = exec (\<lambda>t d.
     if \<not> user_exists d i then (Inl foreign_key_violation, d)
     else if list_ex (\<lambda>k. rt_token_hash k = h) (refresh_tokens d) then (Inl unique_violation, d)
     else (Inr (), d\<lparr>refresh_tokens := refresh_tokens d @
             [\<lparr>rt_token_hash = h, rt_user_id = i, rt_expires_at = expires, rt_revoked_at = None,
               rt_user_agent = agent, rt_created_at = t\<rparr>]\<rparr>))"

definition GetLiveRefreshToken :: "string \<Rightarrow> refresh_token res go" where
  "GetLiveRefreshToken h = query_row (\<lambda>t d.
     List.find (\<lambda>k. rt_token_hash k = h \<and> refresh_live t k) (refresh_tokens d))"

definition RevokeAllRefreshTokensForUser :: "uuid \<Rightarrow> unit res go" where
  "RevokeAllRefreshTokensForUser i = exec (\<lambda>t d.
     (Inr (), d\<lparr>refresh_tokens := revoke_where (\<lambda>k. rt_user_id k = i) t (refresh_tokens d)\<rparr>))"

definition RevokeRefreshToken :: "string \<Rightarrow> unit res go" where
  "RevokeRefreshToken h = exec (\<lambda>t d.
     (Inr (), d\<lparr>refresh_tokens := revoke_where (\<lambda>k. rt_token_hash k = h) t (refresh_tokens d)\<rparr>))"

definition DeleteExpiredTokens :: "unit res go" where
  "DeleteExpiredTokens = exec (\<lambda>t d.
     (Inr (), d\<lparr>refresh_tokens := filter (\<lambda>k. \<not> rt_expires_at k < t) (refresh_tokens d),
               verification_tokens := filter (\<lambda>k. \<not> mt_expires_at k < t) (verification_tokens d),
               reset_tokens := filter (\<lambda>k. \<not> mt_expires_at k < t) (reset_tokens d)\<rparr>))"

lemmas account_query_defs =
  CountUsersByEmailOrUsername_def CreateUser_def GetUserByEmail_def GetUserByID_def
  GetUserByUsername_def MarkUserVerified_def SetEmailNotifications_def UpdateUserPassword_def
  ConsumeAllEmailVerificationTokensForUser_def ConsumeAllPasswordResetTokensForUser_def
  ConsumeEmailVerificationToken_def ConsumePasswordResetToken_def
  CreateEmailVerificationToken_def CreatePasswordResetToken_def
  GetLiveEmailVerificationToken_def GetLivePasswordResetToken_def CreateRefreshToken_def
  GetLiveRefreshToken_def RevokeAllRefreshTokensForUser_def RevokeRefreshToken_def
  DeleteExpiredTokens_def

end
