(* ===== verification/Http.thy ===== *)
theory Http
  imports AccountStore
begin

text \<open>
  What every handler shares: the server's configuration and the code it calls that is not in the
  repository, the request context the middleware fills (\<open>internal/auth\<close>), the error envelope
  (\<open>internal/apierror\<close>) and the form of a response. The generated response types become one type:
  a success with its status and body, a refusal with its status and envelope, an error the router
  answers with 500, or nothing at all.
\<close>

section \<open>The error envelope\<close>

text \<open>\<open>e_retry_after\<close> is the \<open>Retry-After\<close> header a 429 carries beside its body.\<close>

datatype code =
    CodeBadRequest | CodeValidation | CodeUnauthorized | CodeForbidden | CodeNotFound
  | CodeConflict | CodeRateLimited | CodeInternal | CodeUnavailable

record err_body =
  e_code :: code
  e_message :: string
  e_details :: "(string \<times> string) list"
  e_retry_after :: "int option"

definition errorBody :: "code \<Rightarrow> string \<Rightarrow> err_body" where
  "errorBody c m = \<lparr>e_code = c, e_message = m, e_details = [], e_retry_after = None\<rparr>"

definition errorBodyWithDetails :: "code \<Rightarrow> string \<Rightarrow> (string \<times> string) list \<Rightarrow> err_body" where
  "errorBodyWithDetails c m ds = (errorBody c m)\<lparr>e_details := ds\<rparr>"

datatype 'b reply =
    Success nat 'b
  | Refuse nat err_body
  | HandlerError error
  | Unrouted

type_synonym 'b handler = "'b reply go"

abbreviation refuse :: "nat \<Rightarrow> code \<Rightarrow> string \<Rightarrow> 'b handler" where
  "refuse status c m \<equiv> State_Monad.return (Refuse status (errorBody c m))"

abbreviation refuse_with :: "nat \<Rightarrow> code \<Rightarrow> string \<Rightarrow> (string \<times> string) list \<Rightarrow> 'b handler" where
  "refuse_with status c m ds \<equiv> State_Monad.return (Refuse status (errorBodyWithDetails c m ds))"

abbreviation answer :: "nat \<Rightarrow> 'b \<Rightarrow> 'b handler" where
  "answer status b \<equiv> State_Monad.return (Success status b)"

abbreviation fail :: "error \<Rightarrow> 'b handler" where
  "fail e \<equiv> State_Monad.return (HandlerError e)"

text \<open>The status a client sees: the router turns a handler's error into \<open>apierror.Internal\<close>.\<close>

fun status_of :: "'b reply \<Rightarrow> nat" where
  "status_of (Success s _) = s"
| "status_of (Refuse s _) = s"
| "status_of (HandlerError _) = 500"
| "status_of Unrouted = 404"

fun succeeded :: "'b reply \<Rightarrow> bool" where
  "succeeded (Success _ _) = True"
| "succeeded _ = False"

lemma succeeded_iff: "succeeded r \<longleftrightarrow> (\<exists>s b. r = Success s b)"
  by (cases r) auto

section \<open>Who is asking\<close>

record principal =
  p_user_id :: uuid
  p_role :: string
  p_verified :: bool

definition IsAdmin :: "principal \<Rightarrow> bool" where
  "IsAdmin p = (p_role p = ''admin'')"

record request_ctx =
  ctx_principal :: "principal option"
  ctx_refresh :: string
  ctx_user_agent :: string
  ctx_login_key :: string

abbreviation PrincipalFrom :: "request_ctx \<Rightarrow> principal option" where
  "PrincipalFrom \<equiv> ctx_principal"

section \<open>The server\<close>

record claims =
  cl_role :: string
  cl_verified :: bool
  cl_subject :: string
  cl_issuer :: string
  cl_audience :: "string list"
  cl_issued_at :: time
  cl_not_before :: time
  cl_expires_at :: time
  cl_id :: string

record jwt_options =
  jo_methods :: "string list"
  jo_issuer :: string
  jo_audience :: string
  jo_expiration_required :: bool
  jo_strict_decoding :: bool

text \<open>
  \<open>app_url\<close> to \<open>jwt_secret\<close> are \<open>config.Config\<close>. The rest is code outside the repository, and the
  hash function: bcrypt, the JWT library, the UUID library, SHA-256, and PostgreSQL's text search
  (a query against the indexed columns of a row).
\<close>

record env =
  app_url :: string
  development :: bool
  jwt_secret :: string
  sha256 :: "string \<Rightarrow> string"
  bcrypt_generate :: "int \<Rightarrow> string \<Rightarrow> string \<Rightarrow> string option"
  bcrypt_matches :: "string \<Rightarrow> string \<Rightarrow> bool"
  jwt_sign :: "string \<Rightarrow> claims \<Rightarrow> string res"
  jwt_parse :: "jwt_options \<Rightarrow> string \<Rightarrow> time \<Rightarrow> string \<Rightarrow> claims res"
  uuid_string :: "uuid \<Rightarrow> string"
  uuid_bytes :: "uuid \<Rightarrow> string"
  uuid_parse :: "string \<Rightarrow> uuid option"
  text_match :: "string \<Rightarrow> string list \<Rightarrow> bool"

section \<open>Users in responses\<close>

record user_view =
  uv_id :: uuid
  uv_username :: string
  uv_role :: string
  uv_verified :: bool
  uv_level :: int
  uv_star_points :: int
  uv_created_at :: time
  uv_email :: "string option"
  uv_email_notifications :: "bool option"
  uv_avatar_url :: "string option"

definition toUser :: "user \<Rightarrow> bool \<Rightarrow> user_view" where
  "toUser row includeEmail =
     \<lparr>uv_id = u_id row, uv_username = u_username row, uv_role = u_role row,
      uv_verified = u_verified row, uv_level = u_level row, uv_star_points = u_star_points row,
      uv_created_at = u_created_at row,
      uv_email = (if includeEmail then Some (u_email row) else None),
      uv_email_notifications = (if includeEmail then Some (u_email_notifications row) else None),
      uv_avatar_url = u_avatar_url row\<rparr>"

section \<open>Pages\<close>

definition defaultPerPage :: int where "defaultPerPage = 20"
definition maxPerPage :: int where "maxPerPage = 100"

definition paginationFrom :: "int option \<Rightarrow> int option \<Rightarrow> int \<times> int" where
  "paginationFrom page perPage =
     (let p = default_if_nil page 1;
          p = (if p < 1 then 1 else p);
          size = default_if_nil perPage defaultPerPage;
          size = (if size < 1 then defaultPerPage else size);
          size = (if maxPerPage < size then maxPerPage else size)
      in (p, size))"

record page_meta =
  pm_page :: int
  pm_per_page :: int
  pm_total :: int
  pm_total_pages :: int

definition pageMeta :: "int \<Rightarrow> int \<Rightarrow> int \<Rightarrow> page_meta" where
  "pageMeta page perPage n_rows =
     \<lparr>pm_page = page, pm_per_page = perPage, pm_total = n_rows,
      pm_total_pages = (if 0 < n_rows then quot (n_rows + perPage - 1) perPage else 0)\<rparr>"

text \<open>\<open>int32((page - 1) * perPage)\<close>: computed at 64 bits, then truncated to 32.\<close>

definition page_offset :: "int \<Rightarrow> int \<Rightarrow> int" where
  "page_offset page perPage = to_int32 (to_int64 ((page - 1) * perPage))"

lemma paginationFrom_bounds:
  "paginationFrom page perPage = (p, n) \<Longrightarrow> 1 \<le> p \<and> 1 \<le> n \<and> n \<le> maxPerPage"
  by (auto simp: paginationFrom_def Let_def defaultPerPage_def maxPerPage_def split: if_splits)

lemma pageMeta_total_pages:
  assumes "1 \<le> n" and "0 \<le> n_rows"
  shows "n * pm_total_pages (pageMeta p n n_rows) < n_rows + n \<and>
         n_rows \<le> n * pm_total_pages (pageMeta p n n_rows)"
proof (cases "0 < n_rows")
  case True
  have pages: "pm_total_pages (pageMeta p n n_rows) = (n_rows + n - 1) div n"
    using True assms by (simp add: pageMeta_def quot_nonneg)
  have "n * ((n_rows + n - 1) div n) = n_rows + n - 1 - (n_rows + n - 1) mod n"
    by (simp add: minus_mod_eq_mult_div)
  moreover have "0 \<le> (n_rows + n - 1) mod n" "(n_rows + n - 1) mod n < n"
    using assms(1) by simp_all
  ultimately show ?thesis unfolding pages by linarith
qed (use assms in \<open>simp add: pageMeta_def\<close>)

end
