(* ===== verification/AuthLib.thy ===== *)
theory AuthLib
  imports Http
begin

text \<open>
  \<open>internal/auth\<close>: the password policy and hashing, opaque tokens, access tokens and cookies.
\<close>

section \<open>Passwords\<close>

definition BcryptCost :: int where "BcryptCost = 12"
definition maxPasswordBytes :: int where "maxPasswordBytes = 72"
definition minPasswordRunes :: int where "minPasswordRunes = 10"

definition ValidatePassword :: "string \<Rightarrow> error option" where
  "ValidatePassword plain =
     (if rune_count plain < minPasswordRunes then Some ErrPasswordTooShort
      else if maxPasswordBytes < int (length plain) then Some ErrPasswordTooLong
      else None)"

text \<open>The texts of the errors that reach a client.\<close>

fun password_problem :: "error \<Rightarrow> string" where
  "password_problem ErrPasswordTooShort =
     ''password must be at least '' @ itoa minPasswordRunes @ '' characters''"
| "password_problem ErrPasswordTooLong =
     ''password must be at most '' @ itoa maxPasswordBytes @ '' bytes''"
| "password_problem _ = []"

definition HashPassword :: "env \<Rightarrow> string \<Rightarrow> string res go" where
  "HashPassword env plain =
     (case ValidatePassword plain of
        Some e \<Rightarrow> State_Monad.return (Inl e)
      | None \<Rightarrow> do {
          salt \<leftarrow> rand_read;
          State_Monad.return
            (case salt of
               Inl e \<Rightarrow> Inl (Wrapped ''hash password'' e)
             | Inr s \<Rightarrow>
                 (case bcrypt_generate env BcryptCost s plain of
                    None \<Rightarrow> Inl (OtherError ''hash password'')
                  | Some h \<Rightarrow> Inr h)) })"

definition ComparePassword :: "env \<Rightarrow> string \<Rightarrow> string \<Rightarrow> error option" where
  "ComparePassword env hash plain =
     (if bcrypt_matches env hash plain then None else Some ErrPasswordMismatch)"

section \<open>Opaque tokens\<close>

definition HashToken :: "env \<Rightarrow> string \<Rightarrow> string" where
  "HashToken env raw = sha256 env raw"

definition NewOpaqueToken :: "env \<Rightarrow> (string \<times> string) res go" where
  "NewOpaqueToken env = do {
     buf \<leftarrow> rand_read;
     State_Monad.return
       (case buf of
          Inl e \<Rightarrow> Inl (Wrapped ''generate token'' e)
        | Inr b \<Rightarrow> (let raw = base64_url b in Inr (raw, HashToken env raw))) }"

section \<open>Access tokens\<close>

definition AccessTokenTTL :: duration where "AccessTokenTTL = 15 * minute"
definition RefreshTokenTTL :: duration where "RefreshTokenTTL = 30 * 24 * hour"
definition VerificationTokenTTL :: duration where "VerificationTokenTTL = 24 * hour"
definition PasswordResetTTL :: duration where "PasswordResetTTL = 1 * hour"

definition issuer :: string where "issuer = ''waterloostar-backend''"
definition audience :: string where "audience = ''waterloostar-frontend''"

definition access_claims :: "env \<Rightarrow> principal \<Rightarrow> time \<Rightarrow> uuid \<Rightarrow> claims" where
  "access_claims env p now i =
     \<lparr>cl_role = p_role p, cl_verified = p_verified p, cl_subject = uuid_string env (p_user_id p),
      cl_issuer = issuer, cl_audience = [audience], cl_issued_at = now, cl_not_before = now,
      cl_expires_at = now + AccessTokenTTL, cl_id = uuid_string env i\<rparr>"

text \<open>\<open>uuid.NewString\<close> draws from the same source of identifiers as the database.\<close>

definition new_uuid :: "uuid go" where
  "new_uuid = State (\<lambda>w. (uuid_source w (uuids_drawn w), w\<lparr>uuids_drawn := Suc (uuids_drawn w)\<rparr>))"

definition MintAccessToken :: "env \<Rightarrow> principal \<Rightarrow> (string \<times> time) res go" where
  "MintAccessToken env p = do {
     now \<leftarrow> time_now;
     i \<leftarrow> new_uuid;
     State_Monad.return
       (case jwt_sign env (jwt_secret env) (access_claims env p now i) of
          Inl e \<Rightarrow> Inl (Wrapped ''sign access token'' e)
        | Inr token \<Rightarrow> Inr (token, now + AccessTokenTTL)) }"

definition access_options :: jwt_options where
  "access_options =
     \<lparr>jo_methods = [''HS256''], jo_issuer = issuer, jo_audience = audience,
      jo_expiration_required = True, jo_strict_decoding = True\<rparr>"

definition VerifyAccessToken :: "env \<Rightarrow> time \<Rightarrow> string \<Rightarrow> principal res" where
  "VerifyAccessToken env now raw =
     (case jwt_parse env access_options (jwt_secret env) now raw of
        Inl e \<Rightarrow> Inl (if errors_is e ErrTokenExpired then ErrTokenExpired else ErrTokenInvalid)
      | Inr c \<Rightarrow>
          (case uuid_parse env (cl_subject c) of
             None \<Rightarrow> Inl ErrTokenInvalid
           | Some i \<Rightarrow> Inr \<lparr>p_user_id = i, p_role = cl_role c, p_verified = cl_verified c\<rparr>))"

text \<open>
  What is relied on of the JWT and UUID libraries: a token signed with the secret parses back to
  its claims exactly while it is valid, and an identifier parses back from its text.
\<close>

definition jwt_faithful :: "env \<Rightarrow> bool" where
  "jwt_faithful env \<longleftrightarrow>
     (\<forall>c raw now. jwt_sign env (jwt_secret env) c = Inr raw \<longrightarrow>
        cl_issuer c = issuer \<longrightarrow> audience \<in> set (cl_audience c) \<longrightarrow> cl_not_before c \<le> now \<longrightarrow>
        jwt_parse env access_options (jwt_secret env) now raw =
          (if now < cl_expires_at c then Inr c else Inl ErrTokenExpired))"

definition uuid_faithful :: "env \<Rightarrow> bool" where
  "uuid_faithful env \<longleftrightarrow> (\<forall>i. uuid_parse env (uuid_string env i) = Some i)"

section \<open>Cookies\<close>

record cookie =
  ck_name :: string
  ck_value :: string
  ck_path :: string
  ck_expires :: time
  ck_max_age :: int
  ck_http_only :: bool
  ck_secure :: bool
  ck_same_site_lax :: bool

definition SessionCookieName :: string where "SessionCookieName = ''waterloostar_session''"
definition RefreshCookieName :: string where "RefreshCookieName = ''waterloostar_refresh''"
definition CSRFCookieName :: string where "CSRFCookieName = ''waterloostar_csrf''"
definition CSRFHeaderName :: string where "CSRFHeaderName = ''X-CSRF-Token''"
definition refreshPath :: string where "refreshPath = ''/auth''"

definition cookie_base ::
  "env \<Rightarrow> time \<Rightarrow> string \<Rightarrow> string \<Rightarrow> string \<Rightarrow> time \<Rightarrow> bool \<Rightarrow> cookie" where
  "cookie_base env now nm v path expires httpOnly =
     \<lparr>ck_name = nm, ck_value = v, ck_path = path, ck_expires = expires,
      ck_max_age = quot (time_sub expires now) second, ck_http_only = httpOnly,
      ck_secure = (\<not> development env), ck_same_site_lax = True\<rparr>"

definition SessionCookie :: "env \<Rightarrow> time \<Rightarrow> string \<Rightarrow> time \<Rightarrow> cookie" where
  "SessionCookie env now token expires = cookie_base env now SessionCookieName token ''/'' expires True"

definition RefreshCookie :: "env \<Rightarrow> time \<Rightarrow> string \<Rightarrow> time \<Rightarrow> cookie" where
  "RefreshCookie env now token expires = cookie_base env now RefreshCookieName token refreshPath expires True"

definition CSRFCookie :: "env \<Rightarrow> time \<Rightarrow> string \<Rightarrow> time \<Rightarrow> cookie" where
  "CSRFCookie env now token expires = cookie_base env now CSRFCookieName token ''/'' expires False"

definition expired_cookie :: "env \<Rightarrow> time \<Rightarrow> string \<Rightarrow> string \<Rightarrow> bool \<Rightarrow> cookie" where
  "expired_cookie env now nm path httpOnly =
     (cookie_base env now nm [] path 0 httpOnly)\<lparr>ck_max_age := -1\<rparr>"

definition ClearCookies :: "env \<Rightarrow> time \<Rightarrow> cookie list" where
  "ClearCookies env now =
     [expired_cookie env now SessionCookieName ''/'' True,
      expired_cookie env now RefreshCookieName refreshPath True,
      expired_cookie env now CSRFCookieName ''/'' False]"

lemmas auth_constants =
  BcryptCost_def maxPasswordBytes_def minPasswordRunes_def AccessTokenTTL_def RefreshTokenTTL_def
  VerificationTokenTTL_def PasswordResetTTL_def issuer_def audience_def SessionCookieName_def
  RefreshCookieName_def CSRFCookieName_def CSRFHeaderName_def refreshPath_def

section \<open>Facts\<close>

lemma db_inv_new_uuid [keeps_intros]: "keeps (db_inv P) new_uuid"
  by (simp add: keeps_def new_uuid_def)

lemma db_inv_HashPassword [keeps_intros]: "keeps (db_inv P) (HashPassword env plain)"
  unfolding HashPassword_def by (intro keeps_intros)

lemma db_inv_NewOpaqueToken [keeps_intros]: "keeps (db_inv P) (NewOpaqueToken env)"
  unfolding NewOpaqueToken_def by (intro keeps_intros)

lemma db_inv_MintAccessToken [keeps_intros]: "keeps (db_inv P) (MintAccessToken env p)"
  unfolding MintAccessToken_def by (intro keeps_intros)

text \<open>
  A minted token is verified as the principal it was minted for, until it expires and not after.
\<close>

lemma verify_minted:
  assumes "jwt_faithful env" and "uuid_faithful env"
    and "run_state (MintAccessToken env p) w = (Inr (raw, expires), w')" and "clock w \<le> now"
  shows "VerifyAccessToken env now raw = (if now < clock w + AccessTokenTTL then Inr p else Inl ErrTokenExpired)"
    and "expires = clock w + AccessTokenTTL"
proof -
  let ?c = "access_claims env p (clock w) (uuid_source w (uuids_drawn w))"
  have s: "jwt_sign env (jwt_secret env) ?c = Inr raw" and e: "expires = clock w + AccessTokenTTL"
    using assms(3) by (auto simp: MintAccessToken_def new_uuid_def split: sum.splits)
  have "jwt_parse env access_options (jwt_secret env) now raw =
      (if now < cl_expires_at ?c then Inr ?c else Inl ErrTokenExpired)"
    using assms(1,4) s unfolding jwt_faithful_def by (simp add: access_claims_def)
  with assms(2) show "VerifyAccessToken env now raw = (if now < clock w + AccessTokenTTL then Inr p else Inl ErrTokenExpired)"
    by (simp add: VerifyAccessToken_def access_claims_def uuid_faithful_def)
  show "expires = clock w + AccessTokenTTL" by (fact e)
qed

lemma session_cookies_scoped:
  "ck_http_only (SessionCookie env now t e)" "ck_http_only (RefreshCookie env now t e)"
  "\<not> ck_http_only (CSRFCookie env now t e)" "ck_path (RefreshCookie env now t e) = ''/auth''"
  "ck_secure (SessionCookie env now t e) = (\<not> development env)"
  by (simp_all add: SessionCookie_def RefreshCookie_def CSRFCookie_def cookie_base_def refreshPath_def)

end
