(* ===== verification/Email.thy ===== *)
theory Email
  imports AuthLib
begin

text \<open>
  \<open>internal/email/sender.go\<close>: the messages the service sends. A builder takes who, which listing
  and a link; none takes a message's text or an address.
\<close>

section \<open>Message identifiers\<close>

definition MessageID :: "env \<Rightarrow> string \<Rightarrow> string \<Rightarrow> string" where
  "MessageID env kind tokenHash = kind @ ''-'' @ hex_encode (take 16 (sha256 env tokenHash))"

section \<open>Account mail\<close>

definition newline2 :: string where
  "newline2 = [CHR 0x0A, CHR 0x0A]"

definition VerificationMessage :: "string \<Rightarrow> string \<Rightarrow> string \<Rightarrow> mail" where
  "VerificationMessage i to_addr link =
     \<lparr>mail_id = i, mail_to = to_addr, mail_subject = ''Confirm your WaterlooStar account'',
      mail_body =
        ''Welcome to WaterlooStar.'' @ newline2 @
        ''Confirm this address to message posters, save listings and publish your own:'' @ newline2 @
        link @ newline2 @
        ''The link is good for 24 hours. If you did not sign up, ignore this email.''\<rparr>"

definition PasswordResetMessage :: "string \<Rightarrow> string \<Rightarrow> string \<Rightarrow> mail" where
  "PasswordResetMessage i to_addr link =
     \<lparr>mail_id = i, mail_to = to_addr, mail_subject = ''Reset your WaterlooStar password'',
      mail_body =
        ''Someone asked to reset the password for this address.'' @ newline2 @ link @ newline2 @
        ''The link is good for one hour. If it was not you, nothing has changed '' @
        ''and you can ignore this email.''\<rparr>"

section \<open>One line of user-written text\<close>

text \<open>
  \<open>unicode.IsControl\<close> holds of the C0 and C1 controls and DEL, besides the spaces of
  \<open>space_encodings\<close>.
\<close>

definition breaks_line :: "string \<Rightarrow> bool" where
  "breaks_line r \<longleftrightarrow> r \<in> set space_encodings \<or>
     (case r of
        [a] \<Rightarrow> byte a < 32 \<or> byte a = 127
      | [a, b] \<Rightarrow> byte a = 194 \<and> between 128 159 (byte b)
      | _ \<Rightarrow> False)"

text \<open>\<open>strings.FieldsFunc\<close> on the runes of a string.\<close>

fun fields :: "string list \<Rightarrow> string list" where
  "fields [] = []"
| "fields (r # rs) =
     (if breaks_line r then fields rs
      else (case rs of
              [] \<Rightarrow> [r]
            | r' # _ \<Rightarrow> if breaks_line r' then r # fields rs
                        else (case fields rs of [] \<Rightarrow> [r] | f # fs \<Rightarrow> (r @ f) # fs)))"

fun join :: "string \<Rightarrow> string list \<Rightarrow> string" where
  "join sep [] = []"
| "join sep [s] = s"
| "join sep (s # t # ss) = s @ sep @ join sep (t # ss)"

definition oneLine :: "string \<Rightarrow> nat \<Rightarrow> string" where
  "oneLine s limit =
     (let s = join '' '' (fields (runes s))
      in if int limit < rune_count s then trim_space (take_runes (limit - 1) s) @ ellipsis else s)"

definition maxTitleInEmail :: nat where "maxTitleInEmail = 80"
definition maxUsernameInEmail :: nat where "maxUsernameInEmail = 32"

section \<open>Notifications\<close>

definition notificationFooter :: string where
  "notificationFooter = newline2 @
     ''You get these emails because you have a WaterlooStar account. '' @
     ''To stop them, turn off email notifications in your account settings on WaterlooStar. '' @
     ''Your messages stay in your inbox there either way.''"

definition ConversationOpenedMessage :: "string \<Rightarrow> string \<Rightarrow> string \<Rightarrow> string \<Rightarrow> string \<Rightarrow> mail" where
  "ConversationOpenedMessage i to_addr sender listingTitle link =
     (let sender = oneLine sender maxUsernameInEmail; title = oneLine listingTitle maxTitleInEmail
      in \<lparr>mail_id = i, mail_to = to_addr, mail_subject = sender @ '' wants to talk about '' @ title,
          mail_body =
            sender @ '' sent you a message on WaterlooStar about your listing '' @ dquote @ title @
            dquote @ ''.'' @ newline2 @ ''Read it and reply here:'' @ newline2 @ link @ newline2 @
            ''The message is not in this email. Your email address is not shown to '' @ sender @
            ''.'' @ notificationFooter\<rparr>)"

definition OfferConversationMessage :: "string \<Rightarrow> string \<Rightarrow> string \<Rightarrow> string \<Rightarrow> string \<Rightarrow> mail" where
  "OfferConversationMessage i to_addr sender listingTitle link =
     (let sender = oneLine sender maxUsernameInEmail; title = oneLine listingTitle maxTitleInEmail
      in \<lparr>mail_id = i, mail_to = to_addr, mail_subject = sender @ '' offered you '' @ title,
          mail_body =
            sender @ '' answered your housing request on WaterlooStar with a place: '' @ dquote @
            title @ dquote @ ''.'' @ newline2 @ ''See the offer and reply here:'' @ newline2 @ link @
            newline2 @ ''Replying is how you answer an offer. Your email address is not shown to '' @
            sender @ ''.'' @ notificationFooter\<rparr>)"

definition AddressSharedMessage :: "string \<Rightarrow> string \<Rightarrow> string \<Rightarrow> string \<Rightarrow> string \<Rightarrow> mail" where
  "AddressSharedMessage i to_addr sender listingTitle link =
     (let sender = oneLine sender maxUsernameInEmail; title = oneLine listingTitle maxTitleInEmail
      in \<lparr>mail_id = i, mail_to = to_addr, mail_subject = sender @ '' shared the address of '' @ title,
          mail_body =
            sender @ '' shared the exact address of '' @ dquote @ title @ dquote @
            '' with you on WaterlooStar.'' @ newline2 @
            ''It is in your conversation, not in this email:'' @ newline2 @ link @
            notificationFooter\<rparr>)"

definition ReplyWaitingMessage :: "string \<Rightarrow> string \<Rightarrow> string \<Rightarrow> string \<Rightarrow> string \<Rightarrow> mail" where
  "ReplyWaitingMessage i to_addr sender listingTitle link =
     (let sender = oneLine sender maxUsernameInEmail; title = oneLine listingTitle maxTitleInEmail
      in \<lparr>mail_id = i, mail_to = to_addr, mail_subject = sender @ '' replied about '' @ title,
          mail_body =
            sender @ '' replied in your WaterlooStar conversation about '' @ dquote @ title @ dquote @
            ''.'' @ newline2 @ ''Read it here:'' @ newline2 @ link @ newline2 @
            ''The reply is not in this email. You will not get another email about this '' @
            ''conversation until you have read it.'' @ notificationFooter\<rparr>)"

lemmas mail_builders =
  VerificationMessage_def PasswordResetMessage_def ConversationOpenedMessage_def
  OfferConversationMessage_def AddressSharedMessage_def ReplyWaitingMessage_def

end
