(* ===== verification/Policy.thy ===== *)
theory Policy
  imports RateLimit
begin

text \<open>
  The service's limits, \<open>internal/ratelimit/policy.go\<close>: one rule per constant, with the burst and
  the window the code gives it, and the key a service-wide backstop uses.
\<close>

definition mk_rule :: "string \<Rightarrow> int \<Rightarrow> duration \<Rightarrow> rule" where
  "mk_rule n b w = \<lparr>rule_name = n, rule_burst = b, rule_window = w\<rparr>"

definition LoginPerEmail :: rule where
  "LoginPerEmail = mk_rule ''login_per_email'' 5 (15 * minute)"

definition LoginGlobal :: rule where
  "LoginGlobal = mk_rule ''login_global'' 60 minute"

definition RegisterPerEmail :: rule where
  "RegisterPerEmail = mk_rule ''register_per_email'' 3 hour"

definition RegisterGlobal :: rule where
  "RegisterGlobal = mk_rule ''register_global'' 30 (10 * minute)"

definition ResetRequestPerEmail :: rule where
  "ResetRequestPerEmail = mk_rule ''reset_request_per_email'' 3 hour"

definition ResetRequestGlobal :: rule where
  "ResetRequestGlobal = mk_rule ''reset_request_global'' 30 hour"

definition ResendPerEmail :: rule where
  "ResendPerEmail = mk_rule ''resend_per_email'' 3 hour"

definition ResendGlobal :: rule where
  "ResendGlobal = mk_rule ''resend_global'' 30 hour"

definition TokenPerToken :: rule where
  "TokenPerToken = mk_rule ''token_per_token'' 10 hour"

definition TokenGlobal :: rule where
  "TokenGlobal = mk_rule ''token_global'' 60 (10 * minute)"

definition WritePerUser :: rule where
  "WritePerUser = mk_rule ''write_per_user'' 30 hour"

definition ConversationStartPerUser :: rule where
  "ConversationStartPerUser = mk_rule ''conversation_start_per_user'' 10 (2 * hour)"

definition MessagePerUser :: rule where
  "MessagePerUser = mk_rule ''message_per_user'' 60 (10 * minute)"

definition ShareAddressPerUser :: rule where
  "ShareAddressPerUser = mk_rule ''share_address_per_user'' 20 hour"

definition PreferencesPerUser :: rule where
  "PreferencesPerUser = mk_rule ''preferences_per_user'' 20 hour"

definition NotifyPerRecipient :: rule where
  "NotifyPerRecipient = mk_rule ''notify_per_recipient'' 20 (24 * hour)"

definition NotifyGlobal :: rule where
  "NotifyGlobal = mk_rule ''notify_global'' 30 (24 * hour)"

definition GlobalKey :: "rule \<Rightarrow> string" where
  "GlobalKey r = ''global:'' @ rule_name r"

definition all_rules :: "rule list" where
  "all_rules =
     [LoginPerEmail, LoginGlobal, RegisterPerEmail, RegisterGlobal, ResetRequestPerEmail,
      ResetRequestGlobal, ResendPerEmail, ResendGlobal, TokenPerToken, TokenGlobal, WritePerUser,
      ConversationStartPerUser, MessagePerUser, ShareAddressPerUser, PreferencesPerUser,
      NotifyPerRecipient, NotifyGlobal]"

lemmas time_units = second_def minute_def hour_def

lemmas policy_defs =
  LoginPerEmail_def LoginGlobal_def RegisterPerEmail_def RegisterGlobal_def
  ResetRequestPerEmail_def ResetRequestGlobal_def ResendPerEmail_def ResendGlobal_def
  TokenPerToken_def TokenGlobal_def WritePerUser_def ConversationStartPerUser_def
  MessagePerUser_def ShareAddressPerUser_def PreferencesPerUser_def NotifyPerRecipient_def
  NotifyGlobal_def mk_rule_def

text \<open>
  The service-wide backstops have keys of their own: no two rules share one, and none is a key
  that a per-caller limit of another rule would use.
\<close>

lemma global_keys_distinct: "distinct (map GlobalKey all_rules)"
  by (simp add: all_rules_def GlobalKey_def policy_defs)

end
