(* ===== verification/RateLimitMw.thy ===== *)
theory RateLimitMw
  imports Http Policy
begin

text \<open>
  \<open>internal/httpapi/ratelimit_mw.go\<close> and \<open>apierror.TooManyRequests\<close>: which routes are limited, what
  a request is keyed on, and what is refused before the handler runs. The handler is the
  continuation the middleware calls as \<open>c.Next()\<close>.
\<close>

section \<open>Requests\<close>

text \<open>
  \<open>hr_full_path\<close> is the pattern of the route the request matched. \<open>hr_body\<close> holds the members of
  the body in order when the whole body is one JSON object, and nothing otherwise.
\<close>

record http_request =
  hr_method :: string
  hr_full_path :: string
  hr_path :: string
  hr_headers :: "(string \<times> string) list"
  hr_cookies :: "(string \<times> string) list"
  hr_body :: "(string \<times> json) list option"

definition GetHeader :: "http_request \<Rightarrow> string \<Rightarrow> string" where
  "GetHeader req nm = (case map_of (hr_headers req) nm of None \<Rightarrow> [] | Some v \<Rightarrow> v)"

text \<open>Unmarshalling into a \<open>map[string]any\<close>: the names are exact and the last duplicate wins.\<close>

definition bodyField :: "http_request \<Rightarrow> string \<Rightarrow> string option" where
  "bodyField req field =
     (case hr_body req of
        None \<Rightarrow> None
      | Some members \<Rightarrow>
          (case map_of (rev members) field of Some (JString v) \<Rightarrow> Some v | _ \<Rightarrow> None))"

text \<open>
  Unmarshalling into a string field of a struct, which is what the generated handler does with the
  same body: a member's name matches the field's up to case.
\<close>

definition struct_field :: "http_request \<Rightarrow> string \<Rightarrow> string option" where
  "struct_field req field =
     (case hr_body req of
        None \<Rightarrow> None
      | Some members \<Rightarrow>
          (case map_of (rev (filter (\<lambda>(k, v). v \<noteq> JNull) (map (\<lambda>(k, v). (to_lower k, v)) members))) field of
             Some (JString v) \<Rightarrow> Some v | _ \<Rightarrow> None))"

section \<open>The allowlist\<close>

datatype limitKind = keyByEmail | keyByToken | keyByUser

record limitedRoute =
  lr_method :: string
  lr_path :: string
  lr_kind :: limitKind
  lr_perKey :: rule
  lr_global :: rule
  lr_chargeOnFailureOnly :: bool
  lr_message :: string

definition no_rule :: rule where
  "no_rule = mk_rule [] 0 0"

definition by_email :: "string \<Rightarrow> rule \<Rightarrow> rule \<Rightarrow> bool \<Rightarrow> string \<Rightarrow> limitedRoute" where
  "by_email path perKey global failureOnly msg =
     \<lparr>lr_method = ''POST'', lr_path = path, lr_kind = keyByEmail, lr_perKey = perKey,
      lr_global = global, lr_chargeOnFailureOnly = failureOnly, lr_message = msg\<rparr>"

definition by_token :: "string \<Rightarrow> limitedRoute" where
  "by_token path =
     \<lparr>lr_method = ''POST'', lr_path = path, lr_kind = keyByToken, lr_perKey = TokenPerToken,
      lr_global = TokenGlobal, lr_chargeOnFailureOnly = False,
      lr_message = ''Too many attempts with that link. Try again in %s.''\<rparr>"

definition by_user :: "string \<Rightarrow> string \<Rightarrow> rule \<Rightarrow> string \<Rightarrow> limitedRoute" where
  "by_user meth path perKey msg =
     \<lparr>lr_method = meth, lr_path = path, lr_kind = keyByUser, lr_perKey = perKey,
      lr_global = no_rule, lr_chargeOnFailureOnly = False, lr_message = msg\<rparr>"

definition limitedRoutes :: "limitedRoute list" where
  "limitedRoutes =
     [by_email ''/auth/login'' LoginPerEmail LoginGlobal True
        ''Too many sign-in attempts for that address. Try again in %s.'',
      by_email ''/auth/register'' RegisterPerEmail RegisterGlobal False
        ''Too many sign-up attempts. Try again in %s.'',
      by_email ''/auth/password-reset'' ResetRequestPerEmail ResetRequestGlobal False
        ''A reset link has already been requested for that address. Try again in %s.'',
      by_email ''/auth/verify/resend'' ResendPerEmail ResendGlobal False
        ''A new link has already been requested for that address. Try again in %s.'',
      by_token ''/auth/password-reset/confirm'',
      by_token ''/auth/verify'',
      by_user ''POST'' ''/listings'' WritePerUser
        ''You have posted a lot in a short time. Try again in %s.'',
      by_user ''POST'' ''/requests'' WritePerUser
        ''You have posted a lot in a short time. Try again in %s.'',
      by_user ''POST'' ''/requests/:id/offers'' WritePerUser
        ''You have sent a lot of offers in a short time. Try again in %s.'',
      by_user ''POST'' ''/listings/:id/conversations'' ConversationStartPerUser
        ''You have messaged a lot of owners in a short time. Try again in %s.'',
      by_user ''POST'' ''/conversations/:id/messages'' MessagePerUser
        ''You are sending messages very quickly. Try again in %s.'',
      by_user ''POST'' ''/conversations/:id/share-address'' ShareAddressPerUser
        ''You have shared your address a lot in a short time. Try again in %s.'',
      by_user ''PATCH'' ''/me/preferences'' PreferencesPerUser
        ''You have changed your settings a lot in a short time. Try again in %s.'']"

definition matchRoute :: "http_request \<Rightarrow> limitedRoute option" where
  "matchRoute req =
     List.find (\<lambda>r. lr_method r = hr_method req \<and> lr_path r = hr_full_path req) limitedRoutes"

definition routeIdentity :: "env \<Rightarrow> http_request \<Rightarrow> request_ctx \<Rightarrow> limitedRoute \<Rightarrow> string option" where
  "routeIdentity env req ctx route =
     (case lr_kind route of
        keyByEmail \<Rightarrow>
          (case bodyField req ''email'' of
             None \<Rightarrow> None
           | Some addr \<Rightarrow> Some (to_lower (trim_space addr)))
      | keyByToken \<Rightarrow>
          (case bodyField req ''token'' of
             None \<Rightarrow> None
           | Some raw \<Rightarrow>
               (let token = trim_space raw
                in if token = [] then None else Some (hex_encode (take 8 (sha256 env token)))))
      | keyByUser \<Rightarrow>
          (case PrincipalFrom ctx of
             None \<Rightarrow> None
           | Some p \<Rightarrow> Some (uuid_string env (p_user_id p))))"

section \<open>The refusal\<close>

text \<open>\<open>time.Duration.Round\<close>, half away from zero, for the non-negative waits the limiter gives.\<close>

definition round_to :: "duration \<Rightarrow> duration \<Rightarrow> duration" where
  "round_to d m = (let r = d mod m in if r + r < m then d - r else d + (m - r))"

definition humanWait :: "duration \<Rightarrow> string" where
  "humanWait d =
     (if d < minute then
        (let seconds = round_to d second div second
         in if seconds \<le> 1 then ''a moment'' else itoa seconds @ '' seconds'')
      else if d < hour then
        (let minutes = round_to d minute div minute
         in if minutes \<le> 1 then ''a minute'' else itoa minutes @ '' minutes'')
      else
        (let hours = round_to d hour div hour
         in if hours \<le> 1 then ''an hour'' else itoa hours @ '' hours''))"

text \<open>\<open>time.Duration.Seconds\<close>.\<close>

definition dur_seconds :: "duration \<Rightarrow> rat" where
  "dur_seconds d = fl (of_int (d div second) + fl (of_int (d mod second) / 1000000000))"

definition TooManyRequests :: "string \<Rightarrow> duration \<Rightarrow> 'b reply" where
  "TooManyRequests msg retryAfter =
     (let seconds = \<lceil>dur_seconds retryAfter\<rceil>;
          seconds = (if seconds < 1 then 1 else seconds)
      in Refuse 429 ((errorBody CodeRateLimited msg)\<lparr>e_retry_after := Some seconds\<rparr>))"

definition refuse_route :: "limitedRoute \<Rightarrow> duration \<Rightarrow> 'b reply" where
  "refuse_route route retryAfter =
     TooManyRequests (sprintf_s (lr_message route) (humanWait retryAfter)) retryAfter"

section \<open>The middleware\<close>

definition limiter_key :: "http_request \<Rightarrow> limitedRoute \<Rightarrow> string \<Rightarrow> string" where
  "limiter_key req route identity =
     (let key = rule_name (lr_perKey route) @ '':'' @ identity;
          ip = trim_space (GetHeader req ''X-Client-IP'')
      in if ip \<noteq> [] then key @ ''|'' @ ip else key)"

definition limit_identity ::
  "http_request \<Rightarrow> request_ctx \<Rightarrow> limitedRoute \<Rightarrow> string \<Rightarrow> (request_ctx \<Rightarrow> 'b handler) \<Rightarrow> 'b handler" where
  "limit_identity req ctx route identity next_handler =
     (if identity = [] then next_handler ctx
      else let key = limiter_key req route identity in
      if lr_chargeOnFailureOnly route then do {
        d \<leftarrow> consulting (Peek (lr_perKey route) key);
        if \<not> ok d then State_Monad.return (refuse_route route (retry_after d))
        else next_handler (ctx\<lparr>ctx_login_key := key\<rparr>) }
      else do {
        d \<leftarrow> consulting (Allow (lr_perKey route) key);
        if \<not> ok d then State_Monad.return (refuse_route route (retry_after d))
        else next_handler ctx })"

definition RateLimit :: "env \<Rightarrow> http_request \<Rightarrow> request_ctx \<Rightarrow> (request_ctx \<Rightarrow> 'b handler) \<Rightarrow> 'b handler" where
  "RateLimit env req ctx next_handler =
     (case matchRoute req of
        None \<Rightarrow> next_handler ctx
      | Some route \<Rightarrow>
          (let identity = (case routeIdentity env req ctx route of None \<Rightarrow> [] | Some i \<Rightarrow> i)
           in if 0 < rule_burst (lr_global route) then do {
                d \<leftarrow> consulting (Allow (lr_global route) (GlobalKey (lr_global route)));
                if \<not> ok d then State_Monad.return (refuse_route route (retry_after d))
                else limit_identity req ctx route identity next_handler }
              else limit_identity req ctx route identity next_handler))"

definition chargeFailedLogin :: "request_ctx \<Rightarrow> unit go" where
  "chargeFailedLogin ctx =
     (if ctx_login_key ctx = [] then State_Monad.return ()
      else do {
        d \<leftarrow> consulting (Spend LoginPerEmail (ctx_login_key ctx));
        State_Monad.return () })"

end
