(* ===== verification/Auth.thy ===== *)
theory Auth
  imports Email RateLimitMw
begin

text \<open>
  \<open>internal/httpapi/auth.go\<close> and \<open>me.go\<close>: registration, verification, login, sessions, password
  reset and the signed-in user's own record. Each handler is the Go method with its early returns;
  logging is left out.
\<close>

section \<open>Registration\<close>

definition uwaterlooSuffix :: string where "uwaterlooSuffix = ''uwaterloo.ca''"

definition username_char :: "char \<Rightarrow> bool" where
  "username_char c \<longleftrightarrow> between 65 90 (byte c) \<or> between 97 122 (byte c) \<or> between 48 57 (byte c) \<or>
     c \<in> set ''_.-''"

text \<open>\<open>^[A-Za-z0-9_.-]{3,32}$\<close>\<close>

definition usernamePattern :: "string \<Rightarrow> bool" where
  "usernamePattern s \<longleftrightarrow> 3 \<le> length s \<and> length s \<le> 32 \<and> list_all username_char s"

definition isUWaterlooDomain :: "string \<Rightarrow> bool" where
  "isUWaterlooDomain domain =
     (let d = to_lower (trim_suffix domain ''.'')
      in d = uwaterlooSuffix \<or> has_suffix d (''.'' @ uwaterlooSuffix))"

definition validateRegistration :: "string \<Rightarrow> string \<Rightarrow> string \<Rightarrow> (string \<times> string) list" where
  "validateRegistration emailAddr username password =
     (let pos = last_index emailAddr (CHR ''@'') in
      if pos \<le> 0 \<or> pos = int (length emailAddr) - 1
      then [(''email'', ''Enter a valid email address.'')]
      else if \<not> isUWaterlooDomain (drop (nat (pos + 1)) emailAddr)
      then [(''email'', ''Use your University of Waterloo address, ending in uwaterloo.ca.'')]
      else []) @
     (if \<not> usernamePattern username
      then [(''username'', ''3 to 32 characters: letters, numbers, dot, dash or underscore.'')]
      else []) @
     (case ValidatePassword password of
        None \<Rightarrow> []
      | Some e \<Rightarrow> [(''password'', password_problem e)])"

definition issueVerificationEmail :: "env \<Rightarrow> user \<Rightarrow> unit res go" where
  "issueVerificationEmail env user = do {
     r \<leftarrow> ConsumeAllEmailVerificationTokensForUser (u_id user);
     case r of
       Inl e \<Rightarrow> State_Monad.return (Inl (Wrapped ''consume previous tokens'' e))
     | Inr _ \<Rightarrow> do {
         t \<leftarrow> NewOpaqueToken env;
         case t of
           Inl e \<Rightarrow> State_Monad.return (Inl e)
         | Inr (raw, hash) \<Rightarrow> do {
             now \<leftarrow> time_now;
             c \<leftarrow> CreateEmailVerificationToken hash (u_id user) (now + VerificationTokenTTL);
             case c of
               Inl e \<Rightarrow> State_Monad.return (Inl (Wrapped ''store verification token'' e))
             | Inr _ \<Rightarrow>
                 send_mail (VerificationMessage (MessageID env ''verify'' hash) (u_email user)
                   (app_url env @ ''/verify/'' @ path_escape raw)) } } }"

record register_request =
  rr_email :: string
  rr_username :: string
  rr_password :: string

record registered =
  rg_user :: user_view
  rg_verification_required :: bool

definition Register :: "env \<Rightarrow> register_request option \<Rightarrow> registered handler" where
  "Register env body =
     (case body of
        None \<Rightarrow> refuse 400 CodeBadRequest ''A JSON body is required.''
      | Some b \<Rightarrow>
          (let emailAddr = trim_space (rr_email b);
               username = trim_space (rr_username b);
               password = rr_password b;
               problems = validateRegistration emailAddr username password
           in if problems \<noteq> [] then
                refuse_with 400 CodeValidation ''Check the highlighted fields.'' problems
              else do {
                counts \<leftarrow> CountUsersByEmailOrUsername emailAddr username;
                case counts of
                  Inl e \<Rightarrow> fail e
                | Inr (emails, usernames) \<Rightarrow>
                    if 0 < emails \<or> 0 < usernames then
                      refuse 409 CodeConflict ''That email address or username is already taken.''
                    else do {
                      h \<leftarrow> HashPassword env password;
                      case h of
                        Inl e \<Rightarrow> fail e
                      | Inr hash \<Rightarrow> do {
                          created \<leftarrow> CreateUser emailAddr username hash;
                          case created of
                            Inl e \<Rightarrow>
                              if isUniqueViolation e then
                                refuse 409 CodeConflict
                                  ''That email address or username is already taken.''
                              else fail e
                          | Inr user \<Rightarrow> do {
                              sent \<leftarrow> issueVerificationEmail env user;
                              answer 201 \<lparr>rg_user = toUser user True,
                                          rg_verification_required = True\<rparr> } } } }))"

section \<open>Verification\<close>

definition VerifyEmail :: "env \<Rightarrow> string option \<Rightarrow> user_view handler" where
  "VerifyEmail env body =
     (case body of
        None \<Rightarrow> refuse 400 CodeBadRequest ''A verification token is required.''
      | Some raw \<Rightarrow>
          if trim_space raw = [] then
            refuse 400 CodeBadRequest ''A verification token is required.''
          else do {
            found \<leftarrow> GetLiveEmailVerificationToken (HashToken env raw);
            case found of
              Inl e \<Rightarrow>
                if errors_is e ErrNoRows then
                  refuse 400 CodeBadRequest
                    ''That confirmation link is invalid or has expired. Request a new one.''
                else fail e
            | Inr token \<Rightarrow> do {
                consumed \<leftarrow> ConsumeEmailVerificationToken (mt_token_hash token);
                case consumed of
                  Inl e \<Rightarrow> fail e
                | Inr _ \<Rightarrow> do {
                    marked \<leftarrow> MarkUserVerified (mt_user_id token);
                    case marked of
                      Inl e \<Rightarrow> fail e
                    | Inr user \<Rightarrow> answer 200 (toUser user True) } } })"

definition ResendVerification :: "env \<Rightarrow> string option \<Rightarrow> unit handler" where
  "ResendVerification env body =
     (case body of
        None \<Rightarrow> refuse 400 CodeBadRequest ''An email address is required.''
      | Some addr \<Rightarrow>
          if trim_space addr = [] then refuse 400 CodeBadRequest ''An email address is required.''
          else do {
            found \<leftarrow> GetUserByEmail (trim_space addr);
            case found of
              Inl e \<Rightarrow> if errors_is e ErrNoRows then answer 202 () else fail e
            | Inr user \<Rightarrow>
                if u_verified user then answer 202 ()
                else if u_suspended_at user \<noteq> None then answer 202 ()
                else do {
                  sent \<leftarrow> issueVerificationEmail env user;
                  answer 202 () } })"

section \<open>Login and sessions\<close>

definition startSession :: "env \<Rightarrow> user \<Rightarrow> string \<Rightarrow> cookie list res go" where
  "startSession env user userAgent = do {
     minted \<leftarrow> MintAccessToken env
       \<lparr>p_user_id = u_id user, p_role = u_role user, p_verified = u_verified user\<rparr>;
     case minted of
       Inl e \<Rightarrow> State_Monad.return (Inl e)
     | Inr (access, accessExpires) \<Rightarrow> do {
         t \<leftarrow> NewOpaqueToken env;
         case t of
           Inl e \<Rightarrow> State_Monad.return (Inl e)
         | Inr (refreshRaw, refreshHash) \<Rightarrow> do {
             now \<leftarrow> time_now;
             stored \<leftarrow> CreateRefreshToken refreshHash (u_id user) (now + RefreshTokenTTL) (Some userAgent);
             case stored of
               Inl e \<Rightarrow> State_Monad.return (Inl (Wrapped ''store refresh token'' e))
             | Inr _ \<Rightarrow> do {
                 c \<leftarrow> NewOpaqueToken env;
                 case c of
                   Inl e \<Rightarrow> State_Monad.return (Inl e)
                 | Inr (csrfRaw, _) \<Rightarrow>
                     State_Monad.return (Inr
                       [SessionCookie env now access accessExpires,
                        RefreshCookie env now refreshRaw (now + RefreshTokenTTL),
                        CSRFCookie env now csrfRaw (now + RefreshTokenTTL)]) } } } }"

definition invalidCredentials :: "'b reply" where
  "invalidCredentials =
     Refuse 401 (errorBody CodeUnauthorized ''That email address and password do not match.'')"

record credentials =
  cr_email :: string
  cr_password :: string

text \<open>A response carrying the user and the cookies that go with it.\<close>

record session_view =
  sv_user :: user_view
  sv_cookies :: "cookie list"

definition Login :: "env \<Rightarrow> request_ctx \<Rightarrow> credentials option \<Rightarrow> session_view handler" where
  "Login env ctx body =
     (case body of
        None \<Rightarrow> refuse 400 CodeBadRequest ''A JSON body is required.''
      | Some b \<Rightarrow> do {
          found \<leftarrow> GetUserByEmail (trim_space (cr_email b));
          case found of
            Inl e \<Rightarrow>
              if errors_is e ErrNoRows then do {
                chargeFailedLogin ctx;
                State_Monad.return invalidCredentials }
              else fail e
          | Inr user \<Rightarrow>
              (case ComparePassword env (u_password_hash user) (cr_password b) of
                 Some _ \<Rightarrow> do {
                   chargeFailedLogin ctx;
                   State_Monad.return invalidCredentials }
               | None \<Rightarrow>
                   if u_suspended_at user \<noteq> None then
                     refuse 403 CodeForbidden
                       ''This account is suspended. If you think that's a mistake, contact the site's operators.''
                   else do {
                     s \<leftarrow> startSession env user (ctx_user_agent ctx);
                     case s of
                       Inl e \<Rightarrow> fail e
                     | Inr cookies \<Rightarrow>
                         answer 200 \<lparr>sv_user = toUser user True, sv_cookies = cookies\<rparr> }) })"

definition RefreshSession :: "env \<Rightarrow> request_ctx \<Rightarrow> session_view handler" where
  "RefreshSession env ctx =
     (let raw = ctx_refresh ctx in
      if raw = [] then refuse 401 CodeUnauthorized ''No session to refresh.''
      else do {
        found \<leftarrow> GetLiveRefreshToken (HashToken env raw);
        case found of
          Inl e \<Rightarrow>
            if errors_is e ErrNoRows then
              refuse 401 CodeUnauthorized ''That session has expired. Log in again.''
            else fail e
        | Inr token \<Rightarrow> do {
            loaded \<leftarrow> GetUserByID (rt_user_id token);
            case loaded of
              Inl e \<Rightarrow> fail e
            | Inr user \<Rightarrow>
                if u_suspended_at user \<noteq> None then do {
                  revoked \<leftarrow> RevokeRefreshToken (rt_token_hash token);
                  case revoked of
                    Inl e \<Rightarrow> fail e
                  | Inr _ \<Rightarrow> refuse 401 CodeUnauthorized ''This account is suspended.'' }
                else do {
                  revoked \<leftarrow> RevokeRefreshToken (rt_token_hash token);
                  case revoked of
                    Inl e \<Rightarrow> fail e
                  | Inr _ \<Rightarrow> do {
                      s \<leftarrow> startSession env user (ctx_user_agent ctx);
                      case s of
                        Inl e \<Rightarrow> fail e
                      | Inr cookies \<Rightarrow>
                          answer 200 \<lparr>sv_user = toUser user True, sv_cookies = cookies\<rparr> } } } })"

definition Logout :: "env \<Rightarrow> request_ctx \<Rightarrow> cookie list handler" where
  "Logout env ctx = do {
     revoked \<leftarrow> (if ctx_refresh ctx \<noteq> [] then RevokeRefreshToken (HashToken env (ctx_refresh ctx))
                 else State_Monad.return (Inr ()));
     now \<leftarrow> time_now;
     answer 204 (ClearCookies env now) }"

section \<open>Password reset\<close>

definition issuePasswordResetEmail :: "env \<Rightarrow> user \<Rightarrow> unit res go" where
  "issuePasswordResetEmail env user = do {
     r \<leftarrow> ConsumeAllPasswordResetTokensForUser (u_id user);
     case r of
       Inl e \<Rightarrow> State_Monad.return (Inl (Wrapped ''consume previous reset tokens'' e))
     | Inr _ \<Rightarrow> do {
         t \<leftarrow> NewOpaqueToken env;
         case t of
           Inl e \<Rightarrow> State_Monad.return (Inl e)
         | Inr (raw, hash) \<Rightarrow> do {
             now \<leftarrow> time_now;
             c \<leftarrow> CreatePasswordResetToken hash (u_id user) (now + PasswordResetTTL);
             case c of
               Inl e \<Rightarrow> State_Monad.return (Inl (Wrapped ''store reset token'' e))
             | Inr _ \<Rightarrow>
                 send_mail (PasswordResetMessage (MessageID env ''reset'' hash) (u_email user)
                   (app_url env @ ''/password-reset/'' @ path_escape raw)) } } }"

definition RequestPasswordReset :: "env \<Rightarrow> string option \<Rightarrow> unit handler" where
  "RequestPasswordReset env body =
     (case body of
        None \<Rightarrow> refuse 400 CodeBadRequest ''An email address is required.''
      | Some addr \<Rightarrow> do {
          found \<leftarrow> GetUserByEmail (trim_space addr);
          case found of
            Inl e \<Rightarrow> if errors_is e ErrNoRows then answer 202 () else fail e
          | Inr user \<Rightarrow> do {
              sent \<leftarrow> issuePasswordResetEmail env user;
              answer 202 () } })"

record reset_confirmation =
  rc_token :: string
  rc_password :: string

definition ConfirmPasswordReset :: "env \<Rightarrow> reset_confirmation option \<Rightarrow> unit handler" where
  "ConfirmPasswordReset env body =
     (case body of
        None \<Rightarrow> refuse 400 CodeBadRequest ''A reset token is required.''
      | Some b \<Rightarrow>
          if trim_space (rc_token b) = [] then refuse 400 CodeBadRequest ''A reset token is required.''
          else
            (case ValidatePassword (rc_password b) of
               Some e \<Rightarrow>
                 refuse_with 400 CodeValidation ''Check the highlighted fields.''
                   [(''password'', password_problem e)]
             | None \<Rightarrow> do {
                 found \<leftarrow> GetLivePasswordResetToken (HashToken env (rc_token b));
                 case found of
                   Inl e \<Rightarrow>
                     if errors_is e ErrNoRows then
                       refuse 400 CodeBadRequest
                         ''That reset link is invalid or has expired. Request a new one.''
                     else fail e
                 | Inr token \<Rightarrow> do {
                     h \<leftarrow> HashPassword env (rc_password b);
                     case h of
                       Inl e \<Rightarrow> fail e
                     | Inr hash \<Rightarrow> do {
                         updated \<leftarrow> UpdateUserPassword (mt_user_id token) hash;
                         case updated of
                           Inl e \<Rightarrow> fail e
                         | Inr _ \<Rightarrow> do {
                             consumed \<leftarrow> ConsumePasswordResetToken (mt_token_hash token);
                             case consumed of
                               Inl e \<Rightarrow> fail e
                             | Inr _ \<Rightarrow> do {
                                 revoked \<leftarrow> RevokeAllRefreshTokensForUser (mt_user_id token);
                                 case revoked of
                                   Inl e \<Rightarrow> fail e
                                 | Inr _ \<Rightarrow> answer 204 () } } } } }))"

section \<open>The signed-in user\<close>

definition GetMe :: "request_ctx \<Rightarrow> user_view handler" where
  "GetMe ctx =
     (case PrincipalFrom ctx of
        None \<Rightarrow> refuse 401 CodeUnauthorized ''Log in to continue.''
      | Some p \<Rightarrow> do {
          found \<leftarrow> GetUserByID (p_user_id p);
          case found of
            Inl e \<Rightarrow>
              if errors_is e ErrNoRows then
                refuse 401 CodeUnauthorized ''That account no longer exists.''
              else fail e
          | Inr user \<Rightarrow> answer 200 (toUser user True) })"

text \<open>The body is a JSON object whose one field may be absent.\<close>

definition UpdateMyPreferences :: "request_ctx \<Rightarrow> bool option option \<Rightarrow> user_view handler" where
  "UpdateMyPreferences ctx body =
     (case PrincipalFrom ctx of
        None \<Rightarrow> refuse 401 CodeUnauthorized ''Log in to change your settings.''
      | Some p \<Rightarrow>
          (case body of
             None \<Rightarrow> refuse 400 CodeBadRequest ''A JSON body is required.''
           | Some want \<Rightarrow> do {
               found \<leftarrow> GetUserByID (p_user_id p);
               case found of
                 Inl e \<Rightarrow>
                   if errors_is e ErrNoRows then
                     refuse 401 CodeUnauthorized ''That account no longer exists.''
                   else fail e
               | Inr user \<Rightarrow>
                   (case want of
                      None \<Rightarrow> answer 200 (toUser user True)
                    | Some b \<Rightarrow>
                        if b = u_email_notifications user then answer 200 (toUser user True)
                        else do {
                          r \<leftarrow> SetEmailNotifications b (p_user_id p);
                          case r of
                            Inl e \<Rightarrow> fail e
                          | Inr after \<Rightarrow> answer 200 (toUser after True) }) }))"

end
