(* ===== verification/Sample.thy ===== *)
theory Sample
  imports Auth
begin

text \<open>
  A concrete server and a concrete world at which theorems with hypotheses are applied: two
  verified students and an admin, a published listing of the first, a housing request of the second,
  a conversation between them about the listing with one message, and a live session and reset link.
\<close>

section \<open>A server\<close>

definition sample_claims :: claims where
  "sample_claims = \<lparr>cl_role = ''user'', cl_verified = True, cl_subject = ''u1'', cl_issuer = issuer,
     cl_audience = [audience], cl_issued_at = 0, cl_not_before = 0, cl_expires_at = AccessTokenTTL,
     cl_id = ''u100''\<rparr>"

definition sample_env :: env where
  "sample_env =
     \<lparr>app_url = ''https://w.example'', development = False, jwt_secret = ''k'',
      sha256 = (\<lambda>s. ''#'' @ s), bcrypt_generate = (\<lambda>_ _ p. Some p), bcrypt_matches = (=),
      jwt_sign = (\<lambda>_ c. Inr (if c = sample_claims then ''first'' else ''other'')),
      jwt_parse = (\<lambda>_ _ now raw.
        if raw \<noteq> ''first'' then Inl ErrTokenInvalid
        else if now < AccessTokenTTL then Inr sample_claims else Inl ErrTokenExpired),
      uuid_string = (\<lambda>u. CHR ''u'' # itoa (uint u)), uuid_bytes = (\<lambda>u. itoa (uint u)),
      uuid_parse = (\<lambda>s. if s = ''u1'' then Some 1 else None),
      text_match = (\<lambda>q fs. q \<in> set fs)\<rparr>"

section \<open>A world\<close>

definition sample_user :: "uuid \<Rightarrow> string \<Rightarrow> user" where
  "sample_user i nm =
     \<lparr>u_id = i, u_email = nm @ ''@uwaterloo.ca'', u_username = nm, u_password_hash = nm @ ''-password'',
      u_role = ''user'', u_verified = True, u_avatar_url = None, u_level = 1, u_star_points = 0,
      u_created_at = 0, u_updated_at = 0, u_suspended_at = None, u_suspended_by = None,
      u_suspend_reason = None, u_email_notifications = True\<rparr>"

definition sample_refresh :: refresh_token where
  "sample_refresh = \<lparr>rt_token_hash = ''#cookie'', rt_user_id = 1, rt_expires_at = 1000,
     rt_revoked_at = None, rt_user_agent = None, rt_created_at = 0\<rparr>"

definition sample_link :: mail_token where
  "sample_link = \<lparr>mt_token_hash = ''#link'', mt_user_id = 1, mt_expires_at = 1000,
     mt_consumed_at = None, mt_created_at = 0\<rparr>"

definition sample_admin :: user where
  "sample_admin = (sample_user 3 ''operator'')\<lparr>u_role := ''admin''\<rparr>"

definition sample_listing :: listing where
  "sample_listing =
     \<lparr>l_id = 10, l_owner_id = 1, l_title = ''A quiet room'', l_body = [], l_conditions = [],
      l_price_cents = 80000, l_deposit_cents = Some 20000, l_start_date = 100, l_end_date = 220,
      l_lease_months = 4, l_term_tag = ''Fall'', l_unit_type = ''room'', l_bedrooms_total = 4,
      l_bedroom_of = Some 4, l_bathrooms = 1, l_bath_type = ''shared'', l_furnished = True,
      l_utilities = [''water''], l_parking = False, l_pets = False, l_laundry = True,
      l_address_line = ''1 Main St'', l_neighbourhood = ''Uptown'', l_lat = Some 43, l_lng = Some (- 80),
      l_distance_m = Some 900, l_commute_minutes = None, l_commute_mode = ''walk'',
      l_minutes_to_transit = None, l_minutes_to_grocery = None, l_status = ''published'', l_views = 0,
      l_replies = 0, l_saves = 0, l_created_at = 0, l_updated_at = 0, l_published_at = None,
      l_removed_at = None, l_removed_by = None, l_removed_reason = None, l_shorter_stays = False,
      l_min_stay_months = None, l_bills_estimate_cents = Some 5000, l_cross_streets = []\<rparr>"

definition sample_request :: housing_request where
  "sample_request =
     \<lparr>q_id = 20, q_poster_id = 2, q_title = ''Room for the fall'', q_body = [], q_budget_cents = 90000,
      q_start_date = 100, q_end_date = 220, q_lease_months = 4, q_term_tag = ''Fall'', q_occupants = 1,
      q_pets = False, q_furnished_preferred = False, q_parking_needed = False,
      q_laundry_needed = False, q_max_distance_m = Some 2000, q_neighbourhood = [],
      q_status = ''published'', q_published_at = Some 0, q_views = 0, q_created_at = 0,
      q_updated_at = 0, q_removed_at = None, q_removed_by = None, q_removed_reason = None\<rparr>"

definition sample_conversation :: conversation where
  "sample_conversation =
     \<lparr>c_id = 30, c_listing_id = 10, c_owner_id = 1, c_enquirer_id = 2, c_opened_by = 2,
      c_closed_at = None, c_closed_by = None, c_owner_read_at = None, c_enquirer_read_at = None,
      c_created_at = 0, c_updated_at = 0, c_address_shared_at = None\<rparr>"

definition sample_message :: message where
  "sample_message = \<lparr>m_id = 40, m_conversation_id = 30, m_sender_id = 2, m_body = ''Hello'', m_created_at = 0\<rparr>"

definition sample_db :: database where
  "sample_db =
     \<lparr>users = [sample_user 1 ''owner'', sample_user 2 ''student'', sample_admin], verification_tokens = [],
      reset_tokens = [sample_link], refresh_tokens = [sample_refresh], listings = [sample_listing],
      photos = [], requests = [sample_request], offers = [], conversations = [sample_conversation],
      messages = [sample_message], admin_actions = []\<rparr>"

definition sample_world :: world where
  "sample_world =
     \<lparr>db = sample_db, committed = None, events = [], clock = 0,
      uuid_source = (\<lambda>n. of_nat (100 + n)), uuids_drawn = 0,
      random_source = (\<lambda>n. Some (replicate (Suc n) CHR ''x'')), randoms_drawn = 0, rl = new_limiter 0,
      outbox = [], mail_faults = []\<rparr>"

definition sample_ctx :: request_ctx where
  "sample_ctx = \<lparr>ctx_principal = Some \<lparr>p_user_id = 1, p_role = ''user'', p_verified = True\<rparr>,
     ctx_refresh = ''cookie'', ctx_user_agent = ''browser'', ctx_login_key = []\<rparr>"

text \<open>The second student, and the admin.\<close>

definition student_ctx :: request_ctx where
  "student_ctx = sample_ctx\<lparr>ctx_principal := Some \<lparr>p_user_id = 2, p_role = ''user'', p_verified = True\<rparr>\<rparr>"

definition admin_ctx :: request_ctx where
  "admin_ctx = sample_ctx\<lparr>ctx_principal := Some \<lparr>p_user_id = 3, p_role = ''admin'', p_verified = True\<rparr>\<rparr>"

lemma sample_quiet: "quiet sample_world"
  by (simp add: sample_world_def quiet_def)

end
