(* ===== verification/AuthProofs.thy ===== *)
theory AuthProofs
  imports Sample
begin

text \<open>
  What the account handlers of \<open>Auth\<close> guarantee: the tables stay well formed, a one-shot token is
  spent for good, and each handler's effect and answer.
\<close>

section \<open>Well-formed accounts\<close>

definition users_ok :: "user list \<Rightarrow> bool" where
  "users_ok us \<longleftrightarrow> list_all users_check us \<and> list_all users_fit us \<and>
     distinct (map u_id us) \<and> distinct (map (\<lambda>u. to_lower (u_email u)) us) \<and>
     distinct (map (\<lambda>u. to_lower (u_username u)) us)"

definition accounts_ok :: "database \<Rightarrow> bool" where
  "accounts_ok d \<longleftrightarrow> users_ok (users d) \<and>
     distinct (map mt_token_hash (verification_tokens d)) \<and>
     distinct (map mt_token_hash (reset_tokens d)) \<and>
     distinct (map rt_token_hash (refresh_tokens d))"

lemma users_ok_insert:
  assumes "users_ok us" and "users_fit u" and "users_check u" and "\<not> list_ex (users_clash u) us"
  shows "users_ok (us @ [u])"
  using assms by (auto simp: users_ok_def list_ex_iff users_clash_def)

lemma users_ok_update:
  assumes "users_ok us"
    and "\<And>u. u_id (f u) = u_id u \<and> u_email (f u) = u_email u \<and> u_username (f u) = u_username u"
    and "\<And>u. u \<in> set us \<Longrightarrow> P u \<Longrightarrow> users_check (f u)"
  shows "users_ok (update_where P f us)"
proof -
  have "list_all users_fit (update_where P f us)"
    using assms(1,2) by (auto simp: users_ok_def list_all_iff set_update_where users_fit_def)
  moreover have "list_all users_check (update_where P f us)"
    using assms(1,3) by (auto simp: users_ok_def list_all_iff set_update_where)
  ultimately show ?thesis
    using assms(1,2) by (auto simp: users_ok_def map_update_where)
qed

lemma users_ok_find:
  assumes "users_ok us" and "List.find (\<lambda>u. u_id u = i \<and> P u) us = Some u"
    and "v \<in> set us" and "u_id v = i"
  shows "v = u"
  using assms by (auto dest!: find_SomeD simp: users_ok_def distinct_map inj_on_def)

lemma update_user_ok:
  assumes "users_ok (users d)"
    and "\<And>u. u_id (f u) = u_id u \<and> u_email (f u) = u_email u \<and> u_username (f u) = u_username u"
  shows "users_ok (users (snd (update_user P f i t d)))"
    and "verification_tokens (snd (update_user P f i t d)) = verification_tokens d"
    and "reset_tokens (snd (update_user P f i t d)) = reset_tokens d"
    and "refresh_tokens (snd (update_user P f i t d)) = refresh_tokens d"
proof -
  show "users_ok (users (snd (update_user P f i t d)))"
  proof (cases "List.find (\<lambda>u. u_id u = i \<and> P u) (users d)")
    case (Some u)
    show ?thesis
    proof (cases "users_check ((f u)\<lparr>u_updated_at := t\<rparr>)")
      case True
      have "users_ok (update_where (\<lambda>v. u_id v = i \<and> P v) (\<lambda>v. (f v)\<lparr>u_updated_at := t\<rparr>) (users d))"
        by (rule users_ok_update [OF assms(1)])
          (use assms(2) True users_ok_find [OF assms(1) Some] in auto)
      with Some True show ?thesis by (simp add: update_user_def Let_def)
    qed (use Some assms(1) in \<open>simp add: update_user_def Let_def\<close>)
  qed (use assms(1) in \<open>simp add: update_user_def\<close>)
qed (auto simp: update_user_def Let_def split: option.splits)

lemma hashes_consume [simp]: "map mt_token_hash (consume_where P t ks) = map mt_token_hash ks"
  by (simp add: consume_where_def map_update_where)

lemma hashes_revoke [simp]: "map rt_token_hash (revoke_where P t ks) = map rt_token_hash ks"
  by (simp add: revoke_where_def map_update_where)

lemma hashes_add:
  "add_mail_token h i x t ks = Some ks' \<Longrightarrow> distinct (map mt_token_hash ks) \<Longrightarrow>
   distinct (map mt_token_hash ks')"
  by (auto simp: add_mail_token_def list_ex_iff split: if_splits)

lemma users_check_update [simp]:
  "users_check (u\<lparr>u_password_hash := h\<rparr>) = users_check u"
  "users_check (u\<lparr>u_updated_at := t\<rparr>) = users_check u"
  by (simp_all add: users_check_def)

lemma users_ok_password:
  assumes "users_ok us"
  shows "users_ok (update_where (\<lambda>u. u_id u = i) (\<lambda>u. u\<lparr>u_password_hash := h, u_updated_at := t\<rparr>) us)"
  by (rule users_ok_update) (use assms in \<open>auto simp: users_ok_def list_all_iff\<close>)

lemma refresh_hash_used: "h \<in> set (map rt_token_hash ks) \<longleftrightarrow> (\<exists>k \<in> set ks. rt_token_hash k = h)"
  by auto

text \<open>Every statement that writes an account table keeps it well formed.\<close>

lemma accounts_statements [keeps_intros]:
  "keeps (db_inv accounts_ok) (CreateUser email username hash)"
  "keeps (db_inv accounts_ok) (MarkUserVerified i)"
  "keeps (db_inv accounts_ok) (SetEmailNotifications b i)"
  "keeps (db_inv accounts_ok) (UpdateUserPassword i hash)"
  "keeps (db_inv accounts_ok) (ConsumeAllEmailVerificationTokensForUser i)"
  "keeps (db_inv accounts_ok) (ConsumeAllPasswordResetTokensForUser i)"
  "keeps (db_inv accounts_ok) (ConsumeEmailVerificationToken h)"
  "keeps (db_inv accounts_ok) (ConsumePasswordResetToken h)"
  "keeps (db_inv accounts_ok) (CreateEmailVerificationToken h i x)"
  "keeps (db_inv accounts_ok) (CreatePasswordResetToken h i x)"
  "keeps (db_inv accounts_ok) (CreateRefreshToken h i x a)"
  "keeps (db_inv accounts_ok) (RevokeAllRefreshTokensForUser i)"
  "keeps (db_inv accounts_ok) (RevokeRefreshToken h)"
  unfolding account_query_defs
  by (rule db_inv_exec db_inv_insert_row;
     auto simp: accounts_ok_def Let_def users_ok_insert update_user_ok users_ok_password list_ex_iff
       refresh_hash_used
       simp del: set_map split: option.split dest: hashes_add)+

lemmas auth_handler_defs =
  Register_def VerifyEmail_def ResendVerification_def Login_def RefreshSession_def Logout_def
  RequestPasswordReset_def ConfirmPasswordReset_def GetMe_def UpdateMyPreferences_def
  issueVerificationEmail_def issuePasswordResetEmail_def startSession_def chargeFailedLogin_def

text \<open>The queries that only read.\<close>

lemma account_reads [keeps_intros]:
  "keeps (db_inv P) (CountUsersByEmailOrUsername email username)"
  "keeps (db_inv P) (GetUserByEmail email)" "keeps (db_inv P) (GetUserByID i)"
  "keeps (db_inv P) (GetUserByUsername username)"
  "keeps (db_inv P) (GetLiveEmailVerificationToken h)"
  "keeps (db_inv P) (GetLivePasswordResetToken h)" "keeps (db_inv P) (GetLiveRefreshToken h)"
  unfolding account_query_defs by (rule keeps_intros)+

section \<open>Spent tokens\<close>

text \<open>
  A token table keeps one row per hash; a row that is spent is never live again. The three tables
  of one-shot credentials share this contract.
\<close>

definition gone :: "('k \<Rightarrow> string) \<Rightarrow> ('k \<Rightarrow> bool) \<Rightarrow> string \<Rightarrow> 'k list \<Rightarrow> bool" where
  "gone hash spent h ks \<longleftrightarrow> distinct (map hash ks) \<and> list_ex (\<lambda>k. hash k = h \<and> spent k) ks"

locale token_table =
  fixes hash :: "'k \<Rightarrow> string" and spent :: "'k \<Rightarrow> bool" and live :: "time \<Rightarrow> 'k \<Rightarrow> bool"
  assumes spent_dead: "spent k \<Longrightarrow> \<not> live t k"
begin

lemma gone_not_found:
  assumes "gone hash spent h ks"
  shows "List.find (\<lambda>k. hash k = h \<and> live t k) ks = None"
proof -
  from assms obtain k where k: "k \<in> set ks" "hash k = h" "spent k"
    by (auto simp: gone_def list_ex_iff)
  have "k' = k" if "k' \<in> set ks" "hash k' = h" for k'
    using that k assms by (auto simp: gone_def distinct_map inj_on_def)
  then have "\<not> live t k'" if "k' \<in> set ks" "hash k' = h" for k'
    using that spent_dead [OF k(3), of t] by metis
  then show ?thesis by (auto simp: find_None_iff)
qed

lemma gone_insert:
  "gone hash spent h ks \<Longrightarrow> hash k \<notin> set (map hash ks) \<Longrightarrow> gone hash spent h (ks @ [k])"
  by (auto simp: gone_def)

lemma gone_mark:
  assumes "gone hash spent h ks" and "\<And>k. hash (f k) = hash k" and "\<And>k. spent k \<Longrightarrow> spent (f k)"
  shows "gone hash spent h (update_where P f ks)"
proof -
  from assms(1) obtain k where "k \<in> set ks" "hash k = h" "spent k"
    by (auto simp: gone_def list_ex_iff)
  then have "\<exists>k' \<in> set (update_where P f ks). hash k' = h \<and> spent k'"
    using assms(2,3) unfolding update_where_def by (intro bexI [of _ "if P k then f k else k"]) auto
  then show ?thesis using assms(1,2) by (simp add: gone_def list_ex_iff map_update_where)
qed

lemma gone_marked:
  assumes "distinct (map hash ks)" and "k \<in> set ks" and "hash k = h" and "P k" and "spent (f k)"
    and "\<And>k. hash (f k) = hash k"
  shows "gone hash spent h (update_where P f ks)"
proof -
  have "f k \<in> set (update_where P f ks)" using assms(2,4) by (force simp: update_where_def)
  then show ?thesis using assms by (auto simp: gone_def list_ex_iff map_update_where)
qed

end

definition consumed :: "mail_token \<Rightarrow> bool" where
  "consumed k \<longleftrightarrow> mt_consumed_at k \<noteq> None"

definition revoked :: "refresh_token \<Rightarrow> bool" where
  "revoked k \<longleftrightarrow> rt_revoked_at k \<noteq> None"

interpretation mail: token_table mt_token_hash consumed mail_token_live
  by unfold_locales (simp add: mail_token_live_def consumed_def)

interpretation refresh: token_table rt_token_hash revoked refresh_live
  by unfold_locales (simp add: refresh_live_def revoked_def)

abbreviation refresh_gone :: "string \<Rightarrow> database \<Rightarrow> bool" where
  "refresh_gone h d \<equiv> gone rt_token_hash revoked h (refresh_tokens d)"

abbreviation reset_gone :: "string \<Rightarrow> database \<Rightarrow> bool" where
  "reset_gone h d \<equiv> gone mt_token_hash consumed h (reset_tokens d)"

abbreviation verification_gone :: "string \<Rightarrow> database \<Rightarrow> bool" where
  "verification_gone h d \<equiv> gone mt_token_hash consumed h (verification_tokens d)"

definition all_gone :: "string set \<Rightarrow> string set \<Rightarrow> string set \<Rightarrow> database \<Rightarrow> bool" where
  "all_gone A B C d \<longleftrightarrow> (\<forall>h \<in> A. refresh_gone h d) \<and> (\<forall>h \<in> B. reset_gone h d) \<and>
     (\<forall>h \<in> C. verification_gone h d)"

lemma gone_consume: "gone mt_token_hash consumed h ks \<Longrightarrow> gone mt_token_hash consumed h (consume_where P t ks)"
  unfolding consume_where_def by (rule mail.gone_mark) (simp_all add: consumed_def)

lemma gone_revoke: "gone rt_token_hash revoked h ks \<Longrightarrow> gone rt_token_hash revoked h (revoke_where P t ks)"
  unfolding revoke_where_def by (rule refresh.gone_mark) (simp_all add: revoked_def)

lemma gone_add:
  "add_mail_token h i x t ks = Some ks' \<Longrightarrow> gone mt_token_hash consumed h' ks \<Longrightarrow>
   gone mt_token_hash consumed h' ks'"
  by (auto simp: add_mail_token_def list_ex_iff split: if_splits intro!: mail.gone_insert)

text \<open>No statement brings a spent token back.\<close>

lemma gone_statements [keeps_intros]:
  "keeps (db_inv (all_gone A B C)) (CreateUser email username hash)"
  "keeps (db_inv (all_gone A B C)) (MarkUserVerified i)"
  "keeps (db_inv (all_gone A B C)) (SetEmailNotifications b i)"
  "keeps (db_inv (all_gone A B C)) (UpdateUserPassword i hash)"
  "keeps (db_inv (all_gone A B C)) (ConsumeAllEmailVerificationTokensForUser i)"
  "keeps (db_inv (all_gone A B C)) (ConsumeAllPasswordResetTokensForUser i)"
  "keeps (db_inv (all_gone A B C)) (ConsumeEmailVerificationToken h)"
  "keeps (db_inv (all_gone A B C)) (ConsumePasswordResetToken h)"
  "keeps (db_inv (all_gone A B C)) (CreateEmailVerificationToken h i x)"
  "keeps (db_inv (all_gone A B C)) (CreatePasswordResetToken h i x)"
  "keeps (db_inv (all_gone A B C)) (CreateRefreshToken h i x a)"
  "keeps (db_inv (all_gone A B C)) (RevokeAllRefreshTokensForUser i)"
  "keeps (db_inv (all_gone A B C)) (RevokeRefreshToken h)"
  unfolding account_query_defs
  by (rule db_inv_exec db_inv_insert_row;
     auto simp: all_gone_def Let_def gone_consume gone_revoke list_ex_iff update_user_def refresh_hash_used
       simp del: set_map split: option.split dest: gone_add intro!: refresh.gone_insert)+

section \<open>Histories of account requests\<close>

text \<open>
  One request after another, each run by its handler with whatever faults it meets; between them
  time passes and the limiter changes.
\<close>

inductive auth_step :: "env \<Rightarrow> world \<Rightarrow> world \<Rightarrow> bool" for env where
  register: "auth_step env w (snd (run_state (Register env rb) w))"
| verify: "auth_step env w (snd (run_state (VerifyEmail env tb) w))"
| resend: "auth_step env w (snd (run_state (ResendVerification env tb) w))"
| login: "auth_step env w (snd (run_state (Login env ctx cb) w))"
| refresh: "auth_step env w (snd (run_state (RefreshSession env ctx) w))"
| logout: "auth_step env w (snd (run_state (Logout env ctx) w))"
| request_reset: "auth_step env w (snd (run_state (RequestPasswordReset env tb) w))"
| confirm_reset: "auth_step env w (snd (run_state (ConfirmPasswordReset env pb) w))"
| preferences: "auth_step env w (snd (run_state (UpdateMyPreferences ctx ub) w))"
| time_passes: "clock w \<le> t \<Longrightarrow> auth_step env w (w\<lparr>clock := t\<rparr>)"
| faults: "(\<And>g. Meanwhile g \<notin> set es) \<Longrightarrow> auth_step env w (w\<lparr>events := es\<rparr>)"
| limits: "auth_step env w (w\<lparr>rl := l\<rparr>)"

inductive_cases auth_stepE: "auth_step env w w'"

lemma db_inv_clock: "db_inv P (w\<lparr>clock := t\<rparr>) = db_inv P w"
  by (simp add: db_inv_def)

lemma step_keeps:
  assumes "auth_step env w w'" and "db_inv P w"
    and "\<And>b. keeps (db_inv P) (Register env b)" "\<And>b. keeps (db_inv P) (VerifyEmail env b)"
    "\<And>b. keeps (db_inv P) (ResendVerification env b)"
    "\<And>c b. keeps (db_inv P) (Login env c b)" "\<And>c. keeps (db_inv P) (RefreshSession env c)"
    "\<And>c. keeps (db_inv P) (Logout env c)" "\<And>b. keeps (db_inv P) (RequestPasswordReset env b)"
    "\<And>b. keeps (db_inv P) (ConfirmPasswordReset env b)"
    "\<And>c b. keeps (db_inv P) (UpdateMyPreferences c b)"
  shows "db_inv P w'"
  using assms(1)
proof cases
  case (faults es)
  then show ?thesis using assms(2) by (auto simp: db_inv_def)
qed (simp_all only: keeps_run [where I = "db_inv P" and w = w, OF _ assms(2)] assms(3-) db_inv_clock db_inv_update assms(2))


lemma gone_preserved:
  "keeps (db_inv (all_gone A B C)) (Register env rb)" "keeps (db_inv (all_gone A B C)) (VerifyEmail env tb)"
  "keeps (db_inv (all_gone A B C)) (ResendVerification env tb)"
  "keeps (db_inv (all_gone A B C)) (Login env ctx cb)"
  "keeps (db_inv (all_gone A B C)) (RefreshSession env ctx)" "keeps (db_inv (all_gone A B C)) (Logout env ctx)"
  "keeps (db_inv (all_gone A B C)) (RequestPasswordReset env tb)"
  "keeps (db_inv (all_gone A B C)) (ConfirmPasswordReset env pb)"
  "keeps (db_inv (all_gone A B C)) (UpdateMyPreferences ctx ub)"
  unfolding auth_handler_defs by (intro keeps_intros)+

lemma gone_steps: "(auth_step env)\<^sup>*\<^sup>* w w' \<Longrightarrow> db_inv (all_gone A B C) w \<Longrightarrow> db_inv (all_gone A B C) w'"
proof (induction rule: rtranclp_induct)
  case (step y z)
  from step.hyps(2) step.IH [OF step.prems] show ?case
    by (rule step_keeps) (rule gone_preserved)+
qed

section \<open>Sessions\<close>

lemma quiet_simps [simp]:
  "quiet w \<Longrightarrow> events w = []" "quiet w \<Longrightarrow> committed w = None"
  by (simp_all add: quiet_def)

text \<open>What a session stores and hands out, in an undisturbed world.\<close>

lemma startSession_stores:
  assumes "events w = []" and "run_state (startSession env user agent) w = (Inr cookies, w')"
  obtains b where "random_source w (randoms_drawn w) = Some b"
    "db w' = (db w)\<lparr>refresh_tokens := refresh_tokens (db w) @
      [\<lparr>rt_token_hash = HashToken env (base64_url b), rt_user_id = u_id user,
        rt_expires_at = clock w + RefreshTokenTTL, rt_revoked_at = None, rt_user_agent = Some agent,
        rt_created_at = clock w\<rparr>]\<rparr>"
    "cookies ! 1 = RefreshCookie env (clock w) (base64_url b) (clock w + RefreshTokenTTL)"
    "events w' = []" "committed w' = committed w"
  using assms
  by (auto simp: startSession_def MintAccessToken_def NewOpaqueToken_def rand_read_def new_uuid_def
      CreateRefreshToken_def stmt_simps Let_def split: option.splits sum.splits if_splits)

text \<open>A successful refresh revokes the token it was given.\<close>

lemma refresh_revokes:
  assumes "quiet w" and "accounts_ok (db w)"
    and "run_state (RefreshSession env ctx) w = (Success status v, w')"
  shows "refresh_gone (HashToken env (ctx_refresh ctx)) (db w') \<and> events w' = [] \<and> committed w' = None"
proof -
  let ?h = "HashToken env (ctx_refresh ctx)"
  have ev: "events w = []" using assms(1) by simp
  obtain token user where t: "List.find (\<lambda>k. rt_token_hash k = ?h \<and> refresh_live (clock w) k) (refresh_tokens (db w)) = Some token"
    and u: "find_user (db w) (rt_user_id token) = Some user"
    using assms(3) ev by (auto simp: RefreshSession_def GetLiveRefreshToken_def GetUserByID_def stmt_simps Let_def
        split: option.splits if_splits)
  have token: "token \<in> set (refresh_tokens (db w))" "rt_token_hash token = ?h"
    "rt_revoked_at token = None"
    using find_SomeD [OF t] by (auto simp: refresh_live_def)
  define w1 where "w1 = w\<lparr>db := (db w)\<lparr>refresh_tokens :=
    revoke_where (\<lambda>k. rt_token_hash k = ?h) (clock w) (refresh_tokens (db w))\<rparr>\<rparr>"
  have g: "refresh_gone ?h (db w1)"
    unfolding w1_def revoke_where_def
    using assms(2) token by (auto simp: accounts_ok_def revoked_def simp del: set_map intro!: refresh.gone_marked)
  obtain cookies where s: "run_state (startSession env user (ctx_user_agent ctx)) w1 = (Inr cookies, w')"
    using assms(3) t u ev token
    by (auto simp: RefreshSession_def GetLiveRefreshToken_def GetUserByID_def RevokeRefreshToken_def
        stmt_simps w1_def Let_def split: if_splits sum.splits prod.splits)
  have "keeps (db_inv (all_gone {?h} {} {})) (startSession env user (ctx_user_agent ctx))"
    unfolding startSession_def by (intro keeps_intros)
  moreover have "db_inv (all_gone {?h} {} {}) w1"
    using g assms(1) by (simp add: db_inv_def all_gone_def w1_def)
  ultimately have "db_inv (all_gone {?h} {} {}) w'" using s by (rule keepsD)
  moreover have "events w' = [] \<and> committed w' = None"
    by (rule startSession_stores [OF _ s]) (use assms(1) in \<open>auto simp: w1_def\<close>)
  ultimately show ?thesis by (simp add: db_inv_def all_gone_def)
qed

lemma refresh_gone_refused:
  assumes "quiet w" and "refresh_gone (HashToken env (ctx_refresh ctx)) (db w)" and "ctx_refresh ctx \<noteq> []"
  shows "run_state (RefreshSession env ctx) w =
    (Refuse 401 (errorBody CodeUnauthorized ''That session has expired. Log in again.''), w)"
  using refresh.gone_not_found [OF assms(2), of "clock w"] assms(1,3)
  by (simp add: RefreshSession_def GetLiveRefreshToken_def stmt_simps Let_def)





text \<open>Rotation is not atomic: two refreshes with the same cookie that both read the token before
  either revokes it both succeed, so one token can become two live sessions.\<close>

theorem concurrent_refreshes_both_succeed:
  "let first = run_state (RefreshSession sample_env sample_ctx) sample_world;
       second = run_state (RefreshSession sample_env sample_ctx)
         (sample_world\<lparr>events := [Quiet, Quiet, Meanwhile (\<lambda>_. db (snd first))], randoms_drawn := 9\<rparr>)
   in succeeded (fst first) \<and> succeeded (fst second) \<and>
      count_where (refresh_live 0) (refresh_tokens sample_db) = 1 \<and>
      count_where (refresh_live 0) (refresh_tokens (db (snd second))) = 2"
  by code_simp

section \<open>Password reset\<close>

text \<open>C15: A confirmed reset used a live link, gives exactly that account a hash of the new password,
  spends the link for good, and revokes every session of the account.\<close>

theorem password_reset_effect:
  assumes "quiet w" and "accounts_ok (db w)"
    and "run_state (ConfirmPasswordReset env (Some \<lparr>rc_token = raw, rc_password = pw\<rparr>)) w = (Success s v, w')"
  shows "\<exists>k hash salt. k \<in> set (reset_tokens (db w)) \<and> mt_token_hash k = HashToken env raw \<and>
    mail_token_live (clock w) k \<and> bcrypt_generate env BcryptCost salt pw = Some hash \<and>
    users (db w') = update_where (\<lambda>u. u_id u = mt_user_id k)
      (\<lambda>u. u\<lparr>u_password_hash := hash, u_updated_at := clock w\<rparr>) (users (db w)) \<and>
    reset_gone (HashToken env raw) (db w') \<and>
    (\<forall>t \<in> set (refresh_tokens (db w')). rt_user_id t = mt_user_id k \<longrightarrow> revoked t)"
proof -
  let ?h = "HashToken env raw"
  have ev: "events w = []" using assms(1) by simp
  obtain k where k: "List.find (\<lambda>k. mt_token_hash k = ?h \<and> mail_token_live (clock w) k) (reset_tokens (db w)) = Some k"
    using assms(3) ev by (auto simp: ConfirmPasswordReset_def GetLivePasswordResetToken_def stmt_simps
        split: option.splits if_splits)
  obtain salt hash where hash: "bcrypt_generate env BcryptCost salt pw = Some hash"
    and db: "db w' = (db w)\<lparr>users := update_where (\<lambda>u. u_id u = mt_user_id k)
        (\<lambda>u. u\<lparr>u_password_hash := hash, u_updated_at := clock w\<rparr>) (users (db w)),
      reset_tokens := consume_where (\<lambda>j. mt_token_hash j = mt_token_hash k) (clock w) (reset_tokens (db w)),
      refresh_tokens := revoke_where (\<lambda>t. rt_user_id t = mt_user_id k) (clock w) (refresh_tokens (db w))\<rparr>"
    using assms(3) ev k
    by (auto simp: ConfirmPasswordReset_def GetLivePasswordResetToken_def HashPassword_def rand_read_def
        UpdateUserPassword_def ConsumePasswordResetToken_def RevokeAllRefreshTokensForUser_def
        stmt_simps split: option.splits if_splits sum.splits)
  have tk: "k \<in> set (reset_tokens (db w))" "mt_token_hash k = ?h" "mail_token_live (clock w) k"
    using find_SomeD [OF k] by auto
  have "reset_gone ?h (db w')"
    using assms(2) tk by (auto simp: db consume_where_def accounts_ok_def consumed_def mail_token_live_def
        simp del: set_map intro!: mail.gone_marked)
  moreover have "\<forall>t \<in> set (refresh_tokens (db w')). rt_user_id t = mt_user_id k \<longrightarrow> revoked t"
    by (auto simp: db revoke_where_def set_update_where revoked_def)
  ultimately show ?thesis using tk hash db by (intro exI [of _ k] exI [of _ hash] exI [of _ salt]) simp
qed

theorem password_reset_effect_witness:
  "reset_gone ''#link'' (db (snd (run_state (ConfirmPasswordReset sample_env
     (Some \<lparr>rc_token = ''link'', rc_password = ''a-new-password''\<rparr>)) sample_world)))"
proof -
  let ?r = "run_state (ConfirmPasswordReset sample_env
     (Some \<lparr>rc_token = ''link'', rc_password = ''a-new-password''\<rparr>)) sample_world"
  have "succeeded (fst ?r)" by code_simp
  then obtain s v where r: "?r = (Success s v, snd ?r)" by (metis succeeded_iff prod.collapse)
  have a: "accounts_ok (db sample_world)" by code_simp
  have "HashToken sample_env ''link'' = ''#link''" by code_simp
  with password_reset_effect [OF sample_quiet a r] show ?thesis by metis
qed

text \<open>C17: Asking for a reset link or for a new confirmation link reveals nothing: whatever the address,
  and whether or not the mail could be sent, the answer is the same 202.\<close>

theorem reset_request_uniform:
  assumes "quiet w" and "trim_space addr \<noteq> []"
  shows "fst (run_state (RequestPasswordReset env (Some addr)) w) = Success 202 () \<and>
    fst (run_state (ResendVerification env (Some addr)) w) = Success 202 ()"
  using assms
  by (simp_all add: RequestPasswordReset_def ResendVerification_def GetUserByEmail_def stmt_simps
      split: option.split prod.split)

theorem reset_request_uniform_witness:
  "fst (run_state (RequestPasswordReset sample_env (Some ''nobody@uwaterloo.ca'')) sample_world) = Success 202 () \<and>
   fst (run_state (ResendVerification sample_env (Some ''nobody@uwaterloo.ca'')) sample_world) = Success 202 ()"
proof -
  have "trim_space ''nobody@uwaterloo.ca'' \<noteq> []" by code_simp
  then show ?thesis by (rule reset_request_uniform [OF sample_quiet])
qed

section \<open>Registration\<close>

text \<open>An address at a subdomain of uwaterloo.ca passes the handler's validation and is then
  refused by the table's constraint: registration never succeeds and the caller sees a 500.\<close>

theorem subdomain_registration_fails:
  assumes "quiet w"
    and "validateRegistration (trim_space addr) (trim_space nm) pw = []"
    and "\<not> has_suffix (to_lower (trim_space addr)) ''@uwaterloo.ca''"
  shows "\<not> succeeded (fst (run_state (Register env (Some \<lparr>rr_email = addr, rr_username = nm, rr_password = pw\<rparr>)) w))
    \<and> users (db (snd (run_state (Register env (Some \<lparr>rr_email = addr, rr_username = nm, rr_password = pw\<rparr>)) w))) = users (db w)"
  using assms
  by (auto simp: Register_def CountUsersByEmailOrUsername_def HashPassword_def rand_read_def CreateUser_def
      stmt_simps Let_def users_check_def split: option.splits sum.splits prod.splits if_splits)

theorem subdomain_registration_fails_witness:
  "validateRegistration ''jo@edu.uwaterloo.ca'' ''jo_1'' ''long enough pw'' = [] \<and>
   \<not> succeeded (fst (run_state (Register sample_env (Some
      \<lparr>rr_email = ''jo@edu.uwaterloo.ca'', rr_username = ''jo_1'', rr_password = ''long enough pw''\<rparr>)) sample_world))"
proof -
  have t: "trim_space ''jo@edu.uwaterloo.ca'' = ''jo@edu.uwaterloo.ca''" "trim_space ''jo_1'' = ''jo_1''"
    by code_simp+
  have v: "validateRegistration ''jo@edu.uwaterloo.ca'' ''jo_1'' ''long enough pw'' = []" by code_simp
  have s: "\<not> has_suffix (to_lower ''jo@edu.uwaterloo.ca'') ''@uwaterloo.ca''" by code_simp
  from subdomain_registration_fails [OF sample_quiet, of "''jo@edu.uwaterloo.ca''" "''jo_1''"] t v s
  show ?thesis by auto
qed

end
