(* ===== verification/RateBound.thy ===== *)
theory RateBound
  imports Policy
begin

text \<open>
  Quantitative theorems on the limiter of \<open>RateLimit\<close>: how many calls one key can be granted in
  a stretch of time, and how long after a refusal the next call is granted. The floating-point
  error is accounted for through the contract \<open>rounding\<close>, interpreted as \<open>f64\<close>.
\<close>

section \<open>Rules within the exact range of a double\<close>

definition rule_ok :: "rule \<Rightarrow> bool" where
  "rule_ok r \<longleftrightarrow> 1 \<le> rule_burst r \<and> rule_burst r \<le> 2 ^ 53 \<and> 1 \<le> rule_window r \<and> rule_window r \<le> 2 ^ 53"

definition exact_rate :: "rule \<Rightarrow> rat" where
  "exact_rate r = of_int (rule_burst r) / of_int (rule_window r)"

lemma rule_ok_limited: "rule_ok r \<Longrightarrow> limited r"
  by (simp add: rule_ok_def)

lemma float64_exact: "\<bar>n\<bar> \<le> 2 ^ 53 \<Longrightarrow> float64 n = of_int n"
  by (simp add: float64_def fl_of_int)

lemma exact_rate_pos: "rule_ok r \<Longrightarrow> 0 < exact_rate r"
  by (simp add: rule_ok_def exact_rate_def)

lemma rate_fl: "rule_ok r \<Longrightarrow> rate r = fl (exact_rate r)"
  by (simp add: rule_ok_def rate_def exact_rate_def float64_exact)

lemma rate_bounds:
  assumes "rule_ok r"
  shows "rate r \<le> (1 + 1 / 2 ^ 53) * exact_rate r" and "(1 - 1 / 2 ^ 53) * exact_rate r \<le> rate r"
    and "0 < rate r"
proof -
  note p = exact_rate_pos [OF assms]
  show le: "rate r \<le> (1 + 1 / 2 ^ 53) * exact_rate r" and ge: "(1 - 1 / 2 ^ 53) * exact_rate r \<le> rate r"
    unfolding rate_fl [OF assms] by (rule f64.rnd_le f64.rnd_ge; use p in simp)+
  have "0 < (1 - 1 / 2 ^ 53) * exact_rate r" using p by simp
  with ge show "0 < rate r" by linarith
qed

section \<open>The level of a bucket against the exact one\<close>

text \<open>
  A bucket holds between none and \<open>rule_burst\<close> tokens and was last seen in the past.
  \<open>potential\<close> is the level the bucket would have at a time if nothing were rounded.
\<close>

definition bucket_fits :: "rule \<Rightarrow> time \<Rightarrow> bucket option \<Rightarrow> bool" where
  "bucket_fits r t ob \<longleftrightarrow> (case ob of None \<Rightarrow> True | Some b \<Rightarrow>
     0 \<le> tokens b \<and> tokens b \<le> of_int (rule_burst r) \<and> last_seen b \<le> t)"

definition potential :: "rule \<Rightarrow> time \<Rightarrow> bucket option \<Rightarrow> rat" where
  "potential r t ob = (case ob of None \<Rightarrow> of_int (rule_burst r) | Some b \<Rightarrow>
     min (of_int (rule_burst r)) (tokens b + exact_rate r * of_int (t - last_seen b)))"

abbreviation unit_error :: "rule \<Rightarrow> rat" where
  "unit_error r \<equiv> of_int (rule_burst r) / 2 ^ 53"

lemma potential_le: "potential r t ob \<le> of_int (rule_burst r)"
  by (simp add: potential_def split: option.split)

lemma potential_later:
  assumes "rule_ok r" and "t \<le> t'"
  shows "potential r t' ob \<le> potential r t ob + exact_rate r * of_int (t' - t)"
proof -
  have p: "0 \<le> exact_rate r * of_int (t' - t)"
    using exact_rate_pos [OF assms(1)] assms(2) by simp
  show ?thesis
  proof (cases ob)
    case (Some b)
    have "exact_rate r * of_int (t' - last_seen b) =
        exact_rate r * of_int (t - last_seen b) + exact_rate r * of_int (t' - t)"
      by (simp only: distrib_left [symmetric] of_int_add [symmetric]) simp
    with p Some show ?thesis by (simp only: potential_def option.case min_def split: if_splits) linarith
  qed (use p in \<open>simp add: potential_def\<close>)
qed

lemma bucket_fits_later: "bucket_fits r t ob \<Longrightarrow> t \<le> t' \<Longrightarrow> bucket_fits r t' ob"
  by (auto simp: bucket_fits_def split: option.splits)

lemma potential_nonneg:
  assumes "rule_ok r" and "bucket_fits r t ob"
  shows "0 \<le> potential r t ob"
  using assms exact_rate_pos [OF assms(1)]
  by (auto simp: potential_def bucket_fits_def rule_ok_def split: option.splits)

lemma refill_bounds:
  assumes r: "rule_ok r" and b: "bucket_fits r now (Some b)"
  shows "bucket_fits r now (Some (refill r now b)) \<and>
    tokens (refill r now b) \<le> potential r now (Some b) + 5 * unit_error r"
proof -
  let ?B = "of_int (rule_burst r) :: rat"
  define d where "d = now - last_seen b"
  have B: "float64 (rule_burst r) = ?B" "0 \<le> unit_error r" "0 \<le> ?B"
    using r by (simp_all add: rule_ok_def float64_exact)
  have b': "0 \<le> tokens b" "tokens b \<le> ?B" "0 \<le> d" using b by (auto simp: bucket_fits_def d_def)
  note rb = rate_bounds [OF r] and q = exact_rate_pos [OF r]
  define s where "s = fl (tokens b + fl (float64 (time_sub now (last_seen b)) * rate r))"
  have ts: "0 \<le> time_sub now (last_seen b)" "0 < time_sub now (last_seen b) \<longleftrightarrow> 0 < d"
    using b'(3) by (auto simp: time_sub_def d_def)
  have "0 \<le> float64 (time_sub now (last_seen b))" unfolding float64_def
    by (rule f64.rnd_nonneg) (use ts in simp)
  then have s0: "0 \<le> s" unfolding s_def
    using b'(1) rb(3) by (intro f64.rnd_nonneg add_nonneg_nonneg mult_nonneg_nonneg) auto
  have s1: "s \<le> tokens b + exact_rate r * of_int d + 5 * unit_error r" if lt: "d < rule_window r"
  proof -
    have "d \<le> 2 ^ 53" using lt r by (simp add: rule_ok_def)
    then have e: "float64 (time_sub now (last_seen b)) = of_int d"
      using b'(3) by (simp add: time_sub_def d_def float64_exact)
    have "of_int d * exact_rate r \<le> of_int (rule_window r) * exact_rate r"
      using lt q by (intro mult_right_mono) auto
    then have "of_int d * exact_rate r \<le> ?B" using r by (simp add: exact_rate_def rule_ok_def)
    then show ?thesis
      using f64.accumulate_le [of "tokens b" ?B "of_int d" "exact_rate r" "rate r"] b' q rb
      by (simp add: s_def e mult_ac)
  qed
  have s2: "?B \<le> tokens b + exact_rate r * of_int d" if "\<not> d < rule_window r"
  proof -
    have "exact_rate r * of_int (rule_window r) \<le> exact_rate r * of_int d"
      using that q by (intro mult_left_mono) auto
    then show ?thesis using b'(1) r by (simp add: exact_rate_def rule_ok_def)
  qed
  have s12: "min ?B s \<le> min ?B (tokens b + exact_rate r * of_int d) + 5 * unit_error r"
    using s1 s2 B(2) by (cases "d < rule_window r") linarith+
  show ?thesis
  proof (cases "0 < d")
    case True
    then have "refill r now b = \<lparr>tokens = min ?B s, last_seen = now\<rparr>"
      using ts by (simp add: refill_def Let_def B s_def)
    then show ?thesis
      using s0 s12 B(3) by (simp add: bucket_fits_def potential_def d_def)
  next
    case False
    then have "refill r now b = b" using ts by (simp add: refill_def)
    then show ?thesis using False b b' B by (simp add: bucket_fits_def potential_def d_def)
  qed
qed

lemma bucket_now_bounds:
  assumes r: "rule_ok r" and "bucket_fits r now ob"
  shows "bucket_fits r now (Some (bucket_now r now ob))"
    and "tokens (bucket_now r now ob) \<le> potential r now ob + 5 * unit_error r"
    and "bucket_fits r now ob \<Longrightarrow> last_seen (bucket_now r now ob) = now"
proof -
  have "bucket_fits r now (Some (bucket_now r now ob)) \<and>
    tokens (bucket_now r now ob) \<le> potential r now ob + 5 * unit_error r"
    using refill_bounds [OF r] assms
    by (cases ob) (auto simp: bucket_now_simps bucket_fits_def potential_def rule_ok_def float64_exact)
  then show "bucket_fits r now (Some (bucket_now r now ob))"
    "tokens (bucket_now r now ob) \<le> potential r now ob + 5 * unit_error r" by auto
  show "last_seen (bucket_now r now ob) = now"
    using assms(2) by (cases ob) (auto simp: bucket_now_simps refill_def Let_def bucket_fits_def time_sub_def)
qed

section \<open>How many calls a key is granted\<close>

text \<open>
  Every call on the key uses the same rule and only takes tokens that are there, and the clock
  does not go back between them.
\<close>

definition calls_on :: "string \<Rightarrow> rl_op list \<Rightarrow> rl_op list" where
  "calls_on k xs = filter (\<lambda>x. op_key x = k) xs"

definition metered :: "rule \<Rightarrow> string \<Rightarrow> time \<Rightarrow> time \<Rightarrow> rl_op list \<Rightarrow> bool" where
  "metered r k t0 T xs \<longleftrightarrow> t0 \<le> T \<and> sorted (t0 # map op_time (calls_on k xs)) \<and>
     list_all (\<lambda>x. op_rule x = r \<and> \<not> is_RlSpend x \<and> op_time x \<le> T) (calls_on k xs)"

text \<open>The keys in use never exceed the ceiling, so none is evicted.\<close>

definition roomy :: "rl_op list \<Rightarrow> limiter \<Rightarrow> bool" where
  "roomy xs l \<longleftrightarrow> int (card (set (map op_key xs) \<union> set (recency l))) \<le> max_keys l"

lemma touched_all:
  assumes "limiter_ok l" and "int (card (insert key (set (recency l)))) \<le> max_keys l"
  shows "set (touched key l) = insert key (set (recency l))"
proof -
  let ?ks = "key # remove1 key (recency l)"
  have s: "set ?ks = insert key (set (recency l))" and "distinct ?ks"
    using assms(1) by (auto simp: limiter_ok_def coherent_def)
  then have "length ?ks = card (insert key (set (recency l)))" by (metis distinct_card)
  with assms(2) have "touched key l = ?ks" by (simp add: touched_def)
  with s show ?thesis by simp
qed

lemma consult_recency:
  assumes "limiter_ok l" and "consult r key t f now l = (d, l')"
  shows "set (recency l') \<subseteq> insert key (set (recency l))"
proof (cases "limited r")
  case True
  have "set (recency l1) \<subseteq> insert key (set (recency l))" if "fetch r key now l = (b, l1)" for b l1
  proof -
    have "recency l1 = touched key l" using fetch_spec [OF assms(1) that] by simp
    then show ?thesis using set_take_subset [of "nat (max_keys l)" "key # remove1 key (recency l)"]
        set_remove1_subset [of key "recency l"] by (auto simp: touched_def)
  qed
  with assms(1) True assms(2) show ?thesis
    by (cases rule: consult_cases) (auto dest: notin_set_remove1 [THEN contrapos_pp] set_remove1_subset [THEN subsetD])
next
  case False
  with assms(2) show ?thesis by (auto simp: consult_def not_less split: if_splits)
qed

lemma roomy_step:
  assumes "limiter_ok l" and "roomy (x # xs) l"
  shows "roomy xs (snd (rl_step x l))" and "int (card (insert (op_key x) (set (recency l)))) \<le> max_keys l"
proof -
  let ?l' = "snd (rl_step x l)" and ?A = "set (map op_key (x # xs)) \<union> set (recency l)"
  have "set (recency ?l') \<subseteq> insert (op_key x) (set (recency l))"
    by (rule consult_recency [OF assms(1)]) (auto simp: rl_step_consult intro: prod.collapse [symmetric])
  then have "card (set (map op_key xs) \<union> set (recency ?l')) \<le> card ?A"
    by (intro card_mono) auto
  moreover have "card (insert (op_key x) (set (recency l))) \<le> card ?A"
    by (intro card_mono) auto
  ultimately show "roomy xs ?l'" "int (card (insert (op_key x) (set (recency l)))) \<le> max_keys l"
    using assms by (auto simp: roomy_def rl_step_max)
qed

abbreviation entry :: "limiter \<Rightarrow> string \<Rightarrow> bucket option" where
  "entry l k \<equiv> map_of (buckets l) k"

lemma step_other:
  assumes "limiter_ok l" and "roomy (x # xs) l" and "op_key x \<noteq> k"
  shows "entry (snd (rl_step x l)) k = entry l k"
proof (cases "limited (op_rule x)")
  case True
  have "entry l k = None" if "k \<notin> insert (op_key x) (set (recency l))"
    using that assms(1) coherent_lookup by (auto simp: limiter_ok_def)
  with consult_other [OF assms(1) True _ assms(3) [symmetric]] touched_all [OF assms(1) roomy_step(2) [OF assms(1,2)]]
  show ?thesis by (metis prod.collapse rl_step_consult)
next
  case False
  then show ?thesis by (auto simp: rl_step_consult consult_def not_less)
qed

lemma step_potential:
  assumes "limiter_ok l" and r: "rule_ok r" and fits: "bucket_fits r (op_time x) (entry l (op_key x))"
    and "op_rule x = r" and "\<not> is_RlSpend x" and "rl_step x l = (d, l')"
  shows "bucket_fits r (op_time x) (entry l' (op_key x)) \<and>
    (if is_RlAllow x \<and> ok d then 1 else 0) + potential r (op_time x) (entry l' (op_key x)) \<le>
      potential r (op_time x) (entry l (op_key x)) + 6 * unit_error r"
proof -
  define b where "b = bucket_now r (op_time x) (entry l (op_key x))"
  note bb = bucket_now_bounds [OF r fits, folded b_def]
  have c: "consult r (op_key x) (\<not> is_RlPeek x) False (op_time x) l = (d, l')"
    using assms(4,5,6) by (simp add: rl_step_consult)
  note same = consult_same [OF assms(1) rule_ok_limited [OF r] c, folded b_def]
  have dec: "ok d \<longleftrightarrow> 1 \<le> tokens b"
    using assms(1) rule_ok_limited [OF r] c by (cases rule: consult_cases) (auto simp: b_def)
  have B: "float64 (rule_burst r) = of_int (rule_burst r)" "0 \<le> unit_error r"
    using r by (simp_all add: rule_ok_def float64_exact)
  have tb: "tokens b \<le> of_int (rule_burst r)" "0 \<le> tokens b" "last_seen b = op_time x"
    using bb fits by (auto simp: bucket_fits_def)
  have fb: "fl (tokens b - 1) \<le> of_int (rule_burst r)"
    using fl_mono [of "tokens b - 1" "of_int (rule_burst r)"] tb(1) B(1) by (simp add: float64_def)
  consider "1 \<le> tokens b" "is_RlPeek x" "of_int (rule_burst r) \<le> tokens b" | "1 \<le> tokens b" "\<not> is_RlPeek x"
    | "is_RlPeek x" "\<not> (1 \<le> tokens b \<and> of_int (rule_burst r) \<le> tokens b)" | "\<not> 1 \<le> tokens b"
    by blast
  then show ?thesis
  proof cases
    case 1
    then show ?thesis using bb(2) B tb same by (cases x) (auto simp: potential_def bucket_fits_def)
  next
    case 2
    with f64.sub_one_bounds [OF 2(1) tb(1)] show ?thesis
      using bb(2) B tb fb same dec by (auto simp: potential_def bucket_fits_def)
  next
    case 3
    then show ?thesis using bb B tb same by (cases x) (auto simp: potential_def bucket_fits_def)
  next
    case 4
    then show ?thesis using bb B tb same dec by (auto simp: potential_def bucket_fits_def)
  qed
qed

lemma metered_other: "op_key x \<noteq> k \<Longrightarrow> metered r k t0 T (x # xs) = metered r k t0 T xs"
  by (simp add: metered_def calls_on_def)

lemma metered_same:
  assumes "metered r k t0 T (x # xs)" and "op_key x = k"
  shows "op_rule x = r" and "\<not> is_RlSpend x" and "t0 \<le> op_time x" and "metered r k (op_time x) T xs"
  using assms by (auto simp: metered_def calls_on_def)

lemma granted_potential:
  assumes "limiter_ok l" and "rule_ok r" and "bucket_fits r t0 (entry l k)"
    and "metered r k t0 T xs" and "roomy xs l"
  shows "of_nat (granted k xs l) \<le>
    potential r t0 (entry l k) + exact_rate r * of_int (T - t0) + of_nat (length (calls_on k xs)) * (6 * unit_error r)"
  using assms
proof (induction xs arbitrary: l t0)
  case Nil
  have "0 \<le> exact_rate r * of_int (T - t0)"
    using Nil exact_rate_pos [of r] by (auto simp: metered_def)
  with potential_nonneg [OF Nil(2,3)] show ?case by (simp add: calls_on_def)
next
  case (Cons x xs)
  obtain d l' where st: "rl_step x l = (d, l')" by fastforce
  then have ok': "limiter_ok l'" and rm: "roomy xs l'"
    using rl_step_ok [OF Cons.prems(1), of x] roomy_step(1) [OF Cons.prems(1,5)] by auto
  show ?case
  proof (cases "op_key x = k")
    case False
    then have "entry l' k = entry l k" using step_other [OF Cons.prems(1,5)] st by simp
    moreover have "metered r k t0 T xs" using Cons.prems(4) False by (simp add: metered_other)
    ultimately show ?thesis
      using Cons.IH [OF ok' Cons.prems(2) _ _ rm] Cons.prems(3) False st by (simp add: calls_on_def)
  next
    case True
    note m = metered_same [OF Cons.prems(4) True]
    have fits: "bucket_fits r (op_time x) (entry l (op_key x))"
      using bucket_fits_later [OF Cons.prems(3) m(3)] True by simp
    note sp = step_potential [OF Cons.prems(1,2) fits m(1,2) st, unfolded True]
    have "of_nat (granted k xs l') \<le> potential r (op_time x) (entry l' k) +
        exact_rate r * of_int (T - op_time x) + of_nat (length (calls_on k xs)) * (6 * unit_error r)"
      using Cons.IH [OF ok' Cons.prems(2) _ m(4) rm] sp by blast
    moreover have "potential r (op_time x) (entry l k) \<le> potential r t0 (entry l k) + exact_rate r * of_int (op_time x - t0)"
      using potential_later [OF Cons.prems(2) m(3)] .
    moreover have "exact_rate r * of_int (T - t0) = exact_rate r * of_int (op_time x - t0) + exact_rate r * of_int (T - op_time x)"
      by (simp add: algebra_simps)
    moreover have "of_nat (length (calls_on k (x # xs))) * (6 * unit_error r) =
        6 * unit_error r + of_nat (length (calls_on k xs)) * (6 * unit_error r)"
      using True by (simp add: calls_on_def algebra_simps)
    moreover have "of_nat (granted k (x # xs) l) = (if is_RlAllow x \<and> ok d then 1 else 0) + (of_nat (granted k xs l') :: rat)"
      using st True by simp
    ultimately show ?thesis using sp by linarith
  qed
qed

text \<open>
  The bucket of a key that is always charged by the same rule fits it in every reachable limiter.
\<close>

lemma run_fits:
  assumes "limiter_ok l" and "rule_ok r" and "bucket_fits r t0 (entry l k)"
    and "metered r k t0 T xs" and "roomy xs l"
  shows "bucket_fits r T (entry (rl_run xs l) k)"
  using assms
proof (induction xs arbitrary: l t0)
  case Nil
  then show ?case by (auto simp: metered_def intro: bucket_fits_later)
next
  case (Cons x xs)
  obtain d l' where st: "rl_step x l = (d, l')" by fastforce
  then have ok': "limiter_ok l'" and rm: "roomy xs l'"
    using rl_step_ok [OF Cons.prems(1), of x] roomy_step(1) [OF Cons.prems(1,5)] by auto
  show ?case
  proof (cases "op_key x = k")
    case False
    then have "entry l' k = entry l k" using step_other [OF Cons.prems(1,5)] st by simp
    then show ?thesis
      using Cons.IH [OF ok' Cons.prems(2) _ _ rm] Cons.prems(3,4) False st by (simp add: metered_other)
  next
    case True
    note m = metered_same [OF Cons.prems(4) True]
    have "bucket_fits r (op_time x) (entry l (op_key x))"
      using bucket_fits_later [OF Cons.prems(3) m(3)] True by simp
    from step_potential [OF Cons.prems(1,2) this m(1,2) st]
    show ?thesis using Cons.IH [OF ok' Cons.prems(2) _ m(4) rm] True st by simp
  qed
qed

text \<open>A burst, and a refill of it: no window of the rule's length grants more than twice the burst.\<close>

lemma window_grants:
  assumes "limiter_ok l" and r: "rule_ok r" and "bucket_fits r t0 (entry l k)"
    and "metered r k t0 T xs" and "roomy xs l"
    and "T - t0 \<le> rule_window r" and "rule_burst r \<le> 1000" and "length (calls_on k xs) \<le> 10 ^ 12"
  shows "int (granted k xs l) \<le> 2 * rule_burst r"
proof -
  let ?n = "of_nat (length (calls_on k xs)) :: rat" and ?B = "of_int (rule_burst r) :: rat"
  have "exact_rate r * of_int (T - t0) \<le> exact_rate r * of_int (rule_window r)"
    using assms(6) exact_rate_pos [OF r] by (intro mult_left_mono) auto
  also have "\<dots> = ?B" using r by (simp add: exact_rate_def rule_ok_def)
  finally have 1: "exact_rate r * of_int (T - t0) \<le> ?B" .
  have "?n \<le> 10 ^ 12" using assms(8) by (metis of_nat_le_iff of_nat_numeral of_nat_power)
  moreover have "6 * unit_error r \<le> 6 * (1000 / 2 ^ 53)" "0 \<le> 6 * unit_error r"
    using assms(7) r by (auto simp: rule_ok_def)
  ultimately have "?n * (6 * unit_error r) \<le> 10 ^ 12 * (6 * (1000 / 2 ^ 53))"
    by (intro mult_mono) auto
  moreover have "10 ^ 12 * (6 * (1000 / 2 ^ 53)) < (1 :: rat)" by simp
  ultimately have 2: "?n * (6 * unit_error r) < 1" by linarith
  have "of_int (int (granted k xs l)) < of_int (2 * rule_burst r + 1 :: int) + (0 :: rat)"
    using granted_potential [OF assms(1-5)] potential_le [of r t0 "entry l k"] 1 2 by simp
  then show ?thesis by (simp only: add_0_right of_int_less_iff)
qed

section \<open>How long after a refusal the next call is granted\<close>

text \<open>
  \<open>retry_after_of\<close> truncates to a nanosecond and then rounds up to a second. The slack of ten
  microseconds covers the truncation and every rounding on the way back.
\<close>

lemma float64_ge: "0 \<le> e \<Longrightarrow> (1 - 1 / 2 ^ 53) * of_int e \<le> float64 e"
  unfolding float64_def by (rule f64.rnd_ge) simp

lemma trunc_gt: "x - 1 < of_int (trunc x)"
  by (auto simp: trunc_def) linarith+

lemma trunc_le: "0 \<le> x \<Longrightarrow> of_int (trunc x) \<le> x"
  by (simp add: trunc_def)

lemma retry_after_ge:
  assumes "rule_ok r" and "tok < 1"
  shows "trunc (fl (fl (1 - tok) / rate r)) \<le> retry_after_of tok r"
    and "retry_after_of tok r \<le> max 0 (trunc (fl (fl (1 - tok) / rate r))) + second"
    and "second \<le> retry_after_of tok r"
proof -
  let ?d = "trunc (fl (fl (1 - tok) / rate r))"
  have "0 < (1 - 1 / 2 ^ 53) * (1 - tok)" using assms(2) by simp
  then have pos: "0 < fl (1 - tok)" using f64.rnd_ge [of "1 - tok"] assms(2) by linarith
  have m: "0 \<le> ?d mod second" "?d mod second < second" by (simp_all add: second_def)
  have eq: "retry_after_of tok r = max second (?d + (if ?d mod second = 0 then 0 else second - ?d mod second))"
    using pos rate_bounds(3) [OF assms(1)] by (auto simp: retry_after_of_def Let_def)
  show "?d \<le> retry_after_of tok r" "retry_after_of tok r \<le> max 0 ?d + second"
    "second \<le> retry_after_of tok r"
    using m by (auto simp: eq second_def)
qed

lemma exact_rate_ge: "rule_ok r \<Longrightarrow> 1 / 2 ^ 53 \<le> exact_rate r"
proof -
  assume "rule_ok r"
  then have "(1 :: rat) \<le> of_int (rule_burst r)" "(0 :: rat) < of_int (rule_window r)"
    "of_int (rule_window r) \<le> (2 ^ 53 :: rat)"
    by (simp_all add: rule_ok_def)
  then show ?thesis unfolding exact_rate_def by (intro frac_le) auto
qed

lemma retry_after_bounds:
  assumes r: "rule_ok r" and "tok < 1" and "- 500 \<le> tok"
  shows "(1 - 1 / 2 ^ 53) * ((1 - 1 / 2 ^ 53) * (1 - tok)) \<le> rate r * (of_int (retry_after_of tok r) + 1)"
    and "retry_after_of tok r \<le> 2 ^ 62 + second"
proof -
  let ?u = "1 / 2 ^ 53 :: rat" and ?x = "fl (1 - tok) / rate r"
  note rp = rate_bounds(3) [OF r]
  have n: "(1 - ?u) * (1 - tok) \<le> fl (1 - tok)" "fl (1 - tok) \<le> (1 + ?u) * (1 - tok)"
    using f64.rnd_ge [of "1 - tok"] f64.rnd_le [of "1 - tok"] assms(2) by auto
  have "0 < (1 - ?u) * (1 - tok)" using assms(2) by simp
  then have p: "0 \<le> fl (1 - tok)" using n(1) by linarith
  then have x: "0 \<le> ?x" using rp by simp
  have t: "fl ?x \<le> of_int (retry_after_of tok r) + 1"
    using trunc_gt [of "fl ?x"] retry_after_ge(1) [OF r assms(2)]
    by (meson le_less_trans less_imp_le of_int_le_iff diff_less_eq order.trans add_right_mono)
  have "(1 - ?u) * ((1 - ?u) * (1 - tok)) \<le> (1 - ?u) * fl (1 - tok)"
    using n(1) by (intro mult_left_mono) auto
  also have "\<dots> = rate r * ((1 - ?u) * ?x)" using rp by simp
  also have "\<dots> \<le> rate r * fl ?x"
    using rp f64.rnd_ge [OF x] by (intro mult_left_mono) auto
  also have "\<dots> \<le> rate r * (of_int (retry_after_of tok r) + 1)"
    using rp t by (intro mult_left_mono) auto
  finally show "(1 - ?u) * ((1 - ?u) * (1 - tok)) \<le> rate r * (of_int (retry_after_of tok r) + 1)" .
  have "(1 - ?u) * ?u \<le> (1 - ?u) * exact_rate r"
    using exact_rate_ge [OF r] by (intro mult_left_mono) auto
  then have rl: "(1 - ?u) * ?u \<le> rate r" using rate_bounds(2) [OF r] by linarith
  have "(1 + ?u) * (1 - tok) \<le> (1 + ?u) * 501" using assms(3) by (intro mult_left_mono) auto
  then have "fl (1 - tok) \<le> (1 + ?u) * 501" using n(2) by linarith
  then have "?x \<le> ((1 + ?u) * 501) / ((1 - ?u) * ?u)"
    using rl p by (intro frac_le) auto
  then have "(1 + ?u) * ?x \<le> (1 + ?u) * (((1 + ?u) * 501) / ((1 - ?u) * ?u))"
    by (intro mult_left_mono) auto
  also have "\<dots> \<le> 2 ^ 62" by simp
  finally have "fl ?x \<le> 2 ^ 62" using f64.rnd_le [OF x] by linarith
  moreover have "of_int (trunc (fl ?x)) \<le> fl ?x" by (rule trunc_le) (rule f64.rnd_nonneg [OF x])
  ultimately have "of_int (trunc (fl ?x)) \<le> (of_int (2 ^ 62) :: rat)" by simp
  then have "trunc (fl ?x) \<le> 2 ^ 62" by (simp only: of_int_le_iff)
  then show "retry_after_of tok r \<le> 2 ^ 62 + second"
    using retry_after_ge(2) [OF r assms(2)] by simp
qed

lemma slack_suffices:
  fixes t y z :: rat
  assumes "(1 - 1 / 2 ^ 53) * ((1 - 1 / 2 ^ 53) * (1 - t)) + 9999 * ((1 - 1 / 2 ^ 53) * (1 / 2 ^ 53)) \<le> y"
    and "(1 - 1 / 2 ^ 53) * ((1 - 1 / 2 ^ 53) * y) \<le> z" and "t < 1" and "- 500 \<le> t"
  shows "1 - t \<le> z"
  using assms by (simp add: field_simps)

lemma refill_reaches:
  assumes r: "rule_ok r" and "tokens b < 1" and "- 500 \<le> tokens b"
    and wait: "last_seen b + retry_after_of (tokens b) r + 10000 \<le> now"
  shows "1 \<le> tokens (refill r now b)"
proof -
  let ?u = "1 / 2 ^ 53 :: rat" and ?tok = "tokens b"
  define d where "d = retry_after_of ?tok r"
  define e where "e = time_sub now (last_seen b)"
  note rp = rate_bounds(3) [OF r] and db = retry_after_bounds [OF r assms(2,3), folded d_def]
  have d1: "second \<le> d" using retry_after_ge(3) [OF r assms(2)] by (simp add: d_def)
  have e: "d + 10000 \<le> e" using wait db(2) by (simp add: e_def time_sub_def d_def second_def)
  have e0: "0 < e" using e d1 by (simp add: second_def)
  have "(1 - ?u) * ?u \<le> (1 - ?u) * exact_rate r"
    using exact_rate_ge [OF r] by (intro mult_left_mono) auto
  then have rl: "(1 - ?u) * ?u \<le> rate r" using rate_bounds(2) [OF r] by linarith
  have "rate r * (of_int d + 1) + 9999 * rate r = rate r * of_int (d + 10000)"
    by (simp add: algebra_simps)
  also have "\<dots> \<le> rate r * of_int e" using rp e by (intro mult_left_mono) auto
  finally have 1: "(1 - ?u) * ((1 - ?u) * (1 - ?tok)) + 9999 * ((1 - ?u) * ?u) \<le> rate r * of_int e"
    using db(1) rl by linarith
  have "rate r * ((1 - ?u) * of_int e) \<le> rate r * float64 e"
    using rp e0 float64_ge [of e] by (intro mult_left_mono) auto
  then have "(1 - ?u) * ((1 - ?u) * (rate r * of_int e)) \<le> (1 - ?u) * (float64 e * rate r)"
    by (simp add: mult_ac)
  also have "\<dots> \<le> fl (float64 e * rate r)"
  proof (rule f64.rnd_ge)
    have "0 \<le> float64 e" unfolding float64_def by (rule f64.rnd_nonneg) (use e0 in simp)
    then show "0 \<le> float64 e * rate r" using rp by simp
  qed
  finally have 2: "(1 - ?u) * ((1 - ?u) * (rate r * of_int e)) \<le> fl (float64 e * rate r)" .
  have "1 - ?tok \<le> fl (float64 e * rate r)"
    by (rule slack_suffices [OF 1 2]) (use assms(2,3) in auto)
  then have "1 \<le> fl (?tok + fl (float64 e * rate r))" by (rule f64.accumulate_reaches)
  moreover have "1 \<le> float64 (rule_burst r)" using r by (simp add: rule_ok_def float64_exact)
  ultimately show ?thesis using e0 by (simp add: refill_def Let_def e_def)
qed

text \<open>
  One hour for three tokens: the rate is a repeating binary fraction, rounded down, and twenty
  minutes of it are one unit of rounding short of a token.
\<close>

lemma rate_register: "rate RegisterPerEmail = 2063233398808967 / 2 ^ 91"
proof -
  have "fl (3 / 3600000000000) = of_int (2063233398808967 * 4) * pow2 (- 41 - 52)"
    by (rule fl_eqI) (simp_all add: pow2_def)
  then show ?thesis by (simp add: rate_def float64_def policy_defs time_units pow2_def)
qed

lemma register_refill: "fl (fl 1200000000000 * (2063233398808967 / 2 ^ 91)) = 9007199254740991 / 2 ^ 53"
proof -
  have "fl (1200000000000 * (2063233398808967 / 2 ^ 91)) = of_int 9007199254740991 * pow2 (- 1 - 52)"
    by (rule fl_eqI) (simp_all add: pow2_def)
  then show ?thesis by (simp add: pow2_def)
qed

lemma register_retry: "retry_after_of 0 RegisterPerEmail = 1200 * second"
proof -
  have "fl (1 / (2063233398808967 / 2 ^ 91)) = of_int (1200000000000 * 4096) * pow2 (40 - 52)"
    by (rule fl_eqI) (simp_all add: pow2_def)
  then show ?thesis
    by (simp add: retry_after_of_def rate_register Let_def pow2_def trunc_def second_def)
qed

definition register_spent :: limiter where
  "register_spent = rl_run [RlAllow RegisterPerEmail ''k'' 0, RlAllow RegisterPerEmail ''k'' 0,
     RlAllow RegisterPerEmail ''k'' 0] (new_limiter 1)"

lemma register_spent_eq:
  "register_spent = \<lparr>buckets = [(''k'', \<lparr>tokens = 0, last_seen = 0\<rparr>)], recency = [''k''], max_keys = 1\<rparr>"
proof -
  have "fl 3 = 3" "fl 2 = 2" by simp_all
  then show ?thesis
    by (simp add: register_spent_def Allow_def consult_def fetch_def new_limiter_def evict_locked.simps
      refill_def set_bucket_def float64_def policy_defs time_units Let_def)
qed

lemma retry_refused_once:
  "\<not> ok (fst (Allow RegisterPerEmail ''k'' 0 register_spent)) \<and>
   retry_after (fst (Allow RegisterPerEmail ''k'' 0 register_spent)) = 1200 * second"
proof -
  have "rule_burst RegisterPerEmail = 3" "rule_window RegisterPerEmail = 3600000000000" "fl 3 = 3"
    by (simp_all add: policy_defs time_units)
  then show ?thesis
    using register_retry by (simp add: register_spent_eq Allow_def consult_def fetch_def refill_def
      float64_def Let_def second_def)
qed

lemma retry_refused_again:
  "\<not> ok (fst (Allow RegisterPerEmail ''k'' (1200 * second)
     (snd (Allow RegisterPerEmail ''k'' 0 register_spent))))"
proof -
  have b: "rule_burst RegisterPerEmail = 3" "rule_window RegisterPerEmail = 3600000000000"
    by (simp_all add: policy_defs time_units)
  have f: "fl 1200000000000 = 1200000000000" "fl 3 = 3" by simp_all
  have g: "fl (9007199254740991 / 9007199254740992) = 9007199254740991 / 9007199254740992"
    using fl_eqI [of "- 1" "9007199254740991 / 2 ^ 53" 9007199254740991] by (simp add: pow2_def)
  have h: "fl (302231454903657275390625 / 302231454903657293676544) = 9007199254740991 / 9007199254740992"
    using register_refill by simp
  show ?thesis
    using register_retry
    by (simp add: register_spent_eq Allow_def consult_def fetch_def refill_def set_bucket_def
      float64_def b f Let_def second_def time_sub_def rate_register g h)
qed

section \<open>The theorems on the limiter\<close>

text \<open>C29: However it is used, a limiter never tracks more keys than its ceiling.\<close>

theorem tracked_bounded:
  "Tracked (rl_run xs (new_limiter n)) \<le> (if n \<le> 0 then default_max_keys else n)"
  using rl_run_ok [OF new_limiter_ok, of xs n]
  by (simp add: Tracked_def limiter_ok_def new_limiter_def split: if_splits)

text \<open>C27: A call makes its key the most recently used and keeps, of the other keys, exactly those among the
  \<open>max_keys\<close> most recently used, each with its bucket untouched.\<close>

theorem eviction_is_lru:
  assumes "limited r" and "Allow r key now (rl_run xs (new_limiter n)) = (d, l')"
  defines "l \<equiv> rl_run xs (new_limiter n)"
  shows "recency l' = take (nat (max_keys l)) (key # remove1 key (recency l)) \<and>
    (\<forall>k. k \<noteq> key \<longrightarrow> map_of (buckets l') k =
       (if k \<in> set (recency l') then map_of (buckets l) k else None))"
proof -
  have ok: "limiter_ok l" using rl_run_ok [OF new_limiter_ok] by (simp add: l_def)
  have c: "consult r key True False now l = (d, l')" using assms(2) by (simp add: l_def Allow_def)
  have r: "recency l' = touched key l"
    using ok assms(1) c
  proof (cases rule: consult_cases)
    case (taken l1)
    then show ?thesis using fetch_spec [OF ok taken(5)] by simp
  next
    case (refused l1)
    then show ?thesis using fetch_spec [OF ok refused(5)] by simp
  qed auto
  with consult_other [OF ok assms(1) c] show ?thesis by (simp add: touched_def)
qed

theorem eviction_is_lru_witness:
  "entry (snd (Allow LoginGlobal ''b'' 0 (rl_run [RlAllow LoginGlobal ''a'' 0] (new_limiter 1)))) ''a'' = None"
proof -
  let ?l = "rl_run [RlAllow LoginGlobal ''a'' 0] (new_limiter 1)"
  have lim: "limited LoginGlobal" by (simp add: policy_defs time_units)
  have m: "max_keys ?l = 1" using rl_run_ok [OF new_limiter_ok, of "[RlAllow LoginGlobal ''a'' 0]" 1]
    by (simp add: new_limiter_def)
  from eviction_is_lru [OF lim, of "''b''" 0 "[RlAllow LoginGlobal ''a'' 0]" 1, OF prod.collapse [symmetric]] m
  show ?thesis by (simp del: rl_run.simps)
qed





text \<open>C28: Whoever is refused and waits the promised time, and ten microseconds more, is granted the next
  call - also a login whose failed attempts put its bucket up to five hundred tokens in debt.\<close>

theorem retry_after_suffices:
  assumes "limiter_ok l" and r: "rule_ok r"
    and "\<And>b. entry l k = Some b \<Longrightarrow> - 500 \<le> tokens b"
    and "Allow r k now l = (d, l1)" and "\<not> ok d" and "now + retry_after d + 10000 \<le> later"
    and "\<And>b. entry l k = Some b \<Longrightarrow> last_seen b \<le> now"
  shows "ok (fst (Allow r k later l1))"
proof -
  let ?b = "bucket_now r now (entry l k)"
  have c: "consult r k True False now l = (d, l1)" using assms(4) by (simp add: Allow_def)
  note lim = rule_ok_limited [OF r]
  have lt: "tokens ?b < 1" and ra: "retry_after d = retry_after_of (tokens ?b) r"
    using assms(1) lim c assms(5) by (cases rule: consult_cases; simp)+
  have e: "entry l1 k = Some ?b" using consult_same [OF assms(1) lim c] lt by simp
  have ge: "- 500 \<le> tokens ?b \<and> last_seen ?b = now"
  proof (cases "entry l k")
    case None
    then show ?thesis using r by (simp add: bucket_now_simps rule_ok_def float64_exact)
  next
    case (Some b0)
    have f: "fl (- 500) = - 500" using fl_of_int [of "- 500"] by simp
    have "0 \<le> float64 (time_sub now (last_seen b0))" if "0 < time_sub now (last_seen b0)"
      unfolding float64_def by (rule f64.rnd_nonneg) (use that in simp)
    then have "- 500 \<le> fl (tokens b0 + fl (float64 (time_sub now (last_seen b0)) * rate r))"
      if "0 < time_sub now (last_seen b0)"
      using that assms(3) [OF Some] rate_bounds(3) [OF r]
        fl_mono [of "- 500" "tokens b0 + fl (float64 (time_sub now (last_seen b0)) * rate r)"]
        f64.rnd_nonneg [of "float64 (time_sub now (last_seen b0)) * rate r"] f by simp
    moreover have "(0 :: rat) \<le> float64 (rule_burst r)" using r by (simp add: rule_ok_def float64_exact)
    moreover have "last_seen b0 \<le> now" using assms(7) [OF Some] .
    ultimately show ?thesis using Some assms(3) [OF Some]
      by (auto simp: bucket_now_simps refill_def Let_def time_sub_def split: if_splits)
  qed
  have lv: "1 \<le> tokens (bucket_now r later (entry l1 k))"
    unfolding e bucket_now_simps by (rule refill_reaches [OF r lt]) (use ge ra assms(6) in auto)
  obtain d2 l2 where c2: "consult r k True False later l1 = (d2, l2)" by fastforce
  from consult_ok_inv(1) [OF assms(1) c] lim c2 have "ok d2"
    by (cases rule: consult_cases) (use lv in auto)
  then show ?thesis by (simp add: Allow_def c2)
qed

theorem retry_after_suffices_witness:
  "ok (fst (Allow RegisterPerEmail ''k'' (1200 * second + 10000)
     (snd (Allow RegisterPerEmail ''k'' 0 register_spent))))"
proof -
  have l: "limiter_ok register_spent"
    using rl_run_ok [OF new_limiter_ok] unfolding register_spent_def by blast
  have r: "rule_ok RegisterPerEmail" by (simp add: rule_ok_def policy_defs time_units)
  have e: "entry register_spent ''k'' = Some \<lparr>tokens = 0, last_seen = 0\<rparr>"
    by (simp add: register_spent_eq)
  show ?thesis
    by (rule retry_after_suffices [OF l r _ prod.collapse [symmetric]])
      (use e retry_refused_once in auto)
qed

text \<open>The slack is needed: an address that spent its three registrations and is refused with a
  \<open>Retry-After\<close> of twenty minutes is refused again when it retries exactly then, because the rate
  is rounded down.\<close>

theorem retry_exactly_refused:
  "\<not> ok (fst (Allow RegisterPerEmail ''k'' 0 register_spent)) \<and>
   retry_after (fst (Allow RegisterPerEmail ''k'' 0 register_spent)) = 1200 * second \<and>
   \<not> ok (fst (Allow RegisterPerEmail ''k'' (1200 * second)
     (snd (Allow RegisterPerEmail ''k'' 0 register_spent))))"
  using retry_refused_once retry_refused_again by blast

end
