(* ===== verification/LimitProofs.thy ===== *)
theory LimitProofs
  imports Sample RateBound
begin

text \<open>
  What the rate-limiting middleware of \<open>RateLimitMw\<close> guarantees and what it does not: a refusal
  comes before the handler, its wait is the limiter's, and two ways its keys and charges differ
  from what its comments say.
\<close>

definition stops_or_runs :: "request_ctx \<Rightarrow> (request_ctx \<Rightarrow> 'b handler) \<Rightarrow> world \<Rightarrow> 'b handler \<Rightarrow> bool" where
  "stops_or_runs ctx h w m \<longleftrightarrow>
     (\<exists>l. (\<exists>e. run_state m w = (Refuse 429 e, w\<lparr>rl := l\<rparr>) \<and> e_code e = CodeRateLimited) \<or>
       (\<exists>ctx'. ctx_principal ctx' = ctx_principal ctx \<and> ctx_refresh ctx' = ctx_refresh ctx \<and>
          run_state m w = run_state (h ctx') (w\<lparr>rl := l\<rparr>)))"

lemma runs: "ctx_principal ctx' = ctx_principal ctx \<Longrightarrow> ctx_refresh ctx' = ctx_refresh ctx \<Longrightarrow>
    stops_or_runs ctx h w (h ctx')"
  unfolding stops_or_runs_def by (rule exI [of _ "rl w"]) auto

lemma stops_or_runs_consulting:
  assumes "\<And>l. stops_or_runs ctx h (w\<lparr>rl := l\<rparr>) m"
  shows "stops_or_runs ctx h w (do {
    d \<leftarrow> consulting f;
    if \<not> ok d then State_Monad.return (refuse_route route (retry_after d)) else m })"
proof -
  define d l where "d = fst (f (clock w) (rl w))" and "l = snd (f (clock w) (rl w))"
  show ?thesis
  proof (cases "ok d")
    case True
    with assms [of l] show ?thesis
      by (simp add: stops_or_runs_def d_def [symmetric] l_def [symmetric])
  next
    case False
    then show ?thesis unfolding stops_or_runs_def
      by (intro exI [of _ l] disjI1)
        (simp add: d_def [symmetric] l_def [symmetric] refuse_route_def TooManyRequests_def errorBody_def Let_def)
  qed
qed

lemma limit_identity_stops_or_runs: "stops_or_runs ctx h w (limit_identity req ctx route i h)"
  unfolding limit_identity_def Let_def by (simp add: runs stops_or_runs_consulting)

lemma RateLimit_stops_or_runs: "stops_or_runs ctx h w (RateLimit env req ctx h)"
  unfolding RateLimit_def Let_def
  by (cases "matchRoute req") (simp_all add: runs stops_or_runs_consulting limit_identity_stops_or_runs)

text \<open>The middleware either answers 429 having touched nothing but the limiter, or runs the handler on
  the world as it was but for the limiter, for the same principal.\<close>

theorem refused_before_handler:
  "\<exists>l. (\<exists>e. run_state (RateLimit env req ctx h) w = (Refuse 429 e, w\<lparr>rl := l\<rparr>) \<and> e_code e = CodeRateLimited) \<or>
     (\<exists>ctx'. ctx_principal ctx' = ctx_principal ctx \<and> ctx_refresh ctx' = ctx_refresh ctx \<and>
        run_state (RateLimit env req ctx h) w = run_state (h ctx') (w\<lparr>rl := l\<rparr>))"
  using RateLimit_stops_or_runs [of ctx h w env req] by (simp only: stops_or_runs_def)

section \<open>The promised wait\<close>

lemma retry_after_seconds:
  assumes "rule_ok r" and "tok < 1"
  shows "retry_after_of tok r mod second = 0"
proof -
  let ?d = "trunc (fl (fl (1 - tok) / rate r))"
  have "0 < (1 - 1 / 2 ^ 53) * (1 - tok)" using assms(2) by simp
  then have pos: "0 < fl (1 - tok)" using f64.rnd_ge [of "1 - tok"] assms(2) by linarith
  have "?d + (second - ?d mod second) = (?d div second + 1) * second"
    using div_mult_mod_eq [of ?d second] by (simp add: algebra_simps)
  then have "(?d + (second - ?d mod second)) mod second = 0" by simp
  with pos rate_bounds(3) [OF assms(1)] show ?thesis
    by (auto simp: retry_after_of_def Let_def)
qed

text \<open>The \<open>Retry-After\<close> header of a refusal by the limiter is the limiter's wait in seconds, and at least
  one.\<close>

theorem retry_after_header:
  assumes r: "rule_ok r" and "tok < 1" and "- 500 \<le> tok"
  shows "\<exists>e n. (TooManyRequests msg (retry_after_of tok r) :: unit reply) = Refuse 429 e \<and>
    e_retry_after e = Some n \<and> n * second = retry_after_of tok r \<and> 1 \<le> n"
proof -
  let ?d = "retry_after_of tok r"
  have m: "?d mod second = 0" by (rule retry_after_seconds [OF assms(1,2)])
  have b: "?d \<le> 2 ^ 62 + second" "second \<le> ?d"
    using retry_after_bounds(2) [OF assms] retry_after_ge(3) [OF assms(1,2)] by auto
  have "\<bar>?d div second\<bar> \<le> 2 ^ 53" using b by (simp add: second_def)
  then have s: "dur_seconds ?d = of_int (?d div second)"
    using m by (simp add: dur_seconds_def fl_of_int)
  have "1 \<le> ?d div second" using b by (simp add: second_def)
  moreover have "?d div second * second = ?d" using m by (metis add.right_neutral div_mult_mod_eq)
  ultimately show ?thesis by (simp add: TooManyRequests_def s)
qed

theorem retry_after_header_witness:
  "\<exists>e n. (TooManyRequests ''wait'' (retry_after_of 0 RegisterPerEmail) :: unit reply) = Refuse 429 e \<and>
    e_retry_after e = Some n \<and> n * second = retry_after_of 0 RegisterPerEmail \<and> 1 \<le> n"
  by (rule retry_after_header) (simp_all add: rule_ok_def policy_defs time_units)

section \<open>Logins\<close>

text \<open>The login route, and a login request whose body spells the field's name in another case.\<close>

definition login_request :: "string \<Rightarrow> string \<Rightarrow> string \<Rightarrow> http_request" where
  "login_request field addr pw =
     \<lparr>hr_method = ''POST'', hr_full_path = ''/auth/login'', hr_path = ''/auth/login'', hr_headers = [],
      hr_cookies = [], hr_body = Some [(field, JString addr), (''password'', JString pw)]\<rparr>"

abbreviation login_route :: limitedRoute where
  "login_route \<equiv> hd limitedRoutes"

lemma login_route_sel:
  "lr_kind login_route = keyByEmail" "lr_perKey login_route = LoginPerEmail"
  "lr_global login_route = LoginGlobal" "lr_chargeOnFailureOnly login_route"
  by (simp_all add: limitedRoutes_def by_email_def)

lemma match_login [simp]: "matchRoute (login_request field addr pw) = Some login_route"
  by (simp add: matchRoute_def login_request_def limitedRoutes_def by_email_def)

lemma login_globally_limited: "0 < rule_burst LoginGlobal"
  by (simp add: policy_defs)

text \<open>A login whose body names the address \<open>Email\<close> instead of \<open>email\<close> is read by the handler as a
  login to that address, but the middleware finds no identity: after the service-wide bucket, the
  handler runs with no login key, so no per-address limit is checked and a wrong password is not
  charged to anyone.\<close>

theorem login_limit_bypassed:
  "let req = login_request ''Email'' addr pw;
       g = Allow LoginGlobal (GlobalKey LoginGlobal) (clock w) (rl w)
   in struct_field req ''email'' = Some addr \<and>
      run_state (RateLimit env req ctx h) w =
        (if ok (fst g) then run_state (h ctx) (w\<lparr>rl := snd g\<rparr>)
         else (refuse_route login_route (retry_after (fst g)), w\<lparr>rl := snd g\<rparr>))"
proof -
  have s: "struct_field (login_request ''Email'' addr pw) ''email'' = Some addr"
  proof -
    have "to_lower ''Email'' = ''email''" "to_lower ''password'' = ''password''" by code_simp+
    then show ?thesis by (simp add: struct_field_def login_request_def)
  qed
  have i: "routeIdentity env (login_request ''Email'' addr pw) ctx login_route = None"
    by (simp add: routeIdentity_def login_route_sel bodyField_def login_request_def)
  show ?thesis
    by (simp add: Let_def s i RateLimit_def login_route_sel login_globally_limited limit_identity_def)
qed

text \<open>The service-wide login bucket is charged by every login that reaches it, also a successful one:
  whatever the handler answers without touching the limiter, the bucket ends one token lower.\<close>

theorem successful_logins_charged_globally:
  assumes "limiter_ok (rl w)" and "1 \<le> level LoginGlobal (clock w) (rl w) (GlobalKey LoginGlobal)"
    and "\<And>b. entry (rl w) (GlobalKey LoginGlobal) = Some b \<Longrightarrow> tokens b \<le> 60"
    and "trim_space addr \<noteq> []" and "roomy [RlPeek LoginPerEmail k (clock w), RlAllow LoginGlobal (GlobalKey LoginGlobal) (clock w)] (rl w)"
    and "k = limiter_key (login_request ''email'' addr pw) login_route (to_lower (trim_space addr))"
    and "run_state (RateLimit env (login_request ''email'' addr pw) ctx (\<lambda>_. State_Monad.return v)) w = (r, w')"
  shows "level LoginGlobal (clock w) (rl w') (GlobalKey LoginGlobal) =
    fl (level LoginGlobal (clock w) (rl w) (GlobalKey LoginGlobal) - 1)"
proof -
  let ?K = "GlobalKey LoginGlobal" and ?t = "clock w"
  obtain d l where g: "Allow LoginGlobal ?K ?t (rl w) = (d, l)" by fastforce
  have lim: "limited LoginGlobal" "limited LoginPerEmail" by (simp_all add: policy_defs time_units)
  have "float64 (rule_burst LoginGlobal) = 60" using float64_exact [of 60] by (simp add: policy_defs)
  then have le: "tokens b \<le> float64 (rule_burst LoginGlobal)" if "entry (rl w) ?K = Some b" for b
    using assms(3) [OF that] by simp
  have c: "consult LoginGlobal ?K True False ?t (rl w) = (d, l)" using g by (simp add: Allow_def)
  have ref: "(ok d, level LoginGlobal ?t l ?K) = spec_consult True False (level LoginGlobal ?t (rl w) ?K)"
    by (rule consult_refines [OF assms(1) lim(1) c le])
  then have ok: "ok d" and lv: "level LoginGlobal ?t l ?K = fl (level LoginGlobal ?t (rl w) ?K - 1)"
    using assms(2) by (auto simp: spec_consult_def)
  have i: "routeIdentity env (login_request ''email'' addr pw) ctx login_route = Some (to_lower (trim_space addr))"
    by (simp add: routeIdentity_def login_route_sel bodyField_def login_request_def)
  have "to_lower (trim_space addr) \<noteq> []" using assms(4) by (simp add: to_lower_def)
  then have rl': "rl w' = snd (Peek LoginPerEmail k ?t l)"
    using assms(6,7) g ok i
    by (auto simp: RateLimit_def Let_def login_route_sel login_globally_limited limit_identity_def split: if_splits)
  have kne: "k \<noteq> ?K"
    by (simp add: assms(6) limiter_key_def login_route_sel Let_def GlobalKey_def policy_defs)
  have lok: "limiter_ok l" and rm: "roomy [RlPeek LoginPerEmail k ?t] l"
    using roomy_step(1) [OF assms(1), of "RlAllow LoginGlobal ?K ?t" "[RlPeek LoginPerEmail k ?t]"]
      assms(5) consult_ok_inv(1) [OF assms(1) c] g by (auto simp: roomy_def insert_commute)
  have "entry (rl w') ?K = entry l ?K"
    using step_other [OF lok rm, of ?K] kne by (simp add: rl')
  with lv show ?thesis by (simp add: level_def)
qed

theorem successful_logins_charged_globally_witness:
  "level LoginGlobal 0 (rl (snd (run_state (RateLimit sample_env (login_request ''email'' ''a@b'' ''p'') sample_ctx
     (\<lambda>_. State_Monad.return (Success 200 ()))) sample_world))) (GlobalKey LoginGlobal) = 59"
proof -
  have l: "rl sample_world = new_limiter 0" "clock sample_world = 0" by (simp_all add: sample_world_def)
  have "float64 (rule_burst LoginGlobal) = 60" using float64_exact [of 60] by (simp add: policy_defs)
  then have lv: "level LoginGlobal 0 (new_limiter 0) (GlobalKey LoginGlobal) = 60"
    by (simp add: level_def new_limiter_def bucket_now_simps)
  have f: "fl 59 = 59" by simp
  have e: "entry (new_limiter 0) k = None" for k by (simp add: new_limiter_def)
  have t: "trim_space ''a@b'' \<noteq> []" by code_simp
  have rm: "roomy [RlPeek LoginPerEmail k 0, RlAllow LoginGlobal (GlobalKey LoginGlobal) 0] (new_limiter 0)" for k
  proof -
    have "card {k, GlobalKey LoginGlobal} \<le> 2" by (simp add: card_insert_if)
    then show ?thesis by (simp add: roomy_def new_limiter_def default_max_keys_def)
  qed
  show ?thesis
    using successful_logins_charged_globally [OF _ _ _ t _ refl prod.collapse [symmetric],
        of sample_world "''p''" sample_env sample_ctx "Success 200 ()"]
    by (simp add: l lv f rm e new_limiter_ok)
qed

end
