(* ===== verification/PostStore.thy ===== *)
theory PostStore
  imports AccountStore GoFloat
begin

text \<open>
  The queries of \<open>internal/db/sqlcgen/listings.sql.go\<close>, \<open>requests.sql.go\<close> and the takedown queries of
  \<open>admin_posts.sql.go\<close> on the tables \<open>listings\<close>, \<open>listing_photos\<close> and \<open>housing_requests\<close>, with the
  constraints of migrations 3, 5, 6, 7, 9, 10 and 12. Browsing is in \<open>Browse\<close>.
\<close>

section \<open>Updates that return the row\<close>

text \<open>
  \<open>UPDATE .. SET f WHERE P RETURNING *\<close> where \<open>P\<close> fixes the key, so that one row at most matches; the
  new row meets the constraints, or the statement fails with the violated one.
\<close>

definition update_returning ::
  "('r \<Rightarrow> bool) \<Rightarrow> ('r \<Rightarrow> 'r) \<Rightarrow> ('r \<Rightarrow> error option) \<Rightarrow> 'r list \<Rightarrow> 'r res \<times> 'r list" where
  "update_returning P f violation rows =
     (case List.find P rows of
        None \<Rightarrow> (Inl ErrNoRows, rows)
      | Some r \<Rightarrow>
          (case violation (f r) of
             Some e \<Rightarrow> (Inl e, rows)
           | None \<Rightarrow> (Inr (f r), update_where P f rows)))"

lemma update_returning_cases:
  assumes "update_returning P f violation rows = (r, rows')"
  obtains (none) "r = Inl ErrNoRows" "rows' = rows" "\<And>x. x \<in> set rows \<Longrightarrow> \<not> P x"
  | (refused) e where "r = Inl e" "rows' = rows"
  | (updated) x where "x \<in> set rows" "P x" "violation (f x) = None" "r = Inr (f x)"
      "rows' = update_where P f rows" "List.find P rows = Some x"
proof (cases "List.find P rows")
  case None
  then show ?thesis using assms by (intro none) (auto simp: update_returning_def dest: find_NoneD)
next
  case (Some x)
  show ?thesis
  proof (cases "violation (f x)")
    case None
    with Some assms find_SomeD [OF Some] show ?thesis by (intro updated) (auto simp: update_returning_def)
  next
    case (Some e)
    with \<open>List.find P rows = Some x\<close> assms show ?thesis
      by (intro refused) (auto simp: update_returning_def)
  qed
qed

definition on_listings ::
  "(listing list \<Rightarrow> 'a \<times> listing list) \<Rightarrow> database \<Rightarrow> 'a \<times> database" where
  "on_listings g d = (case g (listings d) of (r, ls) \<Rightarrow> (r, d\<lparr>listings := ls\<rparr>))"

definition on_requests ::
  "(housing_request list \<Rightarrow> 'a \<times> housing_request list) \<Rightarrow> database \<Rightarrow> 'a \<times> database" where
  "on_requests g d = (case g (requests d) of (r, qs) \<Rightarrow> (r, d\<lparr>requests := qs\<rparr>))"

text \<open>A query ending in \<open>LIMIT l OFFSET off\<close>: a negative offset is an error (SQLSTATE 2201X).\<close>

definition page_query :: "int \<Rightarrow> int \<Rightarrow> (time \<Rightarrow> database \<Rightarrow> 'a list) \<Rightarrow> 'a list res go" where
  "page_query l off f = exec (\<lambda>t d.
     (if off < 0 then Inl (PgError ''2201X'') else Inr (limit_offset l off (f t d)), d))"

lemma quiet_page_query [stmt_simps]:
  "events w = [] \<Longrightarrow> run_state (page_query l off f) w =
     (if off < 0 then Inl (PgError ''2201X'') else Inr (limit_offset l off (f (clock w) (db w))), w)"
  by (simp add: page_query_def quiet_exec)

lemma db_inv_page_query [keeps_intros]: "keeps (db_inv P) (page_query l off f)"
  unfolding page_query_def by (rule db_inv_exec) simp

section \<open>Constraints\<close>

definition statuses :: "string list" where
  "statuses = [''draft'', ''published'', ''paused'', ''archived'']"

text \<open>\<open>numeric(3,1)\<close>: rounded to one decimal, half away from zero, and below 100.\<close>

definition numeric31 :: "rat \<Rightarrow> rat" where
  "numeric31 x = sgn x * of_int \<lfloor>\<bar>x\<bar> * 10 + 1/2\<rfloor> / 10"

definition listings_fit :: "listing \<Rightarrow> bool" where
  "listings_fit l \<longleftrightarrow>
     rune_count (l_title l) \<le> 200 \<and> rune_count (l_term_tag l) \<le> 40 \<and>
     rune_count (l_unit_type l) \<le> 10 \<and> rune_count (l_bath_type l) \<le> 10 \<and>
     rune_count (l_address_line l) \<le> 200 \<and> rune_count (l_neighbourhood l) \<le> 80 \<and>
     rune_count (l_commute_mode l) \<le> 10 \<and> rune_count (l_status l) \<le> 12 \<and>
     rune_count (l_cross_streets l) \<le> 80"

definition listings_check :: "listing \<Rightarrow> bool" where
  "listings_check l \<longleftrightarrow>
     0 < l_price_cents l \<and>
     (case l_deposit_cents l of None \<Rightarrow> True | Some c \<Rightarrow> 0 \<le> c) \<and>
     l_start_date l < l_end_date l \<and> 0 < l_lease_months l \<and>
     0 \<le> l_views l \<and> 0 \<le> l_replies l \<and> 0 \<le> l_saves l \<and> 0 \<le> l_bedrooms_total l \<and>
     (case l_bedroom_of l of None \<Rightarrow> True | Some n \<Rightarrow> 1 \<le> n \<and> n \<le> l_bedrooms_total l) \<and>
     l_status l \<in> set statuses \<and>
     l_unit_type l \<in> {''room'', ''studio'', ''unit''} \<and>
     l_bath_type l \<in> {''shared'', ''private'', ''ensuite''} \<and>
     l_commute_mode l \<in> {''walk'', ''bus''} \<and>
     (l_removed_at l = None) = (l_removed_reason l = None) \<and>
     (l_min_stay_months l = None) = (\<not> l_shorter_stays l) \<and>
     (case l_min_stay_months l of None \<Rightarrow> True | Some n \<Rightarrow> 1 \<le> n \<and> n \<le> l_lease_months l) \<and>
     (case l_bills_estimate_cents l of None \<Rightarrow> True | Some c \<Rightarrow> 0 \<le> c \<and> c \<le> 100000)"

definition listing_violation :: "listing \<Rightarrow> error option" where
  "listing_violation l =
     (if \<not> listings_fit l then Some value_too_long
      else if 100 \<le> \<bar>l_bathrooms l\<bar> then Some (PgError ''22003'')
      else if \<not> listings_check l then Some check_violation
      else None)"

definition requests_fit :: "housing_request \<Rightarrow> bool" where
  "requests_fit q \<longleftrightarrow> rune_count (q_title q) \<le> 200 \<and> rune_count (q_term_tag q) \<le> 40 \<and>
     rune_count (q_neighbourhood q) \<le> 80 \<and> rune_count (q_status q) \<le> 12"

definition requests_check :: "housing_request \<Rightarrow> bool" where
  "requests_check q \<longleftrightarrow>
     0 < q_budget_cents q \<and> q_start_date q < q_end_date q \<and>
     0 < q_lease_months q \<and> q_lease_months q \<le> 24 \<and> 1 \<le> q_occupants q \<and> q_occupants q \<le> 12 \<and>
     (case q_max_distance_m q of None \<Rightarrow> True | Some m \<Rightarrow> 0 < m) \<and> 0 \<le> q_views q \<and>
     q_status q \<in> set statuses \<and>
     (q_removed_at q = None) = (q_removed_reason q = None)"

definition request_violation :: "housing_request \<Rightarrow> error option" where
  "request_violation q =
     (if \<not> requests_fit q then Some value_too_long
      else if \<not> requests_check q then Some check_violation
      else None)"

section \<open>Joins\<close>

definition find_listing :: "database \<Rightarrow> uuid \<Rightarrow> listing option" where
  "find_listing d i = List.find (\<lambda>l. l_id l = i) (listings d)"

definition find_request :: "database \<Rightarrow> uuid \<Rightarrow> housing_request option" where
  "find_request d i = List.find (\<lambda>q. q_id q = i) (requests d)"

definition user_active :: "database \<Rightarrow> uuid \<Rightarrow> bool" where
  "user_active d i = (case find_user d i of None \<Rightarrow> False | Some u \<Rightarrow> u_suspended_at u = None)"

text \<open>The three filters of every public read of a listing, and of a request.\<close>

definition public_listing :: "database \<Rightarrow> listing \<Rightarrow> bool" where
  "public_listing d l \<longleftrightarrow> l_status l = ''published'' \<and> user_active d (l_owner_id l) \<and> l_removed_at l = None"

definition public_request :: "database \<Rightarrow> housing_request \<Rightarrow> bool" where
  "public_request d q \<longleftrightarrow> q_status q = ''published'' \<and> user_active d (q_poster_id q) \<and> q_removed_at q = None"

text \<open>An offer counts while it stands, its listing is in view and its owner is active.\<close>

definition live_offer :: "database \<Rightarrow> request_offer \<Rightarrow> bool" where
  "live_offer d x \<longleftrightarrow> o_withdrawn_at x = None \<and>
     (case find_listing d (o_listing_id x) of
        None \<Rightarrow> False
      | Some l \<Rightarrow> l_status l = ''published'' \<and> l_removed_at l = None) \<and>
     user_active d (o_owner_id x)"

definition offer_count :: "database \<Rightarrow> uuid \<Rightarrow> int" where
  "offer_count d i = count_where (\<lambda>x. o_request_id x = i \<and> live_offer d x) (offers d)"

record listing_row =
  lw_listing :: listing
  lw_owner_username :: string
  lw_owner_avatar_url :: "string option"
  lw_owner_verified :: bool

record request_row =
  qw_request :: housing_request
  qw_poster_username :: string
  qw_poster_avatar_url :: "string option"
  qw_poster_verified :: bool
  qw_offer_count :: int

definition join_owner :: "database \<Rightarrow> listing \<Rightarrow> listing_row option" where
  "join_owner d l = map_option (\<lambda>u. \<lparr>lw_listing = l, lw_owner_username = u_username u,
     lw_owner_avatar_url = u_avatar_url u, lw_owner_verified = u_verified u\<rparr>) (find_user d (l_owner_id l))"

definition join_poster :: "database \<Rightarrow> housing_request \<Rightarrow> request_row option" where
  "join_poster d q = map_option (\<lambda>u. \<lparr>qw_request = q, qw_poster_username = u_username u,
     qw_poster_avatar_url = u_avatar_url u, qw_poster_verified = u_verified u,
     qw_offer_count = offer_count d (q_id q)\<rparr>) (find_user d (q_poster_id q))"

section \<open>listings\<close>

definition GetPublishedListing :: "uuid \<Rightarrow> listing_row res go" where
  "GetPublishedListing i = query_row (\<lambda>_ d.
     case find_listing d i of
       None \<Rightarrow> None
     | Some l \<Rightarrow> if public_listing d l then join_owner d l else None)"

definition GetListingForOwner :: "uuid \<Rightarrow> listing res go" where
  "GetListingForOwner i = query_row (\<lambda>_ d. find_listing d i)"

definition ListListingsByOwner :: "uuid \<Rightarrow> listing_row list res go" where
  "ListListingsByOwner i = query (\<lambda>_ d.
     List.map_filter (join_owner d)
       (sort_desc l_created_at (filter (\<lambda>l. l_owner_id l = i) (listings d))))"

definition ListPhotosForListing :: "uuid \<Rightarrow> listing_photo list res go" where
  "ListPhotosForListing i = query (\<lambda>_ d.
     sort_key ph_position (sort_key ph_created_at (filter (\<lambda>p. ph_listing_id p = i) (photos d))))"

definition ListPhotosForListings :: "uuid list \<Rightarrow> listing_photo list res go" where
  "ListPhotosForListings ids = query (\<lambda>_ d.
     sort_key (\<lambda>p. uint (ph_listing_id p)) (sort_key ph_position (sort_key ph_created_at
       (filter (\<lambda>p. ph_listing_id p \<in> set ids) (photos d)))))"

text \<open>
  \<open>CreateListing\<close> is given the columns it inserts as a row; the columns it does not name take
  their defaults, the number of bathrooms is rounded by its column type.
\<close>

definition CreateListing_sql :: "listing \<Rightarrow> listing res go" where
  "CreateListing_sql p = insert_row (\<lambda>i t d.
     let l = p\<lparr>l_id := i, l_bathrooms := numeric31 (l_bathrooms p), l_saves := 0, l_updated_at := t,
               l_published_at := None, l_removed_at := None, l_removed_by := None,
               l_removed_reason := None\<rparr>
     in case listing_violation l of
          Some e \<Rightarrow> (Inl e, d)
        | None \<Rightarrow>
            if find_listing d i \<noteq> None then (Inl unique_violation, d)
            else if \<not> user_exists d (l_owner_id l) then (Inl foreign_key_violation, d)
            else (Inr l, d\<lparr>listings := listings d @ [l]\<rparr>))"

record update_listing_params =
  ul_title :: "string option"
  ul_body :: "string option"
  ul_conditions :: "string list option"
  ul_price_cents :: "int option"
  ul_deposit_cents :: "int option"
  ul_start_date :: "date option"
  ul_end_date :: "date option"
  ul_lease_months :: "int option"
  ul_term_tag :: "string option"
  ul_unit_type :: "string option"
  ul_bedrooms_total :: "int option"
  ul_bedroom_of :: "int option"
  ul_bathrooms :: "rat option"
  ul_bath_type :: "string option"
  ul_furnished :: "bool option"
  ul_utilities :: "string list option"
  ul_parking :: "bool option"
  ul_pets :: "bool option"
  ul_laundry :: "bool option"
  ul_address_line :: "string option"
  ul_neighbourhood :: "string option"
  ul_cross_streets :: "string option"
  ul_distance_m :: "int option"
  ul_shorter_stays :: "bool option"
  ul_set_min_stay :: bool
  ul_min_stay_months :: "int option"
  ul_set_bills_estimate :: bool
  ul_bills_estimate_cents :: "int option"

fun coalesce :: "'a option \<Rightarrow> 'a option \<Rightarrow> 'a option" where
  "coalesce (Some v) _ = Some v"
| "coalesce None w = w"

text \<open>The \<open>SET\<close> list of \<open>UpdateListing\<close>; the trigger stamps \<open>updated_at\<close>.\<close>

definition set_listing :: "update_listing_params \<Rightarrow> time \<Rightarrow> listing \<Rightarrow> listing" where
  "set_listing p t l = l\<lparr>
     l_title := default_if_nil (ul_title p) (l_title l),
     l_body := default_if_nil (ul_body p) (l_body l),
     l_conditions := default_if_nil (ul_conditions p) (l_conditions l),
     l_price_cents := default_if_nil (ul_price_cents p) (l_price_cents l),
     l_deposit_cents := coalesce (ul_deposit_cents p) (l_deposit_cents l),
     l_start_date := default_if_nil (ul_start_date p) (l_start_date l),
     l_end_date := default_if_nil (ul_end_date p) (l_end_date l),
     l_lease_months := default_if_nil (ul_lease_months p) (l_lease_months l),
     l_term_tag := default_if_nil (ul_term_tag p) (l_term_tag l),
     l_unit_type := default_if_nil (ul_unit_type p) (l_unit_type l),
     l_bedrooms_total := default_if_nil (ul_bedrooms_total p) (l_bedrooms_total l),
     l_bedroom_of := coalesce (ul_bedroom_of p) (l_bedroom_of l),
     l_bathrooms := (case ul_bathrooms p of None \<Rightarrow> l_bathrooms l | Some x \<Rightarrow> numeric31 x),
     l_bath_type := default_if_nil (ul_bath_type p) (l_bath_type l),
     l_furnished := default_if_nil (ul_furnished p) (l_furnished l),
     l_utilities := default_if_nil (ul_utilities p) (l_utilities l),
     l_parking := default_if_nil (ul_parking p) (l_parking l),
     l_pets := default_if_nil (ul_pets p) (l_pets l),
     l_laundry := default_if_nil (ul_laundry p) (l_laundry l),
     l_address_line := default_if_nil (ul_address_line p) (l_address_line l),
     l_neighbourhood := default_if_nil (ul_neighbourhood p) (l_neighbourhood l),
     l_cross_streets := default_if_nil (ul_cross_streets p) (l_cross_streets l),
     l_distance_m := coalesce (ul_distance_m p) (l_distance_m l),
     l_shorter_stays := default_if_nil (ul_shorter_stays p) (l_shorter_stays l),
     l_min_stay_months := (if ul_set_min_stay p then ul_min_stay_months p else l_min_stay_months l),
     l_bills_estimate_cents := (if ul_set_bills_estimate p then ul_bills_estimate_cents p
                                else l_bills_estimate_cents l),
     l_updated_at := t\<rparr>"

definition UpdateListing_sql :: "uuid \<Rightarrow> update_listing_params \<Rightarrow> listing res go" where
  "UpdateListing_sql i p = exec (\<lambda>t.
     on_listings (update_returning (\<lambda>l. l_id l = i) (set_listing p t) listing_violation))"

definition first_published :: "string \<Rightarrow> time \<Rightarrow> time option \<Rightarrow> time option" where
  "first_published s t p = (if s = ''published'' \<and> p = None then Some t else p)"

definition SetListingStatus_sql :: "uuid \<Rightarrow> string \<Rightarrow> listing res go" where
  "SetListingStatus_sql i s = exec (\<lambda>t.
     on_listings (update_returning (\<lambda>l. l_id l = i)
       (\<lambda>l. l\<lparr>l_status := s, l_published_at := first_published s t (l_published_at l),
             l_updated_at := t\<rparr>) listing_violation))"

text \<open>Takedown: \<open>removed_by\<close> refers to a user, and only a post not yet removed matches.\<close>

definition RemoveListing :: "uuid \<Rightarrow> uuid option \<Rightarrow> string \<Rightarrow> listing res go" where
  "RemoveListing i actor reason = exec (\<lambda>t d.
     on_listings (update_returning (\<lambda>l. l_id l = i \<and> l_removed_at l = None)
       (\<lambda>l. l\<lparr>l_removed_at := Some t, l_removed_by := actor, l_removed_reason := Some reason,
             l_updated_at := t\<rparr>)
       (\<lambda>l. case listing_violation l of
              Some e \<Rightarrow> Some e
            | None \<Rightarrow> (case actor of
                None \<Rightarrow> None
              | Some a \<Rightarrow> if user_exists d a then None else Some foreign_key_violation))) d)"

definition RestoreListing :: "uuid \<Rightarrow> listing res go" where
  "RestoreListing i = exec (\<lambda>t.
     on_listings (update_returning (\<lambda>l. l_id l = i \<and> l_removed_at l \<noteq> None)
       (\<lambda>l. l\<lparr>l_removed_at := None, l_removed_by := None, l_removed_reason := None,
             l_updated_at := t\<rparr>) listing_violation))"

section \<open>housing_requests\<close>

definition GetPublishedRequest :: "uuid \<Rightarrow> request_row res go" where
  "GetPublishedRequest i = query_row (\<lambda>_ d.
     case find_request d i of
       None \<Rightarrow> None
     | Some q \<Rightarrow> if public_request d q then join_poster d q else None)"

definition GetRequestForOwner :: "uuid \<Rightarrow> housing_request res go" where
  "GetRequestForOwner i = query_row (\<lambda>_ d. find_request d i)"

definition ListRequestsByPoster :: "uuid \<Rightarrow> request_row list res go" where
  "ListRequestsByPoster i = query (\<lambda>_ d.
     List.map_filter (join_poster d)
       (sort_desc q_created_at (filter (\<lambda>q. q_poster_id q = i) (requests d))))"

definition CreateRequest_sql :: "housing_request \<Rightarrow> housing_request res go" where
  "CreateRequest_sql p = insert_row (\<lambda>i t d.
     let q = p\<lparr>q_id := i, q_published_at := (if q_status p = ''published'' then Some t else None),
               q_updated_at := t, q_removed_at := None, q_removed_by := None,
               q_removed_reason := None\<rparr>
     in case request_violation q of
          Some e \<Rightarrow> (Inl e, d)
        | None \<Rightarrow>
            if find_request d i \<noteq> None then (Inl unique_violation, d)
            else if \<not> user_exists d (q_poster_id q) then (Inl foreign_key_violation, d)
            else (Inr q, d\<lparr>requests := requests d @ [q]\<rparr>))"

record update_request_params =
  uq_title :: "string option"
  uq_body :: "string option"
  uq_budget_cents :: "int option"
  uq_start_date :: "date option"
  uq_end_date :: "date option"
  uq_lease_months :: "int option"
  uq_term_tag :: "string option"
  uq_occupants :: "int option"
  uq_pets :: "bool option"
  uq_furnished_preferred :: "bool option"
  uq_parking_needed :: "bool option"
  uq_laundry_needed :: "bool option"
  uq_max_distance_m :: "int option"
  uq_neighbourhood :: "string option"

definition set_request :: "update_request_params \<Rightarrow> time \<Rightarrow> housing_request \<Rightarrow> housing_request" where
  "set_request p t q = q\<lparr>
     q_title := default_if_nil (uq_title p) (q_title q),
     q_body := default_if_nil (uq_body p) (q_body q),
     q_budget_cents := default_if_nil (uq_budget_cents p) (q_budget_cents q),
     q_start_date := default_if_nil (uq_start_date p) (q_start_date q),
     q_end_date := default_if_nil (uq_end_date p) (q_end_date q),
     q_lease_months := default_if_nil (uq_lease_months p) (q_lease_months q),
     q_term_tag := default_if_nil (uq_term_tag p) (q_term_tag q),
     q_occupants := default_if_nil (uq_occupants p) (q_occupants q),
     q_pets := default_if_nil (uq_pets p) (q_pets q),
     q_furnished_preferred := default_if_nil (uq_furnished_preferred p) (q_furnished_preferred q),
     q_parking_needed := default_if_nil (uq_parking_needed p) (q_parking_needed q),
     q_laundry_needed := default_if_nil (uq_laundry_needed p) (q_laundry_needed q),
     q_max_distance_m := coalesce (uq_max_distance_m p) (q_max_distance_m q),
     q_neighbourhood := default_if_nil (uq_neighbourhood p) (q_neighbourhood q),
     q_updated_at := t\<rparr>"

definition UpdateRequest_sql :: "uuid \<Rightarrow> update_request_params \<Rightarrow> housing_request res go" where
  "UpdateRequest_sql i p = exec (\<lambda>t.
     on_requests (update_returning (\<lambda>q. q_id q = i) (set_request p t) request_violation))"

definition SetRequestStatus_sql :: "uuid \<Rightarrow> string \<Rightarrow> housing_request res go" where
  "SetRequestStatus_sql i s = exec (\<lambda>t.
     on_requests (update_returning (\<lambda>q. q_id q = i)
       (\<lambda>q. q\<lparr>q_status := s, q_published_at := first_published s t (q_published_at q),
             q_updated_at := t\<rparr>) request_violation))"

definition RemoveRequest :: "uuid \<Rightarrow> uuid option \<Rightarrow> string \<Rightarrow> housing_request res go" where
  "RemoveRequest i actor reason = exec (\<lambda>t d.
     on_requests (update_returning (\<lambda>q. q_id q = i \<and> q_removed_at q = None)
       (\<lambda>q. q\<lparr>q_removed_at := Some t, q_removed_by := actor, q_removed_reason := Some reason,
             q_updated_at := t\<rparr>)
       (\<lambda>q. case request_violation q of
              Some e \<Rightarrow> Some e
            | None \<Rightarrow> (case actor of
                None \<Rightarrow> None
              | Some a \<Rightarrow> if user_exists d a then None else Some foreign_key_violation))) d)"

definition RestoreRequest :: "uuid \<Rightarrow> housing_request res go" where
  "RestoreRequest i = exec (\<lambda>t.
     on_requests (update_returning (\<lambda>q. q_id q = i \<and> q_removed_at q \<noteq> None)
       (\<lambda>q. q\<lparr>q_removed_at := None, q_removed_by := None, q_removed_reason := None,
             q_updated_at := t\<rparr>) request_violation))"

lemmas post_query_defs =
  GetPublishedListing_def GetListingForOwner_def ListListingsByOwner_def ListPhotosForListing_def
  ListPhotosForListings_def CreateListing_sql_def UpdateListing_sql_def SetListingStatus_sql_def
  RemoveListing_def RestoreListing_def GetPublishedRequest_def GetRequestForOwner_def
  ListRequestsByPoster_def CreateRequest_sql_def UpdateRequest_sql_def SetRequestStatus_sql_def
  RemoveRequest_def RestoreRequest_def

end
