(* ===== verification/Ledger.thy ===== *)
theory Ledger
  imports PostStore
begin

text \<open>
  What an admin does, and its record: the account queries of \<open>internal/db/sqlcgen/admin.sql.go\<close>,
  \<open>internal/db/audit.go\<close> (\<open>Audited\<close>), \<open>accounts.go\<close>, \<open>roles.go\<close> and \<open>posts.go\<close>.
\<close>

section \<open>The calendar\<close>

text \<open>
  Days are counted from 1 January 1970 in the proleptic Gregorian calendar; \<open>rfc3339\<close> is
  \<open>t.UTC().Format(time.RFC3339)\<close> for the years 0 to 9999.
\<close>

definition civil_from_days :: "int \<Rightarrow> int \<times> int \<times> int" where
  "civil_from_days days =
     (let z = days + 719468; era = z div 146097; doe = z mod 146097;
          yoe = (doe - doe div 1460 + doe div 36524 - doe div 146096) div 365;
          doy = doe - (365 * yoe + yoe div 4 - yoe div 100);
          mp = (5 * doy + 2) div 153;
          m = (if mp < 10 then mp + 3 else mp - 9)
      in (yoe + era * 400 + (if m \<le> 2 then 1 else 0), m, doy - (153 * mp + 2) div 5 + 1))"

definition pad :: "nat \<Rightarrow> int \<Rightarrow> string" where
  "pad n x = (let s = itoa x in replicate (n - length s) CHR ''0'' @ s)"

definition rfc3339 :: "time \<Rightarrow> string" where
  "rfc3339 t =
     (let seconds = t div 1000000000; (y, m, d) = civil_from_days (seconds div 86400);
          s = seconds mod 86400
      in pad 4 y @ ''-'' @ pad 2 m @ ''-'' @ pad 2 d @ ''T'' @ pad 2 (s div 3600) @ '':'' @
         pad 2 (s div 60 mod 60) @ '':'' @ pad 2 (s mod 60) @ ''Z'')"

section \<open>Queries\<close>

definition CountAdmins :: "int res go" where
  "CountAdmins = query (\<lambda>_ d. count_where (\<lambda>u. u_role u = ''admin'') (users d))"

definition SetUserRole :: "string \<Rightarrow> uuid \<Rightarrow> user res go" where
  "SetUserRole role i = exec (update_user (\<lambda>_. True) (\<lambda>u. u\<lparr>u_role := role\<rparr>) i)"

definition SuspendUser :: "uuid option \<Rightarrow> string option \<Rightarrow> uuid \<Rightarrow> user res go" where
  "SuspendUser actor reason i = exec (\<lambda>t d.
     (case actor of
        Some a \<Rightarrow> if user_exists d a then
            update_user (\<lambda>u. u_suspended_at u = None)
              (\<lambda>u. u\<lparr>u_suspended_at := Some t, u_suspended_by := actor, u_suspend_reason := reason\<rparr>) i t d
          else (case List.find (\<lambda>u. u_id u = i \<and> u_suspended_at u = None) (users d) of
                  None \<Rightarrow> (Inl ErrNoRows, d)
                | Some _ \<Rightarrow> (Inl foreign_key_violation, d))
      | None \<Rightarrow> update_user (\<lambda>u. u_suspended_at u = None)
          (\<lambda>u. u\<lparr>u_suspended_at := Some t, u_suspended_by := actor, u_suspend_reason := reason\<rparr>) i t d))"

definition ReinstateUser :: "uuid \<Rightarrow> user res go" where
  "ReinstateUser i = exec (update_user (\<lambda>u. u_suspended_at u \<noteq> None)
     (\<lambda>u. u\<lparr>u_suspended_at := None, u_suspended_by := None, u_suspend_reason := None\<rparr>) i)"

definition VerifyUserAsAdmin :: "uuid \<Rightarrow> user res go" where
  "VerifyUserAsAdmin i = exec (update_user (\<lambda>u. \<not> u_verified u) (\<lambda>u. u\<lparr>u_verified := True\<rparr>) i)"

definition admin_actions_check :: "admin_action \<Rightarrow> bool" where
  "admin_actions_check a \<longleftrightarrow>
     a_action a \<in> {''set_role'', ''suspend'', ''reinstate'', ''verify'', ''remove_post'', ''restore_post''} \<and>
     a_subject_type a \<in> {''user'', ''listing'', ''request''} \<and>
     dropWhile (\<lambda>c. c = CHR '' '') (a_reason a) \<noteq> [] \<and> rune_count (a_reason a) \<le> 1000"

definition InsertAdminAction ::
  "uuid option \<Rightarrow> string \<Rightarrow> string \<Rightarrow> uuid \<Rightarrow> string \<Rightarrow> (string \<times> json) list \<Rightarrow> admin_action res go" where
  "InsertAdminAction actor action subject_type subject reason detail = insert_row (\<lambda>i t d.
     let a = \<lparr>a_id = i, a_actor_id = actor, a_action = action, a_subject_type = subject_type,
              a_subject_id = subject, a_reason = reason, a_detail = detail, a_created_at = t\<rparr>
     in if \<not> admin_actions_check a then (Inl check_violation, d)
        else if list_ex (\<lambda>b. a_id b = i) (admin_actions d) then (Inl unique_violation, d)
        else if (case actor of None \<Rightarrow> False | Some u \<Rightarrow> \<not> user_exists d u)
        then (Inl foreign_key_violation, d)
        else (Inr a, d\<lparr>admin_actions := admin_actions d @ [a]\<rparr>))"

section \<open>Audited changes\<close>

record action =
  ac_actor :: "uuid option"
  ac_action :: string
  ac_subject_type :: string
  ac_subject :: uuid
  ac_reason :: string

definition trimmedReason :: "string \<Rightarrow> string" where
  "trimmedReason reason = trim_space reason"

text \<open>
  The change yields the detail of the ledger row and whatever its caller keeps of it; the change and
  the row commit together.
\<close>

definition Audited :: "action \<Rightarrow> ((string \<times> json) list \<times> 'a) res go \<Rightarrow> (admin_action \<times> 'a) res go" where
  "Audited a change =
     (let reason = trimmedReason (ac_reason a)
      in if reason = [] then State_Monad.return (Inl ErrReasonRequired)
         else in_tx (do {
           r \<leftarrow> change;
           case r of
             Inl e \<Rightarrow> State_Monad.return (Inl e)
           | Inr (detail, out) \<Rightarrow> do {
               logged \<leftarrow> InsertAdminAction (ac_actor a) (ac_action a) (ac_subject_type a) (ac_subject a)
                 reason detail;
               case logged of
                 Inl e \<Rightarrow> State_Monad.return (Inl (Wrapped ''record admin action'' e))
               | Inr row \<Rightarrow> State_Monad.return (Inr (row, out)) } }))"

text \<open>\<open>if errors.Is(err, pgx.ErrNoRows) { return nil, instead }\<close>\<close>

definition no_rows_means :: "error \<Rightarrow> error \<Rightarrow> error" where
  "no_rows_means instead e = (if errors_is e ErrNoRows then instead else e)"

section \<open>Roles\<close>

definition ChangeRole ::
  "uuid option \<Rightarrow> uuid \<Rightarrow> string \<Rightarrow> string \<Rightarrow> (admin_action \<times> user \<times> string) res go" where
  "ChangeRole actor i role reason =
     (if actor = Some i then State_Monad.return (Inl ErrSelfAction)
      else Audited \<lparr>ac_actor = actor, ac_action = ''set_role'', ac_subject_type = ''user'',
        ac_subject = i, ac_reason = reason\<rparr> (do {
          found \<leftarrow> GetUserByID i;
          case found of
            Inl e \<Rightarrow> State_Monad.return (Inl e)
          | Inr old \<Rightarrow>
              if u_role old = role then State_Monad.return (Inl ErrRoleUnchanged)
              else do {
                changed \<leftarrow> SetUserRole role i;
                case changed of
                  Inl e \<Rightarrow> State_Monad.return (Inl e)
                | Inr new \<Rightarrow> do {
                    (left :: unit res) \<leftarrow>
                      (if u_role old = ''admin'' then do {
                         n \<leftarrow> CountAdmins;
                         case n of
                           Inl e \<Rightarrow> State_Monad.return (Inl e)
                         | Inr k \<Rightarrow> State_Monad.return (if k = 0 then Inl ErrLastAdmin else Inr ()) }
                       else State_Monad.return (Inr ()));
                    case left of
                      Inl e \<Rightarrow> State_Monad.return (Inl e)
                    | Inr _ \<Rightarrow> do {
                        ended \<leftarrow> RevokeAllRefreshTokensForUser i;
                        case ended of
                          Inl e \<Rightarrow> State_Monad.return (Inl e)
                        | Inr _ \<Rightarrow> State_Monad.return (Inr
                            ([(''from'', JString (u_role old)), (''to'', JString role),
                              (''sessions_revoked'', JBool True)], (new, u_role old))) } } } }))"

section \<open>Accounts\<close>

definition user_action :: "string \<Rightarrow> uuid \<Rightarrow> uuid \<Rightarrow> string \<Rightarrow> action" where
  "user_action act actor i reason = \<lparr>ac_actor = Some actor, ac_action = act,
     ac_subject_type = ''user'', ac_subject = i, ac_reason = reason\<rparr>"

definition Suspend :: "uuid \<Rightarrow> uuid \<Rightarrow> string \<Rightarrow> (admin_action \<times> user) res go" where
  "Suspend actor i reason =
     (if actor = i then State_Monad.return (Inl ErrSelfAction)
      else Audited (user_action ''suspend'' actor i reason) (do {
        found \<leftarrow> GetUserByID i;
        case found of
          Inl e \<Rightarrow> State_Monad.return (Inl e)
        | Inr _ \<Rightarrow> do {
            r \<leftarrow> SuspendUser (Some actor) (Some (trimmedReason reason)) i;
            case r of
              Inl e \<Rightarrow> State_Monad.return (Inl (no_rows_means ErrAlreadySuspended e))
            | Inr new \<Rightarrow> do {
                ended \<leftarrow> RevokeAllRefreshTokensForUser i;
                case ended of
                  Inl e \<Rightarrow> State_Monad.return (Inl e)
                | Inr _ \<Rightarrow> State_Monad.return (Inr
                    ([(''from'', JString ''active''), (''to'', JString ''suspended''),
                      (''sessions_revoked'', JBool True)], new)) } } }))"

definition Reinstate :: "uuid \<Rightarrow> uuid \<Rightarrow> string \<Rightarrow> (admin_action \<times> user) res go" where
  "Reinstate actor i reason =
     Audited (user_action ''reinstate'' actor i reason) (do {
       found \<leftarrow> GetUserByID i;
       case found of
         Inl e \<Rightarrow> State_Monad.return (Inl e)
       | Inr old \<Rightarrow> do {
           r \<leftarrow> ReinstateUser i;
           case r of
             Inl e \<Rightarrow> State_Monad.return (Inl (no_rows_means ErrNotSuspended e))
           | Inr new \<Rightarrow> State_Monad.return (Inr
               ([(''from'', JString ''suspended''), (''to'', JString ''active'')] @
                (case u_suspended_at old of None \<Rightarrow> [] | Some t \<Rightarrow> [(''suspended_at'', JString (rfc3339 t))]) @
                (case u_suspend_reason old of None \<Rightarrow> [] | Some s \<Rightarrow> [(''suspend_reason'', JString s)]),
                new)) } })"

definition VerifyByHand :: "uuid \<Rightarrow> uuid \<Rightarrow> string \<Rightarrow> (admin_action \<times> user) res go" where
  "VerifyByHand actor i reason =
     Audited (user_action ''verify'' actor i reason) (do {
       found \<leftarrow> GetUserByID i;
       case found of
         Inl e \<Rightarrow> State_Monad.return (Inl e)
       | Inr _ \<Rightarrow> do {
           r \<leftarrow> VerifyUserAsAdmin i;
           case r of
             Inl e \<Rightarrow> State_Monad.return (Inl (no_rows_means ErrAlreadyVerified e))
           | Inr new \<Rightarrow> State_Monad.return (Inr
               ([(''from'', JBool False), (''to'', JBool True)], new)) } })"

section \<open>Posts\<close>

record post_state =
  ps_status :: string
  ps_removed_at :: "time option"
  ps_removed_reason :: "string option"

record post_ops =
  po_subject :: string
  po_get :: "uuid \<Rightarrow> post_state res go"
  po_remove :: "uuid \<Rightarrow> uuid option \<Rightarrow> string \<Rightarrow> unit res go"
  po_restore :: "uuid \<Rightarrow> unit res go"

definition res_map :: "('a \<Rightarrow> 'b) \<Rightarrow> 'a res go \<Rightarrow> 'b res go" where
  "res_map f m = do { r \<leftarrow> m; State_Monad.return (map_sum id f r) }"

lemma run_res_map [simp]: "run_state (res_map f m) w = map_prod (map_sum id f) id (run_state m w)"
  by (simp add: res_map_def split: prod.split)

lemma keeps_res_map [keeps_intros]: "keeps I m \<Longrightarrow> keeps I (res_map f m)"
  unfolding res_map_def by (intro keeps_intros)

definition listing_state :: "listing \<Rightarrow> post_state" where
  "listing_state l = \<lparr>ps_status = l_status l, ps_removed_at = l_removed_at l,
     ps_removed_reason = l_removed_reason l\<rparr>"

definition request_state :: "housing_request \<Rightarrow> post_state" where
  "request_state q = \<lparr>ps_status = q_status q, ps_removed_at = q_removed_at q,
     ps_removed_reason = q_removed_reason q\<rparr>"

definition listingOps :: post_ops where
  "listingOps =
     \<lparr>po_subject = ''listing'',
      po_get = (\<lambda>i. res_map listing_state (GetListingForOwner i)),
      po_remove = (\<lambda>i actor reason. res_map (\<lambda>_. ()) (RemoveListing i actor reason)),
      po_restore = (\<lambda>i. res_map (\<lambda>_. ()) (RestoreListing i))\<rparr>"

definition requestOps :: post_ops where
  "requestOps =
     \<lparr>po_subject = ''request'',
      po_get = (\<lambda>i. res_map request_state (GetRequestForOwner i)),
      po_remove = (\<lambda>i actor reason. res_map (\<lambda>_. ()) (RemoveRequest i actor reason)),
      po_restore = (\<lambda>i. res_map (\<lambda>_. ()) (RestoreRequest i))\<rparr>"

definition opsFor :: "string \<Rightarrow> post_ops res" where
  "opsFor subject =
     (if subject = ''listing'' then Inr listingOps
      else if subject = ''request'' then Inr requestOps
      else Inl (OtherError (''no takedown for subject '' @ dquote @ subject @ dquote)))"

definition DefaultRestoreReason :: string where
  "DefaultRestoreReason = ''Restored by an admin''"

definition remove_change :: "post_ops \<Rightarrow> uuid \<Rightarrow> uuid \<Rightarrow> string \<Rightarrow> ((string \<times> json) list \<times> unit) res go" where
  "remove_change ops actor i reason = do {
     before \<leftarrow> po_get ops i;
     case before of
       Inl e \<Rightarrow> State_Monad.return (Inl e)
     | Inr old \<Rightarrow> do {
         r \<leftarrow> po_remove ops i (Some actor) (trimmedReason reason);
         case r of
           Inl e \<Rightarrow> State_Monad.return (Inl (no_rows_means ErrAlreadyRemoved e))
         | Inr _ \<Rightarrow> State_Monad.return (Inr
             ([(''from'', JString ''visible''), (''to'', JString ''removed''),
               (''status'', JString (ps_status old))], ())) } }"

definition restore_change :: "post_ops \<Rightarrow> uuid \<Rightarrow> ((string \<times> json) list \<times> unit) res go" where
  "restore_change ops i = do {
     before \<leftarrow> po_get ops i;
     case before of
       Inl e \<Rightarrow> State_Monad.return (Inl e)
     | Inr old \<Rightarrow> do {
         r \<leftarrow> po_restore ops i;
         case r of
           Inl e \<Rightarrow> State_Monad.return (Inl (no_rows_means ErrNotRemoved e))
         | Inr _ \<Rightarrow> State_Monad.return (Inr
             ([(''from'', JString ''removed''), (''to'', JString ''visible''),
               (''status'', JString (ps_status old))] @
              (case ps_removed_at old of None \<Rightarrow> [] | Some t \<Rightarrow> [(''removed_at'', JString (rfc3339 t))]) @
              (case ps_removed_reason old of None \<Rightarrow> [] | Some s \<Rightarrow> [(''removed_reason'', JString s)]), ())) } }"

definition RemovePost :: "uuid \<Rightarrow> string \<Rightarrow> uuid \<Rightarrow> string \<Rightarrow> unit res go" where
  "RemovePost actor subject i reason =
     (case opsFor subject of
        Inl e \<Rightarrow> State_Monad.return (Inl e)
      | Inr ops \<Rightarrow> res_map (\<lambda>_. ()) (Audited
          \<lparr>ac_actor = Some actor, ac_action = ''remove_post'', ac_subject_type = subject,
           ac_subject = i, ac_reason = reason\<rparr> (remove_change ops actor i reason)))"

definition RestorePost :: "uuid \<Rightarrow> string \<Rightarrow> uuid \<Rightarrow> string \<Rightarrow> unit res go" where
  "RestorePost actor subject i reason =
     (case opsFor subject of
        Inl e \<Rightarrow> State_Monad.return (Inl e)
      | Inr ops \<Rightarrow> res_map (\<lambda>_. ()) (Audited
          \<lparr>ac_actor = Some actor, ac_action = ''restore_post'', ac_subject_type = subject,
           ac_subject = i,
           ac_reason = (if trimmedReason reason = [] then DefaultRestoreReason else reason)\<rparr>
          (restore_change ops i)))"

lemmas admin_query_defs =
  CountAdmins_def SetUserRole_def SuspendUser_def ReinstateUser_def VerifyUserAsAdmin_def
  InsertAdminAction_def

end
