(* ===== verification/Views.thy ===== *)
theory Views
  imports PostStore Http
begin

text \<open>
  The mapping of rows to responses (\<open>internal/httpapi/mapping.go\<close>) for listings and requests, and
  the small conversions of \<open>listings_validate.go\<close> and \<open>listings.go\<close>. A nullable member of a response is
  an option; in a request body, \<open>nullable\<close> also tells an absent member from an explicit null.
\<close>

section \<open>Conversions\<close>

datatype 'a nullable = Absent | Null | Value 'a

fun nullableToPtrInt :: "int nullable \<Rightarrow> int option" where
  "nullableToPtrInt (Value v) = Some v"
| "nullableToPtrInt _ = None"

fun nullableValue :: "int nullable \<Rightarrow> int option \<times> bool" where
  "nullableValue Absent = (None, False)"
| "nullableValue Null = (None, True)"
| "nullableValue (Value v) = (Some v, True)"

fun int32Ptr :: "int option \<Rightarrow> int option" where
  "int32Ptr None = None"
| "int32Ptr (Some v) = Some (to_int32 v)"

fun int32From :: "int option \<Rightarrow> int option" where
  "int32From None = None"
| "int32From (Some v) = Some (to_int32 v)"

fun trimmedPtr :: "string option \<Rightarrow> string option" where
  "trimmedPtr None = None"
| "trimmedPtr (Some v) = Some (trim_space v)"

definition derefString :: "string option \<Rightarrow> string" where
  "derefString v = default_if_nil v []"

definition derefBool :: "bool option \<Rightarrow> bool" where
  "derefBool v = (v = Some True)"

definition derefStrings :: "string list option \<Rightarrow> string list" where
  "derefStrings v = default_if_nil v []"

definition trimAll :: "string list \<Rightarrow> string list" where
  "trimAll vs = filter (\<lambda>t. t \<noteq> []) (map trim_space vs)"

definition utilityStrings :: "string list option \<Rightarrow> string list" where
  "utilityStrings v = default_if_nil v []"

lemma length_trimAll: "length (trimAll vs) \<le> length vs"
  unfolding trimAll_def by (rule order.trans [OF length_filter_le]) simp

text \<open>Conversion to \<open>float32\<close>: 24 significant bits, ties to even.\<close>

definition float32_pos :: "rat \<Rightarrow> rat" where
  "float32_pos x = (let e = ilog2 x - 23 in of_int (round_even (x * pow2 (- e))) * pow2 e)"

definition float32 :: "rat \<Rightarrow> rat" where
  "float32 x = (if x = 0 then 0 else if 0 < x then float32_pos x else - float32_pos (- x))"

section \<open>Owners, photos and takedowns\<close>

record owner_view =
  ov_id :: uuid
  ov_username :: string
  ov_avatar_url :: "string option"
  ov_verified :: bool

record photo_view =
  pv_id :: uuid
  pv_url :: string
  pv_position :: int

record post_removal =
  pr_removed_at :: time
  pr_reason :: string

definition listing_owner :: "listing_row \<Rightarrow> owner_view" where
  "listing_owner r = \<lparr>ov_id = l_owner_id (lw_listing r), ov_username = lw_owner_username r,
     ov_avatar_url = lw_owner_avatar_url r, ov_verified = lw_owner_verified r\<rparr>"

definition request_poster :: "request_row \<Rightarrow> owner_view" where
  "request_poster r = \<lparr>ov_id = q_poster_id (qw_request r), ov_username = qw_poster_username r,
     ov_avatar_url = qw_poster_avatar_url r, ov_verified = qw_poster_verified r\<rparr>"

definition removalFrom :: "time option \<Rightarrow> string option \<Rightarrow> post_removal option" where
  "removalFrom removed reason =
     (case removed of
        None \<Rightarrow> None
      | Some t \<Rightarrow> Some \<lparr>pr_removed_at = t, pr_reason = default_if_nil reason []\<rparr>)"

definition toPhoto :: "listing_photo \<Rightarrow> photo_view" where
  "toPhoto p = \<lparr>pv_id = ph_id p, pv_url = ph_url p, pv_position = ph_position p\<rparr>"

section \<open>Listings\<close>

record listing_view =
  lv_id :: uuid
  lv_title :: string
  lv_body :: string
  lv_conditions :: "string list"
  lv_price_cents :: int
  lv_deposit_cents :: "int option"
  lv_start_date :: date
  lv_end_date :: date
  lv_lease_months :: int
  lv_term_tag :: string
  lv_unit_type :: string
  lv_bedrooms_total :: int
  lv_bedroom_of :: "int option"
  lv_bathrooms :: rat
  lv_bath_type :: string
  lv_furnished :: bool
  lv_utilities :: "string list"
  lv_parking :: bool
  lv_pets :: bool
  lv_laundry :: bool
  lv_address_line :: "string option"
  lv_neighbourhood :: string
  lv_cross_streets :: string
  lv_lat :: "rat option"
  lv_lng :: "rat option"
  lv_distance_m :: "int option"
  lv_commute_minutes :: "int option"
  lv_commute_mode :: string
  lv_minutes_to_transit :: "int option"
  lv_minutes_to_grocery :: "int option"
  lv_status :: string
  lv_views :: int
  lv_replies :: int
  lv_saves :: int
  lv_created_at :: time
  lv_owner :: owner_view
  lv_photos :: "photo_view list"
  lv_shorter_stays :: bool
  lv_min_stay_months :: "int option"
  lv_bills_estimate_cents :: "int option"
  lv_all_in_cents :: "int option"
  lv_removal :: "post_removal option"

text \<open>The sum is an \<open>int32\<close> and may wrap.\<close>

definition allInCents :: "listing \<Rightarrow> int option" where
  "allInCents row = map_option (\<lambda>b. to_int32 (l_price_cents row + b)) (l_bills_estimate_cents row)"

definition toListing :: "listing \<Rightarrow> owner_view \<Rightarrow> listing_photo list \<Rightarrow> bool \<Rightarrow> listing_view" where
  "toListing row owner pictures exact =
     \<lparr>lv_id = l_id row, lv_title = l_title row, lv_body = l_body row,
      lv_conditions = l_conditions row, lv_price_cents = l_price_cents row,
      lv_deposit_cents = l_deposit_cents row, lv_start_date = l_start_date row,
      lv_end_date = l_end_date row, lv_lease_months = l_lease_months row,
      lv_term_tag = l_term_tag row, lv_unit_type = l_unit_type row,
      lv_bedrooms_total = l_bedrooms_total row, lv_bedroom_of = l_bedroom_of row,
      lv_bathrooms = float32 (l_bathrooms row), lv_bath_type = l_bath_type row,
      lv_furnished = l_furnished row, lv_utilities = l_utilities row, lv_parking = l_parking row,
      lv_pets = l_pets row, lv_laundry = l_laundry row,
      lv_address_line = (if exact then Some (l_address_line row) else None),
      lv_neighbourhood = l_neighbourhood row, lv_cross_streets = l_cross_streets row,
      lv_lat = (if exact then map_option float32 (l_lat row) else None),
      lv_lng = (if exact then map_option float32 (l_lng row) else None),
      lv_distance_m = l_distance_m row, lv_commute_minutes = l_commute_minutes row,
      lv_commute_mode = l_commute_mode row, lv_minutes_to_transit = l_minutes_to_transit row,
      lv_minutes_to_grocery = l_minutes_to_grocery row, lv_status = l_status row,
      lv_views = l_views row, lv_replies = l_replies row, lv_saves = l_saves row,
      lv_created_at = l_created_at row, lv_owner = owner, lv_photos = map toPhoto pictures,
      lv_shorter_stays = l_shorter_stays row, lv_min_stay_months = l_min_stay_months row,
      lv_bills_estimate_cents = l_bills_estimate_cents row, lv_all_in_cents = allInCents row,
      lv_removal = removalFrom (l_removed_at row) (l_removed_reason row)\<rparr>"

text \<open>A listing without its exact place: two listings that agree on this are told apart by nobody else.\<close>

definition without_place :: "listing \<Rightarrow> listing" where
  "without_place l = l\<lparr>l_address_line := [], l_lat := None, l_lng := None\<rparr>"

lemma toListing_hides_place: "toListing (without_place l) owner pictures False = toListing l owner pictures False"
  by (simp add: toListing_def without_place_def allInCents_def)

lemma toListing_simps [simp]:
  "lv_id (toListing l ow ps e) = l_id l" "lv_status (toListing l ow ps e) = l_status l"
  "lv_address_line (toListing l ow ps e) = (if e then Some (l_address_line l) else None)"
  "lv_owner (toListing l ow ps e) = ow"
  by (simp_all add: toListing_def)

section \<open>Housing requests\<close>

record request_view =
  qv_id :: uuid
  qv_title :: string
  qv_body :: string
  qv_budget_cents :: int
  qv_start_date :: date
  qv_end_date :: date
  qv_lease_months :: int
  qv_term_tag :: string
  qv_occupants :: int
  qv_pets :: bool
  qv_furnished_preferred :: bool
  qv_parking_needed :: bool
  qv_laundry_needed :: bool
  qv_max_distance_m :: "int option"
  qv_neighbourhood :: string
  qv_status :: string
  qv_views :: int
  qv_offers :: int
  qv_created_at :: time
  qv_poster :: owner_view
  qv_published_at :: "time option"
  qv_removal :: "post_removal option"

definition toRequest :: "housing_request \<Rightarrow> owner_view \<Rightarrow> int \<Rightarrow> request_view" where
  "toRequest row poster n_offers =
     \<lparr>qv_id = q_id row, qv_title = q_title row, qv_body = q_body row,
      qv_budget_cents = q_budget_cents row, qv_start_date = q_start_date row,
      qv_end_date = q_end_date row, qv_lease_months = q_lease_months row,
      qv_term_tag = q_term_tag row, qv_occupants = q_occupants row, qv_pets = q_pets row,
      qv_furnished_preferred = q_furnished_preferred row, qv_parking_needed = q_parking_needed row,
      qv_laundry_needed = q_laundry_needed row, qv_max_distance_m = q_max_distance_m row,
      qv_neighbourhood = q_neighbourhood row, qv_status = q_status row, qv_views = q_views row,
      qv_offers = n_offers, qv_created_at = q_created_at row, qv_poster = poster,
      qv_published_at = q_published_at row,
      qv_removal = removalFrom (q_removed_at row) (q_removed_reason row)\<rparr>"

section \<open>Photos of a page of listings\<close>

text \<open>\<open>photosByListing\<close>: one query for them all, none for an empty page; the map it returns.\<close>

definition photosByListing :: "uuid list \<Rightarrow> (uuid \<Rightarrow> listing_photo list) res go" where
  "photosByListing ids =
     (if ids = [] then State_Monad.return (Inr (\<lambda>_. []))
      else do {
        r \<leftarrow> ListPhotosForListings ids;
        case r of
          Inl e \<Rightarrow> State_Monad.return (Inl e)
        | Inr ps \<Rightarrow> State_Monad.return (Inr (\<lambda>i. filter (\<lambda>p. ph_listing_id p = i) ps)) })"

section \<open>Field problems\<close>

text \<open>
  A \<open>map[string]string\<close> filled by a sequence of guarded assignments, a later one to the same field
  replacing the earlier.
\<close>

fun problems :: "(bool \<times> string \<times> string) list \<Rightarrow> (string \<times> string) list \<Rightarrow> (string \<times> string) list" where
  "problems [] ps = ps"
| "problems ((bad, field, msg) # rest) ps =
     problems rest (if bad then AList.update field msg ps else ps)"

lemma update_not_Nil: "AList.update k v ps \<noteq> []"
  by (cases ps) auto

lemma problems_grow: "ps \<noteq> [] \<Longrightarrow> problems rules ps \<noteq> []"
  by (induction rules ps rule: problems.induct) (auto simp: update_not_Nil)

lemma problems_Nil: "problems rules [] = [] \<longleftrightarrow> list_all (\<lambda>(bad, _). \<not> bad) rules"
proof (induction rules)
  case (Cons r rest)
  then show ?case by (cases r) (auto simp: problems_grow update_not_Nil)
qed simp

end
