(* ===== verification/Listings.thy ===== *)
theory Listings
  imports Views
begin

text \<open>
  The owner's side of "Housing Available": \<open>internal/httpapi/listings_write.go\<close> and the validation of
  \<open>listings_validate.go\<close>. Request bodies are given decoded; a string of an enumerated type is any
  string, as in the generated binding.
\<close>

section \<open>Request bodies\<close>

record listing_input =
  li_title :: string
  li_body :: "string option"
  li_conditions :: "string list option"
  li_price_cents :: int
  li_deposit_cents :: "int nullable"
  li_start_date :: date
  li_end_date :: date
  li_lease_months :: int
  li_term_tag :: string
  li_unit_type :: string
  li_bedrooms_total :: int
  li_bedroom_of :: "int nullable"
  li_bathrooms :: rat
  li_bath_type :: string
  li_furnished :: "bool option"
  li_utilities :: "string list option"
  li_parking :: "bool option"
  li_pets :: "bool option"
  li_laundry :: "bool option"
  li_address_line :: string
  li_neighbourhood :: "string option"
  li_cross_streets :: "string option"
  li_distance_m :: "int nullable"
  li_shorter_stays :: "bool option"
  li_min_stay_months :: "int nullable"
  li_bills_estimate_cents :: "int nullable"
  li_status :: "string option"

record listing_update =
  lu_title :: "string option"
  lu_body :: "string option"
  lu_conditions :: "string list option"
  lu_price_cents :: "int option"
  lu_deposit_cents :: "int nullable"
  lu_start_date :: "date option"
  lu_end_date :: "date option"
  lu_lease_months :: "int option"
  lu_term_tag :: "string option"
  lu_unit_type :: "string option"
  lu_bedrooms_total :: "int option"
  lu_bedroom_of :: "int nullable"
  lu_bathrooms :: "rat option"
  lu_bath_type :: "string option"
  lu_furnished :: "bool option"
  lu_utilities :: "string list option"
  lu_parking :: "bool option"
  lu_pets :: "bool option"
  lu_laundry :: "bool option"
  lu_address_line :: "string option"
  lu_neighbourhood :: "string option"
  lu_cross_streets :: "string option"
  lu_distance_m :: "int nullable"
  lu_shorter_stays :: "bool option"
  lu_min_stay_months :: "int nullable"
  lu_bills_estimate_cents :: "int nullable"

section \<open>Validation\<close>

definition maxConditions :: nat where "maxConditions = 12"
definition maxCrossStreets :: int where "maxCrossStreets = 80"
definition maxBillsEstimateCents :: int where "maxBillsEstimateCents = 100000"

text \<open>The title is measured in bytes, the cross streets in characters.\<close>

definition listing_rules :: "listing \<Rightarrow> (bool \<times> string \<times> string) list" where
  "listing_rules l =
     (let room = default_if_nil (l_bedroom_of l) 0;
          has_room = (l_bedroom_of l \<noteq> None);
          stay = default_if_nil (l_min_stay_months l) 0;
          has_stay = (l_min_stay_months l \<noteq> None);
          bills = default_if_nil (l_bills_estimate_cents l) 0
      in
      [(length (trim_space (l_title l)) < 8, ''title'',
        ''Give the place a title of at least 8 characters.''),
       (l_price_cents l \<le> 0, ''price_cents'', ''Rent must be more than zero.''),
       (default_if_nil (l_deposit_cents l) 0 < 0, ''deposit_cents'', ''A deposit cannot be negative.''),
       (\<not> l_start_date l < l_end_date l, ''end_date'', ''The end of the term must fall after its start.''),
       (l_lease_months l < 1 \<or> 24 < l_lease_months l, ''lease_months'',
        ''A lease runs between 1 and 24 months.''),
       (l_bedrooms_total l < 0 \<or> 20 < l_bedrooms_total l, ''bedrooms_total'',
        ''That is not a plausible number of bedrooms.''),
       (has_room \<and> room < 1, ''bedroom_of'', ''Number the room from 1.''),
       (has_room \<and> 1 \<le> room \<and> l_bedrooms_total l < room, ''bedroom_of'',
        ''You cannot offer room '' @ itoa room @ '' of '' @ itoa (l_bedrooms_total l) @ ''.''),
       (l_bathrooms l < 0, ''bathrooms'', ''A bathroom count cannot be negative.''),
       (trim_space (l_address_line l) = [], ''address_line'',
        ''Give the exact address, house number included. Only students you choose to share it with will see it.''),
       (maxCrossStreets < rune_count (trim_space (l_cross_streets l)), ''cross_streets'',
        ''Keep the cross streets to '' @ itoa maxCrossStreets @ '' characters or fewer.''),
       (maxConditions < length (l_conditions l), ''conditions'',
        ''Keep it to '' @ itoa (int maxConditions) @ '' conditions or fewer.''),
       (l_unit_type l = ''studio'' \<and> has_room, ''bedroom_of'',
        ''A studio has no separate bedroom to number.''),
       (l_shorter_stays l \<and> \<not> has_stay, ''min_stay_months'',
        ''Say the shortest stay you would accept.''),
       (\<not> l_shorter_stays l \<and> has_stay, ''min_stay_months'',
        ''A minimum stay only applies when shorter stays are allowed.''),
       (l_shorter_stays l \<and> has_stay \<and> (stay < 1 \<or> l_lease_months l < stay), ''min_stay_months'',
        ''The minimum stay must be between 1 and '' @ itoa (l_lease_months l) @
        '' months, the length of the lease.''),
       (bills < 0 \<or> maxBillsEstimateCents < bills, ''bills_estimate_cents'',
        ''The bill estimate must be between $0 and $1,000 a month.''),
       (l_status l \<notin> set ([] # statuses), ''status'', ''Unknown status.'')])"

definition validateListingRow :: "listing \<Rightarrow> (string \<times> string) list" where
  "validateListingRow l = problems (listing_rules l) []"

text \<open>\<open>validateListing\<close> copies the validated columns of the parameters into a row.\<close>

definition validateListing :: "listing \<Rightarrow> (string \<times> string) list" where
  "validateListing p = validateListingRow p"

section \<open>Creating\<close>

definition create_listing_params :: "uuid \<Rightarrow> listing_input \<Rightarrow> time \<Rightarrow> listing" where
  "create_listing_params owner inp now =
     \<lparr>l_id = 0, l_owner_id = owner, l_title = trim_space (li_title inp),
      l_body = trim_space (derefString (li_body inp)),
      l_conditions = trimAll (derefStrings (li_conditions inp)),
      l_price_cents = to_int32 (li_price_cents inp),
      l_deposit_cents = int32Ptr (nullableToPtrInt (li_deposit_cents inp)),
      l_start_date = li_start_date inp, l_end_date = li_end_date inp,
      l_lease_months = to_int32 (li_lease_months inp), l_term_tag = trim_space (li_term_tag inp),
      l_unit_type = li_unit_type inp, l_bedrooms_total = to_int32 (li_bedrooms_total inp),
      l_bedroom_of = int32Ptr (nullableToPtrInt (li_bedroom_of inp)),
      l_bathrooms = li_bathrooms inp, l_bath_type = li_bath_type inp,
      l_furnished = derefBool (li_furnished inp), l_utilities = utilityStrings (li_utilities inp),
      l_parking = derefBool (li_parking inp), l_pets = derefBool (li_pets inp),
      l_laundry = derefBool (li_laundry inp), l_address_line = trim_space (li_address_line inp),
      l_neighbourhood = trim_space (derefString (li_neighbourhood inp)), l_lat = None, l_lng = None,
      l_distance_m = int32Ptr (nullableToPtrInt (li_distance_m inp)),
      l_commute_minutes = None, l_commute_mode = ''walk'', l_minutes_to_transit = None,
      l_minutes_to_grocery = None, l_status = default_if_nil (li_status inp) ''published'',
      l_views = 0, l_replies = 0, l_saves = 0, l_created_at = now, l_updated_at = now,
      l_published_at = None, l_removed_at = None, l_removed_by = None, l_removed_reason = None,
      l_shorter_stays = derefBool (li_shorter_stays inp),
      l_min_stay_months = int32Ptr (nullableToPtrInt (li_min_stay_months inp)),
      l_bills_estimate_cents = int32Ptr (nullableToPtrInt (li_bills_estimate_cents inp)),
      l_cross_streets = trim_space (derefString (li_cross_streets inp))\<rparr>"

text \<open>An owner summary that could not be read is left blank.\<close>

definition owner_summary :: "uuid \<Rightarrow> user res \<Rightarrow> owner_view" where
  "owner_summary i r =
     (case r of
        Inl _ \<Rightarrow> \<lparr>ov_id = i, ov_username = [], ov_avatar_url = None, ov_verified = False\<rparr>
      | Inr u \<Rightarrow> \<lparr>ov_id = i, ov_username = u_username u, ov_avatar_url = u_avatar_url u,
                  ov_verified = u_verified u\<rparr>)"

definition listingResponse :: "listing \<Rightarrow> listing_view go" where
  "listingResponse row = do {
     u \<leftarrow> GetUserByID (l_owner_id row);
     pictures \<leftarrow> ListPhotosForListing (l_id row);
     State_Monad.return (toListing row (owner_summary (l_owner_id row) u)
       (case pictures of Inl _ \<Rightarrow> [] | Inr ps \<Rightarrow> ps) True) }"

definition CreateListing :: "request_ctx \<Rightarrow> listing_input option \<Rightarrow> listing_view handler" where
  "CreateListing ctx body =
     (case PrincipalFrom ctx of
        None \<Rightarrow> refuse 401 CodeUnauthorized ''Log in to post a listing.''
      | Some p \<Rightarrow>
          if \<not> p_verified p then
            refuse 403 CodeForbidden ''Confirm your uwaterloo.ca address before posting. That badge is what tells other students who they are dealing with.''
          else case body of
            None \<Rightarrow> refuse 400 CodeBadRequest ''A JSON body is required.''
          | Some inp \<Rightarrow> do {
              now \<leftarrow> time_now;
              (let params = create_listing_params (p_user_id p) inp now;
                   bad = validateListing params
               in if bad \<noteq> [] then
                    refuse_with 400 CodeValidation ''Check the highlighted fields.'' bad
                  else do {
                    r \<leftarrow> CreateListing_sql params;
                    case r of
                      Inl e \<Rightarrow> fail e
                    | Inr row \<Rightarrow> do {
                        v \<leftarrow> listingResponse row;
                        answer 201 v } }) })"

section \<open>Whose listing\<close>

record refusal =
  rf_unauthorised :: bool
  rf_conflict :: bool
  rf_message :: string

definition removedRefusal :: "string \<Rightarrow> string option \<Rightarrow> refusal" where
  "removedRefusal kind reason =
     \<lparr>rf_unauthorised = False, rf_conflict = True,
      rf_message =
        (if default_if_nil reason [] \<noteq> [] then
           ''A moderator took this '' @ kind @ '' down: '' @ dquote @ default_if_nil reason [] @ dquote @
           ''. It can't be changed until it is restored.''
         else ''A moderator took this '' @ kind @ '' down, so it can't be changed until it is restored.'')\<rparr>"

definition anonymous_refusal :: "string \<Rightarrow> refusal" where
  "anonymous_refusal m = \<lparr>rf_unauthorised = True, rf_conflict = False, rf_message = m\<rparr>"

definition missing_refusal :: "string \<Rightarrow> refusal" where
  "missing_refusal m = \<lparr>rf_unauthorised = False, rf_conflict = False, rf_message = m\<rparr>"

text \<open>An error of the read is logged and answers like a listing that is not there.\<close>

definition ownedListing :: "request_ctx \<Rightarrow> uuid \<Rightarrow> (refusal + listing) go" where
  "ownedListing ctx i =
     (case PrincipalFrom ctx of
        None \<Rightarrow> State_Monad.return (Inl (anonymous_refusal ''Log in to manage your listings.''))
      | Some p \<Rightarrow> do {
          r \<leftarrow> GetListingForOwner i;
          State_Monad.return
            (case r of
               Inl _ \<Rightarrow> Inl (missing_refusal ''No listing with that id.'')
             | Inr l \<Rightarrow>
                 if l_owner_id l \<noteq> p_user_id p then Inl (missing_refusal ''No listing with that id.'')
                 else if l_removed_at l \<noteq> None then Inl (removedRefusal ''listing'' (l_removed_reason l))
                 else Inr l) })"

definition updateRefusal :: "refusal \<Rightarrow> 'b reply" where
  "updateRefusal r =
     (if rf_conflict r then Refuse 409 (errorBody CodeConflict (rf_message r))
      else if rf_unauthorised r then Refuse 401 (errorBody CodeUnauthorized (rf_message r))
      else Refuse 404 (errorBody CodeNotFound (rf_message r)))"

definition statusRefusal :: "refusal \<Rightarrow> 'b reply" where
  "statusRefusal r =
     (if rf_conflict r then Refuse 409 (errorBody CodeConflict (rf_message r))
      else if rf_unauthorised r then Refuse 401 (errorBody CodeUnauthorized (rf_message r))
      else Refuse 404 (errorBody CodeNotFound (rf_message r)))"

definition deleteRefusal :: "refusal \<Rightarrow> 'b reply" where
  "deleteRefusal r =
     (if rf_conflict r then Refuse 409 (errorBody CodeConflict (rf_message r))
      else if rf_unauthorised r then Refuse 401 (errorBody CodeUnauthorized (rf_message r))
      else Refuse 404 (errorBody CodeNotFound (rf_message r)))"

section \<open>Editing\<close>

definition minStayChange :: "listing_update \<Rightarrow> int option \<times> bool" where
  "minStayChange inp =
     (if snd (nullableValue (lu_min_stay_months inp)) then (fst (nullableValue (lu_min_stay_months inp)), True)
      else if lu_shorter_stays inp = Some False then (None, True)
      else (None, False))"

text \<open>\<open>if v, ok := nullableValue(n); ok { x = int32Ptr(v) }\<close>\<close>

definition assign_nullable :: "int option \<times> bool \<Rightarrow> int option \<Rightarrow> int option" where
  "assign_nullable change x = (if snd change then int32Ptr (fst change) else x)"

definition applyUpdate :: "listing \<Rightarrow> listing_update \<Rightarrow> listing" where
  "applyUpdate l inp = l\<lparr>
     l_title := default_if_nil (lu_title inp) (l_title l),
     l_body := default_if_nil (lu_body inp) (l_body l),
     l_conditions := default_if_nil (lu_conditions inp) (l_conditions l),
     l_price_cents := default_if_nil (int32From (lu_price_cents inp)) (l_price_cents l),
     l_deposit_cents := assign_nullable (nullableValue (lu_deposit_cents inp)) (l_deposit_cents l),
     l_start_date := default_if_nil (lu_start_date inp) (l_start_date l),
     l_end_date := default_if_nil (lu_end_date inp) (l_end_date l),
     l_lease_months := default_if_nil (int32From (lu_lease_months inp)) (l_lease_months l),
     l_unit_type := default_if_nil (lu_unit_type inp) (l_unit_type l),
     l_bedrooms_total := default_if_nil (int32From (lu_bedrooms_total inp)) (l_bedrooms_total l),
     l_bedroom_of := assign_nullable (nullableValue (lu_bedroom_of inp)) (l_bedroom_of l),
     l_bathrooms := default_if_nil (lu_bathrooms inp) (l_bathrooms l),
     l_bath_type := default_if_nil (lu_bath_type inp) (l_bath_type l),
     l_address_line := default_if_nil (lu_address_line inp) (l_address_line l),
     l_cross_streets := default_if_nil (trimmedPtr (lu_cross_streets inp)) (l_cross_streets l),
     l_shorter_stays := default_if_nil (lu_shorter_stays inp) (l_shorter_stays l),
     l_min_stay_months := assign_nullable (minStayChange inp) (l_min_stay_months l),
     l_bills_estimate_cents :=
       assign_nullable (nullableValue (lu_bills_estimate_cents inp)) (l_bills_estimate_cents l)\<rparr>"

definition updateParams :: "listing_update \<Rightarrow> update_listing_params" where
  "updateParams inp =
     \<lparr>ul_title = trimmedPtr (lu_title inp), ul_body = trimmedPtr (lu_body inp),
      ul_conditions = map_option trimAll (lu_conditions inp),
      ul_price_cents = int32From (lu_price_cents inp),
      ul_deposit_cents = assign_nullable (nullableValue (lu_deposit_cents inp)) None,
      ul_start_date = lu_start_date inp, ul_end_date = lu_end_date inp,
      ul_lease_months = int32From (lu_lease_months inp),
      ul_term_tag = trimmedPtr (lu_term_tag inp), ul_unit_type = lu_unit_type inp,
      ul_bedrooms_total = int32From (lu_bedrooms_total inp),
      ul_bedroom_of = assign_nullable (nullableValue (lu_bedroom_of inp)) None,
      ul_bathrooms = lu_bathrooms inp, ul_bath_type = lu_bath_type inp,
      ul_furnished = lu_furnished inp, ul_utilities = lu_utilities inp,
      ul_parking = lu_parking inp, ul_pets = lu_pets inp, ul_laundry = lu_laundry inp,
      ul_address_line = trimmedPtr (lu_address_line inp),
      ul_neighbourhood = trimmedPtr (lu_neighbourhood inp),
      ul_cross_streets = trimmedPtr (lu_cross_streets inp),
      ul_distance_m = assign_nullable (nullableValue (lu_distance_m inp)) None,
      ul_shorter_stays = lu_shorter_stays inp,
      ul_set_min_stay = snd (minStayChange inp),
      ul_min_stay_months = assign_nullable (minStayChange inp) None,
      ul_set_bills_estimate = snd (nullableValue (lu_bills_estimate_cents inp)),
      ul_bills_estimate_cents = assign_nullable (nullableValue (lu_bills_estimate_cents inp)) None\<rparr>"

definition UpdateListing :: "request_ctx \<Rightarrow> uuid \<Rightarrow> listing_update option \<Rightarrow> listing_view handler" where
  "UpdateListing ctx i body = do {
     owned \<leftarrow> ownedListing ctx i;
     case owned of
       Inl r \<Rightarrow> State_Monad.return (updateRefusal r)
     | Inr existing \<Rightarrow>
         (case body of
            None \<Rightarrow> refuse 400 CodeBadRequest ''A JSON body is required.''
          | Some inp \<Rightarrow>
              (let bad = validateListingRow (applyUpdate existing inp)
               in if bad \<noteq> [] then
                    refuse_with 400 CodeValidation ''Check the highlighted fields.'' bad
                  else do {
                    r \<leftarrow> UpdateListing_sql (l_id existing) (updateParams inp);
                    case r of
                      Inl e \<Rightarrow> fail e
                    | Inr row \<Rightarrow> do {
                        v \<leftarrow> listingResponse row;
                        answer 200 v } })) }"

section \<open>Status\<close>

fun allowedTransitions :: "string \<Rightarrow> string list" where
  "allowedTransitions s =
     (if s = ''draft'' then [''published'', ''archived'']
      else if s = ''published'' then [''paused'', ''archived'']
      else if s = ''paused'' then [''published'', ''archived'']
      else [])"

declare allowedTransitions.simps [simp del]

definition SetListingStatus :: "request_ctx \<Rightarrow> uuid \<Rightarrow> string option \<Rightarrow> listing_view handler" where
  "SetListingStatus ctx i body = do {
     owned \<leftarrow> ownedListing ctx i;
     case owned of
       Inl r \<Rightarrow> State_Monad.return (statusRefusal r)
     | Inr existing \<Rightarrow>
         (case body of
            None \<Rightarrow> refuse 400 CodeBadRequest ''A status is required.''
          | Some want \<Rightarrow>
              if want = l_status existing then do {
                v \<leftarrow> listingResponse existing;
                answer 200 v }
              else if want \<notin> set (allowedTransitions (l_status existing)) then
                refuse 400 CodeBadRequest
                  (if l_status existing = ''archived'' then
                     ''This listing is archived, and that is final. Post a new one instead '' @ em_dash @
                     '' the term and the rent will have moved on.''
                   else ''A listing cannot go from '' @ l_status existing @ '' to '' @ want @ ''.'')
              else do {
                r \<leftarrow> SetListingStatus_sql (l_id existing) want;
                case r of
                  Inl e \<Rightarrow> fail e
                | Inr row \<Rightarrow> do {
                    v \<leftarrow> listingResponse row;
                    answer 200 v } }) }"

definition DeleteListing :: "request_ctx \<Rightarrow> uuid \<Rightarrow> unit handler" where
  "DeleteListing ctx i = do {
     owned \<leftarrow> ownedListing ctx i;
     case owned of
       Inl r \<Rightarrow> State_Monad.return (deleteRefusal r)
     | Inr existing \<Rightarrow>
         if l_status existing = ''archived'' then answer 204 ()
         else do {
           r \<leftarrow> SetListingStatus_sql (l_id existing) ''archived'';
           case r of
             Inl e \<Rightarrow> fail e
           | Inr _ \<Rightarrow> answer 204 () } }"

definition ListMyListings :: "request_ctx \<Rightarrow> listing_view list handler" where
  "ListMyListings ctx =
     (case PrincipalFrom ctx of
        None \<Rightarrow> refuse 401 CodeUnauthorized ''Log in to see your listings.''
      | Some p \<Rightarrow> do {
          r \<leftarrow> ListListingsByOwner (p_user_id p);
          case r of
            Inl e \<Rightarrow> fail e
          | Inr rows \<Rightarrow>
              answer 200 (map (\<lambda>row. toListing (lw_listing row) (listing_owner row) [] True) rows) })"

lemmas listing_handler_defs =
  CreateListing_def UpdateListing_def SetListingStatus_def DeleteListing_def ListMyListings_def
  ownedListing_def listingResponse_def

end
