(* ===== verification/ConversationStore.thy ===== *)
theory ConversationStore
  imports PostStore
begin

text \<open>
  The queries of \<open>internal/db/sqlcgen/conversations.sql.go\<close> and \<open>offers.sql.go\<close> on the tables
  \<open>conversations\<close>, \<open>messages\<close> and \<open>request_offers\<close>, with the constraints of migrations 7, 11, 12 and 13.
\<close>

section \<open>Constraints\<close>

definition conversations_check :: "conversation \<Rightarrow> bool" where
  "conversations_check c \<longleftrightarrow>
     c_owner_id c \<noteq> c_enquirer_id c \<and> c_opened_by c \<in> {c_owner_id c, c_enquirer_id c} \<and>
     (c_closed_at c = None) = (c_closed_by c = None) \<and>
     c_closed_by c \<in> {None, Some (c_owner_id c), Some (c_enquirer_id c)}"

definition conversation_violation :: "conversation \<Rightarrow> error option" where
  "conversation_violation c = (if conversations_check c then None else Some check_violation)"

definition conversations_clash :: "conversation \<Rightarrow> conversation \<Rightarrow> bool" where
  "conversations_clash c c' \<longleftrightarrow> c_id c = c_id c' \<or>
     c_listing_id c = c_listing_id c' \<and> c_enquirer_id c = c_enquirer_id c'"

text \<open>\<open>btrim\<close> removes spaces only.\<close>

definition btrim :: "string \<Rightarrow> string" where
  "btrim s = rev (dropWhile (\<lambda>c. c = CHR '' '') (rev (dropWhile (\<lambda>c. c = CHR '' '') s)))"

definition messages_check :: "message \<Rightarrow> bool" where
  "messages_check m \<longleftrightarrow> 1 \<le> rune_count (btrim (m_body m)) \<and> rune_count (btrim (m_body m)) \<le> 4000"

definition offers_check :: "request_offer \<Rightarrow> bool" where
  "offers_check x \<longleftrightarrow> rune_count (o_note x) \<le> 1000"

definition offers_clash :: "request_offer \<Rightarrow> request_offer \<Rightarrow> bool" where
  "offers_clash x y \<longleftrightarrow> o_id x = o_id y \<or>
     o_request_id x = o_request_id y \<and> o_listing_id x = o_listing_id y"

definition find_conversation :: "database \<Rightarrow> uuid \<Rightarrow> conversation option" where
  "find_conversation d i = List.find (\<lambda>c. c_id c = i) (conversations d)"

definition on_conversations ::
  "(conversation list \<Rightarrow> 'a \<times> conversation list) \<Rightarrow> database \<Rightarrow> 'a \<times> database" where
  "on_conversations g d = (case g (conversations d) of (r, cs) \<Rightarrow> (r, d\<lparr>conversations := cs\<rparr>))"

definition on_offers ::
  "(request_offer list \<Rightarrow> 'a \<times> request_offer list) \<Rightarrow> database \<Rightarrow> 'a \<times> database" where
  "on_offers g d = (case g (offers d) of (r, xs) \<Rightarrow> (r, d\<lparr>offers := xs\<rparr>))"

section \<open>A conversation as one participant sees it\<close>

definition participant :: "uuid \<Rightarrow> conversation \<Rightarrow> bool" where
  "participant u c \<longleftrightarrow> u = c_owner_id c \<or> u = c_enquirer_id c"

definition counterpart :: "uuid \<Rightarrow> conversation \<Rightarrow> uuid" where
  "counterpart u c = (if c_owner_id c = u then c_enquirer_id c else c_owner_id c)"

definition read_marker :: "uuid \<Rightarrow> conversation \<Rightarrow> time option" where
  "read_marker u c = (if c_owner_id c = u then c_owner_read_at c else c_enquirer_read_at c)"

text \<open>A message of the other side newer than the reader's own marker; no marker is minus infinity.\<close>

definition unread_by :: "uuid \<Rightarrow> conversation \<Rightarrow> message \<Rightarrow> bool" where
  "unread_by u c m \<longleftrightarrow> m_conversation_id m = c_id c \<and> m_sender_id m \<noteq> u \<and>
     (case read_marker u c of None \<Rightarrow> True | Some t \<Rightarrow> t < m_created_at m)"

definition newest_first :: "database \<Rightarrow> uuid \<Rightarrow> message list" where
  "newest_first d i = sort_desc m_created_at (sort_desc (\<lambda>m. uint (m_id m))
     (filter (\<lambda>m. m_conversation_id m = i) (messages d)))"

definition last_message :: "database \<Rightarrow> uuid \<Rightarrow> message option" where
  "last_message d i = (case newest_first d i of [] \<Rightarrow> None | m # _ \<Rightarrow> Some m)"

record conversation_row =
  cw_conversation :: conversation
  cw_listing_title :: string
  cw_listing_neighbourhood :: string
  cw_listing_price_cents :: int
  cw_listing_start_date :: date
  cw_listing_end_date :: date
  cw_listing_available :: bool
  cw_listing_removed :: bool
  cw_counterpart_id :: uuid
  cw_counterpart_username :: string
  cw_counterpart_avatar_url :: "string option"
  cw_counterpart_verified :: bool
  cw_counterpart_suspended :: bool
  cw_place_address_line :: "string option"
  cw_place_lat :: "rat option"
  cw_place_lng :: "rat option"
  cw_last_message_sender_id :: "uuid option"
  cw_last_message_body :: "string option"
  cw_last_message_created_at :: "time option"
  cw_unread_count :: int

text \<open>The reveal condition of the left join on the listing's place.\<close>

definition revealed :: "conversation \<Rightarrow> listing \<Rightarrow> user \<Rightarrow> bool" where
  "revealed c l owner \<longleftrightarrow>
     c_address_shared_at c \<noteq> None \<and> l_removed_at l = None \<and> u_suspended_at owner = None"

definition conversation_row_for :: "database \<Rightarrow> uuid \<Rightarrow> conversation \<Rightarrow> conversation_row option" where
  "conversation_row_for d u c =
     (case find_listing d (c_listing_id c) of
        None \<Rightarrow> None
      | Some l \<Rightarrow>
          (case find_user d (c_owner_id c) of
             None \<Rightarrow> None
           | Some owner \<Rightarrow>
               (case find_user d (counterpart u c) of
                  None \<Rightarrow> None
                | Some cp \<Rightarrow>
                    (let lm = last_message d (c_id c); show_place = revealed c l owner
                     in Some \<lparr>cw_conversation = c, cw_listing_title = l_title l,
                       cw_listing_neighbourhood = l_neighbourhood l,
                       cw_listing_price_cents = l_price_cents l,
                       cw_listing_start_date = l_start_date l, cw_listing_end_date = l_end_date l,
                       cw_listing_available =
                         (l_status l = ''published'' \<and> l_removed_at l = None \<and> u_suspended_at owner = None),
                       cw_listing_removed = (l_removed_at l \<noteq> None), cw_counterpart_id = u_id cp,
                       cw_counterpart_username = u_username cp,
                       cw_counterpart_avatar_url = u_avatar_url cp,
                       cw_counterpart_verified = u_verified cp,
                       cw_counterpart_suspended = (u_suspended_at cp \<noteq> None),
                       cw_place_address_line = (if show_place then Some (l_address_line l) else None),
                       cw_place_lat = (if show_place then l_lat l else None),
                       cw_place_lng = (if show_place then l_lng l else None),
                       cw_last_message_sender_id = map_option m_sender_id lm,
                       cw_last_message_body = map_option m_body lm,
                       cw_last_message_created_at = map_option m_created_at lm,
                       cw_unread_count = count_where (unread_by u c) (messages d)\<rparr>))))"

section \<open>conversations and messages\<close>

definition CreateConversation :: "uuid \<Rightarrow> uuid \<Rightarrow> uuid \<Rightarrow> uuid \<Rightarrow> conversation res go" where
  "CreateConversation listing owner enquirer opener = insert_row (\<lambda>i t d.
     let c = \<lparr>c_id = i, c_listing_id = listing, c_owner_id = owner, c_enquirer_id = enquirer,
              c_opened_by = opener, c_closed_at = None, c_closed_by = None, c_owner_read_at = None,
              c_enquirer_read_at = None, c_created_at = t, c_updated_at = t,
              c_address_shared_at = None\<rparr>
     in if \<not> conversations_check c then (Inl check_violation, d)
        else if list_ex (conversations_clash c) (conversations d) then (Inl unique_violation, d)
        else if find_listing d listing = None \<or> \<not> user_exists d owner \<or> \<not> user_exists d enquirer
        then (Inl foreign_key_violation, d)
        else (Inr c, d\<lparr>conversations := conversations d @ [c]\<rparr>))"

definition CreateMessage :: "uuid \<Rightarrow> uuid \<Rightarrow> string \<Rightarrow> message res go" where
  "CreateMessage conv sender body = insert_row (\<lambda>i t d.
     let m = \<lparr>m_id = i, m_conversation_id = conv, m_sender_id = sender, m_body = body,
              m_created_at = t\<rparr>
     in if \<not> messages_check m then (Inl check_violation, d)
        else if list_ex (\<lambda>n. m_id n = i) (messages d) then (Inl unique_violation, d)
        else if find_conversation d conv = None \<or> \<not> user_exists d sender
        then (Inl foreign_key_violation, d)
        else (Inr m, d\<lparr>messages := messages d @ [m]\<rparr>))"

definition GetConversationByListingAndEnquirer :: "uuid \<Rightarrow> uuid \<Rightarrow> conversation res go" where
  "GetConversationByListingAndEnquirer listing enquirer = query_row (\<lambda>_ d.
     List.find (\<lambda>c. c_listing_id c = listing \<and> c_enquirer_id c = enquirer) (conversations d))"

definition GetConversationForParticipant :: "uuid \<Rightarrow> uuid \<Rightarrow> conversation_row res go" where
  "GetConversationForParticipant u i = query_row (\<lambda>_ d.
     case find_conversation d i of
       None \<Rightarrow> None
     | Some c \<Rightarrow> if participant u c then conversation_row_for d u c else None)"

text \<open>The inbox filters: \<open>open\<close> or anything else, \<open>owner\<close> or anything else, or none.\<close>

definition inbox_match :: "uuid \<Rightarrow> string option \<Rightarrow> string option \<Rightarrow> conversation \<Rightarrow> bool" where
  "inbox_match u status side c \<longleftrightarrow> participant u c \<and>
     (case status of None \<Rightarrow> True | Some s \<Rightarrow> (s = ''open'') = (c_closed_at c = None)) \<and>
     (case side of None \<Rightarrow> True | Some s \<Rightarrow> (s = ''owner'') = (c_owner_id c = u))"

definition last_activity :: "conversation_row \<Rightarrow> time" where
  "last_activity r = default_if_nil (cw_last_message_created_at r) (c_created_at (cw_conversation r))"

definition inbox_rows ::
  "uuid \<Rightarrow> string option \<Rightarrow> string option \<Rightarrow> database \<Rightarrow> conversation_row list" where
  "inbox_rows u status side d =
     sort_desc last_activity (sort_desc (\<lambda>r. uint (c_id (cw_conversation r)))
       (List.map_filter (conversation_row_for d u) (filter (inbox_match u status side) (conversations d))))"

definition ListConversationsForUser ::
  "uuid \<Rightarrow> string option \<Rightarrow> string option \<Rightarrow> int \<Rightarrow> int \<Rightarrow> conversation_row list res go" where
  "ListConversationsForUser u status side limit off =
     page_query limit off (\<lambda>_. inbox_rows u status side)"

definition CountConversationsForUser :: "uuid \<Rightarrow> string option \<Rightarrow> string option \<Rightarrow> int res go" where
  "CountConversationsForUser u status side = query (\<lambda>_ d.
     count_where (inbox_match u status side) (conversations d))"

definition ListMessages_sql :: "uuid \<Rightarrow> int \<Rightarrow> int \<Rightarrow> message list res go" where
  "ListMessages_sql i limit off = page_query limit off (\<lambda>_ d. newest_first d i)"

definition CountMessages :: "uuid \<Rightarrow> int res go" where
  "CountMessages i = query (\<lambda>_ d. count_where (\<lambda>m. m_conversation_id m = i) (messages d))"

definition CloseConversation_sql :: "uuid \<Rightarrow> uuid \<Rightarrow> conversation res go" where
  "CloseConversation_sql u i = exec (\<lambda>t.
     on_conversations (update_returning (\<lambda>c. c_id c = i \<and> c_closed_at c = None \<and> participant u c)
       (\<lambda>c. c\<lparr>c_closed_at := Some t, c_closed_by := Some u, c_updated_at := t\<rparr>)
       conversation_violation))"

definition ReopenConversation :: "uuid \<Rightarrow> uuid \<Rightarrow> conversation res go" where
  "ReopenConversation i owner = exec (\<lambda>t.
     on_conversations (update_returning
       (\<lambda>c. c_id c = i \<and> c_closed_by c = Some owner \<and> c_owner_id c = owner)
       (\<lambda>c. c\<lparr>c_closed_at := None, c_closed_by := None, c_updated_at := t\<rparr>)
       conversation_violation))"

text \<open>The condition of the one statement that sets \<open>address_shared_at\<close>.\<close>

definition may_share :: "database \<Rightarrow> uuid \<Rightarrow> conversation \<Rightarrow> bool" where
  "may_share d owner c \<longleftrightarrow>
     c_owner_id c = owner \<and> c_address_shared_at c = None \<and> c_closed_at c = None \<and>
     (case find_listing d (c_listing_id c) of
        None \<Rightarrow> False
      | Some l \<Rightarrow> l_status l = ''published'' \<and> l_removed_at l = None \<and> btrim (l_address_line l) \<noteq> []) \<and>
     user_active d (c_owner_id c) \<and> user_active d (c_enquirer_id c)"

definition ShareConversationAddress :: "uuid \<Rightarrow> uuid \<Rightarrow> int res go" where
  "ShareConversationAddress i owner = exec (\<lambda>t d.
     let hit = (\<lambda>c. c_id c = i \<and> may_share d owner c)
     in (Inr (count_where hit (conversations d)),
         d\<lparr>conversations := update_where hit
              (\<lambda>c. c\<lparr>c_address_shared_at := Some t, c_updated_at := t\<rparr>) (conversations d)\<rparr>))"

definition MarkConversationRead_sql :: "uuid \<Rightarrow> uuid \<Rightarrow> int res go" where
  "MarkConversationRead_sql u i = exec (\<lambda>t d.
     let hit = (\<lambda>c. c_id c = i \<and> participant u c)
     in (Inr (count_where hit (conversations d)),
         d\<lparr>conversations := update_where hit
              (\<lambda>c. c\<lparr>c_owner_read_at := (if c_owner_id c = u then Some t else c_owner_read_at c),
                    c_enquirer_read_at := (if c_enquirer_id c = u then Some t else c_enquirer_read_at c),
                    c_updated_at := t\<rparr>) (conversations d)\<rparr>))"

text \<open>\<open>count(DISTINCT m.conversation_id)\<close> and \<open>count( * )\<close> of the messages waiting for a user.\<close>

definition waiting_for :: "database \<Rightarrow> uuid \<Rightarrow> message list" where
  "waiting_for d u = filter (\<lambda>m.
     case find_conversation d (m_conversation_id m) of
       None \<Rightarrow> False
     | Some c \<Rightarrow> participant u c \<and> unread_by u c m) (messages d)"

definition UnreadCountsForUser :: "uuid \<Rightarrow> (int \<times> int) res go" where
  "UnreadCountsForUser u = query (\<lambda>_ d.
     (int (length (remdups (map m_conversation_id (waiting_for d u)))), int (length (waiting_for d u))))"

section \<open>Whom to notify\<close>

record notification_recipient =
  nr_recipient_id :: uuid
  nr_recipient_email :: string
  nr_recipient_verified :: bool
  nr_recipient_suspended :: bool
  nr_recipient_email_notifications :: bool
  nr_sender_username :: string
  nr_listing_title :: string
  nr_unread_through_message :: int

definition message_time :: "database \<Rightarrow> uuid \<Rightarrow> uuid option \<Rightarrow> time option" where
  "message_time d i mid =
     map_option m_created_at (List.find (\<lambda>m. mid = Some (m_id m) \<and> m_conversation_id m = i) (messages d))"

definition unread_through :: "database \<Rightarrow> uuid \<Rightarrow> conversation \<Rightarrow> uuid option \<Rightarrow> int" where
  "unread_through d reader c mid =
     (case message_time d (c_id c) mid of
        None \<Rightarrow> 0
      | Some t \<Rightarrow> count_where (\<lambda>m. unread_by reader c m \<and> m_created_at m \<le> t) (messages d))"

definition recipient_row ::
  "database \<Rightarrow> uuid \<Rightarrow> uuid option \<Rightarrow> conversation \<Rightarrow> notification_recipient option" where
  "recipient_row d sender mid c =
     (case find_listing d (c_listing_id c) of
        None \<Rightarrow> None
      | Some l \<Rightarrow>
          (case find_user d sender of
             None \<Rightarrow> None
           | Some s \<Rightarrow>
               (case find_user d (counterpart sender c) of
                  None \<Rightarrow> None
                | Some r \<Rightarrow>
                    Some \<lparr>nr_recipient_id = u_id r, nr_recipient_email = u_email r,
                      nr_recipient_verified = u_verified r,
                      nr_recipient_suspended = (u_suspended_at r \<noteq> None),
                      nr_recipient_email_notifications = u_email_notifications r,
                      nr_sender_username = u_username s, nr_listing_title = l_title l,
                      nr_unread_through_message = unread_through d (u_id r) c mid\<rparr>)))"

definition GetNotificationRecipient ::
  "uuid \<Rightarrow> uuid \<Rightarrow> uuid option \<Rightarrow> notification_recipient res go" where
  "GetNotificationRecipient i sender mid = query_row (\<lambda>_ d.
     case find_conversation d i of
       None \<Rightarrow> None
     | Some c \<Rightarrow> if participant sender c then recipient_row d sender mid c else None)"

section \<open>request_offers\<close>

definition CreateOffer_sql :: "uuid \<Rightarrow> uuid \<Rightarrow> uuid \<Rightarrow> string \<Rightarrow> request_offer res go" where
  "CreateOffer_sql req listing owner note = insert_row (\<lambda>i t d.
     let x = \<lparr>o_id = i, o_request_id = req, o_listing_id = listing, o_owner_id = owner,
              o_note = note, o_withdrawn_at = None, o_created_at = t, o_updated_at = t,
              o_conversation_id = None\<rparr>
     in if \<not> offers_check x then (Inl check_violation, d)
        else if list_ex (offers_clash x) (offers d) then (Inl unique_violation, d)
        else if find_request d req = None \<or> find_listing d listing = None \<or> \<not> user_exists d owner
        then (Inl foreign_key_violation, d)
        else (Inr x, d\<lparr>offers := offers d @ [x]\<rparr>))"

definition GetOffer :: "uuid \<Rightarrow> request_offer res go" where
  "GetOffer i = query_row (\<lambda>_ d. List.find (\<lambda>x. o_id x = i) (offers d))"

definition GetOfferForListing :: "uuid \<Rightarrow> uuid \<Rightarrow> request_offer res go" where
  "GetOfferForListing req listing = query_row (\<lambda>_ d.
     List.find (\<lambda>x. o_request_id x = req \<and> o_listing_id x = listing) (offers d))"

definition WithdrawOffer_sql :: "uuid \<Rightarrow> request_offer res go" where
  "WithdrawOffer_sql i = exec (\<lambda>t.
     on_offers (update_returning (\<lambda>x. o_id x = i \<and> o_withdrawn_at x = None)
       (\<lambda>x. x\<lparr>o_withdrawn_at := Some t, o_updated_at := t\<rparr>)
       (\<lambda>x. if offers_check x then None else Some check_violation)))"

definition SetOfferConversation :: "uuid \<Rightarrow> uuid \<Rightarrow> request_offer res go" where
  "SetOfferConversation conv i = exec (\<lambda>t d.
     on_offers (update_returning (\<lambda>x. o_id x = i)
       (\<lambda>x. x\<lparr>o_conversation_id := Some conv, o_updated_at := t\<rparr>)
       (\<lambda>x. if \<not> offers_check x then Some check_violation
            else if find_conversation d conv = None then Some foreign_key_violation
            else None)) d)"

definition CountOffersForRequest :: "uuid \<Rightarrow> int res go" where
  "CountOffersForRequest i = query (\<lambda>_ d. offer_count d i)"

record offer_row =
  ow_offer :: request_offer
  ow_listing :: listing
  ow_owner_username :: string
  ow_owner_avatar_url :: "string option"
  ow_owner_verified :: bool
  ow_conversation_closed_at :: "time option"
  ow_poster_replied :: bool

definition offer_row_for :: "database \<Rightarrow> housing_request \<Rightarrow> request_offer \<Rightarrow> offer_row option" where
  "offer_row_for d q x =
     (case find_listing d (o_listing_id x) of
        None \<Rightarrow> None
      | Some l \<Rightarrow>
          (case find_user d (o_owner_id x) of
             None \<Rightarrow> None
           | Some u \<Rightarrow>
               Some \<lparr>ow_offer = x, ow_listing = l, ow_owner_username = u_username u,
                 ow_owner_avatar_url = u_avatar_url u, ow_owner_verified = u_verified u,
                 ow_conversation_closed_at =
                   (case o_conversation_id x of
                      None \<Rightarrow> None
                    | Some i \<Rightarrow> (case find_conversation d i of None \<Rightarrow> None | Some c \<Rightarrow> c_closed_at c)),
                 ow_poster_replied = list_ex (\<lambda>m. o_conversation_id x = Some (m_conversation_id m) \<and>
                   m_sender_id m = q_poster_id q) (messages d)\<rparr>))"

definition offer_rows :: "database \<Rightarrow> uuid \<Rightarrow> offer_row list" where
  "offer_rows d i =
     (case find_request d i of
        None \<Rightarrow> []
      | Some q \<Rightarrow> List.map_filter (offer_row_for d q)
          (sort_desc o_created_at (filter (\<lambda>x. o_request_id x = i \<and> live_offer d x) (offers d))))"

definition ListOffersForRequest :: "uuid \<Rightarrow> offer_row list res go" where
  "ListOffersForRequest i = query (\<lambda>_ d. offer_rows d i)"

definition ListOffersByOwner :: "uuid \<Rightarrow> (request_offer \<times> listing) list res go" where
  "ListOffersByOwner i = query (\<lambda>_ d.
     List.map_filter (\<lambda>x. map_option (\<lambda>l. (x, l)) (find_listing d (o_listing_id x)))
       (sort_desc o_created_at (filter (\<lambda>x. o_owner_id x = i) (offers d))))"

lemmas conversation_query_defs =
  CreateConversation_def CreateMessage_def GetConversationByListingAndEnquirer_def
  GetConversationForParticipant_def ListConversationsForUser_def CountConversationsForUser_def
  ListMessages_sql_def CountMessages_def CloseConversation_sql_def ReopenConversation_def
  ShareConversationAddress_def MarkConversationRead_sql_def UnreadCountsForUser_def
  GetNotificationRecipient_def

lemmas offer_query_defs =
  CreateOffer_sql_def GetOffer_def GetOfferForListing_def WithdrawOffer_sql_def
  SetOfferConversation_def CountOffersForRequest_def ListOffersForRequest_def ListOffersByOwner_def

end
