(* ===== verification/Requests.thy ===== *)
theory Requests
  imports Listings ConversationStore
begin

text \<open>
  The poster's side of "Looking for Housing": \<open>internal/httpapi/requests_write.go\<close>, with the same
  lifecycle and the same refusals as listings.
\<close>

section \<open>Request bodies\<close>

record request_input =
  ri_title :: string
  ri_body :: "string option"
  ri_budget_cents :: int
  ri_start_date :: date
  ri_end_date :: date
  ri_lease_months :: int
  ri_term_tag :: string
  ri_occupants :: "int option"
  ri_pets :: "bool option"
  ri_furnished_preferred :: "bool option"
  ri_parking_needed :: "bool option"
  ri_laundry_needed :: "bool option"
  ri_max_distance_m :: "int nullable"
  ri_neighbourhood :: "string option"
  ri_status :: "string option"

record request_update =
  ru_title :: "string option"
  ru_body :: "string option"
  ru_budget_cents :: "int option"
  ru_start_date :: "date option"
  ru_end_date :: "date option"
  ru_lease_months :: "int option"
  ru_term_tag :: "string option"
  ru_occupants :: "int option"
  ru_pets :: "bool option"
  ru_furnished_preferred :: "bool option"
  ru_parking_needed :: "bool option"
  ru_laundry_needed :: "bool option"
  ru_max_distance_m :: "int nullable"
  ru_neighbourhood :: "string option"

section \<open>Validation\<close>

definition request_rules :: "housing_request \<Rightarrow> (bool \<times> string \<times> string) list" where
  "request_rules r =
     (let radius = default_if_nil (q_max_distance_m r) 1
      in
      [(length (trim_space (q_title r)) < 8, ''title'',
        ''Say what you are looking for, in at least 8 characters.''),
       (q_budget_cents r \<le> 0, ''budget_cents'', ''Your budget must be more than zero.''),
       (\<not> q_start_date r < q_end_date r, ''end_date'', ''The end of the term must fall after its start.''),
       (q_lease_months r < 1 \<or> 24 < q_lease_months r, ''lease_months'',
        ''A lease runs between 1 and 24 months.''),
       (q_occupants r < 1 \<or> 12 < q_occupants r, ''occupants'',
        ''A place is for between 1 and 12 people.''),
       (radius < 1, ''max_distance_m'', ''A radius of '' @ itoa radius @ '' m is not a distance.''),
       (q_status r \<notin> set ([] # statuses), ''status'', ''Unknown status.'')])"

definition validateRequestRow :: "housing_request \<Rightarrow> (string \<times> string) list" where
  "validateRequestRow r = problems (request_rules r) []"

definition validateRequest :: "housing_request \<Rightarrow> (string \<times> string) list" where
  "validateRequest p = validateRequestRow p"

section \<open>Creating\<close>

definition create_request_params :: "uuid \<Rightarrow> request_input \<Rightarrow> time \<Rightarrow> housing_request" where
  "create_request_params poster inp now =
     \<lparr>q_id = 0, q_poster_id = poster, q_title = trim_space (ri_title inp),
      q_body = trim_space (derefString (ri_body inp)),
      q_budget_cents = to_int32 (ri_budget_cents inp),
      q_start_date = ri_start_date inp, q_end_date = ri_end_date inp,
      q_lease_months = to_int32 (ri_lease_months inp), q_term_tag = trim_space (ri_term_tag inp),
      q_occupants = (case ri_occupants inp of None \<Rightarrow> 1 | Some n \<Rightarrow> to_int32 n),
      q_pets = derefBool (ri_pets inp),
      q_furnished_preferred = derefBool (ri_furnished_preferred inp),
      q_parking_needed = derefBool (ri_parking_needed inp),
      q_laundry_needed = derefBool (ri_laundry_needed inp),
      q_max_distance_m = int32Ptr (nullableToPtrInt (ri_max_distance_m inp)),
      q_neighbourhood = trim_space (derefString (ri_neighbourhood inp)),
      q_status = default_if_nil (ri_status inp) ''published'', q_published_at = None, q_views = 0,
      q_created_at = now, q_updated_at = now, q_removed_at = None, q_removed_by = None,
      q_removed_reason = None\<rparr>"

text \<open>An offer count that could not be read is reported as zero.\<close>

definition requestResponse :: "housing_request \<Rightarrow> request_view go" where
  "requestResponse row = do {
     u \<leftarrow> GetUserByID (q_poster_id row);
     n \<leftarrow> CountOffersForRequest (q_id row);
     State_Monad.return (toRequest row (owner_summary (q_poster_id row) u)
       (case n of Inl _ \<Rightarrow> 0 | Inr k \<Rightarrow> k)) }"

definition CreateRequest :: "request_ctx \<Rightarrow> request_input option \<Rightarrow> request_view handler" where
  "CreateRequest ctx body =
     (case PrincipalFrom ctx of
        None \<Rightarrow> refuse 401 CodeUnauthorized ''Log in to post what you are looking for.''
      | Some p \<Rightarrow>
          if \<not> p_verified p then
            refuse 403 CodeForbidden ''Confirm your uwaterloo.ca address before posting. That badge is what tells other students who they are dealing with.''
          else case body of
            None \<Rightarrow> refuse 400 CodeBadRequest ''A JSON body is required.''
          | Some inp \<Rightarrow> do {
              now \<leftarrow> time_now;
              (let params = create_request_params (p_user_id p) inp now;
                   bad = validateRequest params
               in if bad \<noteq> [] then
                    refuse_with 400 CodeValidation ''Check the highlighted fields.'' bad
                  else do {
                    r \<leftarrow> CreateRequest_sql params;
                    case r of
                      Inl e \<Rightarrow> fail e
                    | Inr row \<Rightarrow> do {
                        v \<leftarrow> requestResponse row;
                        answer 201 v } }) })"

section \<open>Whose request\<close>

definition ownedRequest :: "request_ctx \<Rightarrow> uuid \<Rightarrow> (refusal + housing_request) go" where
  "ownedRequest ctx i =
     (case PrincipalFrom ctx of
        None \<Rightarrow> State_Monad.return (Inl (anonymous_refusal ''Log in to manage your requests.''))
      | Some p \<Rightarrow> do {
          r \<leftarrow> GetRequestForOwner i;
          State_Monad.return
            (case r of
               Inl _ \<Rightarrow> Inl (missing_refusal ''No request with that id.'')
             | Inr q \<Rightarrow>
                 if q_poster_id q \<noteq> p_user_id p then Inl (missing_refusal ''No request with that id.'')
                 else if q_removed_at q \<noteq> None then Inl (removedRefusal ''request'' (q_removed_reason q))
                 else Inr q) })"

definition updateRequestRefusal :: "refusal \<Rightarrow> 'b reply" where
  "updateRequestRefusal r =
     (if rf_conflict r then Refuse 409 (errorBody CodeConflict (rf_message r))
      else if rf_unauthorised r then Refuse 401 (errorBody CodeUnauthorized (rf_message r))
      else Refuse 404 (errorBody CodeNotFound (rf_message r)))"

definition requestStatusRefusal :: "refusal \<Rightarrow> 'b reply" where
  "requestStatusRefusal r =
     (if rf_conflict r then Refuse 409 (errorBody CodeConflict (rf_message r))
      else if rf_unauthorised r then Refuse 401 (errorBody CodeUnauthorized (rf_message r))
      else Refuse 404 (errorBody CodeNotFound (rf_message r)))"

definition deleteRequestRefusal :: "refusal \<Rightarrow> 'b reply" where
  "deleteRequestRefusal r =
     (if rf_conflict r then Refuse 409 (errorBody CodeConflict (rf_message r))
      else if rf_unauthorised r then Refuse 401 (errorBody CodeUnauthorized (rf_message r))
      else Refuse 404 (errorBody CodeNotFound (rf_message r)))"

section \<open>Editing\<close>

definition applyRequestUpdate :: "housing_request \<Rightarrow> request_update \<Rightarrow> housing_request" where
  "applyRequestUpdate r inp = r\<lparr>
     q_title := default_if_nil (ru_title inp) (q_title r),
     q_body := default_if_nil (ru_body inp) (q_body r),
     q_budget_cents := default_if_nil (int32From (ru_budget_cents inp)) (q_budget_cents r),
     q_start_date := default_if_nil (ru_start_date inp) (q_start_date r),
     q_end_date := default_if_nil (ru_end_date inp) (q_end_date r),
     q_lease_months := default_if_nil (int32From (ru_lease_months inp)) (q_lease_months r),
     q_occupants := default_if_nil (int32From (ru_occupants inp)) (q_occupants r),
     q_max_distance_m := assign_nullable (nullableValue (ru_max_distance_m inp)) (q_max_distance_m r)\<rparr>"

definition requestUpdateParams :: "request_update \<Rightarrow> update_request_params" where
  "requestUpdateParams inp =
     \<lparr>uq_title = trimmedPtr (ru_title inp), uq_body = trimmedPtr (ru_body inp),
      uq_budget_cents = int32From (ru_budget_cents inp),
      uq_start_date = ru_start_date inp, uq_end_date = ru_end_date inp,
      uq_lease_months = int32From (ru_lease_months inp), uq_term_tag = trimmedPtr (ru_term_tag inp),
      uq_occupants = int32From (ru_occupants inp), uq_pets = ru_pets inp,
      uq_furnished_preferred = ru_furnished_preferred inp,
      uq_parking_needed = ru_parking_needed inp, uq_laundry_needed = ru_laundry_needed inp,
      uq_max_distance_m = assign_nullable (nullableValue (ru_max_distance_m inp)) None,
      uq_neighbourhood = trimmedPtr (ru_neighbourhood inp)\<rparr>"

definition UpdateRequest :: "request_ctx \<Rightarrow> uuid \<Rightarrow> request_update option \<Rightarrow> request_view handler" where
  "UpdateRequest ctx i body = do {
     owned \<leftarrow> ownedRequest ctx i;
     case owned of
       Inl r \<Rightarrow> State_Monad.return (updateRequestRefusal r)
     | Inr existing \<Rightarrow>
         (case body of
            None \<Rightarrow> refuse 400 CodeBadRequest ''A JSON body is required.''
          | Some inp \<Rightarrow>
              (let bad = validateRequestRow (applyRequestUpdate existing inp)
               in if bad \<noteq> [] then
                    refuse_with 400 CodeValidation ''Check the highlighted fields.'' bad
                  else do {
                    r \<leftarrow> UpdateRequest_sql (q_id existing) (requestUpdateParams inp);
                    case r of
                      Inl e \<Rightarrow> fail e
                    | Inr row \<Rightarrow> do {
                        v \<leftarrow> requestResponse row;
                        answer 200 v } })) }"

section \<open>Status\<close>

definition SetRequestStatus :: "request_ctx \<Rightarrow> uuid \<Rightarrow> string option \<Rightarrow> request_view handler" where
  "SetRequestStatus ctx i body = do {
     owned \<leftarrow> ownedRequest ctx i;
     case owned of
       Inl r \<Rightarrow> State_Monad.return (requestStatusRefusal r)
     | Inr existing \<Rightarrow>
         (case body of
            None \<Rightarrow> refuse 400 CodeBadRequest ''A status is required.''
          | Some want \<Rightarrow>
              if want = q_status existing then do {
                v \<leftarrow> requestResponse existing;
                answer 200 v }
              else if want \<notin> set (allowedTransitions (q_status existing)) then
                refuse 400 CodeBadRequest
                  (if q_status existing = ''archived'' then
                     ''This request has been taken down, and that is final. Post a new one instead '' @ em_dash @
                     '' by now the term and the budget will have moved on.''
                   else ''A request cannot go from '' @ q_status existing @ '' to '' @ want @ ''.'')
              else do {
                r \<leftarrow> SetRequestStatus_sql (q_id existing) want;
                case r of
                  Inl e \<Rightarrow> fail e
                | Inr row \<Rightarrow> do {
                    v \<leftarrow> requestResponse row;
                    answer 200 v } }) }"

definition DeleteRequest :: "request_ctx \<Rightarrow> uuid \<Rightarrow> unit handler" where
  "DeleteRequest ctx i = do {
     owned \<leftarrow> ownedRequest ctx i;
     case owned of
       Inl r \<Rightarrow> State_Monad.return (deleteRequestRefusal r)
     | Inr existing \<Rightarrow>
         if q_status existing = ''archived'' then answer 204 ()
         else do {
           r \<leftarrow> SetRequestStatus_sql (q_id existing) ''archived'';
           case r of
             Inl e \<Rightarrow> fail e
           | Inr _ \<Rightarrow> answer 204 () } }"

definition ListMyRequests :: "request_ctx \<Rightarrow> request_view list handler" where
  "ListMyRequests ctx =
     (case PrincipalFrom ctx of
        None \<Rightarrow> refuse 401 CodeUnauthorized ''Log in to see your requests.''
      | Some p \<Rightarrow> do {
          r \<leftarrow> ListRequestsByPoster (p_user_id p);
          case r of
            Inl e \<Rightarrow> fail e
          | Inr rows \<Rightarrow>
              answer 200 (map (\<lambda>row. toRequest (qw_request row) (request_poster row) (qw_offer_count row)) rows) })"

lemmas request_handler_defs =
  CreateRequest_def UpdateRequest_def SetRequestStatus_def DeleteRequest_def ListMyRequests_def
  ownedRequest_def requestResponse_def

end
