(* ===== verification/Admin.thy ===== *)
theory Admin
  imports Ledger Requests
begin

text \<open>
  The operator's surface: \<open>internal/httpapi/admin_guard.go\<close>, \<open>admin.go\<close>, \<open>admin_users.go\<close>,
  \<open>admin_accounts.go\<close> and \<open>admin_posts.go\<close>, with the read queries of \<open>admin.sql.go\<close> and
  \<open>admin_posts.sql.go\<close>. Anyone who is no admin gets \<open>Unrouted\<close>, the answer to an unknown path.
\<close>

section \<open>Queries\<close>

text \<open>\<open>LIKE\<close> on characters: \<open>%\<close> stands for any text, \<open>_\<close> for any character, a backslash escapes.\<close>

fun like :: "string list \<Rightarrow> string list \<Rightarrow> bool" where
  "like [] s = (s = [])"
| "like (p # ps) [] = (p = ''%'' \<and> like ps [])"
| "like (p # ps) (c # s) =
     (if p = ''%'' then like ps (c # s) \<or> like (p # ps) s
      else if p = ''_'' then like ps s
      else if p = [CHR 0x5C] then (case ps of [] \<Rightarrow> False | q # qs \<Rightarrow> q = c \<and> like qs s)
      else p = c \<and> like ps s)"

text \<open>\<open>x ILIKE '%' || fragment || '%'\<close>\<close>

definition contains_fragment :: "string \<Rightarrow> string \<Rightarrow> bool" where
  "contains_fragment fragment x =
     like (runes (to_lower (''%'' @ fragment @ ''%''))) (runes (to_lower x))"

record user_filters =
  uf_search :: "string option"
  uf_role :: "string option"
  uf_verified :: "bool option"
  uf_suspended :: "bool option"

definition users_match :: "user_filters \<Rightarrow> user \<Rightarrow> bool" where
  "users_match f u \<longleftrightarrow>
     (case uf_search f of None \<Rightarrow> True
      | Some s \<Rightarrow> contains_fragment s (u_email u) \<or> contains_fragment s (u_username u)) \<and>
     (case uf_role f of None \<Rightarrow> True | Some r \<Rightarrow> u_role u = r) \<and>
     (case uf_verified f of None \<Rightarrow> True | Some b \<Rightarrow> u_verified u = b) \<and>
     (case uf_suspended f of None \<Rightarrow> True | Some b \<Rightarrow> (u_suspended_at u \<noteq> None) = b)"

record admin_user_row =
  ar_user :: user
  ar_listing_count :: int
  ar_request_count :: int
  ar_offer_count :: int

definition admin_user_row_for :: "database \<Rightarrow> user \<Rightarrow> admin_user_row" where
  "admin_user_row_for d u = \<lparr>ar_user = u,
     ar_listing_count = count_where (\<lambda>l. l_owner_id l = u_id u) (listings d),
     ar_request_count = count_where (\<lambda>q. q_poster_id q = u_id u) (requests d),
     ar_offer_count = count_where (\<lambda>x. o_owner_id x = u_id u) (offers d)\<rparr>"

definition admin_user_rows :: "user_filters \<Rightarrow> database \<Rightarrow> admin_user_row list" where
  "admin_user_rows f d = map (admin_user_row_for d)
     (sort_desc u_created_at (sort_key (\<lambda>u. uint (u_id u)) (filter (users_match f) (users d))))"

definition ListUsersForAdmin :: "user_filters \<Rightarrow> int \<Rightarrow> int \<Rightarrow> admin_user_row list res go" where
  "ListUsersForAdmin f limit off = page_query limit off (\<lambda>_. admin_user_rows f)"

definition CountUsersForAdmin :: "user_filters \<Rightarrow> int res go" where
  "CountUsersForAdmin f = query (\<lambda>_ d. count_where (users_match f) (users d))"

definition GetUserForAdmin :: "uuid \<Rightarrow> admin_user_row res go" where
  "GetUserForAdmin i = query_row (\<lambda>_ d. map_option (admin_user_row_for d) (find_user d i))"

text \<open>A ledger row and the name of its actor; a row whose actor is unknown keeps no name.\<close>

definition actor_name :: "database \<Rightarrow> admin_action \<Rightarrow> string option" where
  "actor_name d a =
     (case a_actor_id a of None \<Rightarrow> None | Some i \<Rightarrow> map_option u_username (find_user d i))"

definition newest_actions :: "admin_action list \<Rightarrow> admin_action list" where
  "newest_actions as = sort_desc a_created_at (sort_key (\<lambda>a. uint (a_id a)) as)"

definition ListAdminActions_sql :: "int \<Rightarrow> int \<Rightarrow> (admin_action \<times> string option) list res go" where
  "ListAdminActions_sql limit off = page_query limit off (\<lambda>_ d.
     map (\<lambda>a. (a, actor_name d a)) (newest_actions (admin_actions d)))"

definition CountAdminActions :: "int res go" where
  "CountAdminActions = query (\<lambda>_ d. int (length (admin_actions d)))"

definition ListAdminActionsForSubject ::
  "string \<Rightarrow> uuid \<Rightarrow> (admin_action \<times> string option) list res go" where
  "ListAdminActionsForSubject ty i = query (\<lambda>_ d.
     map (\<lambda>a. (a, actor_name d a)) (newest_actions
       (filter (\<lambda>a. a_subject_type a = ty \<and> a_subject_id a = i) (admin_actions d))))"

record overview =
  vw_users_total :: int
  vw_users_verified :: int
  vw_users_suspended :: int
  vw_users_admin :: int
  vw_listings_total :: int
  vw_listings_published :: int
  vw_requests_total :: int
  vw_requests_published :: int
  vw_actions_last_week :: int

definition AdminOverviewCounts :: "overview res go" where
  "AdminOverviewCounts = query (\<lambda>t d.
     \<lparr>vw_users_total = int (length (users d)),
      vw_users_verified = count_where u_verified (users d),
      vw_users_suspended = count_where (\<lambda>u. u_suspended_at u \<noteq> None) (users d),
      vw_users_admin = count_where (\<lambda>u. u_role u = ''admin'') (users d),
      vw_listings_total = int (length (listings d)),
      vw_listings_published = count_where (\<lambda>l. l_status l = ''published'') (listings d),
      vw_requests_total = int (length (requests d)),
      vw_requests_published = count_where (\<lambda>q. q_status q = ''published'') (requests d),
      vw_actions_last_week =
        count_where (\<lambda>a. t - 7 * 24 * hour < a_created_at a) (admin_actions d)\<rparr>)"

record post_filters =
  pf_search :: "string option"
  pf_status :: "string option"
  pf_removed :: "bool option"
  pf_owner_id :: "uuid option"

text \<open>The columns the two search indexes cover.\<close>

definition listing_text :: "listing \<Rightarrow> string list" where
  "listing_text l = [l_title l, l_neighbourhood l, l_cross_streets l, l_body l]"

definition request_text :: "housing_request \<Rightarrow> string list" where
  "request_text q = [q_title q, q_neighbourhood q, q_body q]"

definition searches :: "env \<Rightarrow> string option \<Rightarrow> string list \<Rightarrow> bool" where
  "searches env s texts = (case s of None \<Rightarrow> True | Some q \<Rightarrow> text_match env q texts)"

definition admin_listing_match :: "env \<Rightarrow> post_filters \<Rightarrow> listing \<Rightarrow> bool" where
  "admin_listing_match env f l \<longleftrightarrow>
     searches env (pf_search f) (listing_text l) \<and>
     (case pf_status f of None \<Rightarrow> True | Some s \<Rightarrow> l_status l = s) \<and>
     (case pf_removed f of None \<Rightarrow> True | Some b \<Rightarrow> (l_removed_at l \<noteq> None) = b) \<and>
     (case pf_owner_id f of None \<Rightarrow> True | Some i \<Rightarrow> l_owner_id l = i)"

definition admin_request_match :: "env \<Rightarrow> post_filters \<Rightarrow> housing_request \<Rightarrow> bool" where
  "admin_request_match env f q \<longleftrightarrow>
     searches env (pf_search f) (request_text q) \<and>
     (case pf_status f of None \<Rightarrow> True | Some s \<Rightarrow> q_status q = s) \<and>
     (case pf_removed f of None \<Rightarrow> True | Some b \<Rightarrow> (q_removed_at q \<noteq> None) = b) \<and>
     (case pf_owner_id f of None \<Rightarrow> True | Some i \<Rightarrow> q_poster_id q = i)"

text \<open>The post and its author; the authors' columns are read off the row the join finds.\<close>

definition ListListingsForAdmin ::
  "env \<Rightarrow> post_filters \<Rightarrow> int \<Rightarrow> int \<Rightarrow> (listing \<times> user) list res go" where
  "ListListingsForAdmin env f limit off = page_query limit off (\<lambda>_ d.
     List.map_filter (\<lambda>l. map_option (\<lambda>u. (l, u)) (find_user d (l_owner_id l)))
       (sort_desc l_created_at (sort_key (\<lambda>l. uint (l_id l))
         (filter (admin_listing_match env f) (listings d)))))"

definition CountListingsForAdmin :: "env \<Rightarrow> post_filters \<Rightarrow> int res go" where
  "CountListingsForAdmin env f = query (\<lambda>_ d. count_where (admin_listing_match env f) (listings d))"

definition ListRequestsForAdmin ::
  "env \<Rightarrow> post_filters \<Rightarrow> int \<Rightarrow> int \<Rightarrow> (housing_request \<times> user \<times> int) list res go" where
  "ListRequestsForAdmin env f limit off = page_query limit off (\<lambda>_ d.
     List.map_filter (\<lambda>q. map_option (\<lambda>u. (q, u, offer_count d (q_id q))) (find_user d (q_poster_id q)))
       (sort_desc q_created_at (sort_key (\<lambda>q. uint (q_id q))
         (filter (admin_request_match env f) (requests d)))))"

definition CountRequestsForAdmin :: "env \<Rightarrow> post_filters \<Rightarrow> int res go" where
  "CountRequestsForAdmin env f = query (\<lambda>_ d. count_where (admin_request_match env f) (requests d))"

section \<open>The guard\<close>

definition requireAdmin :: "request_ctx \<Rightarrow> principal option" where
  "requireAdmin ctx =
     (case PrincipalFrom ctx of
        None \<Rightarrow> None
      | Some p \<Rightarrow> if IsAdmin p then Some p else None)"

text \<open>\<open>principal, ok := requireAdmin(ctx); if !ok { return unrouted{}, nil }\<close>\<close>

definition as_admin :: "request_ctx \<Rightarrow> (principal \<Rightarrow> 'b handler) \<Rightarrow> 'b handler" where
  "as_admin ctx body =
     (case requireAdmin ctx of None \<Rightarrow> State_Monad.return Unrouted | Some p \<Rightarrow> body p)"

section \<open>Overview and ledger\<close>

definition GetAdminOverview :: "request_ctx \<Rightarrow> overview handler" where
  "GetAdminOverview ctx = as_admin ctx (\<lambda>_. do {
     r \<leftarrow> AdminOverviewCounts;
     case r of
       Inl e \<Rightarrow> fail e
     | Inr c \<Rightarrow> answer 200 c })"

record admin_action_view =
  av_id :: uuid
  av_action :: string
  av_subject_type :: string
  av_subject_id :: uuid
  av_reason :: string
  av_detail :: "(string \<times> json) list"
  av_actor :: "(uuid \<times> string) option"
  av_created_at :: time

definition toAdminAction :: "admin_action \<times> string option \<Rightarrow> admin_action_view" where
  "toAdminAction row =
     (let (a, nm) = row
      in \<lparr>av_id = a_id a, av_action = a_action a, av_subject_type = a_subject_type a,
          av_subject_id = a_subject_id a, av_reason = a_reason a, av_detail = a_detail a,
          av_actor = (case (a_actor_id a, nm) of (Some i, Some n) \<Rightarrow> Some (i, n) | _ \<Rightarrow> None),
          av_created_at = a_created_at a\<rparr>)"

definition ListAdminActions ::
  "request_ctx \<Rightarrow> int option \<Rightarrow> int option \<Rightarrow> (admin_action_view list \<times> page_meta) handler" where
  "ListAdminActions ctx page_param per_page_param = as_admin ctx (\<lambda>_.
     (let (page, perPage) = paginationFrom page_param per_page_param
      in do {
        n \<leftarrow> CountAdminActions;
        case n of
          Inl e \<Rightarrow> fail e
        | Inr k \<Rightarrow> do {
            rows \<leftarrow> ListAdminActions_sql (to_int32 perPage) (page_offset page perPage);
            case rows of
              Inl e \<Rightarrow> fail e
            | Inr rs \<Rightarrow> answer 200 (map toAdminAction rs, pageMeta page perPage k) } }))"

section \<open>Accounts\<close>

record admin_user_view =
  uw_id :: uuid
  uw_email :: string
  uw_username :: string
  uw_role :: string
  uw_verified :: bool
  uw_created_at :: time
  uw_suspend_reason :: "string option"
  uw_suspended_at :: "time option"
  uw_listing_count :: int
  uw_request_count :: int
  uw_offer_count :: int

definition toAdminUser :: "admin_user_row \<Rightarrow> admin_user_view" where
  "toAdminUser r =
     (let u = ar_user r
      in \<lparr>uw_id = u_id u, uw_email = u_email u, uw_username = u_username u, uw_role = u_role u,
          uw_verified = u_verified u, uw_created_at = u_created_at u,
          uw_suspend_reason = u_suspend_reason u, uw_suspended_at = u_suspended_at u,
          uw_listing_count = ar_listing_count r, uw_request_count = ar_request_count r,
          uw_offer_count = ar_offer_count r\<rparr>)"

definition trimmedOrNil :: "string option \<Rightarrow> string option" where
  "trimmedOrNil q =
     (case q of
        None \<Rightarrow> None
      | Some s \<Rightarrow> if trim_space s = [] then None else Some (trim_space s))"

definition ListAdminUsers ::
  "request_ctx \<Rightarrow> int option \<Rightarrow> int option \<Rightarrow> user_filters \<Rightarrow> (admin_user_view list \<times> page_meta) handler" where
  "ListAdminUsers ctx page_param per_page_param q = as_admin ctx (\<lambda>_.
     (let (page, perPage) = paginationFrom page_param per_page_param;
          f = q\<lparr>uf_search := trimmedOrNil (uf_search q)\<rparr>
      in do {
        n \<leftarrow> CountUsersForAdmin f;
        case n of
          Inl e \<Rightarrow> fail e
        | Inr k \<Rightarrow> do {
            rows \<leftarrow> ListUsersForAdmin f (to_int32 perPage) (page_offset page perPage);
            case rows of
              Inl e \<Rightarrow> fail e
            | Inr rs \<Rightarrow> answer 200 (map toAdminUser rs, pageMeta page perPage k) } }))"

definition GetAdminUser :: "request_ctx \<Rightarrow> uuid \<Rightarrow> (admin_user_view \<times> admin_action_view list) handler" where
  "GetAdminUser ctx i = as_admin ctx (\<lambda>_. do {
     found \<leftarrow> GetUserForAdmin i;
     case found of
       Inl e \<Rightarrow> if errors_is e ErrNoRows then refuse 404 CodeNotFound ''No account with that id.'' else fail e
     | Inr row \<Rightarrow> do {
         rows \<leftarrow> ListAdminActionsForSubject ''user'' i;
         case rows of
           Inl e \<Rightarrow> fail e
         | Inr rs \<Rightarrow> answer 200 (toAdminUser row, map toAdminAction rs) } })"

definition minReasonLength :: int where "minReasonLength = 10"

text \<open>What the rules of \<open>internal/db\<close> refuse, in the contract's words.\<close>

definition account_refusal :: "string \<Rightarrow> error \<Rightarrow> (nat \<times> err_body) option" where
  "account_refusal selfMessage e =
     (let conflict = (\<lambda>m. Some (409, errorBody CodeConflict m))
      in if errors_is e ErrNoRows then Some (404, errorBody CodeNotFound ''No account with that id.'')
         else if errors_is e ErrSelfAction then conflict selfMessage
         else if errors_is e ErrAlreadySuspended then conflict ''That account is already suspended.''
         else if errors_is e ErrNotSuspended then conflict ''That account is not suspended.''
         else if errors_is e ErrAlreadyVerified then conflict ''That account is already verified.''
         else if errors_is e ErrRoleUnchanged then conflict ''That account already has that role.''
         else if errors_is e ErrLastAdmin then conflict ''That is the last admin. Promote someone else first.''
         else None)"

definition accountAction ::
  "uuid \<Rightarrow> string option \<Rightarrow> string \<Rightarrow> (string \<Rightarrow> unit res go) \<Rightarrow> admin_user_view handler" where
  "accountAction i reason selfMessage act =
     (case reason of
        None \<Rightarrow> refuse 400 CodeBadRequest ''A JSON body is required.''
      | Some raw \<Rightarrow>
          (let trimmed = trim_space raw; n = rune_count trimmed
           in if n < minReasonLength then
                refuse_with 400 CodeValidation ''Give a reason.''
                  [(''reason'', ''At least 10 characters. It is kept in the ledger.'')]
              else if 1000 < n then
                refuse_with 400 CodeValidation ''That reason is too long.''
                  [(''reason'', ''At most 1,000 characters.'')]
              else do {
                r \<leftarrow> act trimmed;
                case r of
                  Inl e \<Rightarrow>
                    (case account_refusal selfMessage e of
                       Some (status, b) \<Rightarrow> State_Monad.return (Refuse status b)
                     | None \<Rightarrow> fail e)
                | Inr _ \<Rightarrow> do {
                    row \<leftarrow> GetUserForAdmin i;
                    case row of
                      Inl e \<Rightarrow> fail e
                    | Inr u \<Rightarrow> answer 200 (toAdminUser u) } }))"

definition SuspendAdminUser :: "request_ctx \<Rightarrow> uuid \<Rightarrow> string option \<Rightarrow> admin_user_view handler" where
  "SuspendAdminUser ctx i reason = as_admin ctx (\<lambda>p.
     accountAction i reason ''You can't suspend your own account.''
       (\<lambda>why. res_map (\<lambda>_. ()) (Suspend (p_user_id p) i why)))"

definition ReinstateAdminUser :: "request_ctx \<Rightarrow> uuid \<Rightarrow> string option \<Rightarrow> admin_user_view handler" where
  "ReinstateAdminUser ctx i reason = as_admin ctx (\<lambda>p.
     accountAction i reason [] (\<lambda>why. res_map (\<lambda>_. ()) (Reinstate (p_user_id p) i why)))"

definition VerifyAdminUser :: "request_ctx \<Rightarrow> uuid \<Rightarrow> string option \<Rightarrow> admin_user_view handler" where
  "VerifyAdminUser ctx i reason = as_admin ctx (\<lambda>p.
     accountAction i reason [] (\<lambda>why. res_map (\<lambda>_. ()) (VerifyByHand (p_user_id p) i why)))"

text \<open>The body is a role and a reason; a missing body is refused by \<open>accountAction\<close>.\<close>

definition SetAdminUserRole :: "request_ctx \<Rightarrow> uuid \<Rightarrow> (string \<times> string) option \<Rightarrow> admin_user_view handler" where
  "SetAdminUserRole ctx i body = as_admin ctx (\<lambda>p.
     (if (case body of None \<Rightarrow> False | Some (role, _) \<Rightarrow> role \<notin> {''admin'', ''user''}) then
        refuse_with 400 CodeValidation ''Choose a role.'' [(''role'', ''Either user or admin.'')]
      else accountAction i (map_option snd body) ''You can't change your own role.''
        (\<lambda>why. res_map (\<lambda>_. ()) (ChangeRole (Some (p_user_id p)) i (default_if_nil (map_option fst body) []) why))))"

section \<open>Posts\<close>

record admin_post_owner =
  po_id :: uuid
  po_username :: string
  po_email :: string
  po_verified :: bool
  po_suspended_at :: "time option"

definition adminPostOwner :: "user \<Rightarrow> admin_post_owner" where
  "adminPostOwner u = \<lparr>po_id = u_id u, po_username = u_username u, po_email = u_email u,
     po_verified = u_verified u, po_suspended_at = u_suspended_at u\<rparr>"

definition user_owner :: "user \<Rightarrow> owner_view" where
  "user_owner u = \<lparr>ov_id = u_id u, ov_username = u_username u, ov_avatar_url = u_avatar_url u,
     ov_verified = u_verified u\<rparr>"

definition ListAdminListings ::
  "env \<Rightarrow> request_ctx \<Rightarrow> int option \<Rightarrow> int option \<Rightarrow> post_filters \<Rightarrow>
   ((listing_view \<times> admin_post_owner) list \<times> page_meta) handler" where
  "ListAdminListings env ctx page_param per_page_param q = as_admin ctx (\<lambda>_.
     (let (page, perPage) = paginationFrom page_param per_page_param;
          f = q\<lparr>pf_search := trimmedOrNil (pf_search q)\<rparr>
      in do {
        n \<leftarrow> CountListingsForAdmin env f;
        case n of
          Inl e \<Rightarrow> fail e
        | Inr k \<Rightarrow> do {
            rows \<leftarrow> ListListingsForAdmin env f (to_int32 perPage) (page_offset page perPage);
            case rows of
              Inl e \<Rightarrow> fail e
            | Inr rs \<Rightarrow> do {
                pictures \<leftarrow> photosByListing (map (\<lambda>(l, _). l_id l) rs);
                case pictures of
                  Inl e \<Rightarrow> fail e
                | Inr ps \<Rightarrow> answer 200
                    (map (\<lambda>(l, u). (toListing l (user_owner u) (ps (l_id l)) True, adminPostOwner u)) rs,
                     pageMeta page perPage k) } } }))"

definition ListAdminRequests ::
  "env \<Rightarrow> request_ctx \<Rightarrow> int option \<Rightarrow> int option \<Rightarrow> post_filters \<Rightarrow>
   ((request_view \<times> admin_post_owner) list \<times> page_meta) handler" where
  "ListAdminRequests env ctx page_param per_page_param q = as_admin ctx (\<lambda>_.
     (let (page, perPage) = paginationFrom page_param per_page_param;
          f = q\<lparr>pf_search := trimmedOrNil (pf_search q)\<rparr>
      in do {
        n \<leftarrow> CountRequestsForAdmin env f;
        case n of
          Inl e \<Rightarrow> fail e
        | Inr k \<Rightarrow> do {
            rows \<leftarrow> ListRequestsForAdmin env f (to_int32 perPage) (page_offset page perPage);
            case rows of
              Inl e \<Rightarrow> fail e
            | Inr rs \<Rightarrow> answer 200
                (map (\<lambda>(r, u, m). (toRequest r (user_owner u) m, adminPostOwner u)) rs,
                 pageMeta page perPage k) } }))"

definition adminListing :: "uuid \<Rightarrow> (listing_view \<times> admin_post_owner) res go" where
  "adminListing i = do {
     found \<leftarrow> GetListingForOwner i;
     case found of
       Inl e \<Rightarrow> State_Monad.return (Inl e)
     | Inr l \<Rightarrow> do {
         who \<leftarrow> GetUserByID (l_owner_id l);
         case who of
           Inl e \<Rightarrow> State_Monad.return (Inl e)
         | Inr u \<Rightarrow> do {
             pictures \<leftarrow> ListPhotosForListing i;
             case pictures of
               Inl e \<Rightarrow> State_Monad.return (Inl e)
             | Inr ps \<Rightarrow>
                 State_Monad.return (Inr (toListing l (user_owner u) ps True, adminPostOwner u)) } } }"

definition adminRequest :: "uuid \<Rightarrow> (request_view \<times> admin_post_owner) res go" where
  "adminRequest i = do {
     found \<leftarrow> GetRequestForOwner i;
     case found of
       Inl e \<Rightarrow> State_Monad.return (Inl e)
     | Inr q \<Rightarrow> do {
         who \<leftarrow> GetUserByID (q_poster_id q);
         case who of
           Inl e \<Rightarrow> State_Monad.return (Inl e)
         | Inr u \<Rightarrow> do {
             n \<leftarrow> CountOffersForRequest i;
             case n of
               Inl e \<Rightarrow> State_Monad.return (Inl e)
             | Inr k \<Rightarrow>
                 State_Monad.return (Inr (toRequest q (user_owner u) k, adminPostOwner u)) } } }"

text \<open>Nothing: the action was done, and the caller reads the post back.\<close>

definition postAction ::
  "string \<Rightarrow> string option \<Rightarrow> bool \<Rightarrow> (string \<Rightarrow> unit res go) \<Rightarrow> (nat \<times> err_body) option res go" where
  "postAction kind reason required act =
     (let text = trim_space (default_if_nil reason []); n = rune_count text;
          outcome = (\<lambda>s b. State_Monad.return (Inr (Some (s, b))))
      in if required \<and> reason = None then
           outcome 400 (errorBody CodeBadRequest ''A JSON body is required.'')
         else if required \<and> n < minReasonLength then
           outcome 400 (errorBodyWithDetails CodeValidation ''Give a reason. The owner will see it.''
             [(''reason'', ''At least 10 characters.'')])
         else if 1000 < n then
           outcome 400 (errorBodyWithDetails CodeValidation ''That reason is too long.''
             [(''reason'', ''At most 1,000 characters.'')])
         else do {
           r \<leftarrow> act text;
           case r of
             Inr _ \<Rightarrow> State_Monad.return (Inr None)
           | Inl e \<Rightarrow>
               if errors_is e ErrNoRows then
                 outcome 404 (errorBody CodeNotFound (''No '' @ kind @ '' with that id.''))
               else if errors_is e ErrAlreadyRemoved then
                 outcome 409 (errorBody CodeConflict (''That '' @ kind @ '' is already taken down.''))
               else if errors_is e ErrNotRemoved then
                 outcome 409 (errorBody CodeConflict (''That '' @ kind @ '' is not taken down.''))
               else State_Monad.return (Inl e) })"

definition post_reply :: "'v res go \<Rightarrow> (nat \<times> err_body) option res \<Rightarrow> 'v handler" where
  "post_reply read_back o' =
     (case o' of
        Inl e \<Rightarrow> fail e
      | Inr (Some (status, b)) \<Rightarrow> State_Monad.return (Refuse status b)
      | Inr None \<Rightarrow> do {
          r \<leftarrow> read_back;
          case r of
            Inl e \<Rightarrow> fail e
          | Inr v \<Rightarrow> answer 200 v })"

definition RemoveAdminListing ::
  "request_ctx \<Rightarrow> uuid \<Rightarrow> string option \<Rightarrow> (listing_view \<times> admin_post_owner) handler" where
  "RemoveAdminListing ctx i reason = as_admin ctx (\<lambda>p. do {
     r \<leftarrow> postAction ''listing'' reason True (RemovePost (p_user_id p) ''listing'' i);
     post_reply (adminListing i) r })"

definition RestoreAdminListing ::
  "request_ctx \<Rightarrow> uuid \<Rightarrow> string option \<Rightarrow> (listing_view \<times> admin_post_owner) handler" where
  "RestoreAdminListing ctx i reason = as_admin ctx (\<lambda>p. do {
     r \<leftarrow> postAction ''listing'' reason False (RestorePost (p_user_id p) ''listing'' i);
     post_reply (adminListing i) r })"

definition RemoveAdminRequest ::
  "request_ctx \<Rightarrow> uuid \<Rightarrow> string option \<Rightarrow> (request_view \<times> admin_post_owner) handler" where
  "RemoveAdminRequest ctx i reason = as_admin ctx (\<lambda>p. do {
     r \<leftarrow> postAction ''request'' reason True (RemovePost (p_user_id p) ''request'' i);
     post_reply (adminRequest i) r })"

definition RestoreAdminRequest ::
  "request_ctx \<Rightarrow> uuid \<Rightarrow> string option \<Rightarrow> (request_view \<times> admin_post_owner) handler" where
  "RestoreAdminRequest ctx i reason = as_admin ctx (\<lambda>p. do {
     r \<leftarrow> postAction ''request'' reason False (RestorePost (p_user_id p) ''request'' i);
     post_reply (adminRequest i) r })"

lemmas admin_write_defs =
  SuspendAdminUser_def ReinstateAdminUser_def VerifyAdminUser_def SetAdminUserRole_def
  RemoveAdminListing_def RestoreAdminListing_def RemoveAdminRequest_def RestoreAdminRequest_def

lemmas admin_read_defs =
  GetAdminOverview_def ListAdminActions_def ListAdminUsers_def GetAdminUser_def
  ListAdminListings_def ListAdminRequests_def

end
