(* ===== verification/Browse.thy ===== *)
theory Browse
  imports Admin
begin

text \<open>
  What anyone may read: \<open>internal/httpapi/listings.go\<close> and \<open>requests.go\<close> with the browse queries of
  \<open>listings.sql.go\<close> and \<open>requests.sql.go\<close>. The conditions of a query are evaluated as written, from
  left to right; a sum of two \<open>integer\<close> columns that overflows fails the statement (SQLSTATE 22003).
\<close>

section \<open>Dates\<close>

definition days_from_civil :: "int \<Rightarrow> int \<Rightarrow> int \<Rightarrow> int" where
  "days_from_civil y m d =
     (let y = (if m \<le> 2 then y - 1 else y); era = y div 400; yoe = y mod 400;
          mp = (if 2 < m then m - 3 else m + 9);
          doy = (153 * mp + 2) div 5 + d - 1;
          doe = yoe * 365 + yoe div 4 - yoe div 100 + doy
      in era * 146097 + doe - 719468)"

definition next_month :: "int \<Rightarrow> int \<Rightarrow> int \<times> int" where
  "next_month y m = (if m = 12 then (y + 1, 1) else (y, m + 1))"

definition first_day :: "int \<Rightarrow> int \<Rightarrow> date" where
  "first_day y m = days_from_civil y m 1"

definition last_day :: "int \<Rightarrow> int \<Rightarrow> date" where
  "last_day y m = (let (y', m') = next_month y m in days_from_civil y' m' 1 - 1)"

text \<open>A date plus an interval of months: the day is cut to the length of the month it lands in.\<close>

definition add_months :: "date \<Rightarrow> int \<Rightarrow> date" where
  "add_months day n =
     (let (y, m, d) = civil_from_days day; k = y * 12 + (m - 1) + n;
          y' = k div 12; m' = k mod 12 + 1
      in min (days_from_civil y' m' d) (last_day y' m'))"

section \<open>Filters on listings\<close>

record listing_filters =
  lf_search :: "string option"
  lf_start_after :: "date option"
  lf_end_before :: "date option"
  lf_price_min :: "int option"
  lf_price_max :: "int option"
  lf_distance_max :: "int option"
  lf_bedrooms_min :: "int option"
  lf_furnished :: "bool option"
  lf_parking :: "bool option"
  lf_pets :: "bool option"
  lf_laundry :: "bool option"
  lf_utilities :: "string list option"
  lf_verified_only :: "bool option"
  lf_all_in_max :: "int option"
  lf_sort :: string

definition when_given :: "'a option \<Rightarrow> ('a \<Rightarrow> bool) \<Rightarrow> bool" where
  "when_given x P = (case x of None \<Rightarrow> True | Some v \<Rightarrow> P v)"

definition owner_verified :: "database \<Rightarrow> uuid \<Rightarrow> bool" where
  "owner_verified d i = (case find_user d i of None \<Rightarrow> False | Some u \<Rightarrow> u_verified u)"

text \<open>Everything but the dates and the cost, shared with the availability query.\<close>

definition listing_features :: "env \<Rightarrow> listing_filters \<Rightarrow> database \<Rightarrow> listing \<Rightarrow> bool" where
  "listing_features env f d l \<longleftrightarrow>
     public_listing d l \<and> searches env (lf_search f) (listing_text l) \<and>
     when_given (lf_price_min f) (\<lambda>x. x \<le> l_price_cents l) \<and>
     when_given (lf_price_max f) (\<lambda>x. l_price_cents l \<le> x) \<and>
     when_given (lf_distance_max f) (\<lambda>x. case l_distance_m l of None \<Rightarrow> False | Some m \<Rightarrow> m \<le> x) \<and>
     when_given (lf_bedrooms_min f) (\<lambda>x. x \<le> l_bedrooms_total l) \<and>
     when_given (lf_furnished f) (\<lambda>b. l_furnished l = b) \<and>
     when_given (lf_parking f) (\<lambda>b. l_parking l = b) \<and>
     when_given (lf_pets f) (\<lambda>b. l_pets l = b) \<and>
     when_given (lf_laundry f) (\<lambda>b. l_laundry l = b) \<and>
     when_given (lf_utilities f) (\<lambda>us. list_all (\<lambda>u. u \<in> set (l_utilities l)) us) \<and>
     when_given (lf_verified_only f) (\<lambda>b. b \<longrightarrow> owner_verified d (l_owner_id l))"

definition listing_window :: "listing_filters \<Rightarrow> listing \<Rightarrow> bool" where
  "listing_window f l \<longleftrightarrow>
     when_given (lf_start_after f) (\<lambda>t. l_start_date l \<le> t) \<and>
     when_given (lf_end_before f) (\<lambda>t. t \<le> l_end_date l)"

text \<open>The monthly cost as SQL computes it; a stated estimate whose sum overflows is an error.\<close>

definition all_in :: "listing \<Rightarrow> int option" where
  "all_in l = map_option (\<lambda>b. l_price_cents l + b) (l_bills_estimate_cents l)"

definition cost_overflows :: "listing \<Rightarrow> bool" where
  "cost_overflows l = (case all_in l of None \<Rightarrow> False | Some c \<Rightarrow> 2147483647 < c)"

definition affordable :: "listing_filters \<Rightarrow> listing \<Rightarrow> bool" where
  "affordable f l = when_given (lf_all_in_max f)
     (\<lambda>x. case all_in l of None \<Rightarrow> False | Some c \<Rightarrow> c \<le> x)"

definition out_of_range :: error where "out_of_range = PgError ''22003''"

definition browse_listings :: "env \<Rightarrow> listing_filters \<Rightarrow> database \<Rightarrow> listing list res" where
  "browse_listings env f d =
     (let hits = filter (\<lambda>l. listing_features env f d l \<and> listing_window f l) (listings d)
      in if lf_all_in_max f \<noteq> None \<and> list_ex cost_overflows hits then Inl out_of_range
         else Inr (filter (affordable f) hits))"

section \<open>Order\<close>

definition nulls_last :: "('a \<Rightarrow> int option) \<Rightarrow> 'a list \<Rightarrow> 'a list" where
  "nulls_last k xs = sort_key (\<lambda>x. default_if_nil (k x) 0) (filter (\<lambda>x. k x \<noteq> None) xs) @
     filter (\<lambda>x. k x = None) xs"

text \<open>Whether a student can take the place for exactly the wanted dates.\<close>

definition takes_window :: "date \<Rightarrow> date \<Rightarrow> listing \<Rightarrow> bool" where
  "takes_window a b l \<longleftrightarrow> l_start_date l = a \<and> l_end_date l = b \<or>
     l_shorter_stays l \<and>
     (case l_min_stay_months l of None \<Rightarrow> False | Some n \<Rightarrow> add_months a n - 1 \<le> b)"

definition order_listings :: "listing_filters \<Rightarrow> listing list \<Rightarrow> listing list res" where
  "order_listings f ls =
     (let newest = sort_desc l_created_at ls; s = lf_sort f
      in if s = ''priceAsc'' then Inr (sort_key l_price_cents newest)
         else if s = ''priceDesc'' then Inr (sort_desc l_price_cents newest)
         else if s = ''distance'' then Inr (nulls_last l_distance_m newest)
         else if s = ''allInAsc'' then
           (if list_ex cost_overflows ls then Inl out_of_range else Inr (nulls_last all_in newest))
         else if s = ''match'' then
           (case (lf_start_after f, lf_end_before f) of
              (Some a, Some b) \<Rightarrow>
                Inr (filter (takes_window a b) newest @ filter (\<lambda>l. \<not> takes_window a b l) newest)
            | _ \<Rightarrow> Inr newest)
         else Inr newest)"

definition ListListings_sql :: "env \<Rightarrow> listing_filters \<Rightarrow> int \<Rightarrow> int \<Rightarrow> listing_row list res go" where
  "ListListings_sql env f limit off = exec (\<lambda>_ d.
     (if off < 0 then Inl (PgError ''2201X'')
      else case browse_listings env f d of
        Inl e \<Rightarrow> Inl e
      | Inr hits \<Rightarrow>
          (case order_listings f hits of
             Inl e \<Rightarrow> Inl e
           | Inr ls \<Rightarrow> Inr (limit_offset limit off (List.map_filter (join_owner d) ls))), d))"

definition CountListings :: "env \<Rightarrow> listing_filters \<Rightarrow> int res go" where
  "CountListings env f = exec (\<lambda>_ d. (map_sum id (\<lambda>ls. int (length ls)) (browse_listings env f d), d))"

definition ListingAvailabilityByMonth :: "env \<Rightarrow> int \<Rightarrow> listing_filters \<Rightarrow> (int \<times> int) list res go" where
  "ListingAvailabilityByMonth env year f = exec (\<lambda>_ d.
     (case browse_listings env (f\<lparr>lf_start_after := None, lf_end_before := None\<rparr>) d of
        Inl e \<Rightarrow> Inl e
      | Inr ls \<Rightarrow> Inr (map (\<lambda>m. (m, count_where (\<lambda>l. l_start_date l \<le> last_day year m \<and>
          first_day year m \<le> l_end_date l) ls)) [1..12]), d))"

section \<open>Browsing listings\<close>

record listing_params =
  lp_page :: "int option"
  lp_per_page :: "int option"
  lp_q :: "string option"
  lp_start_after :: "date option"
  lp_end_before :: "date option"
  lp_price_min_cents :: "int option"
  lp_price_max_cents :: "int option"
  lp_all_in_max_cents :: "int option"
  lp_distance_max_m :: "int option"
  lp_bedrooms_min :: "int option"
  lp_furnished :: "bool option"
  lp_parking :: "bool option"
  lp_pets :: "bool option"
  lp_laundry :: "bool option"
  lp_verified_only :: "bool option"
  lp_utilities :: "string list option"
  lp_sort :: "string option"

definition given_utilities :: "string list option \<Rightarrow> string list option" where
  "given_utilities us = (case us of None \<Rightarrow> None | Some [] \<Rightarrow> None | Some (u # v) \<Rightarrow> Some (u # v))"

definition filtersFrom :: "listing_params \<Rightarrow> string + listing_filters" where
  "filtersFrom p =
     (let f = \<lparr>lf_search = trimmedOrNil (lp_q p), lf_start_after = lp_start_after p,
        lf_end_before = lp_end_before p, lf_price_min = int32Ptr (lp_price_min_cents p),
        lf_price_max = int32Ptr (lp_price_max_cents p), lf_distance_max = int32Ptr (lp_distance_max_m p),
        lf_bedrooms_min = int32Ptr (lp_bedrooms_min p), lf_furnished = lp_furnished p,
        lf_parking = lp_parking p, lf_pets = lp_pets p, lf_laundry = lp_laundry p,
        lf_utilities = given_utilities (lp_utilities p), lf_verified_only = lp_verified_only p,
        lf_all_in_max = int32Ptr (lp_all_in_max_cents p), lf_sort = default_if_nil (lp_sort p) ''new''\<rparr>
      in if (case (lf_start_after f, lf_end_before f) of (Some a, Some b) \<Rightarrow> b < a | _ \<Rightarrow> False) then
           Inl ''The end of the term cannot fall before its start.''
         else if (case (lf_price_min f, lf_price_max f) of (Some a, Some b) \<Rightarrow> b < a | _ \<Rightarrow> False) then
           Inl ''The maximum rent cannot be below the minimum.''
         else Inr f)"

definition ListListings :: "env \<Rightarrow> listing_params \<Rightarrow> (listing_view list \<times> page_meta) handler" where
  "ListListings env p =
     (let (page, perPage) = paginationFrom (lp_page p) (lp_per_page p)
      in case filtersFrom p of
           Inl problem \<Rightarrow> refuse 400 CodeValidation problem
         | Inr f \<Rightarrow> do {
             n \<leftarrow> CountListings env f;
             case n of
               Inl e \<Rightarrow> fail e
             | Inr k \<Rightarrow> do {
                 rows \<leftarrow> ListListings_sql env f (to_int32 perPage) (page_offset page perPage);
                 case rows of
                   Inl e \<Rightarrow> fail e
                 | Inr rs \<Rightarrow> do {
                     pictures \<leftarrow> photosByListing (map (\<lambda>r. l_id (lw_listing r)) rs);
                     case pictures of
                       Inl e \<Rightarrow> fail e
                     | Inr ps \<Rightarrow> answer 200
                         (map (\<lambda>r. toListing (lw_listing r) (listing_owner r) (ps (l_id (lw_listing r))) False) rs,
                          pageMeta page perPage k) } } })"

definition GetListing :: "uuid \<Rightarrow> listing_view handler" where
  "GetListing i = do {
     found \<leftarrow> GetPublishedListing i;
     case found of
       Inl e \<Rightarrow> if errors_is e ErrNoRows then refuse 404 CodeNotFound ''No listing with that id.'' else fail e
     | Inr r \<Rightarrow> do {
         pictures \<leftarrow> ListPhotosForListing (l_id (lw_listing r));
         case pictures of
           Inl e \<Rightarrow> fail e
         | Inr ps \<Rightarrow> answer 200 (toListing (lw_listing r) (listing_owner r) ps False) } }"

definition GetListingAvailability :: "env \<Rightarrow> int \<Rightarrow> listing_params \<Rightarrow> (int \<times> (int \<times> int) list) handler" where
  "GetListingAvailability env year p =
     (if year < 2020 \<or> 2100 < year then refuse 400 CodeValidation ''Choose a year between 2020 and 2100.''
      else if (case (lp_price_min_cents p, lp_price_max_cents p) of (Some a, Some b) \<Rightarrow> b < a | _ \<Rightarrow> False)
      then refuse 400 CodeValidation ''The maximum rent cannot be below the minimum.''
      else do {
        rows \<leftarrow> ListingAvailabilityByMonth env year
          \<lparr>lf_search = trimmedOrNil (lp_q p), lf_start_after = None, lf_end_before = None,
           lf_price_min = int32Ptr (lp_price_min_cents p), lf_price_max = int32Ptr (lp_price_max_cents p),
           lf_distance_max = int32Ptr (lp_distance_max_m p),
           lf_bedrooms_min = int32Ptr (lp_bedrooms_min p), lf_furnished = lp_furnished p,
           lf_parking = lp_parking p, lf_pets = lp_pets p, lf_laundry = lp_laundry p,
           lf_utilities = given_utilities (lp_utilities p), lf_verified_only = lp_verified_only p,
           lf_all_in_max = int32Ptr (lp_all_in_max_cents p), lf_sort = []\<rparr>;
        case rows of
          Inl e \<Rightarrow> fail e
        | Inr rs \<Rightarrow> answer 200 (year, map (\<lambda>m. (m, default_if_nil (map_of rs m) 0)) [1..12]) })"

section \<open>Filters on requests\<close>

record request_filters =
  qf_search :: "string option"
  qf_start_after :: "date option"
  qf_end_before :: "date option"
  qf_budget_min :: "int option"
  qf_budget_max :: "int option"
  qf_distance_min :: "int option"
  qf_occupants_max :: "int option"
  qf_pets :: "bool option"
  qf_furnished :: "bool option"
  qf_parking :: "bool option"
  qf_laundry :: "bool option"
  qf_verified_only :: "bool option"
  qf_sort :: string

text \<open>A request with no stated radius accepts any distance.\<close>

definition request_match :: "env \<Rightarrow> request_filters \<Rightarrow> database \<Rightarrow> housing_request \<Rightarrow> bool" where
  "request_match env f d q \<longleftrightarrow>
     public_request d q \<and> searches env (qf_search f) (request_text q) \<and>
     when_given (qf_start_after f) (\<lambda>t. q_start_date q \<le> t) \<and>
     when_given (qf_end_before f) (\<lambda>t. t \<le> q_end_date q) \<and>
     when_given (qf_budget_min f) (\<lambda>x. x \<le> q_budget_cents q) \<and>
     when_given (qf_budget_max f) (\<lambda>x. q_budget_cents q \<le> x) \<and>
     when_given (qf_distance_min f) (\<lambda>x. when_given (q_max_distance_m q) (\<lambda>m. x \<le> m)) \<and>
     when_given (qf_occupants_max f) (\<lambda>x. q_occupants q \<le> x) \<and>
     when_given (qf_pets f) (\<lambda>b. q_pets q = b) \<and>
     when_given (qf_furnished f) (\<lambda>b. q_furnished_preferred q = b) \<and>
     when_given (qf_parking f) (\<lambda>b. q_parking_needed q = b) \<and>
     when_given (qf_laundry f) (\<lambda>b. q_laundry_needed q = b) \<and>
     when_given (qf_verified_only f) (\<lambda>b. b \<longrightarrow> owner_verified d (q_poster_id q))"

definition order_requests :: "request_filters \<Rightarrow> housing_request list \<Rightarrow> housing_request list" where
  "order_requests f qs =
     (let newest = sort_desc q_created_at qs; s = qf_sort f
      in if s = ''budgetDesc'' then sort_desc q_budget_cents newest
         else if s = ''budgetAsc'' then sort_key q_budget_cents newest
         else if s = ''soonest'' then sort_key q_start_date newest
         else newest)"

definition ListRequests_sql :: "env \<Rightarrow> request_filters \<Rightarrow> int \<Rightarrow> int \<Rightarrow> request_row list res go" where
  "ListRequests_sql env f limit off = page_query limit off (\<lambda>_ d.
     List.map_filter (join_poster d) (order_requests f (filter (request_match env f d) (requests d))))"

definition CountRequests :: "env \<Rightarrow> request_filters \<Rightarrow> int res go" where
  "CountRequests env f = query (\<lambda>_ d. count_where (request_match env f d) (requests d))"

record request_params =
  rp_page :: "int option"
  rp_per_page :: "int option"
  rp_q :: "string option"
  rp_start_after :: "date option"
  rp_end_before :: "date option"
  rp_budget_min_cents :: "int option"
  rp_budget_max_cents :: "int option"
  rp_distance_min_m :: "int option"
  rp_occupants_max :: "int option"
  rp_pets :: "bool option"
  rp_furnished :: "bool option"
  rp_parking :: "bool option"
  rp_laundry :: "bool option"
  rp_verified_only :: "bool option"
  rp_sort :: "string option"

definition requestFiltersFrom :: "request_params \<Rightarrow> string + request_filters" where
  "requestFiltersFrom p =
     (let f = \<lparr>qf_search = trimmedOrNil (rp_q p), qf_start_after = rp_start_after p,
        qf_end_before = rp_end_before p, qf_budget_min = int32Ptr (rp_budget_min_cents p),
        qf_budget_max = int32Ptr (rp_budget_max_cents p), qf_distance_min = int32Ptr (rp_distance_min_m p),
        qf_occupants_max = int32Ptr (rp_occupants_max p), qf_pets = rp_pets p,
        qf_furnished = rp_furnished p, qf_parking = rp_parking p, qf_laundry = rp_laundry p,
        qf_verified_only = rp_verified_only p, qf_sort = default_if_nil (rp_sort p) ''new''\<rparr>
      in if (case (qf_start_after f, qf_end_before f) of (Some a, Some b) \<Rightarrow> b < a | _ \<Rightarrow> False) then
           Inl ''The end of the term cannot fall before its start.''
         else if (case (qf_budget_min f, qf_budget_max f) of (Some a, Some b) \<Rightarrow> b < a | _ \<Rightarrow> False) then
           Inl ''The maximum budget cannot be below the minimum.''
         else Inr f)"

definition ListRequests :: "env \<Rightarrow> request_params \<Rightarrow> (request_view list \<times> page_meta) handler" where
  "ListRequests env p =
     (let (page, perPage) = paginationFrom (rp_page p) (rp_per_page p)
      in case requestFiltersFrom p of
           Inl problem \<Rightarrow> refuse 400 CodeValidation problem
         | Inr f \<Rightarrow> do {
             n \<leftarrow> CountRequests env f;
             case n of
               Inl e \<Rightarrow> fail e
             | Inr k \<Rightarrow> do {
                 rows \<leftarrow> ListRequests_sql env f (to_int32 perPage) (page_offset page perPage);
                 case rows of
                   Inl e \<Rightarrow> fail e
                 | Inr rs \<Rightarrow> answer 200
                     (map (\<lambda>r. toRequest (qw_request r) (request_poster r) (qw_offer_count r)) rs,
                      pageMeta page perPage k) } })"

definition GetRequest :: "uuid \<Rightarrow> request_view handler" where
  "GetRequest i = do {
     found \<leftarrow> GetPublishedRequest i;
     case found of
       Inl e \<Rightarrow> if errors_is e ErrNoRows then refuse 404 CodeNotFound ''No request with that id.'' else fail e
     | Inr r \<Rightarrow> answer 200 (toRequest (qw_request r) (request_poster r) (qw_offer_count r)) }"

lemmas browse_handler_defs =
  ListListings_def GetListing_def GetListingAvailability_def ListRequests_def GetRequest_def

end
