(* ===== verification/Conversations.thy ===== *)
theory Conversations
  imports Views ConversationStore Email RateLimitMw AuthLib
begin

text \<open>
  Conversations and messages: \<open>internal/httpapi/conversations.go\<close>, \<open>messages.go\<close>, \<open>notifications.go\<close> and
  the conversation half of \<open>mapping.go\<close>. A notification is sent in the background in the code, after
  the response is settled; here it is the last step of the handler, whose result nothing reads.
\<close>

section \<open>Responses\<close>

record conversation_listing =
  cl_listing_id :: uuid
  cl_title :: string
  cl_neighbourhood :: string
  cl_price_cents :: int
  cl_start_date :: date
  cl_end_date :: date
  cl_available :: bool

record conversation_place =
  cp_address_line :: string
  cp_lat :: "rat option"
  cp_lng :: "rat option"

record message_preview =
  mp_from_viewer :: bool
  mp_body :: string
  mp_created_at :: time

record conversation_view =
  cv_id :: uuid
  cv_status :: string
  cv_listing :: conversation_listing
  cv_counterpart :: owner_view
  cv_viewer_is_owner :: bool
  cv_opened_by_viewer :: bool
  cv_can_send :: bool
  cv_unread_count :: int
  cv_created_at :: time
  cv_counterpart_available :: bool
  cv_last_message :: "message_preview option"
  cv_closed_at :: "time option"
  cv_closed_by_viewer :: "bool option"
  cv_address_shared_at :: "time option"
  cv_can_share_address :: bool
  cv_place :: "conversation_place option"

record message_view =
  mv_id :: uuid
  mv_conversation_id :: uuid
  mv_from_viewer :: bool
  mv_body :: string
  mv_created_at :: time

section \<open>When a conversation is read-only\<close>

text \<open>The empty string is "nothing to refuse".\<close>

definition sendRefusal :: "conversation_row \<Rightarrow> string" where
  "sendRefusal r =
     (if c_closed_at (cw_conversation r) \<noteq> None then ''This conversation was closed.''
      else if cw_counterpart_suspended r then ''This account is no longer available.''
      else if cw_listing_removed r then ''This listing is no longer available.''
      else [])"

definition shareRefusal :: "conversation_row \<Rightarrow> string" where
  "shareRefusal r =
     (if c_closed_at (cw_conversation r) \<noteq> None then ''This conversation was closed.''
      else if cw_counterpart_suspended r then ''This account is no longer available.''
      else if cw_listing_removed r \<or> \<not> cw_listing_available r then
        ''This listing is not available, so its address cannot be shared.''
      else [])"

lemma sendRefusal_Nil: "sendRefusal r = [] \<longleftrightarrow> c_closed_at (cw_conversation r) = None \<and>
    \<not> cw_counterpart_suspended r \<and> \<not> cw_listing_removed r"
  by (simp add: sendRefusal_def)

lemma shareRefusal_Nil: "shareRefusal r = [] \<longleftrightarrow> c_closed_at (cw_conversation r) = None \<and>
    \<not> cw_counterpart_suspended r \<and> \<not> cw_listing_removed r \<and> cw_listing_available r"
  by (simp add: shareRefusal_def)

section \<open>Mapping\<close>

definition previewLength :: nat where "previewLength = 140"

definition preview :: "string \<Rightarrow> string" where
  "preview body = (if rune_count body \<le> int previewLength then body else take_runes previewLength body)"

definition toConversation :: "conversation_row \<Rightarrow> principal \<Rightarrow> conversation_view" where
  "toConversation r viewer =
     (let c = cw_conversation r; me = p_user_id viewer
      in \<lparr>cv_id = c_id c,
          cv_status = (if c_closed_at c = None then ''open'' else ''closed''),
          cv_listing = \<lparr>cl_listing_id = c_listing_id c, cl_title = cw_listing_title r,
            cl_neighbourhood = cw_listing_neighbourhood r, cl_price_cents = cw_listing_price_cents r,
            cl_start_date = cw_listing_start_date r, cl_end_date = cw_listing_end_date r,
            cl_available = cw_listing_available r\<rparr>,
          cv_counterpart = \<lparr>ov_id = cw_counterpart_id r, ov_username = cw_counterpart_username r,
            ov_avatar_url = cw_counterpart_avatar_url r, ov_verified = cw_counterpart_verified r\<rparr>,
          cv_viewer_is_owner = (c_owner_id c = me),
          cv_opened_by_viewer = (c_opened_by c = me),
          cv_can_send = (p_verified viewer \<and> sendRefusal r = []),
          cv_unread_count = cw_unread_count r,
          cv_created_at = c_created_at c,
          cv_counterpart_available = (\<not> cw_counterpart_suspended r),
          cv_last_message =
            (case (cw_last_message_body r, cw_last_message_created_at r, cw_last_message_sender_id r) of
               (Some body, Some t, Some sender) \<Rightarrow>
                 Some \<lparr>mp_from_viewer = (sender = me), mp_body = preview body, mp_created_at = t\<rparr>
             | _ \<Rightarrow> None),
          cv_closed_at = c_closed_at c,
          cv_closed_by_viewer = (if c_closed_at c = None then None else Some (c_closed_by c = Some me)),
          cv_address_shared_at = c_address_shared_at c,
          cv_can_share_address = (p_verified viewer \<and> c_owner_id c = me \<and>
            c_address_shared_at c = None \<and> shareRefusal r = []),
          cv_place = map_option (\<lambda>a. \<lparr>cp_address_line = a, cp_lat = map_option float32 (cw_place_lat r),
            cp_lng = map_option float32 (cw_place_lng r)\<rparr>) (cw_place_address_line r)\<rparr>)"

definition toMessage :: "message \<Rightarrow> uuid \<Rightarrow> message_view" where
  "toMessage m viewer = \<lparr>mv_id = m_id m, mv_conversation_id = m_conversation_id m,
     mv_from_viewer = (m_sender_id m = viewer), mv_body = m_body m, mv_created_at = m_created_at m\<rparr>"

section \<open>Notifications\<close>

datatype notificationKind =
    notifyConversationOpened | notifyOfferOpened | notifyAddressShared | notifyReplyWaiting

fun kind_name :: "notificationKind \<Rightarrow> string" where
  "kind_name notifyConversationOpened = ''conversation-opened''"
| "kind_name notifyOfferOpened = ''offer-opened''"
| "kind_name notifyAddressShared = ''address-shared''"
| "kind_name notifyReplyWaiting = ''reply-waiting''"

record notification =
  n_kind :: notificationKind
  n_conversation_id :: uuid
  n_sender_id :: uuid
  n_message_id :: "uuid option"

text \<open>
  The message id is only looked at for a reply; every reply has one (\<open>default_if_nil\<close> stands for the
  dereference).
\<close>

definition notificationMessage :: "env \<Rightarrow> notification \<Rightarrow> notification_recipient \<Rightarrow> mail" where
  "notificationMessage env n r =
     (let link = app_url env @ ''/messages/'' @ uuid_string env (n_conversation_id n);
          conv = uuid_bytes env (n_conversation_id n);
          mid = uuid_bytes env (default_if_nil (n_message_id n) 0);
          mid_for = (\<lambda>k b. MessageID env (kind_name k) b);
          to_addr = nr_recipient_email r; sender = nr_sender_username r; title = nr_listing_title r
      in case n_kind n of
           notifyOfferOpened \<Rightarrow>
             OfferConversationMessage (mid_for notifyConversationOpened conv) to_addr sender title link
         | notifyAddressShared \<Rightarrow>
             AddressSharedMessage (mid_for notifyAddressShared conv) to_addr sender title link
         | notifyReplyWaiting \<Rightarrow>
             ReplyWaitingMessage (mid_for notifyReplyWaiting mid) to_addr sender title link
         | notifyConversationOpened \<Rightarrow>
             ConversationOpenedMessage (mid_for notifyConversationOpened conv) to_addr sender title link)"

definition recipient_key :: "env \<Rightarrow> uuid \<Rightarrow> string" where
  "recipient_key env i = rule_name NotifyPerRecipient @ '':'' @ uuid_string env i"

definition notify :: "env \<Rightarrow> notification \<Rightarrow> unit go" where
  "notify env n = do {
     r \<leftarrow> GetNotificationRecipient (n_conversation_id n) (n_sender_id n) (n_message_id n);
     case r of
       Inl _ \<Rightarrow> State_Monad.return ()
     | Inr rcp \<Rightarrow>
         if n_kind n = notifyReplyWaiting \<and> nr_unread_through_message rcp \<noteq> 1 then State_Monad.return ()
         else if \<not> nr_recipient_email_notifications rcp then State_Monad.return ()
         else if nr_recipient_suspended rcp then State_Monad.return ()
         else if \<not> nr_recipient_verified rcp then State_Monad.return ()
         else do {
           d \<leftarrow> consulting (Peek NotifyGlobal (GlobalKey NotifyGlobal));
           if \<not> ok d then State_Monad.return ()
           else do {
             d \<leftarrow> consulting (Allow NotifyPerRecipient (recipient_key env (nr_recipient_id rcp)));
             if \<not> ok d then State_Monad.return ()
             else do {
               d \<leftarrow> consulting (Allow NotifyGlobal (GlobalKey NotifyGlobal));
               if \<not> ok d then State_Monad.return ()
               else do {
                 _ \<leftarrow> send_mail (notificationMessage env n rcp);
                 State_Monad.return () } } } } }"

section \<open>Shared bits\<close>

definition conversationNotFound :: err_body where
  "conversationNotFound = errorBody CodeNotFound ''No conversation of yours with that id.''"

definition conversationFor :: "uuid \<Rightarrow> principal \<Rightarrow> conversation_view res go" where
  "conversationFor i p = do {
     r \<leftarrow> GetConversationForParticipant (p_user_id p) i;
     case r of
       Inl e \<Rightarrow> State_Monad.return (Inl e)
     | Inr row \<Rightarrow> State_Monad.return (Inr (toConversation row p)) }"

definition existingConversation :: "env \<Rightarrow> conversation \<Rightarrow> err_body" where
  "existingConversation env c = errorBodyWithDetails CodeConflict
     (if c_closed_at c \<noteq> None then
        ''Your conversation about this listing was closed, so another cannot be started.''
      else ''You already have a conversation about this listing.'')
     [(''conversation_id'', uuid_string env (c_id c))]"

definition maxMessageLength :: int where "maxMessageLength = 4000"

text \<open>The text to store, or the problem to show.\<close>

definition messageBody :: "string option \<Rightarrow> string \<times> string" where
  "messageBody body =
     (case body of
        None \<Rightarrow> ([], ''Write a message first.'')
      | Some b \<Rightarrow>
          (let text = trim_space b
           in if text = [] then ([], ''Write a message first.'')
              else if maxMessageLength < rune_count text then ([], ''Keep a message under 4000 characters.'')
              else (text, [])))"

section \<open>Starting\<close>

text \<open>The transaction that writes the conversation and its first message.\<close>

definition open_conversation :: "uuid \<Rightarrow> uuid \<Rightarrow> uuid \<Rightarrow> string \<Rightarrow> conversation res go" where
  "open_conversation listing owner me text = in_tx (do {
     c \<leftarrow> CreateConversation listing owner me me;
     case c of
       Inl e \<Rightarrow> State_Monad.return (Inl e)
     | Inr conv \<Rightarrow> do {
         m \<leftarrow> CreateMessage (c_id conv) me text;
         case m of
           Inl e \<Rightarrow> State_Monad.return (Inl e)
         | Inr _ \<Rightarrow> State_Monad.return (Inr conv) } })"

definition StartConversation ::
  "env \<Rightarrow> request_ctx \<Rightarrow> uuid \<Rightarrow> string option \<Rightarrow> conversation_view handler" where
  "StartConversation env ctx i body =
     (case PrincipalFrom ctx of
        None \<Rightarrow> refuse 401 CodeUnauthorized ''Log in to message an owner.''
      | Some p \<Rightarrow>
          if \<not> p_verified p then
            refuse 403 CodeForbidden ''Confirm your uwaterloo.ca address before messaging an owner.''
          else do {
            found \<leftarrow> GetPublishedListing i;
            case found of
              Inl e \<Rightarrow>
                if errors_is e ErrNoRows then refuse 404 CodeNotFound ''No listing with that id.''
                else fail e
            | Inr lw \<Rightarrow>
                (let listing = lw_listing lw; me = p_user_id p; (text, bad) = messageBody body
                 in if l_owner_id listing = me then
                      refuse 400 CodeValidation
                        ''That is your own listing. Students who are interested will message you.''
                    else if bad \<noteq> [] then refuse_with 400 CodeValidation bad [(''body'', bad)]
                    else do {
                      existing \<leftarrow> GetConversationByListingAndEnquirer (l_id listing) me;
                      case existing of
                        Inr c \<Rightarrow> State_Monad.return (Refuse 409 (existingConversation env c))
                      | Inl e \<Rightarrow>
                          if \<not> errors_is e ErrNoRows then fail e
                          else do {
                            opened \<leftarrow> open_conversation (l_id listing) (l_owner_id listing) me text;
                            case opened of
                              Inl e \<Rightarrow>
                                if isUniqueViolation e then do {
                                  again \<leftarrow> GetConversationByListingAndEnquirer (l_id listing) me;
                                  case again of
                                    Inr c \<Rightarrow> State_Monad.return (Refuse 409 (existingConversation env c))
                                  | Inl _ \<Rightarrow> fail e }
                                else fail e
                            | Inr c \<Rightarrow> do {
                                notify env \<lparr>n_kind = notifyConversationOpened,
                                  n_conversation_id = c_id c, n_sender_id = me, n_message_id = None\<rparr>;
                                view \<leftarrow> conversationFor (c_id c) p;
                                case view of
                                  Inl e \<Rightarrow> fail e
                                | Inr v \<Rightarrow> answer 201 v } } }) })"

section \<open>Reading\<close>

definition ListMyConversations ::
  "request_ctx \<Rightarrow> int option \<Rightarrow> int option \<Rightarrow> string option \<Rightarrow> string option \<Rightarrow>
   (conversation_view list \<times> page_meta) handler" where
  "ListMyConversations ctx page_param per_page_param status side =
     (case PrincipalFrom ctx of
        None \<Rightarrow> refuse 401 CodeUnauthorized ''Log in to see your messages.''
      | Some p \<Rightarrow>
          (let (page, perPage) = paginationFrom page_param per_page_param
           in if status \<notin> {None, Some ''open'', Some ''closed''} then
                refuse 400 CodeBadRequest ''status must be open or closed.''
              else if side \<notin> {None, Some ''owner'', Some ''enquirer''} then
                refuse 400 CodeBadRequest ''side must be owner or enquirer.''
              else do {
                n \<leftarrow> CountConversationsForUser (p_user_id p) status side;
                case n of
                  Inl e \<Rightarrow> fail e
                | Inr k \<Rightarrow> do {
                    rows \<leftarrow> ListConversationsForUser (p_user_id p) status side
                      (to_int32 perPage) (page_offset page perPage);
                    case rows of
                      Inl e \<Rightarrow> fail e
                    | Inr rs \<Rightarrow>
                        answer 200 (map (\<lambda>r. toConversation r p) rs, pageMeta page perPage k) } }))"

definition GetUnreadCounts :: "request_ctx \<Rightarrow> (int \<times> int) handler" where
  "GetUnreadCounts ctx =
     (case PrincipalFrom ctx of
        None \<Rightarrow> refuse 401 CodeUnauthorized ''Log in to see your messages.''
      | Some p \<Rightarrow> do {
          r \<leftarrow> UnreadCountsForUser (p_user_id p);
          case r of
            Inl e \<Rightarrow> fail e
          | Inr n \<Rightarrow> answer 200 n })"

definition GetConversation :: "request_ctx \<Rightarrow> uuid \<Rightarrow> conversation_view handler" where
  "GetConversation ctx i =
     (case PrincipalFrom ctx of
        None \<Rightarrow> refuse 401 CodeUnauthorized ''Log in to see your messages.''
      | Some p \<Rightarrow> do {
          r \<leftarrow> conversationFor i p;
          case r of
            Inl e \<Rightarrow>
              if errors_is e ErrNoRows then State_Monad.return (Refuse 404 conversationNotFound) else fail e
          | Inr v \<Rightarrow> answer 200 v })"

definition MarkConversationRead :: "request_ctx \<Rightarrow> uuid \<Rightarrow> unit handler" where
  "MarkConversationRead ctx i =
     (case PrincipalFrom ctx of
        None \<Rightarrow> refuse 401 CodeUnauthorized ''Log in to see your messages.''
      | Some p \<Rightarrow> do {
          r \<leftarrow> MarkConversationRead_sql (p_user_id p) i;
          case r of
            Inl e \<Rightarrow> fail e
          | Inr affected \<Rightarrow>
              if affected = 0 then State_Monad.return (Refuse 404 conversationNotFound)
              else answer 204 () })"

section \<open>Closing\<close>

definition CloseConversation :: "request_ctx \<Rightarrow> uuid \<Rightarrow> conversation_view handler" where
  "CloseConversation ctx i =
     (case PrincipalFrom ctx of
        None \<Rightarrow> refuse 401 CodeUnauthorized ''Log in to close a conversation.''
      | Some p \<Rightarrow> do {
          r \<leftarrow> GetConversationForParticipant (p_user_id p) i;
          case r of
            Inl e \<Rightarrow>
              if errors_is e ErrNoRows then State_Monad.return (Refuse 404 conversationNotFound) else fail e
          | Inr _ \<Rightarrow> do {
              closed \<leftarrow> CloseConversation_sql (p_user_id p) i;
              (let rest = do {
                 view \<leftarrow> conversationFor i p;
                 case view of
                   Inl e \<Rightarrow> fail e
                 | Inr v \<Rightarrow> answer 200 v }
               in case closed of
                    Inl e \<Rightarrow> if errors_is e ErrNoRows then rest else fail e
                  | Inr _ \<Rightarrow> rest) } })"

section \<open>Sharing the address\<close>

definition noAddressToShare :: string where
  "noAddressToShare = ''Add the exact address to your listing before sharing it.''"

definition ShareAddress :: "env \<Rightarrow> request_ctx \<Rightarrow> uuid \<Rightarrow> conversation_view handler" where
  "ShareAddress env ctx i =
     (case PrincipalFrom ctx of
        None \<Rightarrow> refuse 401 CodeUnauthorized ''Log in to share an address.''
      | Some p \<Rightarrow> do {
          found \<leftarrow> GetConversationForParticipant (p_user_id p) i;
          case found of
            Inl e \<Rightarrow>
              if errors_is e ErrNoRows then State_Monad.return (Refuse 404 conversationNotFound) else fail e
          | Inr row \<Rightarrow>
              if c_owner_id (cw_conversation row) \<noteq> p_user_id p then
                refuse 403 CodeForbidden ''Only the owner can share the address of their place.''
              else if \<not> p_verified p then
                refuse 403 CodeForbidden ''Confirm your uwaterloo.ca address before sharing your address.''
              else if c_address_shared_at (cw_conversation row) \<noteq> None then
                answer 200 (toConversation row p)
              else if shareRefusal row \<noteq> [] then refuse 409 CodeConflict (shareRefusal row)
              else do {
                listing \<leftarrow> GetListingForOwner (c_listing_id (cw_conversation row));
                case listing of
                  Inl e \<Rightarrow> fail e
                | Inr l \<Rightarrow>
                    if trim_space (l_address_line l) = [] then refuse 409 CodeConflict noAddressToShare
                    else do {
                      hits \<leftarrow> ShareConversationAddress i (p_user_id p);
                      case hits of
                        Inl e \<Rightarrow> fail e
                      | Inr affected \<Rightarrow> do {
                          after \<leftarrow> GetConversationForParticipant (p_user_id p) i;
                          case after of
                            Inl e \<Rightarrow> fail e
                          | Inr shared \<Rightarrow>
                              if c_address_shared_at (cw_conversation shared) = None then
                                refuse 409 CodeConflict
                                  (if shareRefusal shared = [] then
                                     ''The address cannot be shared in this conversation now.''
                                   else shareRefusal shared)
                              else if 0 < affected then do {
                                notify env \<lparr>n_kind = notifyAddressShared, n_conversation_id = i,
                                  n_sender_id = p_user_id p, n_message_id = None\<rparr>;
                                answer 200 (toConversation shared p) }
                              else answer 200 (toConversation shared p) } } } })"

section \<open>Messages\<close>

definition ListMessages ::
  "request_ctx \<Rightarrow> uuid \<Rightarrow> int option \<Rightarrow> int option \<Rightarrow> (message_view list \<times> page_meta) handler" where
  "ListMessages ctx i page_param per_page_param =
     (case PrincipalFrom ctx of
        None \<Rightarrow> refuse 401 CodeUnauthorized ''Log in to see your messages.''
      | Some p \<Rightarrow> do {
          found \<leftarrow> GetConversationForParticipant (p_user_id p) i;
          case found of
            Inl e \<Rightarrow>
              if errors_is e ErrNoRows then State_Monad.return (Refuse 404 conversationNotFound) else fail e
          | Inr _ \<Rightarrow>
              (let (page, perPage) = paginationFrom page_param per_page_param
               in do {
                 n \<leftarrow> CountMessages i;
                 case n of
                   Inl e \<Rightarrow> fail e
                 | Inr k \<Rightarrow> do {
                     rows \<leftarrow> ListMessages_sql i (to_int32 perPage) (page_offset page perPage);
                     case rows of
                       Inl e \<Rightarrow> fail e
                     | Inr ms \<Rightarrow>
                         answer 200 (map (\<lambda>m. toMessage m (p_user_id p)) ms, pageMeta page perPage k) } }) })"

definition SendMessage :: "env \<Rightarrow> request_ctx \<Rightarrow> uuid \<Rightarrow> string option \<Rightarrow> message_view handler" where
  "SendMessage env ctx i body =
     (case PrincipalFrom ctx of
        None \<Rightarrow> refuse 401 CodeUnauthorized ''Log in to send a message.''
      | Some p \<Rightarrow>
          if \<not> p_verified p then
            refuse 403 CodeForbidden ''Confirm your uwaterloo.ca address before sending messages.''
          else do {
            found \<leftarrow> GetConversationForParticipant (p_user_id p) i;
            case found of
              Inl e \<Rightarrow>
                if errors_is e ErrNoRows then State_Monad.return (Refuse 404 conversationNotFound) else fail e
            | Inr row \<Rightarrow>
                (let (text, bad) = messageBody body
                 in if bad \<noteq> [] then refuse_with 400 CodeValidation bad [(''body'', bad)]
                    else if sendRefusal row \<noteq> [] then refuse 409 CodeConflict (sendRefusal row)
                    else do {
                      sent \<leftarrow> CreateMessage i (p_user_id p) text;
                      case sent of
                        Inl e \<Rightarrow> fail e
                      | Inr m \<Rightarrow> do {
                          notify env \<lparr>n_kind = notifyReplyWaiting, n_conversation_id = i,
                            n_sender_id = p_user_id p, n_message_id = Some (m_id m)\<rparr>;
                          answer 201 (toMessage m (p_user_id p)) } }) })"

lemmas conversation_handler_defs =
  StartConversation_def ListMyConversations_def GetUnreadCounts_def GetConversation_def
  MarkConversationRead_def CloseConversation_def ShareAddress_def ListMessages_def SendMessage_def
  conversationFor_def open_conversation_def

end
