(* ===== verification/Offers.thy ===== *)
theory Offers
  imports Conversations Listings
begin

text \<open>
  Offers: \<open>internal/httpapi/offers.go\<close>. An offer points at one of the owner's published listings, and
  opens or joins the conversation about it with the poster of the request.
\<close>

section \<open>Responses\<close>

record conversation_ref =
  cr_id :: uuid
  cr_status :: string
  cr_poster_replied :: bool

record offer_view =
  fv_id :: uuid
  fv_request_id :: uuid
  fv_note :: string
  fv_created_at :: time
  fv_listing :: listing_view
  fv_owner :: owner_view
  fv_conversation :: "conversation_ref option"

definition conversationRef :: "uuid option \<Rightarrow> time option \<Rightarrow> bool \<Rightarrow> conversation_ref option" where
  "conversationRef i closing replied =
     map_option (\<lambda>i. \<lparr>cr_id = i, cr_status = (if closing = None then ''open'' else ''closed''),
       cr_poster_replied = replied\<rparr>) i"

definition toRequestOffer :: "offer_row \<Rightarrow> offer_view" where
  "toRequestOffer row =
     (let x = ow_offer row;
          owner = \<lparr>ov_id = o_owner_id x, ov_username = ow_owner_username row,
            ov_avatar_url = ow_owner_avatar_url row, ov_verified = ow_owner_verified row\<rparr>
      in \<lparr>fv_id = o_id x, fv_request_id = o_request_id x, fv_note = o_note x,
          fv_created_at = o_created_at x, fv_listing = toListing (ow_listing row) owner [] False,
          fv_owner = owner,
          fv_conversation = conversationRef (o_conversation_id x) (ow_conversation_closed_at row)
            (ow_poster_replied row)\<rparr>)"

text \<open>The offer as the list shows it, or, when the list no longer does, as it was written.\<close>

definition offerResponse :: "request_offer \<Rightarrow> listing \<Rightarrow> uuid \<Rightarrow> offer_view go" where
  "offerResponse x listing owner_id = do {
     rows \<leftarrow> ListOffersForRequest (o_request_id x);
     case (case rows of Inl _ \<Rightarrow> None | Inr rs \<Rightarrow> List.find (\<lambda>r. o_id (ow_offer r) = o_id x) rs) of
       Some row \<Rightarrow> State_Monad.return (toRequestOffer row)
     | None \<Rightarrow> do {
         u \<leftarrow> GetUserByID owner_id;
         (let owner = owner_summary owner_id u
          in State_Monad.return
            \<lparr>fv_id = o_id x, fv_request_id = o_request_id x, fv_note = o_note x,
             fv_created_at = o_created_at x, fv_listing = toListing listing owner [] False,
             fv_owner = owner, fv_conversation = conversationRef (o_conversation_id x) None False\<rparr>) } }"

section \<open>Making an offer\<close>

definition maxNoteLength :: nat where "maxNoteLength = 1000"

record madeOffer =
  mo_offer :: request_offer
  mo_conversation_id :: uuid
  mo_opened :: bool
  mo_note_id :: "uuid option"

text \<open>The conversation an offer is made in: one of its own, an existing one, or a refusal.\<close>

datatype offer_place = Refused err_body | In conversation bool

definition offer_conversation ::
  "env \<Rightarrow> housing_request \<Rightarrow> listing \<Rightarrow> offer_place res go" where
  "offer_conversation env req listing = do {
     found \<leftarrow> GetConversationByListingAndEnquirer (l_id listing) (q_poster_id req);
     case found of
       Inl e \<Rightarrow>
         if errors_is e ErrNoRows then do {
           c \<leftarrow> CreateConversation (l_id listing) (l_owner_id listing) (q_poster_id req) (l_owner_id listing);
           case c of
             Inl e \<Rightarrow> State_Monad.return (Inl e)
           | Inr c \<Rightarrow> State_Monad.return (Inr (In c True)) }
         else State_Monad.return (Inl e)
     | Inr c \<Rightarrow>
         if c_closed_at c = None then State_Monad.return (Inr (In c False))
         else if c_closed_by c \<noteq> Some (l_owner_id listing) then
           State_Monad.return (Inr (Refused (errorBodyWithDetails CodeConflict
             ''That student has closed the conversation about this listing.''
             [(''conversation_id'', uuid_string env (c_id c))])))
         else do {
           r \<leftarrow> ReopenConversation (c_id c) (l_owner_id listing);
           case r of
             Inl e \<Rightarrow> State_Monad.return (Inl e)
           | Inr c \<Rightarrow> State_Monad.return (Inr (In c False)) } }"

definition write_offer ::
  "housing_request \<Rightarrow> listing \<Rightarrow> string \<Rightarrow> conversation \<Rightarrow> bool \<Rightarrow> madeOffer res go" where
  "write_offer req listing note c opened = do {
     x \<leftarrow> CreateOffer_sql (q_id req) (l_id listing) (l_owner_id listing) note;
     case x of
       Inl e \<Rightarrow> State_Monad.return (Inl e)
     | Inr x \<Rightarrow> do {
         y \<leftarrow> SetOfferConversation (c_id c) (o_id x);
         case y of
           Inl e \<Rightarrow> State_Monad.return (Inl e)
         | Inr y \<Rightarrow>
             (let made = \<lparr>mo_offer = y, mo_conversation_id = c_id c, mo_opened = opened, mo_note_id = None\<rparr>
              in if note = [] then State_Monad.return (Inr made)
                 else do {
                   m \<leftarrow> CreateMessage (c_id c) (l_owner_id listing) note;
                   case m of
                     Inl e \<Rightarrow> State_Monad.return (Inl e)
                   | Inr m \<Rightarrow> State_Monad.return (Inr (made\<lparr>mo_note_id := Some (m_id m)\<rparr>)) }) } }"

text \<open>Everything in one transaction; a refusal commits a transaction that wrote nothing.\<close>

definition makeOffer ::
  "env \<Rightarrow> housing_request \<Rightarrow> listing \<Rightarrow> string \<Rightarrow> (err_body + madeOffer) res go" where
  "makeOffer env req listing note = in_tx (do {
     place \<leftarrow> offer_conversation env req listing;
     case place of
       Inl e \<Rightarrow> State_Monad.return (Inl e)
     | Inr (Refused b) \<Rightarrow> State_Monad.return (Inr (Inl b))
     | Inr (In c opened) \<Rightarrow> do {
         made \<leftarrow> write_offer req listing note c opened;
         case made of
           Inl e \<Rightarrow> State_Monad.return (Inl e)
         | Inr mk \<Rightarrow> State_Monad.return (Inr (Inr mk)) } })"

text \<open>
  The attempts: a unique violation is looked into once, answered by the conflict when the offer is
  found to exist, and retried once otherwise.
\<close>

datatype offer_attempt = Duplicate | Attempted "(err_body + madeOffer) res"

definition attempt_offer ::
  "env \<Rightarrow> housing_request \<Rightarrow> listing \<Rightarrow> string \<Rightarrow> offer_attempt go" where
  "attempt_offer env req listing note = do {
     first \<leftarrow> makeOffer env req listing note;
     case first of
       Inr _ \<Rightarrow> State_Monad.return (Attempted first)
     | Inl e \<Rightarrow>
         if \<not> isUniqueViolation e then State_Monad.return (Attempted first)
         else do {
           existing \<leftarrow> GetOfferForListing (q_id req) (l_id listing);
           case existing of
             Inr _ \<Rightarrow> State_Monad.return Duplicate
           | Inl _ \<Rightarrow> do {
               second \<leftarrow> makeOffer env req listing note;
               State_Monad.return (Attempted second) } } }"

record offer_input =
  oi_listing_id :: uuid
  oi_note :: "string option"

definition offer_notification :: "uuid \<Rightarrow> madeOffer \<Rightarrow> notification option" where
  "offer_notification me made =
     (if mo_opened made then
        Some \<lparr>n_kind = notifyOfferOpened, n_conversation_id = mo_conversation_id made,
          n_sender_id = me, n_message_id = None\<rparr>
      else case mo_note_id made of
        None \<Rightarrow> None
      | Some m \<Rightarrow> Some \<lparr>n_kind = notifyReplyWaiting, n_conversation_id = mo_conversation_id made,
          n_sender_id = me, n_message_id = Some m\<rparr>)"

definition finish_offer :: "env \<Rightarrow> listing \<Rightarrow> uuid \<Rightarrow> offer_attempt \<Rightarrow> offer_view handler" where
  "finish_offer env listing me attempt =
     (case attempt of
        Duplicate \<Rightarrow> refuse 409 CodeConflict ''You have already offered that listing here.''
      | Attempted (Inl e) \<Rightarrow> fail e
      | Attempted (Inr (Inl refused)) \<Rightarrow> State_Monad.return (Refuse 409 refused)
      | Attempted (Inr (Inr made)) \<Rightarrow> do {
          (case offer_notification me made of
             None \<Rightarrow> State_Monad.return ()
           | Some n \<Rightarrow> notify env n);
          v \<leftarrow> offerResponse (mo_offer made) listing me;
          answer 201 v })"

definition CreateOffer ::
  "env \<Rightarrow> request_ctx \<Rightarrow> uuid \<Rightarrow> offer_input option \<Rightarrow> offer_view handler" where
  "CreateOffer env ctx i body =
     (case PrincipalFrom ctx of
        None \<Rightarrow> refuse 401 CodeUnauthorized ''Log in to answer a request.''
      | Some p \<Rightarrow>
          if \<not> p_verified p then
            refuse 403 CodeForbidden ''Confirm your uwaterloo.ca address before answering a request.''
          else case body of
            None \<Rightarrow> refuse 400 CodeBadRequest ''A listing to offer is required.''
          | Some inp \<Rightarrow> do {
              found \<leftarrow> GetPublishedRequest i;
              case found of
                Inl e \<Rightarrow>
                  if errors_is e ErrNoRows then refuse 404 CodeNotFound ''No request with that id.''
                  else fail e
              | Inr qw \<Rightarrow>
                  if q_poster_id (qw_request qw) = p_user_id p then
                    refuse 400 CodeValidation
                      ''That is your own request. Owners who have a place for you will answer it.''
                  else do {
                    lr \<leftarrow> GetListingForOwner (oi_listing_id inp);
                    case lr of
                      Inl e \<Rightarrow>
                        if errors_is e ErrNoRows then
                          refuse 404 CodeNotFound ''No listing of yours with that id.''
                        else fail e
                    | Inr listing \<Rightarrow>
                        (let note = trim_space (default_if_nil (oi_note inp) [])
                         in if l_owner_id listing \<noteq> p_user_id p then
                              refuse 404 CodeNotFound ''No listing of yours with that id.''
                            else if l_removed_at listing \<noteq> None then
                              refuse 400 CodeValidation
                                ''A moderator took that listing down, so it can't be offered.''
                            else if l_status listing \<noteq> ''published'' then
                              refuse 400 CodeValidation
                                (''Publish that listing before offering it '' @ em_dash @
                                 '' the student needs to be able to see the place.'')
                            else if maxNoteLength < length note then
                              refuse 400 CodeValidation
                                ''Keep the note under 1000 characters. The listing says the rest.''
                            else do {
                              existing \<leftarrow> GetOfferForListing (q_id (qw_request qw)) (l_id listing);
                              case existing of
                                Inr x \<Rightarrow>
                                  refuse 409 CodeConflict
                                    (if o_withdrawn_at x \<noteq> None then
                                       ''You offered that listing here before and withdrew it. Offer a different place, or repost this one.''
                                     else ''You have already offered that listing here.'')
                              | Inl e \<Rightarrow>
                                  if \<not> errors_is e ErrNoRows then fail e
                                  else do {
                                    attempt \<leftarrow> attempt_offer env (qw_request qw) listing note;
                                    finish_offer env listing (p_user_id p) attempt } }) } })"

section \<open>Reading and withdrawing\<close>

definition ListOffers :: "request_ctx \<Rightarrow> uuid \<Rightarrow> offer_view list handler" where
  "ListOffers ctx i =
     (case PrincipalFrom ctx of
        None \<Rightarrow> refuse 401 CodeUnauthorized ''Log in to see the offers on a request.''
      | Some p \<Rightarrow> do {
          found \<leftarrow> GetRequestForOwner i;
          case found of
            Inl _ \<Rightarrow> refuse 404 CodeNotFound ''No request with that id.''
          | Inr q \<Rightarrow> do {
              rows \<leftarrow> ListOffersForRequest (q_id q);
              case rows of
                Inl e \<Rightarrow> fail e
              | Inr rs \<Rightarrow>
                  (let poster = (q_poster_id q = p_user_id p)
                   in answer 200 (map toRequestOffer
                        (filter (\<lambda>r. poster \<or> o_owner_id (ow_offer r) = p_user_id p) rs))) } })"

definition WithdrawOffer :: "request_ctx \<Rightarrow> uuid \<Rightarrow> unit handler" where
  "WithdrawOffer ctx i =
     (case PrincipalFrom ctx of
        None \<Rightarrow> refuse 401 CodeUnauthorized ''Log in to withdraw an offer.''
      | Some p \<Rightarrow> do {
          found \<leftarrow> GetOffer i;
          case found of
            Inl e \<Rightarrow>
              if errors_is e ErrNoRows then refuse 404 CodeNotFound ''No offer of yours with that id.''
              else fail e
          | Inr x \<Rightarrow>
              if o_owner_id x \<noteq> p_user_id p then
                refuse 404 CodeNotFound ''No offer of yours with that id.''
              else if o_withdrawn_at x = None then do {
                r \<leftarrow> WithdrawOffer_sql (o_id x);
                case r of
                  Inl e \<Rightarrow> fail e
                | Inr _ \<Rightarrow> answer 204 () }
              else answer 204 () })"

lemmas offer_handler_defs =
  CreateOffer_def ListOffers_def WithdrawOffer_def finish_offer_def attempt_offer_def makeOffer_def
  write_offer_def offer_conversation_def offerResponse_def

end
