(* ===== verification/Service.thy ===== *)
theory Service
  imports Auth Browse Offers Admin
begin

text \<open>
  The service as a whole: every operation of \<open>gen.StrictServerInterface\<close>
  (\<open>internal/httpapi/gen/server.gen.go\<close>), implemented by \<open>*Server\<close>, with the handler that serves it.
  What a request does to the world is stated over \<open>serve\<close>; what it answers, over its handler.
\<close>

section \<open>Health\<close>

text \<open>\<open>internal/httpapi/health.go\<close>: a real round trip to the database.\<close>

definition Ping :: "int res go" where
  "Ping = query_row (\<lambda>_ _. Some 1)"

record health =
  he_status :: string
  he_database :: string
  he_version :: "string option"

definition GetHealth :: "string \<Rightarrow> health handler" where
  "GetHealth buildVersion = do {
     r \<leftarrow> Ping;
     (let version = (if buildVersion = [] then None else Some buildVersion)
      in case r of
           Inl _ \<Rightarrow> answer 503 \<lparr>he_status = ''degraded'', he_database = ''unreachable'', he_version = version\<rparr>
         | Inr _ \<Rightarrow> answer 200 \<lparr>he_status = ''ok'', he_database = ''ok'', he_version = version\<rparr>) }"

section \<open>Requests and their handlers\<close>

datatype request =
    R_GetHealth string
  | R_Register "register_request option" | R_VerifyEmail "string option"
  | R_ResendVerification "string option" | R_Login "credentials option" | R_RefreshSession | R_Logout
  | R_RequestPasswordReset "string option" | R_ConfirmPasswordReset "reset_confirmation option"
  | R_GetMe | R_UpdateMyPreferences "bool option option"
  | R_ListListings listing_params | R_GetListing uuid | R_GetListingAvailability int listing_params
  | R_CreateListing "listing_input option" | R_UpdateListing uuid "listing_update option"
  | R_SetListingStatus uuid "string option" | R_DeleteListing uuid | R_ListMyListings
  | R_ListRequests request_params | R_GetRequest uuid
  | R_CreateRequest "request_input option" | R_UpdateRequest uuid "request_update option"
  | R_SetRequestStatus uuid "string option" | R_DeleteRequest uuid | R_ListMyRequests
  | R_CreateOffer uuid "offer_input option" | R_ListOffers uuid | R_WithdrawOffer uuid
  | R_StartConversation uuid "string option"
  | R_ListMyConversations "int option" "int option" "string option" "string option"
  | R_GetUnreadCounts | R_GetConversation uuid | R_MarkConversationRead uuid
  | R_CloseConversation uuid | R_ShareAddress uuid
  | R_ListMessages uuid "int option" "int option" | R_SendMessage uuid "string option"
  | R_GetAdminOverview | R_ListAdminActions "int option" "int option"
  | R_ListAdminUsers "int option" "int option" user_filters | R_GetAdminUser uuid
  | R_SuspendAdminUser uuid "string option" | R_ReinstateAdminUser uuid "string option"
  | R_VerifyAdminUser uuid "string option" | R_SetAdminUserRole uuid "(string \<times> string) option"
  | R_ListAdminListings "int option" "int option" post_filters
  | R_ListAdminRequests "int option" "int option" post_filters
  | R_RemoveAdminListing uuid "string option" | R_RestoreAdminListing uuid "string option"
  | R_RemoveAdminRequest uuid "string option" | R_RestoreAdminRequest uuid "string option"

definition discard :: "'a go \<Rightarrow> unit go" where
  "discard m = do { _ \<leftarrow> m; State_Monad.return () }"

lemma run_discard [simp]: "run_state (discard m) w = ((), snd (run_state m w))"
  by (simp add: discard_def split: prod.split)

fun serve :: "env \<Rightarrow> request_ctx \<Rightarrow> request \<Rightarrow> unit go" where
  "serve env ctx (R_GetHealth version) = discard (GetHealth version)"
| "serve env ctx (R_Register b) = discard (Register env b)"
| "serve env ctx (R_VerifyEmail b) = discard (VerifyEmail env b)"
| "serve env ctx (R_ResendVerification b) = discard (ResendVerification env b)"
| "serve env ctx (R_Login b) = discard (Login env ctx b)"
| "serve env ctx R_RefreshSession = discard (RefreshSession env ctx)"
| "serve env ctx R_Logout = discard (Logout env ctx)"
| "serve env ctx (R_RequestPasswordReset b) = discard (RequestPasswordReset env b)"
| "serve env ctx (R_ConfirmPasswordReset b) = discard (ConfirmPasswordReset env b)"
| "serve env ctx R_GetMe = discard (GetMe ctx)"
| "serve env ctx (R_UpdateMyPreferences b) = discard (UpdateMyPreferences ctx b)"
| "serve env ctx (R_ListListings p) = discard (ListListings env p)"
| "serve env ctx (R_GetListing i) = discard (GetListing i)"
| "serve env ctx (R_GetListingAvailability y p) = discard (GetListingAvailability env y p)"
| "serve env ctx (R_CreateListing b) = discard (CreateListing ctx b)"
| "serve env ctx (R_UpdateListing i b) = discard (UpdateListing ctx i b)"
| "serve env ctx (R_SetListingStatus i b) = discard (SetListingStatus ctx i b)"
| "serve env ctx (R_DeleteListing i) = discard (DeleteListing ctx i)"
| "serve env ctx R_ListMyListings = discard (ListMyListings ctx)"
| "serve env ctx (R_ListRequests p) = discard (ListRequests env p)"
| "serve env ctx (R_GetRequest i) = discard (GetRequest i)"
| "serve env ctx (R_CreateRequest b) = discard (CreateRequest ctx b)"
| "serve env ctx (R_UpdateRequest i b) = discard (UpdateRequest ctx i b)"
| "serve env ctx (R_SetRequestStatus i b) = discard (SetRequestStatus ctx i b)"
| "serve env ctx (R_DeleteRequest i) = discard (DeleteRequest ctx i)"
| "serve env ctx R_ListMyRequests = discard (ListMyRequests ctx)"
| "serve env ctx (R_CreateOffer i b) = discard (CreateOffer env ctx i b)"
| "serve env ctx (R_ListOffers i) = discard (ListOffers ctx i)"
| "serve env ctx (R_WithdrawOffer i) = discard (WithdrawOffer ctx i)"
| "serve env ctx (R_StartConversation i b) = discard (StartConversation env ctx i b)"
| "serve env ctx (R_ListMyConversations pg n s side) = discard (ListMyConversations ctx pg n s side)"
| "serve env ctx R_GetUnreadCounts = discard (GetUnreadCounts ctx)"
| "serve env ctx (R_GetConversation i) = discard (GetConversation ctx i)"
| "serve env ctx (R_MarkConversationRead i) = discard (MarkConversationRead ctx i)"
| "serve env ctx (R_CloseConversation i) = discard (CloseConversation ctx i)"
| "serve env ctx (R_ShareAddress i) = discard (ShareAddress env ctx i)"
| "serve env ctx (R_ListMessages i pg n) = discard (ListMessages ctx i pg n)"
| "serve env ctx (R_SendMessage i b) = discard (SendMessage env ctx i b)"
| "serve env ctx R_GetAdminOverview = discard (GetAdminOverview ctx)"
| "serve env ctx (R_ListAdminActions pg n) = discard (ListAdminActions ctx pg n)"
| "serve env ctx (R_ListAdminUsers pg n q) = discard (ListAdminUsers ctx pg n q)"
| "serve env ctx (R_GetAdminUser i) = discard (GetAdminUser ctx i)"
| "serve env ctx (R_SuspendAdminUser i why) = discard (SuspendAdminUser ctx i why)"
| "serve env ctx (R_ReinstateAdminUser i why) = discard (ReinstateAdminUser ctx i why)"
| "serve env ctx (R_VerifyAdminUser i why) = discard (VerifyAdminUser ctx i why)"
| "serve env ctx (R_SetAdminUserRole i b) = discard (SetAdminUserRole ctx i b)"
| "serve env ctx (R_ListAdminListings pg n q) = discard (ListAdminListings env ctx pg n q)"
| "serve env ctx (R_ListAdminRequests pg n q) = discard (ListAdminRequests env ctx pg n q)"
| "serve env ctx (R_RemoveAdminListing i why) = discard (RemoveAdminListing ctx i why)"
| "serve env ctx (R_RestoreAdminListing i why) = discard (RestoreAdminListing ctx i why)"
| "serve env ctx (R_RemoveAdminRequest i why) = discard (RemoveAdminRequest ctx i why)"
| "serve env ctx (R_RestoreAdminRequest i why) = discard (RestoreAdminRequest ctx i why)"

section \<open>Histories\<close>

text \<open>
  What happens to one instance of the service: it serves requests, each with the faults and the
  other requests' commits it meets; time passes; the limiter and the mailer change. \<open>admits\<close> restricts
  the requests considered; \<open>rely\<close> is what the commits of the other requests are relied on to preserve.
\<close>

inductive history ::
  "env \<Rightarrow> (request_ctx \<Rightarrow> request \<Rightarrow> bool) \<Rightarrow> (database \<Rightarrow> bool) \<Rightarrow> world \<Rightarrow> world \<Rightarrow> bool"
  for env admits rely where
  request: "admits ctx r \<Longrightarrow> history env admits rely w (snd (run_state (serve env ctx r) w))"
| later: "clock w \<le> t \<Longrightarrow> history env admits rely w (w\<lparr>clock := t\<rparr>)"
| disturbed: "(\<And>g d. Meanwhile g \<in> set es \<Longrightarrow> rely d \<Longrightarrow> rely (g d)) \<Longrightarrow>
    history env admits rely w (w\<lparr>events := es\<rparr>)"
| limits: "history env admits rely w (w\<lparr>rl := l\<rparr>)"
| mailer: "history env admits rely w (w\<lparr>mail_faults := fs\<rparr>)"

inductive_cases historyE: "history env admits rely w w'"

abbreviation anything :: "request_ctx \<Rightarrow> request \<Rightarrow> bool" where
  "anything ctx r \<equiv> True"

end
