(* ===== verification/Preserve.thy ===== *)
theory Preserve
  imports Service AuthProofs
begin

text \<open>
  What every request preserves, proved once. The locale \<open>preserved\<close> states, statement by statement,
  what a property of the database has to survive: each write as the handlers issue it, with what they
  have read before. From that it follows for the whole service, whatever faults and concurrent commits
  it meets. The interpretations are in the theories of the properties.
\<close>

section \<open>What a read tells\<close>

text \<open>
  The rules of \<open>keeps_intros\<close> forget what a statement returned. These two remember what a row that
  was read, or inserted, says of a database that satisfies the invariant; another request may have
  changed the database since.
\<close>

lemma db_inv_stmtE:
  assumes "db_inv P w" and "run_state (stmt f) w = (r, w')"
  obtains (fault) e where "r = Inl e" "db_inv P w'"
  | (ran) w1 where "db_inv P w1" "f w1 = (r, w')"
proof (cases "events w")
  case Nil
  then show ?thesis using assms by (intro ran [of w]) (simp_all add: stmt_def)
next
  case (Cons ev es)
  show ?thesis
  proof (cases ev)
    case (Fault e)
    then show ?thesis using assms Cons by (intro fault [of e]) (auto simp: stmt_def db_inv_def)
  next
    case Quiet
    then show ?thesis using assms Cons
      by (intro ran [of "w\<lparr>events := es\<rparr>"]) (auto simp: stmt_def db_inv_def)
  next
    case (Meanwhile g)
    then show ?thesis using assms Cons
      by (intro ran [of "w\<lparr>events := es, db := g (db w), committed := map_option g (committed w)\<rparr>"])
        (auto simp: stmt_def db_inv_def)
  qed
qed

lemma keeps_read_row:
  assumes "\<And>e. keeps (db_inv P) (k (Inl e))"
    and "\<And>t d a. P d \<Longrightarrow> f t d = Some a \<Longrightarrow> keeps (db_inv P) (k (Inr a))"
  shows "keeps (db_inv P) (State_Monad.bind (query_row f) k)"
  unfolding keeps_def
proof (intro allI impI)
  fix w assume w: "db_inv P w"
  obtain r w' where run: "run_state (query_row f) w = (r, w')" by (rule prod.exhaust)
  from w run [unfolded query_row_def] have "db_inv P w' \<and> keeps (db_inv P) (k r)"
  proof (cases rule: db_inv_stmtE)
    case (ran w1)
    then show ?thesis using assms by (auto simp: db_inv_def split: option.splits)
  qed (simp add: assms(1))
  then show "db_inv P (snd (run_state (State_Monad.bind (query_row f) k) w))"
    by (simp add: run keeps_run)
qed

lemma keeps_inserted_row:
  assumes "keeps (db_inv P) (insert_row f)" and "\<And>e. keeps (db_inv P) (k (Inl e))"
    and "\<And>i t d a d'. P d \<Longrightarrow> f i t d = (Inr a, d') \<Longrightarrow> P d' \<Longrightarrow> keeps (db_inv P) (k (Inr a))"
  shows "keeps (db_inv P) (State_Monad.bind (insert_row f) k)"
  unfolding keeps_def
proof (intro allI impI)
  fix w assume w: "db_inv P w"
  obtain r w' where run: "run_state (insert_row f) w = (r, w')" by (rule prod.exhaust)
  have after: "db_inv P w'" by (rule keepsD [OF assms(1) w run])
  from w run [unfolded insert_row_def] have "keeps (db_inv P) (k r)"
  proof (cases rule: db_inv_stmtE)
    case (ran w1)
    show ?thesis
    proof (cases r)
      case (Inr a)
      have step: "f (uuid_source w1 (uuids_drawn w1)) (clock w1) (db w1) = (Inr a, db w')"
        using ran(2) Inr by (auto split: prod.splits)
      have "P (db w1)" "P (db w')" using ran(1) after by (simp_all add: db_inv_def)
      from assms(3) [OF this(1) step this(2)] show ?thesis by (simp add: Inr)
    qed (simp add: assms(2))
  qed (simp add: assms(2))
  then show "db_inv P (snd (run_state (State_Monad.bind (insert_row f) k) w))"
    by (simp add: run keeps_run after)
qed

lemma keeps_updated_row:
  assumes "keeps (db_inv P) (exec f)" and "\<And>e. keeps (db_inv P) (k (Inl e))"
    and "\<And>t d a d'. f t d = (Inr a, d') \<Longrightarrow> keeps (db_inv P) (k (Inr a))"
  shows "keeps (db_inv P) (State_Monad.bind (exec f) k)"
  unfolding keeps_def
proof (intro allI impI)
  fix w assume w: "db_inv P w"
  obtain r w' where run: "run_state (exec f) w = (r, w')" by (rule prod.exhaust)
  have after: "db_inv P w'" by (rule keepsD [OF assms(1) w run])
  from w run [unfolded exec_def] have "keeps (db_inv P) (k r)"
  proof (cases rule: db_inv_stmtE)
    case (ran w1)
    then show ?thesis
      using assms(2) assms(3) [of "clock w1" "db w1"] by (cases r) (auto split: prod.splits)
  qed (simp add: assms(2))
  then show "db_inv P (snd (run_state (State_Monad.bind (exec f) k) w))"
    by (simp add: run keeps_run after)
qed

section \<open>Frames\<close>

text \<open>A property that does not look at a table survives every statement on that table.\<close>

lemma frame_update_user:
  "(\<And>d us. P (d\<lparr>users := us\<rparr>) = P d) \<Longrightarrow> P (snd (update_user Q f i t d)) = P d"
  by (simp add: update_user_def Let_def split: option.split)

lemma frame_users:
  assumes "\<And>d us. P (d\<lparr>users := us\<rparr>) = P d"
  shows "keeps (db_inv P) (CreateUser email username hash)" "keeps (db_inv P) (MarkUserVerified i)"
    "keeps (db_inv P) (SetEmailNotifications b i)" "keeps (db_inv P) (UpdateUserPassword i hash)"
    "keeps (db_inv P) (SetUserRole r i)" "keeps (db_inv P) (SuspendUser actor reason i)"
    "keeps (db_inv P) (ReinstateUser i)" "keeps (db_inv P) (VerifyUserAsAdmin i)"
  unfolding account_query_defs admin_query_defs
  by (rule db_inv_exec db_inv_insert_row;
      simp add: Let_def assms frame_update_user [OF assms] split: option.split)+

lemma frame_tokens:
  assumes "\<And>d ks. P (d\<lparr>verification_tokens := ks\<rparr>) = P d"
    and "\<And>d ks. P (d\<lparr>reset_tokens := ks\<rparr>) = P d"
    and "\<And>d ks. P (d\<lparr>refresh_tokens := ks\<rparr>) = P d"
  shows "keeps (db_inv P) (ConsumeAllEmailVerificationTokensForUser i)"
    "keeps (db_inv P) (ConsumeAllPasswordResetTokensForUser i)"
    "keeps (db_inv P) (ConsumeEmailVerificationToken h)" "keeps (db_inv P) (ConsumePasswordResetToken h)"
    "keeps (db_inv P) (CreateEmailVerificationToken h i x)"
    "keeps (db_inv P) (CreatePasswordResetToken h i x)" "keeps (db_inv P) (CreateRefreshToken h i x a)"
    "keeps (db_inv P) (RevokeAllRefreshTokensForUser i)" "keeps (db_inv P) (RevokeRefreshToken h)"
  unfolding account_query_defs
  by (rule db_inv_exec; simp add: assms split: option.split)+

lemma snd_on_table [simp]:
  "snd (on_listings g d) = d\<lparr>listings := snd (g (listings d))\<rparr>"
  "snd (on_requests h d) = d\<lparr>requests := snd (h (requests d))\<rparr>"
  "snd (on_conversations k d) = d\<lparr>conversations := snd (k (conversations d))\<rparr>"
  "snd (on_offers m d) = d\<lparr>offers := snd (m (offers d))\<rparr>"
  by (simp_all add: on_listings_def on_requests_def on_conversations_def on_offers_def split: prod.split)

lemma frame_listings:
  assumes "\<And>d ls. P (d\<lparr>listings := ls\<rparr>) = P d"
  shows "keeps (db_inv P) (CreateListing_sql p)" "keeps (db_inv P) (UpdateListing_sql i u)"
    "keeps (db_inv P) (SetListingStatus_sql i s)" "keeps (db_inv P) (RemoveListing i actor reason)"
    "keeps (db_inv P) (RestoreListing i)"
  unfolding post_query_defs
  by (rule db_inv_exec db_inv_insert_row; simp add: Let_def assms split: option.split)+

lemma frame_requests:
  assumes "\<And>d qs. P (d\<lparr>requests := qs\<rparr>) = P d"
  shows "keeps (db_inv P) (CreateRequest_sql p)" "keeps (db_inv P) (UpdateRequest_sql i u)"
    "keeps (db_inv P) (SetRequestStatus_sql i s)" "keeps (db_inv P) (RemoveRequest i actor reason)"
    "keeps (db_inv P) (RestoreRequest i)"
  unfolding post_query_defs
  by (rule db_inv_exec db_inv_insert_row; simp add: Let_def assms split: option.split)+

lemma frame_conversations:
  assumes "\<And>d cs. P (d\<lparr>conversations := cs\<rparr>) = P d"
  shows "keeps (db_inv P) (CreateConversation l ow en op)" "keeps (db_inv P) (CloseConversation_sql u i)"
    "keeps (db_inv P) (ReopenConversation i u)" "keeps (db_inv P) (ShareConversationAddress i u)"
    "keeps (db_inv P) (MarkConversationRead_sql u i)"
  unfolding conversation_query_defs
  by (rule db_inv_exec db_inv_insert_row; simp add: Let_def assms)+

lemma frame_messages:
  assumes "\<And>d ms. P (d\<lparr>messages := ms\<rparr>) = P d"
  shows "keeps (db_inv P) (CreateMessage c u body)"
  unfolding conversation_query_defs by (rule db_inv_insert_row) (simp add: Let_def assms)

lemma frame_offers:
  assumes "\<And>d xs. P (d\<lparr>offers := xs\<rparr>) = P d"
  shows "keeps (db_inv P) (CreateOffer_sql q l u note)" "keeps (db_inv P) (WithdrawOffer_sql i)"
    "keeps (db_inv P) (SetOfferConversation c i)"
  unfolding offer_query_defs by (rule db_inv_exec db_inv_insert_row; simp add: Let_def assms)+

lemma frame_actions:
  assumes "\<And>d as. P (d\<lparr>admin_actions := as\<rparr>) = P d"
  shows "keeps (db_inv P) (InsertAdminAction actor a ty i why detail)"
  unfolding admin_query_defs by (rule db_inv_insert_row) (simp add: Let_def assms split: option.split)

section \<open>Queries that only read\<close>

lemma post_reads [keeps_intros]:
  "keeps (db_inv P) (GetPublishedListing i)" "keeps (db_inv P) (GetListingForOwner i)"
  "keeps (db_inv P) (ListListingsByOwner i)" "keeps (db_inv P) (ListPhotosForListing i)"
  "keeps (db_inv P) (ListPhotosForListings is)" "keeps (db_inv P) (GetPublishedRequest i)"
  "keeps (db_inv P) (GetRequestForOwner i)" "keeps (db_inv P) (ListRequestsByPoster i)"
  unfolding post_query_defs by (rule keeps_intros)+

lemma conversation_reads [keeps_intros]:
  "keeps (db_inv P) (GetConversationByListingAndEnquirer i j)"
  "keeps (db_inv P) (GetConversationForParticipant i j)"
  "keeps (db_inv P) (ListConversationsForUser i s t k l)"
  "keeps (db_inv P) (CountConversationsForUser i s t)"
  "keeps (db_inv P) (ListMessages_sql i k l)" "keeps (db_inv P) (CountMessages i)"
  "keeps (db_inv P) (UnreadCountsForUser i)" "keeps (db_inv P) (GetNotificationRecipient i j m)"
  "keeps (db_inv P) (GetOffer i)" "keeps (db_inv P) (GetOfferForListing i j)"
  "keeps (db_inv P) (CountOffersForRequest i)" "keeps (db_inv P) (ListOffersForRequest i)"
  unfolding conversation_query_defs offer_query_defs by (rule keeps_intros)+

lemma admin_reads [keeps_intros]:
  "keeps (db_inv P) CountAdmins" "keeps (db_inv P) (GetUserForAdmin i)"
  "keeps (db_inv P) (ListUsersForAdmin uf k l)" "keeps (db_inv P) (CountUsersForAdmin uf)"
  "keeps (db_inv P) (ListAdminActions_sql k l)" "keeps (db_inv P) CountAdminActions"
  "keeps (db_inv P) (ListAdminActionsForSubject ty i)" "keeps (db_inv P) AdminOverviewCounts"
  "keeps (db_inv P) (ListListingsForAdmin env pf k l)" "keeps (db_inv P) (CountListingsForAdmin env pf)"
  "keeps (db_inv P) (ListRequestsForAdmin env pf k l)" "keeps (db_inv P) (CountRequestsForAdmin env pf)"
  unfolding CountAdmins_def GetUserForAdmin_def ListUsersForAdmin_def CountUsersForAdmin_def
    ListAdminActions_sql_def CountAdminActions_def ListAdminActionsForSubject_def AdminOverviewCounts_def
    ListListingsForAdmin_def CountListingsForAdmin_def ListRequestsForAdmin_def CountRequestsForAdmin_def
  by (rule keeps_intros)+

lemma browse_reads [keeps_intros]:
  "keeps (db_inv P) (ListListings_sql env lf k l)" "keeps (db_inv P) (CountListings env lf)"
  "keeps (db_inv P) (ListingAvailabilityByMonth env y lf)"
  "keeps (db_inv P) (ListRequests_sql env qf k l)" "keeps (db_inv P) (CountRequests env qf)"
  "keeps (db_inv P) Ping"
  unfolding ListListings_sql_def CountListings_def ListingAvailabilityByMonth_def ListRequests_sql_def
    CountRequests_def Ping_def
  by (rule keeps_intros db_inv_exec; simp)+

lemma keeps_photosByListing [keeps_intros]: "keeps (db_inv P) (photosByListing ids)"
  unfolding photosByListing_def by (intro keeps_intros)

lemma keeps_discard [keeps_intros]: "keeps I m \<Longrightarrow> keeps I (discard m)"
  unfolding discard_def by (intro keeps_intros)

lemma keeps_notify [keeps_intros]: "keeps (db_inv P) (notify env n)"
  unfolding notify_def by (intro keeps_intros)

lemma keeps_as_admin [keeps_intros]:
  "(\<And>p. requireAdmin ctx = Some p \<Longrightarrow> keeps I (body p)) \<Longrightarrow> keeps I (as_admin ctx body)"
  unfolding as_admin_def by (intro keeps_intros)

lemma keeps_responses [keeps_intros]:
  "keeps (db_inv P) (listingResponse l)" "keeps (db_inv P) (requestResponse q)"
  "keeps (db_inv P) (offerResponse x l i)" "keeps (db_inv P) (conversationFor i p)"
  "keeps (db_inv P) (adminListing i)" "keeps (db_inv P) (adminRequest i)"
  unfolding listingResponse_def requestResponse_def offerResponse_def conversationFor_def
    adminListing_def adminRequest_def
  by (intro keeps_intros)+

text \<open>The requests that only read.\<close>

lemma keeps_readers:
  "keeps (db_inv P) (GetHealth version)" "keeps (db_inv P) (GetMe ctx)"
  "keeps (db_inv P) (ListListings env lp)" "keeps (db_inv P) (GetListing i)"
  "keeps (db_inv P) (GetListingAvailability env y lp)" "keeps (db_inv P) (ListMyListings ctx)"
  "keeps (db_inv P) (ListRequests env rp)" "keeps (db_inv P) (GetRequest i)"
  "keeps (db_inv P) (ListMyRequests ctx)" "keeps (db_inv P) (ListOffers ctx i)"
  "keeps (db_inv P) (ListMyConversations ctx pg n s side)" "keeps (db_inv P) (GetUnreadCounts ctx)"
  "keeps (db_inv P) (GetConversation ctx i)" "keeps (db_inv P) (ListMessages ctx i pg n)"
  "keeps (db_inv P) (GetAdminOverview ctx)" "keeps (db_inv P) (ListAdminActions ctx pg n)"
  "keeps (db_inv P) (ListAdminUsers ctx pg n uf)" "keeps (db_inv P) (GetAdminUser ctx i)"
  "keeps (db_inv P) (ListAdminListings env ctx pg n pf)"
  "keeps (db_inv P) (ListAdminRequests env ctx pg n pf)"
  unfolding GetHealth_def GetMe_def browse_handler_defs ListMyListings_def ListMyRequests_def ListOffers_def
    ListMyConversations_def GetUnreadCounts_def GetConversation_def ListMessages_def admin_read_defs
  by (intro keeps_intros)+

lemma keeps_accountAction [keeps_intros]:
  "(\<And>why. keeps (db_inv P) (act why)) \<Longrightarrow> keeps (db_inv P) (accountAction i reason self act)"
  unfolding accountAction_def by (intro keeps_intros)

lemma keeps_postAction [keeps_intros]:
  "(\<And>why. keeps (db_inv P) (act why)) \<Longrightarrow> keeps (db_inv P) (postAction kind reason required act)"
  unfolding postAction_def Let_def by (intro keeps_intros)

lemma keeps_post_reply [keeps_intros]: "keeps I m \<Longrightarrow> keeps I (post_reply m r)"
  unfolding post_reply_def by (intro keeps_intros)

lemma keeps_offer_place [keeps_intros]:
  "(\<And>b. p = Refused b \<Longrightarrow> keeps I (f b)) \<Longrightarrow> (\<And>c n. p = In c n \<Longrightarrow> keeps I (g c n)) \<Longrightarrow>
   keeps I (case p of Refused b \<Rightarrow> f b | In c n \<Rightarrow> g c n)"
  by (cases p) auto

lemma keeps_offer_attempt [keeps_intros]:
  "(p = Duplicate \<Longrightarrow> keeps I m) \<Longrightarrow> (\<And>r. p = Attempted r \<Longrightarrow> keeps I (g r)) \<Longrightarrow>
   keeps I (case p of Duplicate \<Rightarrow> m | Attempted r \<Rightarrow> g r)"
  by (cases p) auto

section \<open>What the handlers read\<close>

lemma find_listing_id: "find_listing d i = Some l \<Longrightarrow> l_id l = i \<and> l \<in> set (listings d)"
  unfolding find_listing_def by (drule find_SomeD) simp

lemma find_request_id: "find_request d i = Some q \<Longrightarrow> q_id q = i \<and> q \<in> set (requests d)"
  unfolding find_request_def by (drule find_SomeD) simp

lemma find_conversation_id: "find_conversation d i = Some c \<Longrightarrow> c_id c = i \<and> c \<in> set (conversations d)"
  unfolding find_conversation_def by (drule find_SomeD) simp

lemma keeps_own_listing:
  assumes "\<And>r. keeps (db_inv P) (k (Inl r))"
    and "\<And>d l p. P d \<Longrightarrow> find_listing d i = Some l \<Longrightarrow> l_id l = i \<Longrightarrow> ctx_principal ctx = Some p \<Longrightarrow>
      l_owner_id l = p_user_id p \<Longrightarrow> keeps (db_inv P) (k (Inr l))"
  shows "keeps (db_inv P) (State_Monad.bind (ownedListing ctx i) k)"
proof (cases "ctx_principal ctx")
  case (Some p)
  show ?thesis
    unfolding ownedListing_def Some GetListingForOwner_def
    by (simp add: Some, rule keeps_read_row) (auto intro: assms simp: Some dest: find_listing_id)
qed (simp add: ownedListing_def assms(1))

lemma keeps_own_request:
  assumes "\<And>r. keeps (db_inv P) (k (Inl r))"
    and "\<And>d q p. P d \<Longrightarrow> find_request d i = Some q \<Longrightarrow> q_id q = i \<Longrightarrow> ctx_principal ctx = Some p \<Longrightarrow>
      q_poster_id q = p_user_id p \<Longrightarrow> keeps (db_inv P) (k (Inr q))"
  shows "keeps (db_inv P) (State_Monad.bind (ownedRequest ctx i) k)"
proof (cases "ctx_principal ctx")
  case (Some p)
  show ?thesis
    unfolding ownedRequest_def Some GetRequestForOwner_def
    by (simp add: Some, rule keeps_read_row) (auto intro: assms simp: Some dest: find_request_id)
qed (simp add: ownedRequest_def assms(1))

text \<open>The rest in the form in which every handler looks at what a query returned.\<close>

named_theorems keeps_reads \<open>rules for the queries whose rows authorise a write\<close>

lemma keeps_read_listing [keeps_reads]:
  assumes "\<And>e. keeps (db_inv P) (g e)"
    and "\<And>d l. P d \<Longrightarrow> find_listing d i = Some l \<Longrightarrow> l_id l = i \<Longrightarrow> keeps (db_inv P) (h l)"
  shows "keeps (db_inv P) (State_Monad.bind (GetListingForOwner i)
    (\<lambda>r. case r of Inl e \<Rightarrow> g e | Inr l \<Rightarrow> h l))"
  unfolding GetListingForOwner_def
  by (rule keeps_read_row) (auto intro: assms dest: find_listing_id)

lemma keeps_read_published [keeps_reads]:
  assumes "\<And>e. keeps (db_inv P) (g e)"
    and "\<And>d row. P d \<Longrightarrow> find_listing d i = Some (lw_listing row) \<Longrightarrow> l_id (lw_listing row) = i \<Longrightarrow>
      keeps (db_inv P) (h row)"
  shows "keeps (db_inv P) (State_Monad.bind (GetPublishedListing i)
    (\<lambda>r. case r of Inl e \<Rightarrow> g e | Inr l \<Rightarrow> h l))"
  unfolding GetPublishedListing_def
  by (rule keeps_read_row)
    (auto simp: join_owner_def split: option.splits if_splits intro!: assms dest: find_listing_id)

lemma keeps_read_conversation [keeps_reads]:
  assumes "\<And>e. keeps (db_inv P) (g e)"
    and "\<And>d c row. P d \<Longrightarrow> c \<in> set (conversations d) \<Longrightarrow> c_id c = i \<Longrightarrow> participant u c \<Longrightarrow>
      cw_conversation row = c \<Longrightarrow> keeps (db_inv P) (h row)"
  shows "keeps (db_inv P) (State_Monad.bind (GetConversationForParticipant u i)
    (\<lambda>r. case r of Inl e \<Rightarrow> g e | Inr l \<Rightarrow> h l))"
  unfolding GetConversationForParticipant_def
proof (rule keeps_read_row)
  fix t d row
  assume "P d" and row: "(case find_conversation d i of None \<Rightarrow> None
    | Some c \<Rightarrow> if participant u c then conversation_row_for d u c else None) = Some row"
  then obtain c where c: "find_conversation d i = Some c" "participant u c" "cw_conversation row = c"
    by (auto simp: conversation_row_for_def Let_def split: option.splits if_splits)
  show "keeps (db_inv P) (case Inr row of Inl e \<Rightarrow> g e | Inr l \<Rightarrow> h l)"
    using assms(2) [OF \<open>P d\<close> _ _ c(2,3)] find_conversation_id [OF c(1)] by simp
qed (simp add: assms(1))

lemma keeps_read_pair [keeps_reads]:
  assumes "\<And>e. keeps (db_inv P) (g e)"
    and "\<And>d c. P d \<Longrightarrow> c \<in> set (conversations d) \<Longrightarrow> c_listing_id c = j \<Longrightarrow> c_enquirer_id c = en \<Longrightarrow>
      keeps (db_inv P) (h c)"
  shows "keeps (db_inv P) (State_Monad.bind (GetConversationByListingAndEnquirer j en)
    (\<lambda>r. case r of Inl e \<Rightarrow> g e | Inr c \<Rightarrow> h c))"
  unfolding GetConversationByListingAndEnquirer_def
  by (rule keeps_read_row) (auto intro!: assms dest!: find_SomeD)

lemma keeps_read_offer [keeps_reads]:
  assumes "\<And>e. keeps (db_inv P) (g e)"
    and "\<And>d x. P d \<Longrightarrow> x \<in> set (offers d) \<Longrightarrow> o_id x = i \<Longrightarrow> keeps (db_inv P) (h x)"
  shows "keeps (db_inv P) (State_Monad.bind (GetOffer i) (\<lambda>r. case r of Inl e \<Rightarrow> g e | Inr x \<Rightarrow> h x))"
  unfolding GetOffer_def
  by (rule keeps_read_row) (auto intro!: assms dest!: find_SomeD)

lemma keeps_new_conversation:
  assumes "keeps (db_inv P) (CreateConversation j ow en me)" and "\<And>e. keeps (db_inv P) (g e)"
    and "\<And>d c. P d \<Longrightarrow> c \<in> set (conversations d) \<Longrightarrow> c_listing_id c = j \<Longrightarrow> c_owner_id c = ow \<Longrightarrow>
      c_enquirer_id c = en \<Longrightarrow> keeps (db_inv P) (h c)"
  shows "keeps (db_inv P) (State_Monad.bind (CreateConversation j ow en me)
    (\<lambda>r. case r of Inl e \<Rightarrow> g e | Inr c \<Rightarrow> h c))"
  unfolding CreateConversation_def
proof (rule keeps_inserted_row)
  fix i t d a d'
  assume step: "(let c = \<lparr>c_id = i, c_listing_id = j, c_owner_id = ow, c_enquirer_id = en,
      c_opened_by = me, c_closed_at = None, c_closed_by = None, c_owner_read_at = None,
      c_enquirer_read_at = None, c_created_at = t, c_updated_at = t, c_address_shared_at = None\<rparr>
     in if \<not> conversations_check c then (Inl check_violation, d)
        else if list_ex (conversations_clash c) (conversations d) then (Inl unique_violation, d)
        else if find_listing d j = None \<or> \<not> user_exists d ow \<or> \<not> user_exists d en
        then (Inl foreign_key_violation, d)
        else (Inr c, d\<lparr>conversations := conversations d @ [c]\<rparr>)) = (Inr a, d')" and "P d'"
  then show "keeps (db_inv P) (case Inr a of Inl e \<Rightarrow> g e | Inr c \<Rightarrow> h c)"
    by (auto simp: Let_def split: if_splits intro!: assms(3) [OF \<open>P d'\<close>])
qed (use assms(1) [unfolded CreateConversation_def] assms(2) in simp_all)

lemma keeps_reopened:
  assumes "keeps (db_inv P) (ReopenConversation i me)" and "\<And>e. keeps (db_inv P) (g e)"
    and "\<And>c. c_id c = i \<Longrightarrow> keeps (db_inv P) (h c)"
  shows "keeps (db_inv P) (State_Monad.bind (ReopenConversation i me)
    (\<lambda>r. case r of Inl e \<Rightarrow> g e | Inr c \<Rightarrow> h c))"
  unfolding ReopenConversation_def
proof (rule keeps_updated_row)
  fix t d a d'
  assume "on_conversations (update_returning
       (\<lambda>c. c_id c = i \<and> c_closed_by c = Some me \<and> c_owner_id c = me)
       (\<lambda>c. c\<lparr>c_closed_at := None, c_closed_by := None, c_updated_at := t\<rparr>)
       conversation_violation) d = (Inr a, d')"
  then have "c_id a = i"
    by (auto simp: on_conversations_def elim!: update_returning_cases split: prod.splits)
  then show "keeps (db_inv P) (case Inr a of Inl e \<Rightarrow> g e | Inr c \<Rightarrow> h c)" by (simp add: assms(3))
qed (use assms(1) [unfolded ReopenConversation_def] assms(2) in simp_all)

section \<open>The interface\<close>

text \<open>
  \<open>P\<close> is the property, \<open>caller\<close> the accounts whose requests it has to survive, \<open>shares\<close> the
  conversations in which they may share an address, \<open>moderates\<close> whether it survives an admin's acts. Every law says that one write keeps \<open>P\<close>, given what its handler has read: of a listing
  or a request, that it is the caller's own; of a conversation, that the caller takes part in it. A status only changes to one the handlers allow from the one read (\<open>moves\<close>). What
  was read held in a database that satisfied \<open>P\<close>, not necessarily in the one written to.
\<close>

definition moves :: "string \<Rightarrow> string \<Rightarrow> bool" where
  "moves s s' \<longleftrightarrow> s' \<in> set (allowedTransitions s) \<or> (s \<noteq> ''archived'' \<and> s' = ''archived'')"

lemma moves_intros: "\<not> s' \<notin> set (allowedTransitions s) \<Longrightarrow> moves s s'"
  "s \<noteq> ''archived'' \<Longrightarrow> moves s ''archived''"
  by (simp_all add: moves_def)

text \<open>The requests that moderate: those with which an admin changes something.\<close>

fun moderation :: "request \<Rightarrow> bool" where
  "moderation (R_SuspendAdminUser _ _) = True"
| "moderation (R_ReinstateAdminUser _ _) = True"
| "moderation (R_VerifyAdminUser _ _) = True"
| "moderation (R_SetAdminUserRole _ _) = True"
| "moderation (R_RemoveAdminListing _ _) = True"
| "moderation (R_RestoreAdminListing _ _) = True"
| "moderation (R_RemoveAdminRequest _ _) = True"
| "moderation (R_RestoreAdminRequest _ _) = True"
| "moderation _ = False"

locale preserved =
  fixes P :: "database \<Rightarrow> bool" and caller :: "uuid \<Rightarrow> bool"
    and shares :: "uuid \<Rightarrow> uuid \<Rightarrow> bool" and moderates :: bool
  assumes tokens:
    "keeps (db_inv P) (ConsumeAllEmailVerificationTokensForUser i)"
    "keeps (db_inv P) (ConsumeAllPasswordResetTokensForUser i)"
    "keeps (db_inv P) (ConsumeEmailVerificationToken h)" "keeps (db_inv P) (ConsumePasswordResetToken h)"
    "keeps (db_inv P) (CreateEmailVerificationToken h i until)"
    "keeps (db_inv P) (CreatePasswordResetToken h i until)" "keeps (db_inv P) (CreateRefreshToken h i until agent)"
    "keeps (db_inv P) (RevokeAllRefreshTokensForUser i)" "keeps (db_inv P) (RevokeRefreshToken h)"
  and accounts:
    "keeps (db_inv P) (CreateUser email username hash)" "keeps (db_inv P) (MarkUserVerified i)"
    "keeps (db_inv P) (SetEmailNotifications b i)" "keeps (db_inv P) (UpdateUserPassword i hash)"
  and create_listing: "caller (l_owner_id p) \<Longrightarrow> keeps (db_inv P) (CreateListing_sql p)"
  and edit_listing: "P d \<Longrightarrow> find_listing d j = Some l \<Longrightarrow> caller (l_owner_id l) \<Longrightarrow>
    keeps (db_inv P) (UpdateListing_sql j u)"
  and move_listing: "P d \<Longrightarrow> find_listing d j = Some l \<Longrightarrow> caller (l_owner_id l) \<Longrightarrow>
    moves (l_status l) s \<Longrightarrow> keeps (db_inv P) (SetListingStatus_sql j s)"
  and create_request: "caller (q_poster_id q) \<Longrightarrow> keeps (db_inv P) (CreateRequest_sql q)"
  and edit_request: "P d \<Longrightarrow> find_request d j = Some q \<Longrightarrow> caller (q_poster_id q) \<Longrightarrow>
    keeps (db_inv P) (UpdateRequest_sql j v)"
  and move_request: "P d \<Longrightarrow> find_request d j = Some q \<Longrightarrow> caller (q_poster_id q) \<Longrightarrow>
    moves (q_status q) s \<Longrightarrow> keeps (db_inv P) (SetRequestStatus_sql j s)"
  and open_conversation: "P d \<Longrightarrow> find_listing d j = Some l \<Longrightarrow> caller me \<Longrightarrow>
    me \<in> {l_owner_id l, en} \<Longrightarrow> keeps (db_inv P) (CreateConversation j (l_owner_id l) en me)"
  and write_message: "P d \<Longrightarrow> c \<in> set (conversations d) \<Longrightarrow> caller me \<Longrightarrow> participant me c \<Longrightarrow>
    keeps (db_inv P) (CreateMessage (c_id c) me text)"
  and write_note: "P d \<Longrightarrow> find_listing d j = Some l \<Longrightarrow> caller (l_owner_id l) \<Longrightarrow>
    P d' \<Longrightarrow> c \<in> set (conversations d') \<Longrightarrow> c_listing_id c = j \<Longrightarrow>
    keeps (db_inv P) (CreateMessage (c_id c) (l_owner_id l) text)"
  and close: "caller me \<Longrightarrow> keeps (db_inv P) (CloseConversation_sql me i)"
  and reopen: "caller me \<Longrightarrow> keeps (db_inv P) (ReopenConversation i me)"
  and share: "caller me \<Longrightarrow> shares i me \<Longrightarrow> keeps (db_inv P) (ShareConversationAddress i me)"
  and mark_read: "caller me \<Longrightarrow> keeps (db_inv P) (MarkConversationRead_sql me i)"
  and offer: "P d \<Longrightarrow> find_listing d j = Some l \<Longrightarrow> caller (l_owner_id l) \<Longrightarrow>
    keeps (db_inv P) (CreateOffer_sql r j (l_owner_id l) text)"
  and attach: "keeps (db_inv P) (SetOfferConversation i k)"
  and withdraw: "P d \<Longrightarrow> x \<in> set (offers d) \<Longrightarrow> caller (o_owner_id x) \<Longrightarrow>
    keeps (db_inv P) (WithdrawOffer_sql (o_id x))"
  and moderation:
    "moderates \<Longrightarrow> keeps (db_inv P) (SetUserRole role i)"
    "moderates \<Longrightarrow> keeps (db_inv P) (SuspendUser actor why i)"
    "moderates \<Longrightarrow> keeps (db_inv P) (ReinstateUser i)"
    "moderates \<Longrightarrow> keeps (db_inv P) (VerifyUserAsAdmin i)"
    "moderates \<Longrightarrow> keeps (db_inv P) (RemoveListing i actor reason)"
    "moderates \<Longrightarrow> keeps (db_inv P) (RestoreListing i)"
    "moderates \<Longrightarrow> keeps (db_inv P) (RemoveRequest i actor reason)"
    "moderates \<Longrightarrow> keeps (db_inv P) (RestoreRequest i)"
    "moderates \<Longrightarrow> keeps (db_inv P) (InsertAdminAction actor a ty i text detail)"
begin

lemma keeps_listing_writes:
  assumes who: "\<And>p. ctx_principal ctx = Some p \<Longrightarrow> caller (p_user_id p)"
  shows "keeps (db_inv P) (CreateListing ctx li)" "keeps (db_inv P) (UpdateListing ctx i lu)"
    "keeps (db_inv P) (SetListingStatus ctx i s)" "keeps (db_inv P) (DeleteListing ctx i)"
proof -
  have edit: "keeps (db_inv P) (UpdateListing_sql i u)"
      "moves (l_status l) s \<Longrightarrow> keeps (db_inv P) (SetListingStatus_sql i s)"
    if "P d" "find_listing d i = Some l" "l_id l = i" "ctx_principal ctx = Some p" "l_owner_id l = p_user_id p"
    for d l p u s
    using edit_listing [OF that(1,2)] move_listing [OF that(1,2)] who [OF that(4)] that(3,5) by simp_all
  show "keeps (db_inv P) (CreateListing ctx li)"
    unfolding CreateListing_def
    by (intro keeps_intros create_listing) (simp add: create_listing_params_def who)
  show "keeps (db_inv P) (UpdateListing ctx i lu)"
    unfolding UpdateListing_def
    by (rule keeps_own_listing; (simp only: sum.case | rule keeps_intros | (rule edit; (assumption | rule moves_intros; assumption)))+)
  show "keeps (db_inv P) (SetListingStatus ctx i s)"
    unfolding SetListingStatus_def
    by (rule keeps_own_listing; (simp only: sum.case | rule keeps_intros | (rule edit; (assumption | rule moves_intros; assumption)))+)
  show "keeps (db_inv P) (DeleteListing ctx i)"
    unfolding DeleteListing_def
    by (rule keeps_own_listing; (simp only: sum.case | rule keeps_intros | (rule edit; (assumption | rule moves_intros; assumption)))+)
qed

lemma keeps_request_writes:
  assumes who: "\<And>p. ctx_principal ctx = Some p \<Longrightarrow> caller (p_user_id p)"
  shows "keeps (db_inv P) (CreateRequest ctx ri)" "keeps (db_inv P) (UpdateRequest ctx i ru)"
    "keeps (db_inv P) (SetRequestStatus ctx i s)" "keeps (db_inv P) (DeleteRequest ctx i)"
proof -
  have edit: "keeps (db_inv P) (UpdateRequest_sql i u)"
      "moves (q_status q) s \<Longrightarrow> keeps (db_inv P) (SetRequestStatus_sql i s)"
    if "P d" "find_request d i = Some q" "q_id q = i" "ctx_principal ctx = Some p" "q_poster_id q = p_user_id p"
    for d q p u s
    using edit_request [OF that(1,2)] move_request [OF that(1,2)] who [OF that(4)] that(3,5) by simp_all
  show "keeps (db_inv P) (CreateRequest ctx ri)"
    unfolding CreateRequest_def
    by (intro keeps_intros create_request) (simp add: create_request_params_def who)
  show "keeps (db_inv P) (UpdateRequest ctx i ru)"
    unfolding UpdateRequest_def
    by (rule keeps_own_request; (simp only: sum.case | rule keeps_intros | (rule edit; (assumption | rule moves_intros; assumption)))+)
  show "keeps (db_inv P) (SetRequestStatus ctx i s)"
    unfolding SetRequestStatus_def
    by (rule keeps_own_request; (simp only: sum.case | rule keeps_intros | (rule edit; (assumption | rule moves_intros; assumption)))+)
  show "keeps (db_inv P) (DeleteRequest ctx i)"
    unfolding DeleteRequest_def
    by (rule keeps_own_request; (simp only: sum.case | rule keeps_intros | (rule edit; (assumption | rule moves_intros; assumption)))+)
qed

lemma keeps_conversation_writes:
  assumes who: "\<And>p. ctx_principal ctx = Some p \<Longrightarrow> caller (p_user_id p)"
  shows "keeps (db_inv P) (StartConversation env ctx i b)" "keeps (db_inv P) (MarkConversationRead ctx i)"
    "keeps (db_inv P) (CloseConversation ctx i)" "keeps (db_inv P) (SendMessage env ctx i b)"
    "(\<And>p. ctx_principal ctx = Some p \<Longrightarrow> shares i (p_user_id p)) \<Longrightarrow>
      keeps (db_inv P) (ShareAddress env ctx i)"
proof -
  have opened: "keeps (db_inv P) (open_conversation (l_id l) (l_owner_id l) me body)"
    if "P d" "find_listing d (l_id l) = Some l" "caller me" for d l me body
    unfolding open_conversation_def
    by (rule keeps_new_conversation | rule keeps_intros | rule open_conversation [OF that]
        | (rule write_message, assumption, assumption, rule that(3), simp add: participant_def)
        | simp add: participant_def)+
  show "keeps (db_inv P) (StartConversation env ctx i b)"
    unfolding StartConversation_def Let_def
    by (rule keeps_reads keeps_intros | rule opened; auto simp: who)+
  show "keeps (db_inv P) (MarkConversationRead ctx i)"
    unfolding MarkConversationRead_def by (intro keeps_intros mark_read who)
  show "keeps (db_inv P) (CloseConversation ctx i)"
    unfolding CloseConversation_def Let_def by (intro keeps_intros close who)
  show "keeps (db_inv P) (SendMessage env ctx i b)"
    unfolding SendMessage_def Let_def
    by (rule keeps_reads keeps_intros | (drule write_message, assumption, rule who, assumption, assumption, simp))+
  show "keeps (db_inv P) (ShareAddress env ctx i)"
    if "\<And>p. ctx_principal ctx = Some p \<Longrightarrow> shares i (p_user_id p)"
    unfolding ShareAddress_def by (intro keeps_intros share who that)
qed

text \<open>
  An offer's conversation is about the offered listing: the one found, the one found and reopened, or
  a new one. The note is written into it by the listing's owner.
\<close>

lemma keeps_offer_conversation:
  assumes own: "P d" "find_listing d (l_id l) = Some l" "caller (l_owner_id l)"
    and "\<And>e. keeps (db_inv P) (k (Inl e))" and "\<And>r. keeps (db_inv P) (k (Inr (Refused r)))"
    and place: "\<And>c n. (\<And>body. keeps (db_inv P) (CreateMessage (c_id c) (l_owner_id l) body)) \<Longrightarrow>
      keeps (db_inv P) (k (Inr (In c n)))"
  shows "keeps (db_inv P) (State_Monad.bind (offer_conversation env req l) k)"
proof -
  have found: "keeps (db_inv P) (k (Inr (In c n)))"
    if "P d'" "c' \<in> set (conversations d')" "c_listing_id c' = l_id l" "c_id c = c_id c'" for d' c c' n
    using write_note [OF own that(1,2,3)] that(4) by (intro place) simp
  let ?reopen = "\<lambda>c. State_Monad.bind (ReopenConversation (c_id c) (l_owner_id l))
    (\<lambda>r. case r of Inl e \<Rightarrow> k (Inl e) | Inr c \<Rightarrow> k (Inr (In c False)))"
  let ?create = "State_Monad.bind
    (CreateConversation (l_id l) (l_owner_id l) (q_poster_id req) (l_owner_id l))
    (\<lambda>r. case r of Inl e \<Rightarrow> k (Inl e) | Inr c \<Rightarrow> k (Inr (In c True)))"
  let ?said = "\<lambda>c. errorBodyWithDetails CodeConflict
    ''That student has closed the conversation about this listing.''
    [(''conversation_id'', uuid_string env (c_id c))]"
  have "State_Monad.bind (offer_conversation env req l) k =
    State_Monad.bind (GetConversationByListingAndEnquirer (l_id l) (q_poster_id req))
      (\<lambda>r. case r of
         Inl e \<Rightarrow> if errors_is e ErrNoRows then ?create else k (Inl e)
       | Inr c \<Rightarrow>
           if c_closed_at c = None then k (Inr (In c False))
           else if c_closed_by c \<noteq> Some (l_owner_id l) then k (Inr (Refused (?said c)))
           else ?reopen c)"
    unfolding offer_conversation_def bind_assoc
    by (intro arg_cong2 [where f = State_Monad.bind] refl ext)
      (auto simp: State_Monad.bind_def State_Monad.return_def split: sum.split prod.split)
  also have "keeps (db_inv P) \<dots>"
  proof (rule keeps_read_pair)
    fix e
    show "keeps (db_inv P) (if errors_is e ErrNoRows then ?create else k (Inl e))"
      by (intro keeps_if keeps_new_conversation open_conversation [OF own(1,2)] assms(4))
        (auto intro: own(3) found)
  next
    fix d' c
    assume c: "P d'" "c \<in> set (conversations d')" "c_listing_id c = l_id l"
    show "keeps (db_inv P) (if c_closed_at c = None then k (Inr (In c False))
        else if c_closed_by c \<noteq> Some (l_owner_id l) then k (Inr (Refused (?said c))) else ?reopen c)"
      by (intro keeps_if keeps_reopened reopen own(3) assms(4,5)) (auto intro: found [OF c])
  qed
  finally show ?thesis .
qed

lemma keeps_makeOffer:
  assumes own: "P d" "find_listing d (l_id l) = Some l" "caller (l_owner_id l)"
  shows "keeps (db_inv P) (makeOffer env req l body)"
  unfolding makeOffer_def write_offer_def Let_def
  by (rule keeps_offer_conversation [OF own]
      | (assumption | simp only: sum.case offer_place.case)
      | rule keeps_intros offer [OF own] attach)+

lemma keeps_offer_writes:
  assumes who: "\<And>p. ctx_principal ctx = Some p \<Longrightarrow> caller (p_user_id p)"
  shows "keeps (db_inv P) (CreateOffer env ctx i b)" "keeps (db_inv P) (WithdrawOffer ctx i)"
proof -
  have attempt: "keeps (db_inv P) (attempt_offer env req l body)"
    if "P d" "find_listing d (l_id l) = Some l" "caller (l_owner_id l)" for d req l body
    unfolding attempt_offer_def by (intro keeps_intros keeps_makeOffer [OF that])
  have finish: "keeps (db_inv P) (finish_offer env l me a)" for l me a
    unfolding finish_offer_def by (intro keeps_intros)
  show "keeps (db_inv P) (CreateOffer env ctx i b)"
    unfolding CreateOffer_def Let_def
    by (rule keeps_read_listing | rule keeps_intros finish | (rule attempt; auto simp: who))+
  show "keeps (db_inv P) (WithdrawOffer ctx i)"
    unfolding WithdrawOffer_def
    by (rule keeps_reads | rule keeps_intros | (rule withdraw, assumption, assumption, simp add: who))+
qed

lemma keeps_account_writes:
  "keeps (db_inv P) (Register env rb)" "keeps (db_inv P) (VerifyEmail env tb)"
  "keeps (db_inv P) (ResendVerification env tb)" "keeps (db_inv P) (Login env ctx cb)"
  "keeps (db_inv P) (RefreshSession env ctx)" "keeps (db_inv P) (Logout env ctx)"
  "keeps (db_inv P) (RequestPasswordReset env tb)" "keeps (db_inv P) (ConfirmPasswordReset env pb)"
  "keeps (db_inv P) (UpdateMyPreferences ctx ub)"
  unfolding auth_handler_defs by (intro keeps_intros tokens accounts)+

lemma keeps_audited: "moderates \<Longrightarrow> keeps (db_inv P) change \<Longrightarrow> keeps (db_inv P) (Audited a change)"
  unfolding Audited_def by (intro keeps_intros moderation)

lemma keeps_post_ops:
  assumes "moderates" and "opsFor subject = Inr ops"
  shows "keeps (db_inv P) (po_get ops i)" "keeps (db_inv P) (po_remove ops i actor reason)"
    "keeps (db_inv P) (po_restore ops i)"
  using assms(2)
  by (auto simp: opsFor_def listingOps_def requestOps_def split: if_splits
    intro!: keeps_intros moderation [OF assms(1)])

lemma keeps_moderation:
  assumes "moderates"
  shows "keeps (db_inv P) (Suspend actor i reason)" "keeps (db_inv P) (Reinstate actor i reason)"
    "keeps (db_inv P) (VerifyByHand actor i reason)" "keeps (db_inv P) (ChangeRole actor' i role reason)"
    "keeps (db_inv P) (RemovePost actor subject i reason)"
    "keeps (db_inv P) (RestorePost actor subject i reason)"
  unfolding Suspend_def Reinstate_def VerifyByHand_def ChangeRole_def RemovePost_def RestorePost_def
    remove_change_def restore_change_def Let_def
  by (intro keeps_intros keeps_audited [OF assms] moderation [OF assms] tokens
    keeps_post_ops [OF assms] | assumption)+

lemma keeps_admin_writes:
  assumes "requireAdmin ctx = None \<or> moderates"
  shows "keeps (db_inv P) (SuspendAdminUser ctx i why)" "keeps (db_inv P) (ReinstateAdminUser ctx i why)"
    "keeps (db_inv P) (VerifyAdminUser ctx i why)" "keeps (db_inv P) (SetAdminUserRole ctx i role)"
    "keeps (db_inv P) (RemoveAdminListing ctx i why)" "keeps (db_inv P) (RestoreAdminListing ctx i why)"
    "keeps (db_inv P) (RemoveAdminRequest ctx i why)" "keeps (db_inv P) (RestoreAdminRequest ctx i why)"
  unfolding admin_write_defs
  by (rule keeps_as_admin, intro keeps_intros keeps_moderation; use assms in simp)+

lemma keeps_serve_others:
  assumes "\<And>p. ctx_principal ctx = Some p \<Longrightarrow> caller (p_user_id p)"
    and "\<And>p i. ctx_principal ctx = Some p \<Longrightarrow> r = R_ShareAddress i \<Longrightarrow> shares i (p_user_id p)"
    and "\<not> moderation r"
  shows "keeps (db_inv P) (serve env ctx r)"
proof -
  have sharing: "keeps (db_inv P) (ShareAddress env ctx i)" if "r = R_ShareAddress i" for i
    by (rule keeps_conversation_writes(5)) (use assms(1,2) that in auto)
  show ?thesis
  proof (cases r)
    case (R_ShareAddress i)
    then show ?thesis by (simp only: serve.simps keeps_discard sharing)
  qed (use assms(3) in \<open>simp_all only: serve.simps keeps_discard keeps_readers keeps_account_writes
      keeps_listing_writes [OF assms(1)] keeps_request_writes [OF assms(1)]
      keeps_conversation_writes(1-4) [OF assms(1)] keeps_offer_writes [OF assms(1)] moderation.simps
      not_True_eq_False\<close>)
qed

lemma keeps_serve:
  assumes "\<And>p. ctx_principal ctx = Some p \<Longrightarrow> caller (p_user_id p)"
    and "\<And>p i. ctx_principal ctx = Some p \<Longrightarrow> r = R_ShareAddress i \<Longrightarrow> shares i (p_user_id p)"
    and "requireAdmin ctx = None \<or> moderates"
  shows "keeps (db_inv P) (serve env ctx r)"
proof (cases "moderation r")
  case True
  then show ?thesis
    by (cases r) (simp_all only: serve.simps keeps_discard keeps_admin_writes [OF assms(3)] moderation.simps)
qed (rule keeps_serve_others; use assms in simp)

end

section \<open>Histories\<close>

lemma db_inv_step:
  assumes "history env admits P w w'" and "db_inv P w"
    and "\<And>ctx r. admits ctx r \<Longrightarrow> keeps (db_inv P) (serve env ctx r)"
  shows "db_inv P w'"
  using assms(1)
proof cases
  case (request ctx r)
  then show ?thesis using keeps_run [OF assms(3) assms(2)] by simp
next
  case (disturbed es)
  then show ?thesis using assms(2) by (auto simp: db_inv_def)
qed (use assms(2) in \<open>simp_all add: db_inv_def\<close>)

lemma db_inv_history:
  assumes "(history env admits P)\<^sup>*\<^sup>* w w'" and "db_inv P w"
    and "\<And>ctx r. admits ctx r \<Longrightarrow> keeps (db_inv P) (serve env ctx r)"
  shows "db_inv P w'"
  using assms(1) by (induction rule: rtranclp_induct) (auto intro: assms(2) db_inv_step [OF _ _ assms(3)])

lemma one_request:
  "admits ctx r \<Longrightarrow> (history env admits rely)\<^sup>*\<^sup>* w (snd (run_state (serve env ctx r) w))"
  by (blast intro: history.request)

lemma sample_db_inv: "P sample_db \<Longrightarrow> db_inv P sample_world"
  by (simp add: db_inv_def sample_world_def)

end
