(* ===== verification/AppendOnly.thy ===== *)
theory AppendOnly
  imports Preserve "HOL-Library.Sublist"
begin

text \<open>
  What the service never takes back: no row disappears, no message and no ledger entry changes, the
  facts a row was created with stay, and the stamps that are set once keep their time -
  \<open>published_at\<close> (\<open>listings.sql.go\<close>: "set the first time a listing goes live and never moved"),
  \<open>address_shared_at\<close> (\<open>conversations.sql.go\<close>: "Set once") and \<open>withdrawn_at\<close>.
\<close>

section \<open>Tables that only grow\<close>

text \<open>Every row is still there, in its place, as a row that stands in the relation to what it was.\<close>

definition grown :: "('r \<Rightarrow> 'r \<Rightarrow> bool) \<Rightarrow> 'r list \<Rightarrow> 'r list \<Rightarrow> bool" where
  "grown R xs ys \<longleftrightarrow> length xs \<le> length ys \<and> list_all2 R xs (take (length xs) ys)"

lemma grown_refl: "(\<And>x. R x x) \<Longrightarrow> grown R xs xs"
  by (simp add: grown_def list_all2_same)

lemma grown_append: "grown R xs ys \<Longrightarrow> grown R xs (ys @ zs)"
  by (simp add: grown_def)

lemma grown_update:
  assumes "grown R xs ys" and "\<And>x y. R x y \<Longrightarrow> Q y \<Longrightarrow> R x (f y)"
  shows "grown R xs (update_where Q f ys)"
  using assms
  by (auto simp: grown_def update_where_def take_map list_all2_conv_all_nth)

lemma grown_update_returning:
  assumes "grown R xs ys" and "\<And>x y. R x y \<Longrightarrow> Q y \<Longrightarrow> R x (f y)"
  shows "grown R xs (snd (update_returning Q f check ys))"
  using grown_update [OF assms] assms(1) by (simp add: update_returning_def split: option.split)

text \<open>The time a stamp bears once it is set.\<close>

definition stamp_kept :: "'t option \<Rightarrow> 't option \<Rightarrow> bool" where
  "stamp_kept a b \<longleftrightarrow> a = None \<or> a = b"

lemma stamp_kept_refl [simp]: "stamp_kept a a"
  by (simp add: stamp_kept_def)

lemma stamp_kept_first: "stamp_kept a b \<Longrightarrow> stamp_kept a (first_published s t b)"
  by (auto simp: stamp_kept_def first_published_def)

lemma stamp_kept_None [simp]: "stamp_kept a None \<longleftrightarrow> a = None" "stamp_kept None b"
  by (auto simp: stamp_kept_def)

section \<open>What each kind of row keeps\<close>

definition user_kept :: "user \<Rightarrow> user \<Rightarrow> bool" where
  "user_kept u u' \<longleftrightarrow> u_id u' = u_id u \<and> u_email u' = u_email u \<and> u_username u' = u_username u \<and>
     u_created_at u' = u_created_at u"

definition listing_kept :: "listing \<Rightarrow> listing \<Rightarrow> bool" where
  "listing_kept l l' \<longleftrightarrow> l_id l' = l_id l \<and> l_owner_id l' = l_owner_id l \<and>
     l_created_at l' = l_created_at l \<and> stamp_kept (l_published_at l) (l_published_at l')"

definition request_kept :: "housing_request \<Rightarrow> housing_request \<Rightarrow> bool" where
  "request_kept q q' \<longleftrightarrow> q_id q' = q_id q \<and> q_poster_id q' = q_poster_id q \<and>
     q_created_at q' = q_created_at q \<and> stamp_kept (q_published_at q) (q_published_at q')"

definition conversation_kept :: "conversation \<Rightarrow> conversation \<Rightarrow> bool" where
  "conversation_kept c c' \<longleftrightarrow> c_id c' = c_id c \<and> c_listing_id c' = c_listing_id c \<and>
     c_owner_id c' = c_owner_id c \<and> c_enquirer_id c' = c_enquirer_id c \<and>
     c_opened_by c' = c_opened_by c \<and> c_created_at c' = c_created_at c \<and>
     stamp_kept (c_address_shared_at c) (c_address_shared_at c')"

definition offer_kept :: "request_offer \<Rightarrow> request_offer \<Rightarrow> bool" where
  "offer_kept x x' \<longleftrightarrow> o_id x' = o_id x \<and> o_request_id x' = o_request_id x \<and>
     o_listing_id x' = o_listing_id x \<and> o_owner_id x' = o_owner_id x \<and> o_note x' = o_note x \<and>
     o_created_at x' = o_created_at x \<and> stamp_kept (o_withdrawn_at x) (o_withdrawn_at x')"

lemmas kept_defs = user_kept_def listing_kept_def request_kept_def conversation_kept_def offer_kept_def

text \<open>From the database \<open>d0\<close> on, nothing but the login tokens is forgotten.\<close>

definition nothing_lost :: "database \<Rightarrow> database \<Rightarrow> bool" where
  "nothing_lost d0 d \<longleftrightarrow>
     grown user_kept (users d0) (users d) \<and> grown listing_kept (listings d0) (listings d) \<and>
     grown request_kept (requests d0) (requests d) \<and>
     grown conversation_kept (conversations d0) (conversations d) \<and>
     grown offer_kept (offers d0) (offers d) \<and>
     prefix (messages d0) (messages d) \<and> prefix (admin_actions d0) (admin_actions d)"

lemma nothing_lost_refl: "nothing_lost d d"
  by (simp add: nothing_lost_def grown_refl kept_defs)

section \<open>Every statement\<close>

text \<open>A write to one table is judged by that table alone.\<close>

lemma lost_frame:
  assumes "nothing_lost d0 d"
  shows "nothing_lost d0 (d\<lparr>users := us\<rparr>) = grown user_kept (users d0) us"
    "nothing_lost d0 (d\<lparr>listings := ls\<rparr>) = grown listing_kept (listings d0) ls"
    "nothing_lost d0 (d\<lparr>requests := qs\<rparr>) = grown request_kept (requests d0) qs"
    "nothing_lost d0 (d\<lparr>conversations := cs\<rparr>) = grown conversation_kept (conversations d0) cs"
    "nothing_lost d0 (d\<lparr>offers := xs\<rparr>) = grown offer_kept (offers d0) xs"
    "nothing_lost d0 (d\<lparr>messages := ms\<rparr>) = prefix (messages d0) ms"
    "nothing_lost d0 (d\<lparr>admin_actions := as\<rparr>) = prefix (admin_actions d0) as"
  using assms by (simp_all add: nothing_lost_def)

lemma lost_tables:
  assumes "nothing_lost d0 d"
  shows "grown user_kept (users d0) (users d)" "grown listing_kept (listings d0) (listings d)"
    "grown request_kept (requests d0) (requests d)"
    "grown conversation_kept (conversations d0) (conversations d)"
    "grown offer_kept (offers d0) (offers d)"
    "prefix (messages d0) (messages d)" "prefix (admin_actions d0) (admin_actions d)"
  using assms by (simp_all add: nothing_lost_def)

lemma lost_update_user:
  assumes "nothing_lost d0 d"
    and "\<And>u. u_id (f u) = u_id u" "\<And>u. u_email (f u) = u_email u"
    "\<And>u. u_username (f u) = u_username u" "\<And>u. u_created_at (f u) = u_created_at u"
  shows "nothing_lost d0 (snd (update_user Q f i t d))"
  using assms(1) lost_tables(1) [OF assms(1)]
  by (simp add: update_user_def Let_def lost_frame split: option.split)
    (intro allI impI grown_update, assumption, simp add: user_kept_def assms(2-5))

lemma lost_accounts:
  "keeps (db_inv (nothing_lost d0)) (CreateUser email username hash)"
  "keeps (db_inv (nothing_lost d0)) (MarkUserVerified i)"
  "keeps (db_inv (nothing_lost d0)) (SetEmailNotifications b i)"
  "keeps (db_inv (nothing_lost d0)) (UpdateUserPassword i hash)"
  "keeps (db_inv (nothing_lost d0)) (SetUserRole role i)"
  "keeps (db_inv (nothing_lost d0)) (SuspendUser actor why i)"
  "keeps (db_inv (nothing_lost d0)) (ReinstateUser i)"
  "keeps (db_inv (nothing_lost d0)) (VerifyUserAsAdmin i)"
proof -
  show "keeps (db_inv (nothing_lost d0)) (UpdateUserPassword i hash)"
    unfolding UpdateUserPassword_def
    by (rule db_inv_exec) (auto simp: lost_frame user_kept_def intro!: grown_update dest: lost_tables)
qed (unfold account_query_defs admin_query_defs, (rule db_inv_exec db_inv_insert_row;
      simp add: lost_frame lost_tables Let_def grown_append lost_update_user split: option.split)+)

lemma lost_posts:
  "keeps (db_inv (nothing_lost d0)) (CreateListing_sql p)"
  "keeps (db_inv (nothing_lost d0)) (UpdateListing_sql i u)"
  "keeps (db_inv (nothing_lost d0)) (SetListingStatus_sql i s)"
  "keeps (db_inv (nothing_lost d0)) (RemoveListing i actor reason)"
  "keeps (db_inv (nothing_lost d0)) (RestoreListing i)"
  "keeps (db_inv (nothing_lost d0)) (CreateRequest_sql q)"
  "keeps (db_inv (nothing_lost d0)) (UpdateRequest_sql i v)"
  "keeps (db_inv (nothing_lost d0)) (SetRequestStatus_sql i s)"
  "keeps (db_inv (nothing_lost d0)) (RemoveRequest i actor reason)"
  "keeps (db_inv (nothing_lost d0)) (RestoreRequest i)"
  unfolding post_query_defs
  by (rule db_inv_exec db_inv_insert_row;
      auto simp: lost_frame lost_tables Let_def grown_append listing_kept_def request_kept_def
        set_listing_def set_request_def stamp_kept_first intro!: grown_update_returning split: option.split)+

lemma lost_conversations:
  "keeps (db_inv (nothing_lost d0)) (CreateConversation l ow en op)"
  "keeps (db_inv (nothing_lost d0)) (CreateMessage c u body)"
  "keeps (db_inv (nothing_lost d0)) (CloseConversation_sql u i)"
  "keeps (db_inv (nothing_lost d0)) (ReopenConversation i u)"
  "keeps (db_inv (nothing_lost d0)) (ShareConversationAddress i u)"
  "keeps (db_inv (nothing_lost d0)) (MarkConversationRead_sql u i)"
  unfolding conversation_query_defs
  by (rule db_inv_exec db_inv_insert_row;
      auto simp: lost_frame lost_tables Let_def grown_append prefix_append conversation_kept_def
        may_share_def intro!: grown_update grown_update_returning)+

lemma lost_offers:
  "keeps (db_inv (nothing_lost d0)) (CreateOffer_sql q l u note)"
  "keeps (db_inv (nothing_lost d0)) (WithdrawOffer_sql i)"
  "keeps (db_inv (nothing_lost d0)) (SetOfferConversation c i)"
  unfolding offer_query_defs
  by (rule db_inv_exec db_inv_insert_row;
      auto simp: lost_frame lost_tables Let_def grown_append offer_kept_def
        intro!: grown_update_returning)+

lemma lost_ledger:
  "keeps (db_inv (nothing_lost d0)) (InsertAdminAction actor a ty i why detail)"
  unfolding admin_query_defs
  by (rule db_inv_insert_row)
    (simp add: lost_frame lost_tables Let_def prefix_append split: option.split)

interpretation lost: preserved "nothing_lost d0" "\<lambda>_. True" "\<lambda>_ _. True" True for d0
proof unfold_locales
qed (simp_all add: lost_accounts lost_posts lost_conversations lost_offers lost_ledger
  frame_tokens nothing_lost_def)

text \<open>C12: Whatever requests the service handles, with whatever faults, and with
  concurrent commits that do so too, no account, listing, request, conversation or offer disappears or
  changes the facts it was created with, no message and no entry of the admin ledger disappears or
  changes, and a publication, a shared address and a withdrawal keep the time they were first made.\<close>

theorem nothing_is_lost:
  assumes "(history env anything (nothing_lost (db w)))\<^sup>*\<^sup>* w w'" and "quiet w"
  shows "nothing_lost (db w) (db w')"
proof -
  have "db_inv (nothing_lost (db w)) w" using assms(2) by (simp add: db_inv_def nothing_lost_refl)
  then show ?thesis using db_inv_history [OF assms(1) _ lost.keeps_serve] by (simp add: db_inv_def)
qed

lemma nothing_is_lost_witness:
  "nothing_lost (db sample_world) (db (snd (run_state (CloseConversation student_ctx 30) sample_world)))"
proof -
  have "(history sample_env anything (nothing_lost (db sample_world)))\<^sup>*\<^sup>* sample_world
      (snd (run_state (serve sample_env student_ctx (R_CloseConversation 30)) sample_world))"
    by (rule one_request) simp
  from nothing_is_lost [OF this sample_quiet] show ?thesis by simp
qed

end
