(* ===== verification/Integrity.thy ===== *)
theory Integrity
  imports Preserve
begin

text \<open>
  The integrity of everything but the account tables: every row meets its table's constraints, no two
  rows clash, and every reference leads to a row. Each statement keeps it, hence every handler does,
  whatever faults and concurrent commits it meets.
\<close>

section \<open>Tables\<close>

definition table_ok :: "('r \<Rightarrow> error option) \<Rightarrow> ('r \<Rightarrow> 'r \<Rightarrow> bool) \<Rightarrow> 'r list \<Rightarrow> bool" where
  "table_ok violation clash rows \<longleftrightarrow>
     list_all (\<lambda>r. violation r = None) rows \<and> sorted_wrt (\<lambda>x y. \<not> clash y x) rows"

text \<open>
  A table with a row check and uniqueness constraints, which compare the identifying columns
  \<open>ident\<close> of two rows; two rows with one key clash.
\<close>

locale table =
  fixes violation :: "'r \<Rightarrow> error option" and clash :: "'r \<Rightarrow> 'r \<Rightarrow> bool"
    and ident :: "'r \<Rightarrow> 'i" and key :: "'r \<Rightarrow> uuid"
  assumes clash_ident: "ident x = ident x' \<Longrightarrow> ident y = ident y' \<Longrightarrow> clash x y = clash x' y'"
    and clash_key: "key x = key y \<Longrightarrow> clash x y"
begin

lemma ok_Nil: "table_ok violation clash []"
  by (simp add: table_ok_def)

lemma ok_append:
  "table_ok violation clash rows \<Longrightarrow> violation r = None \<Longrightarrow> \<not> list_ex (clash r) rows \<Longrightarrow>
   table_ok violation clash (rows @ [r])"
  by (auto simp: table_ok_def sorted_wrt_append list_ex_iff)

lemma ok_update:
  assumes "table_ok violation clash rows"
    and "\<And>r. r \<in> set rows \<Longrightarrow> P r \<Longrightarrow> violation (f r) = None"
    and "\<And>r. P r \<Longrightarrow> ident (f r) = ident r"
  shows "table_ok violation clash (update_where P f rows)"
proof -
  have "sorted_wrt (\<lambda>x y. \<not> clash y x) (map (\<lambda>r. if P r then f r else r) rows)"
    using assms(1) unfolding table_ok_def sorted_wrt_map
    by (elim conjE, elim sorted_wrt_mono_rel [rotated])
      (use clash_ident assms(3) in \<open>metis (full_types)\<close>)
  then show ?thesis
    using assms(1,2) by (auto simp: table_ok_def list_all_iff update_where_def)
qed

lemma ok_unique:
  assumes "table_ok violation clash rows" and "x \<in> set rows" and "y \<in> set rows" and "key x = key y"
  shows "x = y"
proof -
  from assms(2,3) obtain i j where ij: "i < length rows" "rows ! i = x" "j < length rows" "rows ! j = y"
    by (auto simp: in_set_conv_nth)
  have "clash x y" "clash y x" using assms(4) by (auto intro: clash_key)
  with ij assms(1) show ?thesis
    by (cases i j rule: linorder_cases) (auto simp: table_ok_def sorted_wrt_iff_nth_less)
qed

lemma ok_find:
  "table_ok violation clash rows \<Longrightarrow> x \<in> set rows \<Longrightarrow> List.find (\<lambda>r. key r = key x) rows = Some x"
  by (rule find_unique) (auto dest: ok_unique)

lemma ok_update_returning:
  assumes "table_ok violation clash rows"
    and "\<And>r. P r \<Longrightarrow> key r = k"
    and "\<And>r. ident (f r) = ident r"
    and "\<And>r. check r = None \<Longrightarrow> violation r = None"
  shows "table_ok violation clash (snd (update_returning P f check rows))"
proof (cases "update_returning P f check rows" rule: prod.exhaust)
  case (Pair r rows')
  then show ?thesis
  proof (cases rule: update_returning_cases)
    case (updated x)
    have "violation (f r) = None" if "r \<in> set rows" "P r" for r
      using ok_unique [OF assms(1), of r x] that updated assms(2) [of r] assms(2) [of x] assms(4) [of "f x"]
      by auto
    then show ?thesis using updated Pair assms(1,3) ok_update by simp
  qed (use Pair assms(1) in simp_all)
qed

end

definition listings_clash :: "listing \<Rightarrow> listing \<Rightarrow> bool" where
  "listings_clash x y \<longleftrightarrow> l_id x = l_id y"

definition requests_clash :: "housing_request \<Rightarrow> housing_request \<Rightarrow> bool" where
  "requests_clash x y \<longleftrightarrow> q_id x = q_id y"

definition messages_clash :: "message \<Rightarrow> message \<Rightarrow> bool" where
  "messages_clash x y \<longleftrightarrow> m_id x = m_id y"

definition message_violation :: "message \<Rightarrow> error option" where
  "message_violation m = (if messages_check m then None else Some check_violation)"

definition offer_violation :: "request_offer \<Rightarrow> error option" where
  "offer_violation x = (if offers_check x then None else Some check_violation)"

interpretation listings_t: table listing_violation listings_clash l_id l_id
  by unfold_locales (auto simp: listings_clash_def)

interpretation requests_t: table request_violation requests_clash q_id q_id
  by unfold_locales (auto simp: requests_clash_def)

interpretation conversations_t: table conversation_violation conversations_clash
    "\<lambda>c. (c_id c, c_listing_id c, c_enquirer_id c)" c_id
  by unfold_locales (auto simp: conversations_clash_def)

interpretation messages_t: table message_violation messages_clash m_id m_id
  by unfold_locales (auto simp: messages_clash_def)

interpretation offers_t: table offer_violation offers_clash
    "\<lambda>x. (o_id x, o_request_id x, o_listing_id x)" o_id
  by unfold_locales (auto simp: offers_clash_def)

section \<open>References\<close>

lemma image_update_where:
  "(\<And>x. P x \<Longrightarrow> g (f x) = g x) \<Longrightarrow> g ` set (update_where P f xs) = g ` set xs"
  by (metis list.set_map map_update_where)

definition references :: "database \<Rightarrow> bool" where
  "references d \<longleftrightarrow>
     l_owner_id ` set (listings d) \<subseteq> u_id ` set (users d) \<and>
     q_poster_id ` set (requests d) \<subseteq> u_id ` set (users d) \<and>
     c_listing_id ` set (conversations d) \<subseteq> l_id ` set (listings d) \<and>
     c_owner_id ` set (conversations d) \<subseteq> u_id ` set (users d) \<and>
     c_enquirer_id ` set (conversations d) \<subseteq> u_id ` set (users d) \<and>
     m_conversation_id ` set (messages d) \<subseteq> c_id ` set (conversations d) \<and>
     m_sender_id ` set (messages d) \<subseteq> u_id ` set (users d) \<and>
     o_request_id ` set (offers d) \<subseteq> q_id ` set (requests d) \<and>
     o_listing_id ` set (offers d) \<subseteq> l_id ` set (listings d) \<and>
     o_owner_id ` set (offers d) \<subseteq> u_id ` set (users d) \<and>
     o_conversation_id ` set (offers d) \<subseteq> insert None (Some ` c_id ` set (conversations d))"

definition content_ok :: "database \<Rightarrow> bool" where
  "content_ok d \<longleftrightarrow>
     table_ok listing_violation listings_clash (listings d) \<and>
     table_ok request_violation requests_clash (requests d) \<and>
     table_ok conversation_violation conversations_clash (conversations d) \<and>
     table_ok message_violation messages_clash (messages d) \<and>
     table_ok offer_violation offers_clash (offers d) \<and>
     references d \<and> list_all admin_actions_check (admin_actions d)"

lemma user_exists_iff: "user_exists d i \<longleftrightarrow> i \<in> u_id ` set (users d)"
  by (auto simp: user_exists_def list_ex_iff)

lemma find_listing_None: "find_listing d i = None \<longleftrightarrow> i \<notin> l_id ` set (listings d)"
  by (auto simp: find_listing_def find_None_iff)

lemma find_request_None: "find_request d i = None \<longleftrightarrow> i \<notin> q_id ` set (requests d)"
  by (auto simp: find_request_def find_None_iff)

lemma find_conversation_None: "find_conversation d i = None \<longleftrightarrow> i \<notin> c_id ` set (conversations d)"
  by (auto simp: find_conversation_def find_None_iff)

lemmas existence = user_exists_iff find_listing_None find_request_None find_conversation_None

section \<open>Updates\<close>

lemma image_update_returning:
  "(\<And>x. g (f x) = g x) \<Longrightarrow> g ` set (snd (update_returning P f check xs)) = g ` set xs"
  by (simp add: update_returning_def image_update_where split: option.split)

lemma content_listings:
  assumes "content_ok d" and "\<And>l. P l \<Longrightarrow> l_id l = i"
    and "\<And>l. l_id (f l) = l_id l" and "\<And>l. l_owner_id (f l) = l_owner_id l"
    and "\<And>l. check l = None \<Longrightarrow> listing_violation l = None"
  shows "content_ok (snd (on_listings (update_returning P f check) d))"
  using assms listings_t.ok_update_returning [of "listings d" P i f check]
  by (simp add: content_ok_def references_def image_update_returning)

lemma content_requests:
  assumes "content_ok d" and "\<And>q. P q \<Longrightarrow> q_id q = i"
    and "\<And>q. q_id (f q) = q_id q" and "\<And>q. q_poster_id (f q) = q_poster_id q"
    and "\<And>q. check q = None \<Longrightarrow> request_violation q = None"
  shows "content_ok (snd (on_requests (update_returning P f check) d))"
  using assms requests_t.ok_update_returning [of "requests d" P i f check]
  by (simp add: content_ok_def references_def image_update_returning)

lemma content_conversations:
  assumes "content_ok d" and "\<And>c. P c \<Longrightarrow> c_id c = i"
    and "\<And>c. c_id (f c) = c_id c" and "\<And>c. c_listing_id (f c) = c_listing_id c"
    and "\<And>c. c_owner_id (f c) = c_owner_id c" and "\<And>c. c_enquirer_id (f c) = c_enquirer_id c"
  shows "content_ok (snd (on_conversations (update_returning P f conversation_violation) d))"
  using assms conversations_t.ok_update_returning [of "conversations d" P i f conversation_violation]
  by (simp add: content_ok_def references_def image_update_returning)

lemma content_conversations_all:
  assumes "content_ok d"
    and "\<And>c. c_id (f c) = c_id c" and "\<And>c. c_listing_id (f c) = c_listing_id c"
    and "\<And>c. c_owner_id (f c) = c_owner_id c" and "\<And>c. c_enquirer_id (f c) = c_enquirer_id c"
    and "\<And>c. conversations_check (f c) = conversations_check c"
  shows "content_ok (d\<lparr>conversations := update_where P f (conversations d)\<rparr>)"
proof -
  have "conversation_violation (f c) = None" if "c \<in> set (conversations d)" for c
    using that assms(1,6) by (auto simp: content_ok_def table_ok_def list_all_iff conversation_violation_def)
  then have "table_ok conversation_violation conversations_clash (update_where P f (conversations d))"
    using assms by (intro conversations_t.ok_update) (simp_all add: content_ok_def)
  with assms show ?thesis by (simp add: content_ok_def references_def image_update_where)
qed

lemma content_offers:
  assumes "content_ok d" and "\<And>x. P x \<Longrightarrow> o_id x = i"
    and "\<And>x. o_id (f x) = o_id x" and "\<And>x. o_request_id (f x) = o_request_id x"
    and "\<And>x. o_listing_id (f x) = o_listing_id x" and "\<And>x. o_owner_id (f x) = o_owner_id x"
    and "\<And>x. o_conversation_id (f x) = o_conversation_id x"
    and "\<And>x. check x = None \<Longrightarrow> offers_check x"
  shows "content_ok (snd (on_offers (update_returning P f check) d))"
  using assms offers_t.ok_update_returning [of "offers d" P i f check]
  by (simp add: content_ok_def references_def image_update_returning offer_violation_def)

section \<open>Statements\<close>

lemma content_tokens [simp]:
  "content_ok (d\<lparr>refresh_tokens := a\<rparr>) = content_ok d" "content_ok (d\<lparr>reset_tokens := b\<rparr>) = content_ok d"
  "content_ok (d\<lparr>verification_tokens := b\<rparr>) = content_ok d"
  by (simp_all add: content_ok_def references_def)

lemma content_users:
  "content_ok d \<Longrightarrow> u_id ` set (users d) \<subseteq> u_id ` set us \<Longrightarrow> content_ok (d\<lparr>users := us\<rparr>)"
  unfolding content_ok_def references_def
  by simp (elim conjE, intro conjI; (assumption | erule order.trans, assumption))

lemma content_update_user:
  assumes "content_ok d" and "\<And>u. u_id (f u) = u_id u"
  shows "content_ok (snd (update_user P f i t d))"
  using assms
  by (auto simp: update_user_def Let_def image_update_where intro!: content_users split: option.split)

lemma content_listing_writes [keeps_intros]:
  "keeps (db_inv content_ok) (CreateListing_sql p)"
  "keeps (db_inv content_ok) (UpdateListing_sql i u)"
  "keeps (db_inv content_ok) (SetListingStatus_sql i s)"
  "keeps (db_inv content_ok) (RemoveListing i actor reason)"
  "keeps (db_inv content_ok) (RestoreListing i)"
proof -
  show "keeps (db_inv content_ok) (CreateListing_sql p)"
    unfolding CreateListing_sql_def
    by (rule db_inv_insert_row)
      (auto simp: content_ok_def references_def Let_def existence listings_clash_def list_ex_iff
        split: option.split intro!: listings_t.ok_append)
  show "keeps (db_inv content_ok) (UpdateListing_sql i u)"
    unfolding UpdateListing_sql_def
    by (rule db_inv_exec, rule content_listings) (auto simp: set_listing_def)
  show "keeps (db_inv content_ok) (SetListingStatus_sql i s)"
    unfolding SetListingStatus_sql_def by (rule db_inv_exec, rule content_listings) auto
  show "keeps (db_inv content_ok) (RemoveListing i actor reason)"
    unfolding RemoveListing_def
    by (rule db_inv_exec, rule content_listings) (auto split: option.splits)
  show "keeps (db_inv content_ok) (RestoreListing i)"
    unfolding RestoreListing_def by (rule db_inv_exec, rule content_listings) auto
qed

lemma content_request_writes [keeps_intros]:
  "keeps (db_inv content_ok) (CreateRequest_sql p)"
  "keeps (db_inv content_ok) (UpdateRequest_sql i u)"
  "keeps (db_inv content_ok) (SetRequestStatus_sql i s)"
  "keeps (db_inv content_ok) (RemoveRequest i actor reason)"
  "keeps (db_inv content_ok) (RestoreRequest i)"
proof -
  show "keeps (db_inv content_ok) (CreateRequest_sql p)"
    unfolding CreateRequest_sql_def
    by (rule db_inv_insert_row)
      (auto simp: content_ok_def references_def Let_def existence requests_clash_def list_ex_iff
        split: option.split intro!: requests_t.ok_append)
  show "keeps (db_inv content_ok) (UpdateRequest_sql i u)"
    unfolding UpdateRequest_sql_def
    by (rule db_inv_exec, rule content_requests) (auto simp: set_request_def)
  show "keeps (db_inv content_ok) (SetRequestStatus_sql i s)"
    unfolding SetRequestStatus_sql_def by (rule db_inv_exec, rule content_requests) auto
  show "keeps (db_inv content_ok) (RemoveRequest i actor reason)"
    unfolding RemoveRequest_def
    by (rule db_inv_exec, rule content_requests) (auto split: option.splits)
  show "keeps (db_inv content_ok) (RestoreRequest i)"
    unfolding RestoreRequest_def by (rule db_inv_exec, rule content_requests) auto
qed

lemma content_conversation_writes [keeps_intros]:
  "keeps (db_inv content_ok) (CreateConversation l ow en op)"
  "keeps (db_inv content_ok) (CreateMessage c u body)"
  "keeps (db_inv content_ok) (CloseConversation_sql u i)"
  "keeps (db_inv content_ok) (ReopenConversation i u)"
  "keeps (db_inv content_ok) (ShareConversationAddress i u)"
  "keeps (db_inv content_ok) (MarkConversationRead_sql u i)"
proof -
  show "keeps (db_inv content_ok) (CreateConversation l ow en op)"
    unfolding CreateConversation_def
    by (rule db_inv_insert_row)
      (auto simp: content_ok_def references_def Let_def existence conversation_violation_def
        intro!: conversations_t.ok_append)
  show "keeps (db_inv content_ok) (CreateMessage c u body)"
    unfolding CreateMessage_def
    by (rule db_inv_insert_row)
      (auto simp: content_ok_def references_def Let_def existence message_violation_def messages_clash_def
        list_ex_iff intro!: messages_t.ok_append)
  show "keeps (db_inv content_ok) (CloseConversation_sql u i)"
    unfolding CloseConversation_sql_def by (rule db_inv_exec, rule content_conversations) auto
  show "keeps (db_inv content_ok) (ReopenConversation i u)"
    unfolding ReopenConversation_def by (rule db_inv_exec, rule content_conversations) auto
  show "keeps (db_inv content_ok) (ShareConversationAddress i u)"
    unfolding ShareConversationAddress_def Let_def
    by (rule db_inv_exec, simp only: snd_conv, rule content_conversations_all)
      (auto simp: conversations_check_def)
  show "keeps (db_inv content_ok) (MarkConversationRead_sql u i)"
    unfolding MarkConversationRead_sql_def Let_def
    by (rule db_inv_exec, simp only: snd_conv, rule content_conversations_all)
      (auto simp: conversations_check_def)
qed

lemma content_set_offer:
  assumes "content_ok d" and "find_conversation d conv \<noteq> None"
  shows "content_ok (d\<lparr>offers := update_where P (\<lambda>x. x\<lparr>o_conversation_id := Some conv, o_updated_at := t\<rparr>) (offers d)\<rparr>)"
proof -
  let ?f = "\<lambda>x. x\<lparr>o_conversation_id := Some conv, o_updated_at := t\<rparr>"
  have "table_ok offer_violation offers_clash (update_where P ?f (offers d))"
    using assms(1) by (intro offers_t.ok_update)
      (auto simp: content_ok_def table_ok_def list_all_iff offer_violation_def offers_check_def)
  moreover have "o_conversation_id ` set (update_where P ?f (offers d)) \<subseteq>
      insert (Some conv) (o_conversation_id ` set (offers d))"
    by (auto simp: set_update_where)
  moreover have "conv \<in> c_id ` set (conversations d)" using assms(2) by (simp add: existence)
  moreover have "o_conversation_id ` set (offers d) \<subseteq> insert None (Some ` c_id ` set (conversations d))"
    using assms(1) by (simp add: content_ok_def references_def)
  ultimately have "o_conversation_id ` set (update_where P ?f (offers d)) \<subseteq>
      insert None (Some ` c_id ` set (conversations d))"
    by (elim order.trans) simp
  with \<open>table_ok offer_violation offers_clash (update_where P ?f (offers d))\<close> assms(1) show ?thesis
    by (simp add: content_ok_def references_def image_update_where)
qed

lemma content_offer_writes [keeps_intros]:
  "keeps (db_inv content_ok) (CreateOffer_sql q l u note)"
  "keeps (db_inv content_ok) (WithdrawOffer_sql i)"
  "keeps (db_inv content_ok) (SetOfferConversation c i)"
proof -
  show "keeps (db_inv content_ok) (CreateOffer_sql q l u note)"
    unfolding CreateOffer_sql_def
    by (rule db_inv_insert_row)
      (auto simp: content_ok_def references_def Let_def existence offer_violation_def
        intro!: offers_t.ok_append)
  show "keeps (db_inv content_ok) (WithdrawOffer_sql i)"
    unfolding WithdrawOffer_sql_def
    by (rule db_inv_exec, rule content_offers) (auto split: if_splits simp: offers_check_def)
  show "keeps (db_inv content_ok) (SetOfferConversation c i)"
    unfolding SetOfferConversation_def
    by (rule db_inv_exec)
      (auto simp: update_returning_def content_set_offer split: option.split if_splits)
qed

lemma content_action:
  "content_ok d \<Longrightarrow> admin_actions_check a \<Longrightarrow> content_ok (d\<lparr>admin_actions := admin_actions d @ [a]\<rparr>)"
  by (simp add: content_ok_def references_def)

lemma content_admin_writes [keeps_intros]:
  "keeps (db_inv content_ok) (SetUserRole r i)"
  "keeps (db_inv content_ok) (SuspendUser actor reason i)"
  "keeps (db_inv content_ok) (ReinstateUser i)"
  "keeps (db_inv content_ok) (VerifyUserAsAdmin i)"
  "keeps (db_inv content_ok) (InsertAdminAction actor a ty i why detail)"
  unfolding admin_query_defs
  by (rule db_inv_exec db_inv_insert_row;
     auto simp: content_update_user Let_def content_action split: option.split)+

lemma content_account_writes [keeps_intros]:
  "keeps (db_inv content_ok) (CreateUser email username hash)"
  "keeps (db_inv content_ok) (MarkUserVerified i)"
  "keeps (db_inv content_ok) (SetEmailNotifications b i)"
  "keeps (db_inv content_ok) (UpdateUserPassword i hash)"
  "keeps (db_inv content_ok) (ConsumeAllEmailVerificationTokensForUser i)"
  "keeps (db_inv content_ok) (ConsumeAllPasswordResetTokensForUser i)"
  "keeps (db_inv content_ok) (ConsumeEmailVerificationToken h)"
  "keeps (db_inv content_ok) (ConsumePasswordResetToken h)"
  "keeps (db_inv content_ok) (CreateEmailVerificationToken h i x)"
  "keeps (db_inv content_ok) (CreatePasswordResetToken h i x)"
  "keeps (db_inv content_ok) (CreateRefreshToken h i x a)"
  "keeps (db_inv content_ok) (RevokeAllRefreshTokensForUser i)"
  "keeps (db_inv content_ok) (RevokeRefreshToken h)"
  unfolding account_query_defs
  by (rule db_inv_exec db_inv_insert_row;
     auto simp: content_update_user Let_def image_update_where intro!: content_users split: option.split)+

section \<open>The service\<close>

text \<open>The statements keep the content well formed whoever calls and whatever was read.\<close>

interpretation content: preserved content_ok "\<lambda>_. True" "\<lambda>_ _. True" True
  by unfold_locales (auto intro: keeps_intros)


lemma sample_content: "content_ok sample_db"
  by code_simp


end
