(* ===== verification/Protected.thy ===== *)
theory Protected
  imports Integrity
begin

text \<open>
  Who may change what. Each property fixes a row, or a fact about one, and shows that it survives
  every request of everybody else, whatever faults they meet and however they interleave with requests
  that respect it too.
\<close>

lemma quiet_code [code]:
  "quiet w \<longleftrightarrow> (case events w of [] \<Rightarrow> (case committed w of None \<Rightarrow> True | Some _ \<Rightarrow> False) | _ \<Rightarrow> False)"
  unfolding quiet_def by (cases "events w"; cases "committed w") simp_all

section \<open>Rows of one key\<close>

text \<open>The table has exactly one row of the key, and it is this one.\<close>

definition sole :: "('r \<Rightarrow> 'k) \<Rightarrow> 'r \<Rightarrow> 'r list \<Rightarrow> bool" where
  "sole key r rows \<longleftrightarrow> r \<in> set rows \<and> (\<forall>x \<in> set rows. key x = key r \<longrightarrow> x = r)"

lemma sole_mem: "sole key r rows \<Longrightarrow> r \<in> set rows"
  by (simp add: sole_def)

lemma sole_unique: "sole key r rows \<Longrightarrow> x \<in> set rows \<Longrightarrow> key x = key r \<Longrightarrow> x = r"
  by (simp add: sole_def)

lemma sole_append: "sole key r rows \<Longrightarrow> key x \<noteq> key r \<Longrightarrow> sole key r (rows @ [x])"
  by (auto simp: sole_def)

lemma sole_find: "sole key r rows \<Longrightarrow> List.find (\<lambda>x. key x = key r) rows = Some r"
  by (rule find_unique) (auto simp: sole_def)

lemma sole_update:
  "sole key r rows \<Longrightarrow> \<not> Q r \<Longrightarrow> (\<And>x. key (f x) = key x) \<Longrightarrow> sole key r (update_where Q f rows)"
  by (force simp: sole_def set_update_where)

lemma sole_update_returning:
  "sole key r rows \<Longrightarrow> \<not> Q r \<Longrightarrow> (\<And>x. key (f x) = key x) \<Longrightarrow>
   sole key r (snd (update_returning Q f check rows))"
  by (simp add: update_returning_def sole_update split: option.split)

lemma find_sole:
  "sole key r rows \<Longrightarrow> List.find (\<lambda>x. key x = k) rows = Some y \<Longrightarrow> k = key r \<Longrightarrow> y = r"
  using sole_find [of key r rows] by simp

section \<open>A listing\<close>

definition listing_is :: "listing \<Rightarrow> database \<Rightarrow> bool" where
  "listing_is l d \<longleftrightarrow> sole l_id l (listings d)"

lemma listing_is_find: "listing_is l d \<Longrightarrow> find_listing d (l_id l) = Some l"
  unfolding listing_is_def find_listing_def by (rule sole_find)

lemma listing_is_frame [simp]:
  "listing_is l (d\<lparr>users := us\<rparr>) = listing_is l d" "listing_is l (d\<lparr>requests := qs\<rparr>) = listing_is l d"
  "listing_is l (d\<lparr>conversations := cs\<rparr>) = listing_is l d" "listing_is l (d\<lparr>messages := ms\<rparr>) = listing_is l d"
  "listing_is l (d\<lparr>offers := xs\<rparr>) = listing_is l d" "listing_is l (d\<lparr>admin_actions := as\<rparr>) = listing_is l d"
  "listing_is l (d\<lparr>verification_tokens := ks\<rparr>) = listing_is l d"
  "listing_is l (d\<lparr>reset_tokens := ks\<rparr>) = listing_is l d"
  "listing_is l (d\<lparr>refresh_tokens := rs\<rparr>) = listing_is l d"
  by (simp_all add: listing_is_def)

lemma listing_is_writes:
  "keeps (db_inv (listing_is l)) (CreateListing_sql p)"
  "j \<noteq> l_id l \<Longrightarrow> keeps (db_inv (listing_is l)) (UpdateListing_sql j u)"
  "j \<noteq> l_id l \<Longrightarrow> keeps (db_inv (listing_is l)) (SetListingStatus_sql j s)"
  unfolding post_query_defs
  by (rule db_inv_exec db_inv_insert_row;
      auto simp: Let_def listing_is_def find_listing_None set_listing_def
        intro!: sole_append sole_update_returning dest: sole_mem split: option.split)+

interpretation listing_kept: preserved "listing_is l" "\<lambda>u. u \<noteq> l_owner_id l" "\<lambda>_ _. True" False for l
proof unfold_locales
  fix d j l' u s
  assume "listing_is l d" "find_listing d j = Some l'" "l_owner_id l' \<noteq> l_owner_id l"
  then have "j \<noteq> l_id l" using listing_is_find [of l d] by auto
  then show "keeps (db_inv (listing_is l)) (UpdateListing_sql j u)"
      "keeps (db_inv (listing_is l)) (SetListingStatus_sql j s)"
    by (simp_all add: listing_is_writes)
qed (simp_all add: listing_is_writes frame_users frame_tokens frame_requests frame_conversations
  frame_messages frame_offers)

text \<open>A request that neither the account makes nor an admin.\<close>

definition outsider :: "uuid \<Rightarrow> request_ctx \<Rightarrow> bool" where
  "outsider owner ctx \<longleftrightarrow>
     (case ctx_principal ctx of None \<Rightarrow> True | Some p \<Rightarrow> p_user_id p \<noteq> owner) \<and> requireAdmin ctx = None"

text \<open>C6: As long as neither its owner nor an admin makes a request,
  a listing stays exactly as it is: no sequence of requests of other accounts, or of nobody, changes
  any column of it, whatever faults they meet.\<close>

theorem listing_changes_only_by_its_owner:
  assumes "(history env (\<lambda>ctx _. outsider (l_owner_id l) ctx) (listing_is l))\<^sup>*\<^sup>* w w'"
    and "db_inv (listing_is l) w"
  shows "find_listing (db w') (l_id l) = Some l"
proof -
  have "db_inv (listing_is l) w'"
    by (rule db_inv_history [OF assms listing_kept.keeps_serve])
      (auto simp: outsider_def split: option.splits)
  then show ?thesis by (simp add: db_inv_def listing_is_find)
qed

lemma listing_changes_only_by_its_owner_witness:
  "find_listing (db (snd (run_state (DeleteListing student_ctx 10) sample_world))) 10 = Some sample_listing"
proof -
  let ?w = "snd (run_state (DeleteListing student_ctx 10) sample_world)"
  have "outsider (l_owner_id sample_listing) student_ctx" by code_simp
  then have "(history sample_env (\<lambda>ctx _. outsider (l_owner_id sample_listing) ctx)
      (listing_is sample_listing))\<^sup>*\<^sup>* sample_world ?w"
    using one_request [where ctx = student_ctx and r = "R_DeleteListing 10" and env = sample_env
        and w = sample_world] by simp
  moreover have "db_inv (listing_is sample_listing) sample_world"
    by (rule sample_db_inv) code_simp
  moreover have "l_id sample_listing = 10" by code_simp
  ultimately show ?thesis using listing_changes_only_by_its_owner [of sample_env sample_listing] by simp
qed

section \<open>A conversation\<close>

text \<open>
  The conversation with its messages, as they are now; its listing stays with the owner, so that no
  other owner's offer reaches into it.
\<close>

definition stays :: "('r \<Rightarrow> uuid) \<Rightarrow> ('r \<Rightarrow> 'a) \<Rightarrow> uuid \<Rightarrow> 'a \<Rightarrow> 'r list \<Rightarrow> bool" where
  "stays key col i v rows \<longleftrightarrow> i \<in> key ` set rows \<and> (\<forall>r \<in> set rows. key r = i \<longrightarrow> col r = v)"

lemma stays_append: "stays key col i v rows \<Longrightarrow> key r \<notin> key ` set rows \<Longrightarrow> stays key col i v (rows @ [r])"
  by (auto simp: stays_def)

lemma stays_update:
  assumes "stays key col i v rows" and "\<And>r. key (f r) = key r"
    and "\<And>r. Q r \<Longrightarrow> key r = i \<Longrightarrow> col (f r) = col r"
  shows "stays key col i v (snd (update_returning Q f check rows))"
proof -
  have "key ` set (snd (update_returning Q f check rows)) = key ` set rows"
    by (rule image_update_returning) (rule assms(2))
  moreover have "\<exists>r \<in> set rows. key r = key x \<and> (key r = i \<longrightarrow> col r = col x)"
    if "x \<in> set (snd (update_returning Q f check rows))" for x
    using that assms(2,3)
    by (fastforce simp: update_returning_def set_update_where split: option.splits if_splits)
  ultimately show ?thesis using assms(1) unfolding stays_def by metis
qed

definition owner_stays :: "uuid \<Rightarrow> uuid \<Rightarrow> database \<Rightarrow> bool" where
  "owner_stays j ow d \<longleftrightarrow> stays l_id l_owner_id j ow (listings d)"

definition conversation_is :: "conversation \<Rightarrow> message list \<Rightarrow> database \<Rightarrow> bool" where
  "conversation_is c ms d \<longleftrightarrow> sole c_id c (conversations d) \<and>
     filter (\<lambda>m. m_conversation_id m = c_id c) (messages d) = ms \<and>
     owner_stays (c_listing_id c) (c_owner_id c) d"

lemma owner_stays_find: "owner_stays j ow d \<Longrightarrow> find_listing d j = Some l \<Longrightarrow> l_owner_id l = ow"
  by (auto simp: owner_stays_def stays_def dest: find_listing_id)

lemma owner_stays_frame [simp]:
  "owner_stays j ow (d\<lparr>users := us\<rparr>) = owner_stays j ow d" "owner_stays j ow (d\<lparr>requests := qs\<rparr>) = owner_stays j ow d"
  "owner_stays j ow (d\<lparr>conversations := cs\<rparr>) = owner_stays j ow d"
  "owner_stays j ow (d\<lparr>messages := ms\<rparr>) = owner_stays j ow d" "owner_stays j ow (d\<lparr>offers := xs\<rparr>) = owner_stays j ow d"
  "owner_stays j ow (d\<lparr>admin_actions := as\<rparr>) = owner_stays j ow d"
  "owner_stays j ow (d\<lparr>verification_tokens := ks\<rparr>) = owner_stays j ow d"
  "owner_stays j ow (d\<lparr>reset_tokens := ks\<rparr>) = owner_stays j ow d"
  "owner_stays j ow (d\<lparr>refresh_tokens := rs\<rparr>) = owner_stays j ow d"
  by (simp_all add: owner_stays_def)

text \<open>Every statement on the listings leaves owners alone.\<close>

lemma owner_stays_listings:
  assumes "\<And>d ls. P (d\<lparr>listings := ls\<rparr>) = P d"
  shows "keeps (db_inv (\<lambda>d. P d \<and> owner_stays j ow d)) (CreateListing_sql p)"
    "keeps (db_inv (\<lambda>d. P d \<and> owner_stays j ow d)) (UpdateListing_sql i u)"
    "keeps (db_inv (\<lambda>d. P d \<and> owner_stays j ow d)) (SetListingStatus_sql i s)"
    "keeps (db_inv (\<lambda>d. P d \<and> owner_stays j ow d)) (RemoveListing i actor reason)"
    "keeps (db_inv (\<lambda>d. P d \<and> owner_stays j ow d)) (RestoreListing i)"
proof -
  show "keeps (db_inv (\<lambda>d. P d \<and> owner_stays j ow d)) (CreateListing_sql p)"
    unfolding CreateListing_sql_def
    by (rule db_inv_insert_row)
      (auto simp: Let_def assms owner_stays_def find_listing_None intro!: stays_append split: option.split)
qed (unfold post_query_defs, (rule db_inv_exec; simp add: assms owner_stays_def stays_update set_listing_def)+)

lemma conversation_is_frame [simp]:
  "conversation_is c ms (d\<lparr>users := us\<rparr>) = conversation_is c ms d"
  "conversation_is c ms (d\<lparr>requests := qs\<rparr>) = conversation_is c ms d"
  "conversation_is c ms (d\<lparr>offers := xs\<rparr>) = conversation_is c ms d"
  "conversation_is c ms (d\<lparr>admin_actions := as\<rparr>) = conversation_is c ms d"
  "conversation_is c ms (d\<lparr>verification_tokens := ks\<rparr>) = conversation_is c ms d"
  "conversation_is c ms (d\<lparr>reset_tokens := ks\<rparr>) = conversation_is c ms d"
  "conversation_is c ms (d\<lparr>refresh_tokens := rs\<rparr>) = conversation_is c ms d"
  by (simp_all add: conversation_is_def)

lemma conversation_is_writes:
  "keeps (db_inv (conversation_is c ms)) (CreateConversation j ow en me)"
  "i \<noteq> c_id c \<Longrightarrow> keeps (db_inv (conversation_is c ms)) (CreateMessage i me body)"
  "\<not> participant me c \<Longrightarrow> keeps (db_inv (conversation_is c ms)) (CloseConversation_sql me i)"
  "\<not> participant me c \<Longrightarrow> keeps (db_inv (conversation_is c ms)) (ReopenConversation i me)"
  "\<not> participant me c \<Longrightarrow> keeps (db_inv (conversation_is c ms)) (ShareConversationAddress i me)"
  "\<not> participant me c \<Longrightarrow> keeps (db_inv (conversation_is c ms)) (MarkConversationRead_sql me i)"
  unfolding conversation_query_defs
  by (rule db_inv_exec db_inv_insert_row;
      auto simp: Let_def conversation_is_def participant_def may_share_def list_ex_iff conversations_clash_def
        intro!: sole_append sole_update sole_update_returning dest: sole_mem)+

lemma conversation_is_listings:
  "keeps (db_inv (conversation_is c ms)) (CreateListing_sql p)"
  "keeps (db_inv (conversation_is c ms)) (UpdateListing_sql i u)"
  "keeps (db_inv (conversation_is c ms)) (SetListingStatus_sql i s)"
  "keeps (db_inv (conversation_is c ms)) (RemoveListing i actor reason)"
  "keeps (db_inv (conversation_is c ms)) (RestoreListing i)"
proof -
  have split: "conversation_is c ms = (\<lambda>d. (sole c_id c (conversations d) \<and>
      filter (\<lambda>m. m_conversation_id m = c_id c) (messages d) = ms) \<and>
      owner_stays (c_listing_id c) (c_owner_id c) d)"
    by (auto simp: fun_eq_iff conversation_is_def)
  show "keeps (db_inv (conversation_is c ms)) (CreateListing_sql p)"
    "keeps (db_inv (conversation_is c ms)) (UpdateListing_sql i u)"
    "keeps (db_inv (conversation_is c ms)) (SetListingStatus_sql i s)"
    "keeps (db_inv (conversation_is c ms)) (RemoveListing i actor reason)"
    "keeps (db_inv (conversation_is c ms)) (RestoreListing i)"
    unfolding split by (rule owner_stays_listings; simp)+
qed

interpretation conversation_kept: preserved "conversation_is c ms" "\<lambda>u. \<not> participant u c" "\<lambda>_ _. True" True
  for c ms
proof unfold_locales
  fix d x me body
  assume "conversation_is c ms d" "x \<in> set (conversations d)" "\<not> participant me c" "participant me x"
  then have "c_id x \<noteq> c_id c" by (auto simp: conversation_is_def dest: sole_unique)
  then show "keeps (db_inv (conversation_is c ms)) (CreateMessage (c_id x) me body)"
    by (rule conversation_is_writes)
next
  fix d j l d' x body
  assume a: "conversation_is c ms d" "find_listing d j = Some l" "\<not> participant (l_owner_id l) c"
    "conversation_is c ms d'" "x \<in> set (conversations d')" "c_listing_id x = j"
  then have "j \<noteq> c_listing_id c"
    by (auto simp: conversation_is_def participant_def dest: owner_stays_find)
  with a have "c_id x \<noteq> c_id c" by (auto simp: conversation_is_def dest: sole_unique)
  then show "keeps (db_inv (conversation_is c ms)) (CreateMessage (c_id x) (l_owner_id l) body)"
    by (rule conversation_is_writes)
qed (simp_all add: conversation_is_writes conversation_is_listings frame_users frame_tokens frame_requests
  frame_offers frame_actions)

text \<open>C5: As long as neither participant makes a
  request, a conversation and its messages stay exactly as they are: no other account, not even an
  admin's, closes it, reopens it, marks it read, shares its address or writes into it, and no other
  owner's offer reaches it, whatever faults those requests meet.\<close>

theorem conversation_changes_only_by_its_participants:
  assumes "(history env (\<lambda>ctx _. \<forall>p. ctx_principal ctx = Some p \<longrightarrow> \<not> participant (p_user_id p) c)
      (conversation_is c ms))\<^sup>*\<^sup>* w w'"
    and "db_inv (conversation_is c ms) w"
  shows "find_conversation (db w') (c_id c) = Some c \<and>
    filter (\<lambda>m. m_conversation_id m = c_id c) (messages (db w')) = ms"
proof -
  have "db_inv (conversation_is c ms) w'"
    by (rule db_inv_history [OF assms conversation_kept.keeps_serve]) auto
  then show ?thesis
    by (simp add: db_inv_def conversation_is_def find_conversation_def sole_find)
qed

lemma conversation_changes_only_by_its_participants_witness:
  "find_conversation (db (snd (run_state (CloseConversation admin_ctx 30) sample_world))) 30 =
     Some sample_conversation"
proof -
  let ?w = "snd (run_state (CloseConversation admin_ctx 30) sample_world)"
  have "\<not> participant 3 sample_conversation" by code_simp
  then have "(history sample_env (\<lambda>ctx _. \<forall>p. ctx_principal ctx = Some p \<longrightarrow>
      \<not> participant (p_user_id p) sample_conversation)
      (conversation_is sample_conversation [sample_message]))\<^sup>*\<^sup>* sample_world ?w"
    using one_request [where ctx = admin_ctx and r = "R_CloseConversation 30" and env = sample_env
        and w = sample_world] by (simp add: admin_ctx_def)
  moreover have "db_inv (conversation_is sample_conversation [sample_message]) sample_world"
    by (rule sample_db_inv) code_simp
  moreover have "c_id sample_conversation = 30" by code_simp
  ultimately show ?thesis
    using conversation_changes_only_by_its_participants [of sample_env sample_conversation] by auto
qed

end
