(* ===== verification/ListingProofs.thy ===== *)
theory ListingProofs
  imports Integrity
begin

text \<open>
  What the owner's handlers of \<open>Listings\<close> and \<open>Requests\<close> guarantee: whose posts they change, which
  status changes they make, that an edit that passes validation leaves a valid post, and where the
  validation and the statements disagree.
\<close>

section \<open>The lifecycle\<close>

text \<open>The states a post moves through at its owner's hand. \<open>archived\<close> is terminal.\<close>

inductive lifecycle :: "string \<Rightarrow> string \<Rightarrow> bool" where
  publish: "lifecycle ''draft'' ''published''"
| pause: "lifecycle ''published'' ''paused''"
| resume: "lifecycle ''paused'' ''published''"
| archive: "s \<in> {''draft'', ''published'', ''paused''} \<Longrightarrow> lifecycle s ''archived''"

inductive_simps lifecycle_from: "lifecycle s t"

lemma lifecycle_iff: "t \<in> set (allowedTransitions s) \<longleftrightarrow> lifecycle s t"
  by (auto simp: lifecycle_from allowedTransitions.simps)

lemma archived_final: "(\<lambda>s t. s = t \<or> lifecycle s t)\<^sup>*\<^sup>* ''archived'' t \<Longrightarrow> t = ''archived''"
  by (induction rule: rtranclp_induct) (auto simp: lifecycle_from)

lemma lifecycle_known: "lifecycle s t \<Longrightarrow> t \<in> set statuses"
  by (auto simp: lifecycle_from statuses_def)

section \<open>Responses leave the world alone\<close>

definition shown :: "database \<Rightarrow> listing \<Rightarrow> listing_view" where
  "shown d l = toListing l
     (owner_summary (l_owner_id l) (case find_user d (l_owner_id l) of None \<Rightarrow> Inl ErrNoRows | Some u \<Rightarrow> Inr u))
     (sort_key ph_position (sort_key ph_created_at (filter (\<lambda>p. ph_listing_id p = l_id l) (photos d)))) True"

lemma run_listingResponse:
  "events w = [] \<Longrightarrow> run_state (listingResponse l) w = (shown (db w) l, w)"
  by (simp add: listingResponse_def shown_def GetUserByID_def ListPhotosForListing_def stmt_simps)

lemma requestResponse_quiet:
  "events w = [] \<Longrightarrow> run_state (requestResponse q) w = (r, w') \<Longrightarrow>
   w' = w \<and> qv_id r = q_id q \<and> qv_status r = q_status q"
  by (auto simp: requestResponse_def GetUserByID_def CountOffersForRequest_def stmt_simps toRequest_def)

section \<open>What is validated and what is stored\<close>

text \<open>A row with no problems, as a formula.\<close>

definition presentable :: "listing \<Rightarrow> bool" where
  "presentable l \<longleftrightarrow> 8 \<le> length (trim_space (l_title l)) \<and> 0 < l_price_cents l \<and>
     0 \<le> default_if_nil (l_deposit_cents l) 0 \<and> l_start_date l < l_end_date l \<and>
     1 \<le> l_lease_months l \<and> l_lease_months l \<le> 24 \<and>
     0 \<le> l_bedrooms_total l \<and> l_bedrooms_total l \<le> 20 \<and>
     (case l_bedroom_of l of
        None \<Rightarrow> True
      | Some n \<Rightarrow> 1 \<le> n \<and> n \<le> l_bedrooms_total l \<and> l_unit_type l \<noteq> ''studio'') \<and>
     0 \<le> l_bathrooms l \<and> trim_space (l_address_line l) \<noteq> [] \<and>
     rune_count (trim_space (l_cross_streets l)) \<le> 80 \<and> length (l_conditions l) \<le> 12 \<and>
     (case l_min_stay_months l of
        None \<Rightarrow> \<not> l_shorter_stays l
      | Some n \<Rightarrow> l_shorter_stays l \<and> 1 \<le> n \<and> n \<le> l_lease_months l) \<and>
     0 \<le> default_if_nil (l_bills_estimate_cents l) 0 \<and>
     default_if_nil (l_bills_estimate_cents l) 0 \<le> 100000 \<and>
     (l_status l = [] \<or> l_status l \<in> set statuses)"

lemma validateListingRow_Nil: "validateListingRow l = [] \<longleftrightarrow> presentable l"
  unfolding validateListingRow_def listing_rules_def Let_def problems_Nil presentable_def
  by (cases "l_bedroom_of l"; cases "l_min_stay_months l")
    (auto simp: maxCrossStreets_def maxConditions_def maxBillsEstimateCents_def not_less not_le)

text \<open>How the two copies of an optional column compare.\<close>

lemma coalesce_nullable:
  "n \<noteq> Null \<Longrightarrow> coalesce (assign_nullable (nullableValue n) None) x = assign_nullable (nullableValue n) x"
  by (cases n) (simp_all add: assign_nullable_def)

lemma coalesce_Null: "coalesce (assign_nullable (nullableValue Null) None) x = x"
  by (simp add: assign_nullable_def)

lemma trimmed_default: "trim_space (default_if_nil (trimmedPtr v) x) = trim_space (default_if_nil v x)"
  by (cases v) simp_all

lemma numeric31_nonneg: "0 \<le> x \<Longrightarrow> 0 \<le> numeric31 x"
  by (cases "x = 0") (simp_all add: numeric31_def sgn_if)

lemmas stored_row = set_listing_def updateParams_def applyUpdate_def


definition sample_edit :: listing_update where
  "sample_edit = \<lparr>lu_title = None, lu_body = None, lu_conditions = None, lu_price_cents = None,
     lu_deposit_cents = Absent, lu_start_date = None, lu_end_date = None, lu_lease_months = None,
     lu_term_tag = None, lu_unit_type = None, lu_bedrooms_total = None, lu_bedroom_of = Absent,
     lu_bathrooms = None, lu_bath_type = None, lu_furnished = None, lu_utilities = None,
     lu_parking = None, lu_pets = None, lu_laundry = None, lu_address_line = None,
     lu_neighbourhood = None, lu_cross_streets = None, lu_distance_m = Absent,
     lu_shorter_stays = None, lu_min_stay_months = Absent, lu_bills_estimate_cents = Absent\<rparr>"


text \<open>An explicit null for the deposit or the room number is validated as
  if it cleared the column, but the statement's \<open>COALESCE\<close> cannot tell it from an absent field and
  keeps the old value: the row that is stored is not the row that was validated.\<close>

theorem explicit_null_is_ignored:
  assumes "lu_deposit_cents inp = Null" and "lu_bedroom_of inp = Null"
  shows "l_deposit_cents (applyUpdate l inp) = None \<and> l_bedroom_of (applyUpdate l inp) = None \<and>
    l_deposit_cents (set_listing (updateParams inp) t l) = l_deposit_cents l \<and>
    l_bedroom_of (set_listing (updateParams inp) t l) = l_bedroom_of l"
  using assms by (simp add: stored_row assign_nullable_def)

lemma explicit_null_is_ignored_witness:
  "l_deposit_cents (set_listing (updateParams (sample_edit\<lparr>lu_deposit_cents := Null, lu_bedroom_of := Null\<rparr>)) 5
     sample_listing) = Some 20000"
  using explicit_null_is_ignored [of "sample_edit\<lparr>lu_deposit_cents := Null, lu_bedroom_of := Null\<rparr>" sample_listing 5]
  by (simp add: sample_edit_def sample_listing_def)

section \<open>What the owner's requests do\<close>

text \<open>Which refusal a caller gets, or which listing he may change.\<close>

definition owned :: "request_ctx \<Rightarrow> database \<Rightarrow> uuid \<Rightarrow> nat + listing" where
  "owned ctx d i =
     (case ctx_principal ctx of
        None \<Rightarrow> Inl 401
      | Some p \<Rightarrow>
          (case find_listing d i of
             None \<Rightarrow> Inl 404
           | Some l \<Rightarrow>
               if l_owner_id l \<noteq> p_user_id p then Inl 404
               else if l_removed_at l \<noteq> None then Inl 409 else Inr l))"

text \<open>The same with the refusal's words, as the read computes it.\<close>

definition verdict :: "request_ctx \<Rightarrow> database \<Rightarrow> uuid \<Rightarrow> refusal + listing" where
  "verdict ctx d i =
     (case ctx_principal ctx of
        None \<Rightarrow> Inl (anonymous_refusal ''Log in to manage your listings.'')
      | Some p \<Rightarrow>
          (case find_listing d i of
             None \<Rightarrow> Inl (missing_refusal ''No listing with that id.'')
           | Some l \<Rightarrow>
               if l_owner_id l \<noteq> p_user_id p then Inl (missing_refusal ''No listing with that id.'')
               else if l_removed_at l \<noteq> None then Inl (removedRefusal ''listing'' (l_removed_reason l))
               else Inr l))"

lemma run_ownedListing: "events w = [] \<Longrightarrow> run_state (ownedListing ctx i) w = (verdict ctx (db w) i, w)"
  by (simp add: ownedListing_def verdict_def GetListingForOwner_def stmt_simps split: option.split)

definition refusal_status :: "refusal \<Rightarrow> nat" where
  "refusal_status r = (if rf_conflict r then 409 else if rf_unauthorised r then 401 else 404)"

lemma refusal_statuses [simp]: "status_of (updateRefusal r) = refusal_status r"
  "status_of (statusRefusal r) = refusal_status r" "status_of (deleteRefusal r) = refusal_status r"
  by (simp_all add: statusRefusal_def updateRefusal_def deleteRefusal_def refusal_status_def)

lemma owned_verdict:
  "owned ctx d i = (case verdict ctx d i of Inl r \<Rightarrow> Inl (refusal_status r) | Inr l \<Rightarrow> Inr l)"
  by (simp add: owned_def verdict_def refusal_status_def anonymous_refusal_def missing_refusal_def
    removedRefusal_def split: option.split)

lemma verdict_Inr:
  "verdict ctx d i = Inr l \<Longrightarrow> find_listing d i = Some l \<and> l_id l = i"
  by (auto simp: verdict_def dest: find_listing_id split: option.splits if_splits)

text \<open>The effect of \<open>UPDATE .. RETURNING\<close> on the listing of one key, and the answer that carries it.\<close>

definition rewrite_listing ::
  "uuid \<Rightarrow> (listing \<Rightarrow> listing) \<Rightarrow> listing \<Rightarrow> database \<Rightarrow> error option \<times> database" where
  "rewrite_listing i f l d =
     (case listing_violation (f l) of
        Some e \<Rightarrow> (Some e, d)
      | None \<Rightarrow> (None, d\<lparr>listings := update_where (\<lambda>l. l_id l = i) f (listings d)\<rparr>))"

lemma rewrite_eq:
  "find_listing d i = Some l \<Longrightarrow>
   on_listings (update_returning (\<lambda>l. l_id l = i) f listing_violation) d =
     (case rewrite_listing i f l d of (Some e, d') \<Rightarrow> (Inl e, d') | (None, d') \<Rightarrow> (Inr (f l), d'))"
  by (simp add: on_listings_def update_returning_def rewrite_listing_def find_listing_def split: option.split)

definition edit_outcome ::
  "request_ctx \<Rightarrow> time \<Rightarrow> database \<Rightarrow> uuid \<Rightarrow> listing_update option \<Rightarrow> nat \<times> database" where
  "edit_outcome ctx t d i body =
     (case owned ctx d i of
        Inl s \<Rightarrow> (s, d)
      | Inr l \<Rightarrow>
          (case body of
             None \<Rightarrow> (400, d)
           | Some inp \<Rightarrow>
               if \<not> presentable (applyUpdate l inp) then (400, d)
               else (case rewrite_listing i (set_listing (updateParams inp) t) l d of
                       (Some _, d) \<Rightarrow> (500, d)
                     | (None, d) \<Rightarrow> (200, d))))"



text \<open>Taking the room number off a listing, with an explicit null, while
  lowering the number of bedrooms below it passes validation, but the statement keeps the old room
  number, and the constraint that it is one of the bedrooms fails: the owner is answered 500 and
  nothing changes.\<close>

theorem cleared_room_number_fails:
  assumes "events w = []" and "verdict ctx (db w) i = Inr l" and "l_bedroom_of l = Some n"
    and "lu_bedroom_of inp = Null" and "lu_bedrooms_total inp = Some m" and "to_int32 m < n"
    and "validateListingRow (applyUpdate l inp) = []"
  shows "status_of (fst (run_state (UpdateListing ctx i (Some inp)) w)) = 500 \<and>
    snd (run_state (UpdateListing ctx i (Some inp)) w) = w"
proof -
  have "\<not> listings_check (set_listing (updateParams inp) (clock w) l)"
    using assms(3-6) by (simp add: listings_check_def stored_row assign_nullable_def)
  then have "listing_violation (set_listing (updateParams inp) (clock w) l) \<noteq> None"
    by (simp add: listing_violation_def)
  then obtain e where "listing_violation (set_listing (updateParams inp) (clock w) l) = Some e" by blast
  with assms(1,2,7) verdict_Inr [OF assms(2)] show ?thesis
    by (simp add: UpdateListing_def run_ownedListing UpdateListing_sql_def quiet_exec rewrite_eq
      rewrite_listing_def)
qed

lemma cleared_room_number_fails_witness:
  "status_of (fst (run_state (UpdateListing sample_ctx 10
     (Some (sample_edit\<lparr>lu_bedroom_of := Null, lu_bedrooms_total := Some 3\<rparr>))) sample_world)) = 500"
proof -
  let ?inp = "sample_edit\<lparr>lu_bedroom_of := Null, lu_bedrooms_total := Some 3\<rparr>"
  have "verdict sample_ctx (db sample_world) 10 = Inr sample_listing" by code_simp
  moreover have "to_int32 3 < 4" by code_simp
  moreover have "validateListingRow (applyUpdate sample_listing ?inp) = []" by code_simp
  ultimately show ?thesis
    using cleared_room_number_fails [of sample_world sample_ctx 10 sample_listing 4 ?inp 3]
    by (simp add: sample_world_def sample_listing_def sample_edit_def)
qed

section \<open>Changing the status\<close>

abbreviation new_status :: "string \<Rightarrow> time \<Rightarrow> listing \<Rightarrow> listing" where
  "new_status s t l \<equiv>
     l\<lparr>l_status := s, l_published_at := first_published s t (l_published_at l), l_updated_at := t\<rparr>"

text \<open>The reference follows the lifecycle, and its only writes are the steps of it.\<close>

definition status_outcome ::
  "request_ctx \<Rightarrow> time \<Rightarrow> database \<Rightarrow> uuid \<Rightarrow> string option \<Rightarrow> nat \<times> database" where
  "status_outcome ctx t d i body =
     (case (owned ctx d i, body) of
        (Inl s, _) \<Rightarrow> (s, d)
      | (Inr l, None) \<Rightarrow> (400, d)
      | (Inr l, Some s) \<Rightarrow>
          if s = l_status l then (200, d)
          else if lifecycle (l_status l) s then
            (200, d\<lparr>listings := update_where (\<lambda>l. l_id l = i) (new_status s t) (listings d)\<rparr>)
          else (400, d))"

lemma lifecycle_code [code]: "lifecycle s t \<longleftrightarrow> t \<in> set (allowedTransitions s)"
  by (simp add: lifecycle_iff)

lemma listing_violation_None:
  "listing_violation l = None \<longleftrightarrow> listings_fit l \<and> \<bar>l_bathrooms l\<bar> < 100 \<and> listings_check l"
  by (auto simp: listing_violation_def)

lemma status_short: "s \<in> set statuses \<Longrightarrow> rune_count s \<le> 12"
  using rune_count_le_bytes [of s] by (auto simp: statuses_def)

lemma status_keeps_valid:
  "listing_violation l = None \<Longrightarrow> s \<in> set statuses \<Longrightarrow> listing_violation (new_status s t l) = None"
  using status_short [of s] unfolding listing_violation_None
  by (simp add: listings_fit_def listings_check_def cong: option.case_cong)

text \<open>C19: Changing a listing's status does what the lifecycle allows and nothing more,
  when no fault and no other commit interferes: a step of the lifecycle is made and, on a well-formed
  database, never fails; asking for the state the listing is in changes nothing; every other change
  is refused with 400.\<close>

theorem status_outcome_exact:
  assumes "events w = []" and "content_ok (db w)"
    and "run_state (SetListingStatus ctx i body) w = (rep, w')"
  shows "(status_of rep, w') =
    (case status_outcome ctx (clock w) (db w) i body of (s, d) \<Rightarrow> (s, w\<lparr>db := d\<rparr>))"
proof (cases "verdict ctx (db w) i")
  case (Inl r)
  then show ?thesis using assms
    by (auto simp: SetListingStatus_def run_ownedListing status_outcome_def owned_verdict)
next
  case (Inr l)
  note l = verdict_Inr [OF this]
  have ok: "listing_violation l = None"
    using assms(2) l by (auto simp: content_ok_def table_ok_def list_all_iff dest: find_listing_id)
  show ?thesis
  proof (cases "\<exists>s. body = Some s \<and> lifecycle (l_status l) s \<and> s \<noteq> l_status l")
    case True
    then obtain s where s: "body = Some s" "lifecycle (l_status l) s" "s \<noteq> l_status l" by blast
    then have "listing_violation (new_status s (clock w) l) = None"
      using status_keeps_valid [OF ok] lifecycle_known by blast
    with assms l s show ?thesis
      by (auto simp: SetListingStatus_def run_ownedListing Inr status_outcome_def owned_verdict lifecycle_iff
        SetListingStatus_sql_def quiet_exec rewrite_eq rewrite_listing_def run_listingResponse)
  qed (use assms Inr in \<open>auto simp: SetListingStatus_def run_ownedListing status_outcome_def owned_verdict
    lifecycle_iff run_listingResponse split: option.splits if_splits\<close>)
qed

lemma status_outcome_exact_witness:
  "status_of (fst (run_state (SetListingStatus sample_ctx 10 (Some ''archived'')) sample_world)) = 200 \<and>
   map l_status (listings (db (snd (run_state (SetListingStatus sample_ctx 10 (Some ''archived'')) sample_world)))) =
     [''archived'']"
proof -
  obtain rep w where run: "run_state (SetListingStatus sample_ctx 10 (Some ''archived'')) sample_world = (rep, w)"
    by (rule prod.exhaust)
  have "events sample_world = []" by (simp add: sample_world_def)
  moreover have "content_ok (db sample_world)" by (simp add: sample_world_def sample_content)
  ultimately have "(status_of rep, w) = (case status_outcome sample_ctx (clock sample_world) (db sample_world)
      10 (Some ''archived'') of (s, d) \<Rightarrow> (s, sample_world\<lparr>db := d\<rparr>))"
    using run by (rule status_outcome_exact)
  moreover have "fst (status_outcome sample_ctx (clock sample_world) (db sample_world) 10 (Some ''archived'')) = 200 \<and>
    map l_status (listings (snd (status_outcome sample_ctx (clock sample_world) (db sample_world) 10
      (Some ''archived'')))) = [''archived'']"
    by code_simp
  ultimately show ?thesis by (simp add: run split: prod.splits)
qed

section \<open>Posting\<close>

text \<open>What the table asks beyond what is validated: the lengths of the columns, the enumerations, and a
  number of bathrooms that fits \<open>numeric(3,1)\<close>.\<close>

definition storable :: "listing \<Rightarrow> bool" where
  "storable p \<longleftrightarrow>
     rune_count (l_title p) \<le> 200 \<and> rune_count (l_term_tag p) \<le> 40 \<and>
     rune_count (l_address_line p) \<le> 200 \<and> rune_count (l_neighbourhood p) \<le> 80 \<and>
     l_unit_type p \<in> {''room'', ''studio'', ''unit''} \<and>
     l_bath_type p \<in> {''shared'', ''private'', ''ensuite''} \<and>
     l_status p \<noteq> [] \<and> \<bar>numeric31 (l_bathrooms p)\<bar> < 100"

lemma enumerated_short:
  "s \<in> {''room'', ''studio'', ''unit''} \<Longrightarrow> rune_count s \<le> 10"
  "s \<in> {''shared'', ''private'', ''ensuite''} \<Longrightarrow> rune_count s \<le> 10"
  "rune_count ''walk'' \<le> 10"
  using rune_count_le_bytes [of s] rune_count_le_bytes [of "''walk''"] by auto

lemma default_nonneg: "0 \<le> default_if_nil x (0::int) \<longleftrightarrow> (case x of None \<Rightarrow> True | Some c \<Rightarrow> 0 \<le> c)"
  by (cases x) simp_all

abbreviation new_listing :: "uuid \<Rightarrow> time \<Rightarrow> listing \<Rightarrow> listing" where
  "new_listing i t p \<equiv> p\<lparr>l_id := i, l_bathrooms := numeric31 (l_bathrooms p), l_saves := 0, l_updated_at := t,
     l_published_at := None, l_removed_at := None, l_removed_by := None, l_removed_reason := None\<rparr>"

lemma new_listing_ok:
  assumes "presentable p" and "p = create_listing_params ow inp now"
  shows "listing_violation (new_listing i t p) = None \<longleftrightarrow> storable p"
proof -
  have p: "l_views p = 0" "l_replies p = 0" "l_commute_mode p = ''walk''"
    "trim_space (l_cross_streets p) = l_cross_streets p"
    unfolding assms(2) by (simp_all add: create_listing_params_def)
  have stay: "(l_min_stay_months p = None) = (\<not> l_shorter_stays p)"
    "case l_min_stay_months p of None \<Rightarrow> True | Some n \<Rightarrow> 1 \<le> n \<and> n \<le> l_lease_months p"
    "case l_bedroom_of p of None \<Rightarrow> True | Some n \<Rightarrow> 1 \<le> n \<and> n \<le> l_bedrooms_total p"
    "case l_deposit_cents p of None \<Rightarrow> True | Some c \<Rightarrow> 0 \<le> c"
    "case l_bills_estimate_cents p of None \<Rightarrow> True | Some c \<Rightarrow> 0 \<le> c \<and> c \<le> 100000"
    using assms(1) by (auto simp: presentable_def split: option.splits)
  have plain: "0 < l_price_cents p" "l_start_date p < l_end_date p" "0 < l_lease_months p"
    "0 \<le> l_bedrooms_total p" "rune_count (l_cross_streets p) \<le> 80"
    "l_status p \<in> set statuses \<longleftrightarrow> l_status p \<noteq> []"
    using assms(1) p(4) by (auto simp: presentable_def statuses_def)
  have checked: "listings_check (new_listing i t p) \<longleftrightarrow>
      l_unit_type p \<in> {''room'', ''studio'', ''unit''} \<and>
      l_bath_type p \<in> {''shared'', ''private'', ''ensuite''} \<and> l_status p \<noteq> []"
    unfolding listings_check_def using p(1-3) plain stay
    by (simp cong: option.case_cong add: conj_ac)
  moreover have "listings_fit (new_listing i t p) \<longleftrightarrow>
      rune_count (l_title p) \<le> 200 \<and> rune_count (l_term_tag p) \<le> 40 \<and>
      rune_count (l_address_line p) \<le> 200 \<and> rune_count (l_neighbourhood p) \<le> 80"
    if "listings_check (new_listing i t p)"
    using that p(3) plain(5,6) status_short [of "l_status p"] enumerated_short(1) [of "l_unit_type p"]
      enumerated_short(2) [of "l_bath_type p"] enumerated_short(3)
    unfolding checked by (simp add: listings_fit_def)
  ultimately show ?thesis
    unfolding listing_violation_None storable_def by auto
qed


definition sample_posting :: listing_input where
  "sample_posting = \<lparr>li_title = ''A sunny room'', li_body = None, li_conditions = None,
     li_price_cents = 80000, li_deposit_cents = Absent, li_start_date = 100, li_end_date = 220,
     li_lease_months = 4, li_term_tag = ''Fall'', li_unit_type = ''room'', li_bedrooms_total = 4,
     li_bedroom_of = Value 2, li_bathrooms = 1, li_bath_type = ''shared'', li_furnished = None,
     li_utilities = None, li_parking = None, li_pets = None, li_laundry = None,
     li_address_line = ''2 Main St'', li_neighbourhood = None, li_cross_streets = None,
     li_distance_m = Absent, li_shorter_stays = None, li_min_stay_months = Absent,
     li_bills_estimate_cents = Absent, li_status = None\<rparr>"


end
