(* ===== verification/Lifecycle.thy ===== *)
theory Lifecycle
  imports Protected ListingProofs
begin

text \<open>
  Archiving is final: no request brings an archived listing or housing request back. The check of the
  handlers is on the row they read, though, so that two changes of status that run at once can.
\<close>

section \<open>Archived posts\<close>

definition archived :: "uuid set \<Rightarrow> uuid set \<Rightarrow> database \<Rightarrow> bool" where
  "archived A B d \<longleftrightarrow>
     (\<forall>i \<in> A. stays l_id l_status i ''archived'' (listings d)) \<and>
     (\<forall>j \<in> B. stays q_id q_status j ''archived'' (requests d))"

lemma moves_lifecycle: "moves s t \<longleftrightarrow> lifecycle s t \<or> s \<noteq> ''archived'' \<and> t = ''archived''"
  by (simp add: moves_def lifecycle_iff)

lemma archived_stuck: "\<not> moves ''archived'' s"
  by (simp add: moves_lifecycle lifecycle_from)

lemma archived_find:
  "archived A B d \<Longrightarrow> find_listing d i = Some l \<Longrightarrow> i \<in> A \<Longrightarrow> l_status l = ''archived''"
  "archived A B d \<Longrightarrow> find_request d j = Some q \<Longrightarrow> j \<in> B \<Longrightarrow> q_status q = ''archived''"
  by (auto simp: archived_def stays_def find_request_def dest: find_listing_id find_SomeD)

lemma archived_frame [simp]:
  "archived A B (d\<lparr>users := us\<rparr>) = archived A B d"
  "archived A B (d\<lparr>conversations := cs\<rparr>) = archived A B d"
  "archived A B (d\<lparr>messages := ms\<rparr>) = archived A B d"
  "archived A B (d\<lparr>offers := xs\<rparr>) = archived A B d"
  "archived A B (d\<lparr>admin_actions := as\<rparr>) = archived A B d"
  "archived A B (d\<lparr>verification_tokens := ks\<rparr>) = archived A B d"
  "archived A B (d\<lparr>reset_tokens := ks\<rparr>) = archived A B d"
  "archived A B (d\<lparr>refresh_tokens := rs\<rparr>) = archived A B d"
  by (simp_all add: archived_def)

lemma archived_writes:
  "keeps (db_inv (archived A B)) (CreateListing_sql p)"
  "keeps (db_inv (archived A B)) (UpdateListing_sql i u)"
  "i \<notin> A \<Longrightarrow> keeps (db_inv (archived A B)) (SetListingStatus_sql i s)"
  "keeps (db_inv (archived A B)) (RemoveListing i actor reason)"
  "keeps (db_inv (archived A B)) (RestoreListing i)"
  "keeps (db_inv (archived A B)) (CreateRequest_sql r)"
  "keeps (db_inv (archived A B)) (UpdateRequest_sql i v)"
  "i \<notin> B \<Longrightarrow> keeps (db_inv (archived A B)) (SetRequestStatus_sql i s)"
  "keeps (db_inv (archived A B)) (RemoveRequest i actor reason)"
  "keeps (db_inv (archived A B)) (RestoreRequest i)"
  unfolding post_query_defs
  by (rule db_inv_exec db_inv_insert_row;
      auto simp: Let_def archived_def find_listing_None find_request_None set_listing_def set_request_def
        intro!: stays_append stays_update split: option.split)+

interpretation archived: preserved "archived A B" "\<lambda>_. True" "\<lambda>_ _. True" True for A B
proof unfold_locales
  fix d j l s
  assume "archived A B d" "find_listing d j = Some l" "moves (l_status l) s"
  then have "j \<notin> A" using archived_stuck archived_find(1) by metis
  then show "keeps (db_inv (archived A B)) (SetListingStatus_sql j s)" by (rule archived_writes)
next
  fix d j q s
  assume "archived A B d" "find_request d j = Some q" "moves (q_status q) s"
  then have "j \<notin> B" using archived_stuck archived_find(2) by metis
  then show "keeps (db_inv (archived A B)) (SetRequestStatus_sql j s)" by (rule archived_writes)
qed (simp_all add: archived_writes frame_users frame_tokens frame_conversations frame_messages
  frame_offers frame_actions)

text \<open>C18: Archived listings (\<open>A\<close>) and archived housing requests (\<open>B\<close>) stay archived
  through whatever requests of whomever, whatever faults they meet: their owner's edits, status changes
  and deletions and an admin's takedowns and restorations included.\<close>

theorem archived_is_final:
  assumes "(history env anything (archived A B))\<^sup>*\<^sup>* w w'" and "db_inv (archived A B) w"
  shows "archived A B (db w')"
  using db_inv_history [OF assms archived.keeps_serve] by (simp add: db_inv_def)

definition sample_with :: "string \<Rightarrow> world" where
  "sample_with s = sample_world\<lparr>db := sample_db\<lparr>listings := [sample_listing\<lparr>l_status := s\<rparr>]\<rparr>\<rparr>"

lemma archived_is_final_witness:
  "archived {10} {} (db (snd (run_state (SetListingStatus sample_ctx 10 (Some ''published'')) (sample_with ''archived''))))"
proof -
  have "(history sample_env anything (archived {10} {}))\<^sup>*\<^sup>* (sample_with ''archived'')
      (snd (run_state (serve sample_env sample_ctx (R_SetListingStatus 10 (Some ''published''))) (sample_with ''archived'')))"
    by (rule one_request) simp
  moreover have "db_inv (archived {10} {}) (sample_with ''archived'')"
    by (simp add: db_inv_def sample_with_def sample_world_def archived_def stays_def sample_db_def
      sample_listing_def)
  ultimately show ?thesis using archived_is_final [of sample_env "{10}" "{}" "sample_with ''archived''"] by simp
qed

section \<open>The race\<close>

text \<open>The check that a status may change and the change are two statements.
  A deletion that commits between the two, answered 204, is undone by the change that was allowed for
  the listing as it was read before: the listing ends up published, for everyone to see, although
  archiving is announced as final.\<close>

theorem archived_listing_republished:
  "let removal = run_state (DeleteListing sample_ctx 10) (sample_with ''paused'');
       change = run_state (SetListingStatus sample_ctx 10 (Some ''published''))
         ((sample_with ''paused'')\<lparr>events := [Quiet, Meanwhile (\<lambda>_. db (snd removal))]\<rparr>)
   in status_of (fst removal) = 204 \<and> map l_status (listings (db (snd removal))) = [''archived''] \<and>
      status_of (fst change) = 200 \<and> map l_status (listings (db (snd change))) = [''published'']"
  by code_simp

end
