(* ===== verification/Atomic.thy ===== *)
theory Atomic
  imports Preserve
begin

text \<open>
  What a transaction does when statements fail, but no other request's commit interferes: it succeeds
  with all its writes or fails with none.
\<close>

section \<open>Undisturbed worlds\<close>

definition undisturbed :: "world \<Rightarrow> bool" where
  "undisturbed w \<longleftrightarrow> list_all (\<lambda>e. case e of Meanwhile _ \<Rightarrow> False | _ \<Rightarrow> True) (events w)"

definition calm :: "world \<Rightarrow> bool" where
  "calm w \<longleftrightarrow> undisturbed w \<and> committed w = None"

definition frozen :: "database \<Rightarrow> world \<Rightarrow> bool" where
  "frozen d w \<longleftrightarrow> undisturbed w \<and> committed w = Some d"

lemma undisturbed_update [simp]:
  "undisturbed (w\<lparr>db := d\<rparr>) = undisturbed w" "undisturbed (w\<lparr>committed := c\<rparr>) = undisturbed w"
  "undisturbed (w\<lparr>uuids_drawn := n\<rparr>) = undisturbed w" "undisturbed (w\<lparr>rl := l\<rparr>) = undisturbed w"
  by (simp_all add: undisturbed_def)

lemma calm_db_inv: "calm w \<Longrightarrow> db_inv P w \<longleftrightarrow> P (db w)"
  by (auto simp: calm_def db_inv_def undisturbed_def list_all_iff)

lemma frozen_db_inv: "frozen d w \<Longrightarrow> P d \<Longrightarrow> db_inv P w \<longleftrightarrow> P (db w)"
  by (auto simp: frozen_def db_inv_def undisturbed_def list_all_iff)

lemma db_inv_db: "db_inv P w \<Longrightarrow> P (db w)"
  by (simp add: db_inv_def)

lemma undisturbed_stmt:
  assumes "undisturbed w" and "run_state (stmt f) w = (r, w')"
  obtains (fault) e es where "r = Inl e" "w' = w\<lparr>events := es\<rparr>" "undisturbed w'"
  | (ran) es where "f (w\<lparr>events := es\<rparr>) = (r, w')" "undisturbed (w\<lparr>events := es\<rparr>)"
proof (cases "events w")
  case Nil
  have "w\<lparr>events := []\<rparr> = w" by (simp add: Nil [symmetric])
  moreover have "f w = (r, w')" using assms(2) Nil by (simp add: stmt_def)
  ultimately show ?thesis using assms(1) by (intro ran [of "[]"]) metis+
next
  case (Cons e es)
  show ?thesis
  proof (cases e)
    case (Fault x)
    then show ?thesis using assms Cons by (intro fault [of x es]) (auto simp: stmt_def undisturbed_def)
  next
    case Quiet
    then show ?thesis using assms Cons by (intro ran [of es]) (auto simp: stmt_def undisturbed_def)
  qed (use assms(1) Cons in \<open>simp add: undisturbed_def\<close>)
qed

section \<open>Inside a transaction\<close>

lemma frozen_stmt:
  assumes "\<And>w. frozen d w \<Longrightarrow> frozen d (snd (f w))"
  shows "keeps (frozen d) (stmt f)"
  unfolding keeps_def
proof (intro allI impI)
  fix w assume w: "frozen d w"
  obtain r w' where run: "run_state (stmt f) w = (r, w')" by (rule prod.exhaust)
  from w have "undisturbed w" by (simp add: frozen_def)
  then show "frozen d (snd (run_state (stmt f) w))" using run
  proof (cases rule: undisturbed_stmt)
    case (ran es)
    then have "frozen d (w\<lparr>events := es\<rparr>)" using w by (simp add: frozen_def)
    from assms [OF this] ran run show ?thesis by simp
  qed (use w run in \<open>simp add: frozen_def\<close>)
qed

lemma frozen_statements [keeps_intros]:
  "keeps (frozen d) (query q)" "keeps (frozen d) (query_row qr)" "keeps (frozen d) (exec x)"
  "keeps (frozen d) (insert_row i)"
  unfolding query_def query_row_def exec_def insert_row_def
  by (rule frozen_stmt; simp add: frozen_def split: prod.split)+

lemma undisturbed_insert:
  assumes "undisturbed w" and "run_state (insert_row f) w = (Inr a, w')"
  obtains i t where "f i t (db w) = (Inr a, db w')"
  using assms(1) assms(2) [unfolded insert_row_def]
  by (cases rule: undisturbed_stmt) (auto split: prod.splits)

lemma undisturbed_exec:
  assumes "undisturbed w" and "run_state (exec f) w = (Inr a, w')"
  obtains t where "f t (db w) = (Inr a, db w')"
  using assms(1) assms(2) [unfolded exec_def]
  by (cases rule: undisturbed_stmt) (auto split: prod.splits)

section \<open>All or nothing\<close>

lemma in_tx_outcome:
  assumes "undisturbed w" and "run_state (in_tx body) w = (r, w')" and "\<And>d. keeps (frozen d) body"
  obtains (failed) e where "r = Inl e" "undisturbed w'" "db w' = db w" "committed w = None \<Longrightarrow> calm w'"
  | (committed) a w1 w2 where "r = Inr a" "calm w'" "frozen (db w) w1" "db w1 = db w"
      "run_state body w1 = (Inr a, w2)" "frozen (db w) w2" "db w' = db w2"
proof -
  obtain b w1 where start: "run_state begin_tx w = (b, w1)" by (rule prod.exhaust)
  from assms(1) start [unfolded begin_tx_def] show ?thesis
  proof (cases rule: undisturbed_stmt)
    case (fault e es)
    then show ?thesis using assms(2) start by (intro failed [of e]) (auto simp: in_tx_def calm_def)
  next
    case (ran es)
    then have b: "b = Inr ()" and w1: "frozen (db w) w1" "db w1 = db w"
      by (auto simp: frozen_def)
    obtain x w2 where body: "run_state body w1 = (x, w2)" by (rule prod.exhaust)
    from keepsD [OF assms(3) w1(1) body] have w2: "frozen (db w) w2" .
    show ?thesis
    proof (cases x)
      case (Inl e)
      then show ?thesis using assms(2) start b body w2
        by (intro failed [of e]) (auto simp: in_tx_def rollback_def calm_def frozen_def)
    next
      case (Inr a)
      obtain c w3 where finish: "run_state commit w2 = (c, w3)" by (rule prod.exhaust)
      have "undisturbed w2" using w2 by (simp add: frozen_def)
      then show ?thesis using finish [unfolded commit_def]
      proof (cases rule: undisturbed_stmt)
        case (fault e es)
        then show ?thesis using assms(2) start b body w2 finish Inr
          by (intro failed [of e]) (auto simp: in_tx_def rollback_def calm_def frozen_def)
      next
        case (ran es)
        then show ?thesis using assms(2) start b body w1 w2 finish Inr
          by (intro committed [of a w1 w2]) (auto simp: in_tx_def calm_def frozen_def)
      qed
    qed
  qed
qed

section \<open>Triples\<close>

text \<open>
  What a computation leaves in the database and returns, when statements may fail but nobody
  interferes. The rules for statements are given for a fixed database before, as everything here is
  said relative to the database a request started from.
\<close>

definition triple :: "(database \<Rightarrow> bool) \<Rightarrow> 'a go \<Rightarrow> ('a \<Rightarrow> database \<Rightarrow> bool) \<Rightarrow> bool" where
  "triple P m Q \<longleftrightarrow> (\<forall>w r w'. undisturbed w \<longrightarrow> P (db w) \<longrightarrow> run_state m w = (r, w') \<longrightarrow>
     undisturbed w' \<and> Q r (db w'))"

abbreviation succeeds_with ::
  "(database \<Rightarrow> bool) \<Rightarrow> 'a res go \<Rightarrow> ('a \<Rightarrow> database \<Rightarrow> bool) \<Rightarrow> bool" where
  "succeeds_with P m Q \<equiv> triple P m (\<lambda>r d. case r of Inl _ \<Rightarrow> True | Inr a \<Rightarrow> Q a d)"

named_theorems triple_intros \<open>rules for triples\<close>

lemma tripleD:
  "triple P m Q \<Longrightarrow> undisturbed w \<Longrightarrow> P (db w) \<Longrightarrow> run_state m w = (r, w') \<Longrightarrow> undisturbed w' \<and> Q r (db w')"
  unfolding triple_def by blast

lemma triple_conseq:
  "triple P m Q \<Longrightarrow> (\<And>d. P' d \<Longrightarrow> P d) \<Longrightarrow> (\<And>r d. Q r d \<Longrightarrow> Q' r d) \<Longrightarrow> triple P' m Q'"
  unfolding triple_def by blast

lemma triple_post: "triple P m Q \<Longrightarrow> (\<And>r d. Q r d \<Longrightarrow> Q' r d) \<Longrightarrow> triple P m Q'"
  unfolding triple_def by blast

lemma triple_bind:
  assumes "triple P m Q" and "\<And>a. triple (Q a) (k a) R"
  shows "triple P (State_Monad.bind m k) R"
  unfolding triple_def
proof (intro allI impI)
  fix w r w' assume w: "undisturbed w" "P (db w)" "run_state (State_Monad.bind m k) w = (r, w')"
  obtain a w1 where m: "run_state m w = (a, w1)" by (rule prod.exhaust)
  from tripleD [OF assms(1) w(1,2) m] w(3) m show "undisturbed w' \<and> R r (db w')"
    by (auto dest: tripleD [OF assms(2)])
qed

lemma triple_pure: "(\<And>d. P d \<Longrightarrow> B) \<Longrightarrow> (B \<Longrightarrow> triple P m Q) \<Longrightarrow> triple P m Q"
  unfolding triple_def by blast

lemma triple_return: "(\<And>d. P d \<Longrightarrow> Q a d) \<Longrightarrow> triple P (State_Monad.return a) Q"
  by (simp add: triple_def)

lemma triple_if: "(b \<Longrightarrow> triple P m Q) \<Longrightarrow> (\<not> b \<Longrightarrow> triple P n Q) \<Longrightarrow> triple P (if b then m else n) Q"
  by simp

lemma triple_sum:
  "(\<And>e. r = Inl e \<Longrightarrow> triple P (f e) Q) \<Longrightarrow> (\<And>a. r = Inr a \<Longrightarrow> triple P (g a) Q) \<Longrightarrow>
   triple P (case r of Inl e \<Rightarrow> f e | Inr a \<Rightarrow> g a) Q"
  by (cases r) auto

lemma triple_stmt:
  assumes "\<And>e d. P d \<Longrightarrow> Q (Inl e) d"
    and "\<And>w r w'. undisturbed w \<Longrightarrow> P (db w) \<Longrightarrow> f w = (r, w') \<Longrightarrow> undisturbed w' \<and> Q r (db w')"
  shows "triple P (stmt f) Q"
  unfolding triple_def
proof (intro allI impI)
  fix w r w' assume w: "undisturbed w" "P (db w)" "run_state (stmt f) w = (r, w')"
  from w(1,3) show "undisturbed w' \<and> Q r (db w')"
  proof (cases rule: undisturbed_stmt)
    case (ran es)
    from assms(2) [OF ran(2) _ ran(1)] w(2) show ?thesis by simp
  qed (use assms(1) w(2) in simp)
qed

lemma triple_query_row:
  assumes "\<And>e d. P d \<Longrightarrow> Q (Inl e) d" and "\<And>t d a. P d \<Longrightarrow> f t d = Some a \<Longrightarrow> Q (Inr a) d"
  shows "triple P (query_row f) Q"
  unfolding query_row_def by (rule triple_stmt) (auto intro: assms split: option.splits)

lemma triple_exec:
  assumes "\<And>e d. P d \<Longrightarrow> Q (Inl e) d" and "\<And>t d r d'. P d \<Longrightarrow> f t d = (r, d') \<Longrightarrow> Q r d'"
  shows "triple P (exec f) Q"
  unfolding exec_def by (rule triple_stmt) (auto intro: assms split: prod.splits)

lemma triple_insert_row:
  assumes "\<And>e d. P d \<Longrightarrow> Q (Inl e) d" and "\<And>i t d r d'. P d \<Longrightarrow> f i t d = (r, d') \<Longrightarrow> Q r d'"
  shows "triple P (insert_row f) Q"
  unfolding insert_row_def by (rule triple_stmt) (auto intro: assms split: prod.splits)

lemma triple_in_tx:
  assumes "succeeds_with (\<lambda>d. d = D) body Q" and "\<And>d. keeps (frozen d) body"
  shows "triple (\<lambda>d. d = D) (in_tx body) (\<lambda>r d. case r of Inl _ \<Rightarrow> d = D | Inr a \<Rightarrow> Q a d)"
  unfolding triple_def
proof (intro allI impI)
  fix w r w' assume w: "undisturbed w" "db w = D" "run_state (in_tx body) w = (r, w')"
  from w(1,3) assms(2)
  show "undisturbed w' \<and> (case r of Inl _ \<Rightarrow> db w' = D | Inr a \<Rightarrow> Q a (db w'))"
  proof (cases rule: in_tx_outcome)
    case (committed a w1 w2)
    have "undisturbed w1" using committed(3) by (simp add: frozen_def)
    from tripleD [OF assms(1) this _ committed(5)] committed w(2) show ?thesis by (simp add: calm_def)
  qed (use w(2) in simp)
qed

text \<open>What only reads.\<close>

definition reads :: "'a go \<Rightarrow> bool" where
  "reads m \<longleftrightarrow> (\<forall>w r w'. undisturbed w \<longrightarrow> run_state m w = (r, w') \<longrightarrow> undisturbed w' \<and> db w' = db w)"

named_theorems reads_intros \<open>rules for computations that only read\<close>

lemma readsD:
  "reads m \<Longrightarrow> undisturbed w \<Longrightarrow> run_state m w = (r, w') \<Longrightarrow> undisturbed w' \<and> db w' = db w"
  unfolding reads_def by blast

lemma triple_reads: "reads m \<Longrightarrow> triple P m (\<lambda>_. P)"
  unfolding triple_def by (metis readsD)

lemma reads_bind [reads_intros]:
  assumes "reads m" and "\<And>a. reads (k a)"
  shows "reads (State_Monad.bind m k)"
  unfolding reads_def
proof (intro allI impI)
  fix w r w' assume w: "undisturbed w" "run_state (State_Monad.bind m k) w = (r, w')"
  obtain a w1 where m: "run_state m w = (a, w1)" by (rule prod.exhaust)
  with w(2) have k: "run_state (k a) w1 = (r, w')" by simp
  from readsD [OF assms(1) w(1) m] readsD [OF assms(2) _ k] show "undisturbed w' \<and> db w' = db w" by simp
qed

lemma reads_return [reads_intros]: "reads (State_Monad.return a)"
  by (simp add: reads_def)

lemma reads_branches [reads_intros]:
  "reads m \<Longrightarrow> reads n \<Longrightarrow> reads (if b then m else n)"
  "(\<And>e. reads (f e)) \<Longrightarrow> (\<And>a. reads (g a)) \<Longrightarrow> reads (case r of Inl e \<Rightarrow> f e | Inr a \<Rightarrow> g a)"
  "reads m \<Longrightarrow> (\<And>a. reads (h a)) \<Longrightarrow> reads (case x of None \<Rightarrow> m | Some a \<Rightarrow> h a)"
  "(\<And>y. reads (l y)) \<Longrightarrow> reads (Let z l)"
  "(\<And>y v. reads (q y v)) \<Longrightarrow> reads (case p of (y, v) \<Rightarrow> q y v)"
  by (simp_all split: sum.split option.split prod.split)

lemma reads_statements [reads_intros]: "reads (query q)" "reads (query_row qr)"
proof -
  have stmt: "reads (stmt f)" if "\<And>w. db (snd (f w)) = db w \<and> events (snd (f w)) = events w"
    for f :: "world \<Rightarrow> 'x res \<times> world"
    unfolding reads_def
  proof (intro allI impI)
    fix w r w' assume w: "undisturbed w" "run_state (stmt f) w = (r, w')"
    then show "undisturbed w' \<and> db w' = db w"
    proof (cases rule: undisturbed_stmt)
      case (ran es)
      with that [of "w\<lparr>events := es\<rparr>"] show ?thesis by (simp add: undisturbed_def)
    qed simp
  qed
  show "reads (query q)" "reads (query_row qr)" unfolding query_def query_row_def by (rule stmt; simp)+
qed

lemma reads_outside [reads_intros]: "reads (consulting c)" "reads (send_mail x)" "reads time_now"
  by (auto simp: reads_def send_mail_def undisturbed_def split: list.splits option.splits)

lemma calm_statements:
  "keeps calm (query q)" "keeps calm (query_row qr)" "keeps calm (exec x)" "keeps calm (insert_row i)"
proof -
  have stmt: "keeps calm (stmt f)" if "\<And>w. calm w \<Longrightarrow> calm (snd (f w))" for f :: "world \<Rightarrow> 'x res \<times> world"
    unfolding keeps_def
  proof (intro allI impI)
    fix w assume w: "calm w"
    obtain r w' where run: "run_state (stmt f) w = (r, w')" by (rule prod.exhaust)
    from w have "undisturbed w" by (simp add: calm_def)
    then show "calm (snd (run_state (stmt f) w))" using run
    proof (cases rule: undisturbed_stmt)
      case (ran es)
      then have "calm (w\<lparr>events := es\<rparr>)" using w by (simp add: calm_def)
      from that [OF this] ran run show ?thesis by simp
    qed (use w run in \<open>simp add: calm_def\<close>)
  qed
  show "keeps calm (query q)" "keeps calm (query_row qr)" "keeps calm (exec x)" "keeps calm (insert_row i)"
    unfolding query_def query_row_def exec_def insert_row_def
    by (rule stmt; simp add: calm_def split: prod.split)+
qed

end
