(* ===== verification/Authority.thy ===== *)
theory Authority
  imports Protected
begin

text \<open>
  Three facts no request can bring about except the one that is meant to: an address is shared by its
  owner's \<open>ShareAddress\<close>, a message is written by a participant, and roles, suspensions, takedowns
  and the ledger change by an admin's request.
\<close>

section \<open>The address\<close>

definition withheld :: "uuid \<Rightarrow> uuid \<Rightarrow> database \<Rightarrow> bool" where
  "withheld i ow d \<longleftrightarrow> i \<in> c_id ` set (conversations d) \<and>
     (\<forall>c \<in> set (conversations d). c_id c = i \<longrightarrow> c_owner_id c = ow \<and> c_address_shared_at c = None)"

lemma withheld_frame [simp]:
  "withheld i ow (d\<lparr>users := us\<rparr>) = withheld i ow d" "withheld i ow (d\<lparr>listings := ls\<rparr>) = withheld i ow d"
  "withheld i ow (d\<lparr>requests := qs\<rparr>) = withheld i ow d" "withheld i ow (d\<lparr>messages := ms\<rparr>) = withheld i ow d"
  "withheld i ow (d\<lparr>offers := xs\<rparr>) = withheld i ow d" "withheld i ow (d\<lparr>admin_actions := as\<rparr>) = withheld i ow d"
  "withheld i ow (d\<lparr>verification_tokens := ks\<rparr>) = withheld i ow d"
  "withheld i ow (d\<lparr>reset_tokens := ks\<rparr>) = withheld i ow d"
  "withheld i ow (d\<lparr>refresh_tokens := rs\<rparr>) = withheld i ow d"
  by (simp_all add: withheld_def)

lemma withheld_update:
  assumes "withheld i ow d" and "\<And>c. c_id (f c) = c_id c" "\<And>c. c_owner_id (f c) = c_owner_id c"
    and "\<And>c. Q c \<Longrightarrow> c_id c = i \<Longrightarrow> c_owner_id c = ow \<Longrightarrow> c_address_shared_at (f c) = c_address_shared_at c"
  shows "withheld i ow (d\<lparr>conversations := update_where Q f (conversations d)\<rparr>)"
  using assms by (force simp: withheld_def set_update_where image_update_where)

lemma withheld_update_returning:
  assumes "withheld i ow d" and "\<And>c. c_id (f c) = c_id c" "\<And>c. c_owner_id (f c) = c_owner_id c"
    and "\<And>c. c_address_shared_at (f c) = c_address_shared_at c"
  shows "withheld i ow (d\<lparr>conversations := snd (update_returning Q f check (conversations d))\<rparr>)"
  using assms(1) withheld_update [OF assms(1,2,3), of Q] assms(4)
  by (simp add: update_returning_def withheld_def split: option.split)

lemma withheld_writes:
  "keeps (db_inv (withheld i ow)) (CreateConversation j ow' en me)"
  "keeps (db_inv (withheld i ow)) (CloseConversation_sql me k)"
  "keeps (db_inv (withheld i ow)) (ReopenConversation k me)"
  "\<not> (k = i \<and> me = ow) \<Longrightarrow> keeps (db_inv (withheld i ow)) (ShareConversationAddress k me)"
  "keeps (db_inv (withheld i ow)) (MarkConversationRead_sql me k)"
proof -
  show "keeps (db_inv (withheld i ow)) (CreateConversation j ow' en me)"
    unfolding CreateConversation_def
    by (rule db_inv_insert_row) (auto simp: Let_def withheld_def list_ex_iff conversations_clash_def)
  show "keeps (db_inv (withheld i ow)) (ShareConversationAddress k me)" if "\<not> (k = i \<and> me = ow)"
    unfolding ShareConversationAddress_def Let_def
    by (rule db_inv_exec, simp only: snd_conv, rule withheld_update) (use that in \<open>auto simp: may_share_def\<close>)
qed (unfold conversation_query_defs Let_def,
  (rule db_inv_exec, simp, rule withheld_update_returning withheld_update; simp)+)

interpretation address: preserved "withheld i ow" "\<lambda>_. True" "\<lambda>k me. \<not> (k = i \<and> me = ow)" True for i ow
  by unfold_locales (auto intro: withheld_writes frame_users frame_tokens frame_listings frame_requests
    frame_messages frame_offers frame_actions)

text \<open>C3: An address that is withheld in a conversation stays withheld,
  through whatever requests of whomever - the other participant, other owners and their offers, admins,
  the owner himself - until the owner asks, with \<open>ShareAddress\<close>, to share it in that conversation. Till
  then no read of the conversation, by either participant, carries the address or the coordinates.\<close>

theorem address_shared_only_by_its_owner:
  assumes "(history env (\<lambda>ctx r. \<not> (r = R_ShareAddress i \<and> (\<exists>p. ctx_principal ctx = Some p \<and> p_user_id p = ow)))
      (withheld i ow))\<^sup>*\<^sup>* w w'"
    and "db_inv (withheld i ow) w" and "quiet w'"
    and "run_state (GetConversationForParticipant u i) w' = (Inr row, w'')"
  shows "withheld i ow (db w') \<and> cv_place (toConversation row viewer) = None"
proof -
  have "db_inv (withheld i ow) w'"
    by (rule db_inv_history [OF assms(1,2) address.keeps_serve]) auto
  then have still: "withheld i ow (db w')" by (simp add: db_inv_def)
  obtain c where "find_conversation (db w') i = Some c" "conversation_row_for (db w') u c = Some row"
    using assms(3,4)
    by (auto simp: GetConversationForParticipant_def stmt_simps split: option.splits if_splits)
  with still have "cw_place_address_line row = None"
    by (auto simp: withheld_def conversation_row_for_def revealed_def Let_def
      dest!: find_conversation_id split: option.splits)
  with still show ?thesis by (simp add: toConversation_def Let_def)
qed

lemma address_shared_only_by_its_owner_witness:
  "\<exists>row. fst (run_state (GetConversationForParticipant 2 30)
       (snd (run_state (SendMessage sample_env student_ctx 30 (Some ''Where is it?'')) sample_world))) = Inr row \<and>
     cv_place (toConversation row \<lparr>p_user_id = 2, p_role = ''user'', p_verified = True\<rparr>) = None"
proof -
  let ?w = "snd (run_state (SendMessage sample_env student_ctx 30 (Some ''Where is it?'')) sample_world)"
  let ?q = "run_state (GetConversationForParticipant 2 30) ?w"
  have steps: "(history sample_env (\<lambda>ctx r. \<not> (r = R_ShareAddress 30 \<and>
      (\<exists>p. ctx_principal ctx = Some p \<and> p_user_id p = 1))) (withheld 30 1))\<^sup>*\<^sup>* sample_world ?w"
    using one_request [where ctx = student_ctx and r = "R_SendMessage 30 (Some ''Where is it?'')"
        and env = sample_env and w = sample_world] by simp
  have "withheld 30 1 sample_db" by code_simp
  then have start: "db_inv (withheld 30 1) sample_world" by (rule sample_db_inv)
  have "quiet ?w" by code_simp
  moreover have "\<not> isl (fst ?q)" by code_simp
  then obtain row where "?q = (Inr row, snd ?q)" by (metis isl_def prod.collapse sum.exhaust)
  ultimately show ?thesis
    using address_shared_only_by_its_owner [OF steps start] by (metis fst_conv)
qed

section \<open>Messages\<close>

text \<open>A conversation about one listing, between its owner and one student, and who writes into it.\<close>

definition thread :: "uuid \<Rightarrow> uuid \<Rightarrow> uuid \<Rightarrow> uuid \<Rightarrow> database \<Rightarrow> bool" where
  "thread i j ow en d \<longleftrightarrow>
     (i \<in> c_id ` set (conversations d) \<and>
      (\<forall>c \<in> set (conversations d). c_id c = i \<longrightarrow> c_listing_id c = j \<and> c_owner_id c = ow \<and> c_enquirer_id c = en) \<and>
      (\<forall>m \<in> set (messages d). m_conversation_id m = i \<longrightarrow> m_sender_id m \<in> {ow, en})) \<and>
     owner_stays j ow d"

lemma thread_frame [simp]:
  "thread i j ow en (d\<lparr>users := us\<rparr>) = thread i j ow en d" "thread i j ow en (d\<lparr>requests := qs\<rparr>) = thread i j ow en d"
  "thread i j ow en (d\<lparr>offers := xs\<rparr>) = thread i j ow en d"
  "thread i j ow en (d\<lparr>admin_actions := as\<rparr>) = thread i j ow en d"
  "thread i j ow en (d\<lparr>verification_tokens := ks\<rparr>) = thread i j ow en d"
  "thread i j ow en (d\<lparr>reset_tokens := ks\<rparr>) = thread i j ow en d"
  "thread i j ow en (d\<lparr>refresh_tokens := rs\<rparr>) = thread i j ow en d"
  by (simp_all add: thread_def)

lemma thread_update:
  assumes "thread i j ow en d" and "\<And>c. c_id (f c) = c_id c" "\<And>c. c_listing_id (f c) = c_listing_id c"
    "\<And>c. c_owner_id (f c) = c_owner_id c" "\<And>c. c_enquirer_id (f c) = c_enquirer_id c"
  shows "thread i j ow en (d\<lparr>conversations := update_where Q f (conversations d)\<rparr>)"
    and "thread i j ow en (d\<lparr>conversations := snd (update_returning Q f check (conversations d))\<rparr>)"
proof -
  have "c_listing_id c = j \<and> c_owner_id c = ow \<and> c_enquirer_id c = en"
    if "c \<in> set (update_where Q f (conversations d))" "c_id c = i" for c
    using that assms by (auto simp: thread_def set_update_where split: if_splits)
  then show "thread i j ow en (d\<lparr>conversations := update_where Q f (conversations d)\<rparr>)"
    using assms(1,2) by (simp add: thread_def image_update_where)
  then show "thread i j ow en (d\<lparr>conversations := snd (update_returning Q f check (conversations d))\<rparr>)"
    using assms(1) by (simp add: update_returning_def split: option.split)
qed

lemma thread_writes:
  "keeps (db_inv (thread i j ow en)) (CreateConversation j' ow' en' me)"
  "k \<noteq> i \<or> me \<in> {ow, en} \<Longrightarrow> keeps (db_inv (thread i j ow en)) (CreateMessage k me body)"
  "keeps (db_inv (thread i j ow en)) (CloseConversation_sql me k)"
  "keeps (db_inv (thread i j ow en)) (ReopenConversation k me)"
  "keeps (db_inv (thread i j ow en)) (ShareConversationAddress k me)"
  "keeps (db_inv (thread i j ow en)) (MarkConversationRead_sql me k)"
proof -
  show "keeps (db_inv (thread i j ow en)) (CreateConversation j' ow' en' me)"
    unfolding CreateConversation_def
    by (rule db_inv_insert_row) (auto simp: Let_def thread_def list_ex_iff conversations_clash_def)
  show "keeps (db_inv (thread i j ow en)) (CreateMessage k me body)" if "k \<noteq> i \<or> me \<in> {ow, en}"
    unfolding CreateMessage_def
    by (rule db_inv_insert_row) (use that in \<open>auto simp: Let_def thread_def\<close>)
qed (unfold conversation_query_defs Let_def, (rule db_inv_exec, simp, rule thread_update; simp)+)

lemma thread_listings:
  "keeps (db_inv (thread i j ow en)) (CreateListing_sql p)"
  "keeps (db_inv (thread i j ow en)) (UpdateListing_sql k u)"
  "keeps (db_inv (thread i j ow en)) (SetListingStatus_sql k s)"
  "keeps (db_inv (thread i j ow en)) (RemoveListing k actor reason)"
  "keeps (db_inv (thread i j ow en)) (RestoreListing k)"
  unfolding thread_def [abs_def] by (rule owner_stays_listings; simp)+

interpretation thread: preserved "thread i j ow en" "\<lambda>_. True" "\<lambda>_ _. True" True for i j ow en
proof unfold_locales
  fix d c me body
  assume "thread i j ow en d" "c \<in> set (conversations d)" "participant me c"
  then have "c_id c \<noteq> i \<or> me \<in> {ow, en}" by (auto simp: thread_def participant_def)
  then show "keeps (db_inv (thread i j ow en)) (CreateMessage (c_id c) me body)" by (rule thread_writes)
next
  fix d k l d' c body
  assume "thread i j ow en d" "find_listing d k = Some l" "thread i j ow en d'"
    "c \<in> set (conversations d')" "c_listing_id c = k"
  then have "c_id c \<noteq> i \<or> l_owner_id l \<in> {ow, en}"
    by (auto simp: thread_def dest: owner_stays_find)
  then show "keeps (db_inv (thread i j ow en)) (CreateMessage (c_id c) (l_owner_id l) body)"
    by (rule thread_writes)
qed (simp_all add: thread_writes thread_listings frame_users frame_tokens frame_requests frame_offers
  frame_actions)



section \<open>Authority\<close>

text \<open>
  What only admins decide: who is an admin, who is suspended, since when, by whom and why, which posts
  are taken down and why, and the ledger.
\<close>

definition marked :: "('r \<Rightarrow> bool) \<Rightarrow> ('r \<Rightarrow> 'a) \<Rightarrow> 'r list \<Rightarrow> 'a set" where
  "marked B g xs = g ` {x \<in> set xs. B x}"

lemma marked_append [simp]: "marked B g (xs @ ys) = marked B g xs \<union> marked B g ys"
  by (auto simp: marked_def)

lemma marked_Cons [simp]: "marked B g (x # xs) = (if B x then {g x} else {}) \<union> marked B g xs"
  by (auto simp: marked_def)

lemma marked_Nil [simp]: "marked B g [] = {}"
  by (simp add: marked_def)

lemma marked_update:
  "(\<And>x. B (f x) = B x) \<Longrightarrow> (\<And>x. g (f x) = g x) \<Longrightarrow> marked B g (update_where Q f xs) = marked B g xs"
  by (induction xs) (simp_all add: update_where_def)

lemma marked_update_returning:
  "(\<And>x. B (f x) = B x) \<Longrightarrow> (\<And>x. g (f x) = g x) \<Longrightarrow>
   marked B g (snd (update_returning Q f check xs)) = marked B g xs"
  by (simp add: update_returning_def marked_update split: option.split)

record authority =
  au_admins :: "uuid set"
  au_suspensions :: "(uuid \<times> time option \<times> uuid option \<times> string option) set"
  au_listings_down :: "(uuid \<times> time option \<times> uuid option \<times> string option) set"
  au_requests_down :: "(uuid \<times> time option \<times> uuid option \<times> string option) set"
  au_ledger :: "admin_action list"

definition authority_of :: "database \<Rightarrow> authority" where
  "authority_of d =
     \<lparr>au_admins = marked (\<lambda>u. u_role u = ''admin'') u_id (users d),
      au_suspensions = marked (\<lambda>u. u_suspended_at u \<noteq> None)
        (\<lambda>u. (u_id u, u_suspended_at u, u_suspended_by u, u_suspend_reason u)) (users d),
      au_listings_down = marked (\<lambda>l. l_removed_at l \<noteq> None)
        (\<lambda>l. (l_id l, l_removed_at l, l_removed_by l, l_removed_reason l)) (listings d),
      au_requests_down = marked (\<lambda>q. q_removed_at q \<noteq> None)
        (\<lambda>q. (q_id q, q_removed_at q, q_removed_by q, q_removed_reason q)) (requests d),
      au_ledger = admin_actions d\<rparr>"

lemma authority_frame [simp]:
  "authority_of (d\<lparr>conversations := cs\<rparr>) = authority_of d" "authority_of (d\<lparr>messages := ms\<rparr>) = authority_of d"
  "authority_of (d\<lparr>offers := xs\<rparr>) = authority_of d" "authority_of (d\<lparr>verification_tokens := ks\<rparr>) = authority_of d"
  "authority_of (d\<lparr>reset_tokens := ks\<rparr>) = authority_of d" "authority_of (d\<lparr>refresh_tokens := rs\<rparr>) = authority_of d"
  by (simp_all add: authority_of_def)

lemma authority_accounts:
  "keeps (db_inv (\<lambda>d. authority_of d = A)) (CreateUser email username hash)"
  "keeps (db_inv (\<lambda>d. authority_of d = A)) (MarkUserVerified i)"
  "keeps (db_inv (\<lambda>d. authority_of d = A)) (SetEmailNotifications b i)"
  "keeps (db_inv (\<lambda>d. authority_of d = A)) (UpdateUserPassword i hash)"
  unfolding account_query_defs
  by (rule db_inv_exec db_inv_insert_row;
      simp add: authority_of_def update_user_def Let_def marked_update split: option.split)+

lemma authority_posts:
  "keeps (db_inv (\<lambda>d. authority_of d = A)) (CreateListing_sql p)"
  "keeps (db_inv (\<lambda>d. authority_of d = A)) (UpdateListing_sql i u)"
  "keeps (db_inv (\<lambda>d. authority_of d = A)) (SetListingStatus_sql i s)"
  "keeps (db_inv (\<lambda>d. authority_of d = A)) (CreateRequest_sql q)"
  "keeps (db_inv (\<lambda>d. authority_of d = A)) (UpdateRequest_sql i v)"
  "keeps (db_inv (\<lambda>d. authority_of d = A)) (SetRequestStatus_sql i s)"
  unfolding post_query_defs
  by (rule db_inv_exec db_inv_insert_row;
      simp add: authority_of_def Let_def marked_update_returning set_listing_def set_request_def
        split: option.split)+

interpretation authority: preserved "\<lambda>d. authority_of d = A" "\<lambda>_. True" "\<lambda>_ _. True" False for A
  by unfold_locales (simp_all add: authority_accounts authority_posts frame_tokens frame_conversations
    frame_messages frame_offers)

text \<open>C2: Through whatever requests of whomever that do not carry an admin's
  session - owners editing their posts, registrations, logins and resets included - and whatever
  faults they meet, nobody becomes or ceases to be an admin, nobody is suspended or reinstated, no post
  is taken down or restored, and the ledger stays as it is.\<close>

theorem only_admins_moderate:
  assumes "(history env (\<lambda>ctx _. requireAdmin ctx = None) (\<lambda>d. authority_of d = A))\<^sup>*\<^sup>* w w'"
    and "db_inv (\<lambda>d. authority_of d = A) w"
  shows "authority_of (db w') = A"
proof -
  have "db_inv (\<lambda>d. authority_of d = A) w'"
    by (rule db_inv_history [OF assms authority.keeps_serve]) auto
  then show ?thesis by (simp add: db_inv_def)
qed

lemma only_admins_moderate_witness:
  "authority_of (db (snd (run_state (RemoveAdminListing student_ctx 10 (Some ''I do not like it'')) sample_world))) =
   authority_of sample_db"
proof -
  have "requireAdmin student_ctx = None" by code_simp
  then have "(history sample_env (\<lambda>ctx _. requireAdmin ctx = None) (\<lambda>d. authority_of d = authority_of sample_db))\<^sup>*\<^sup>*
      sample_world (snd (run_state (RemoveAdminListing student_ctx 10 (Some ''I do not like it'')) sample_world))"
    using one_request [where ctx = student_ctx and r = "R_RemoveAdminListing 10 (Some ''I do not like it'')"
        and env = sample_env and w = sample_world] by simp
  from only_admins_moderate [OF this sample_db_inv] show ?thesis by simp
qed

end
