(* ===== verification/LedgerProofs.thy ===== *)
theory LedgerProofs
  imports Atomic Authority
begin

text \<open>
  The admin ledger is complete: whatever a request changes of what only admins decide, it records in
  the same transaction, under the name of the admin who made it, and it touches nobody else.
\<close>

section \<open>One audited change\<close>

lemma undisturbed_log:
  assumes "undisturbed w" and "run_state (InsertAdminAction actor act ty i why detail) w = (Inr row, w')"
  shows "db w' = (db w)\<lparr>admin_actions := admin_actions (db w) @ [row]\<rparr> \<and>
    a_actor_id row = actor \<and> a_action row = act \<and> a_subject_type row = ty \<and> a_subject_id row = i \<and>
    a_reason row = why \<and> a_detail row = detail"
  using assms(1) assms(2) [unfolded InsertAdminAction_def]
  by (cases rule: undisturbed_insert) (auto simp: Let_def split: if_splits)

lemma Audited_outcome:
  assumes "calm w" and "run_state (Audited a change) w = (r, w')" and "\<And>d. keeps (frozen d) change"
  obtains (failed) e where "r = Inl e" "calm w'" "db w' = db w"
  | (recorded) row out detail w1 w2 where "r = Inr (row, out)" "calm w'"
      "frozen (db w) w1" "db w1 = db w" "run_state change w1 = (Inr (detail, out), w2)"
      "db w' = (db w2)\<lparr>admin_actions := admin_actions (db w2) @ [row]\<rparr>"
      "a_actor_id row = ac_actor a" "a_action row = ac_action a"
      "a_subject_type row = ac_subject_type a" "a_subject_id row = ac_subject a"
      "a_reason row = trimmedReason (ac_reason a)" "a_reason row \<noteq> []" "a_detail row = detail"
proof (cases "trimmedReason (ac_reason a) = []")
  case True
  then show ?thesis using assms(1,2) by (intro failed [of ErrReasonRequired]) (auto simp: Audited_def)
next
  case False
  let ?log = "\<lambda>detail. InsertAdminAction (ac_actor a) (ac_action a) (ac_subject_type a) (ac_subject a)
    (trimmedReason (ac_reason a)) detail"
  let ?body = "do {
    r \<leftarrow> change;
    case r of
      Inl e \<Rightarrow> State_Monad.return (Inl e)
    | Inr (detail, out) \<Rightarrow> do {
        logged \<leftarrow> ?log detail;
        case logged of
          Inl e \<Rightarrow> State_Monad.return (Inl (Wrapped ''record admin action'' e))
        | Inr row \<Rightarrow> State_Monad.return (Inr (row, out)) } }"
  have run: "run_state (in_tx ?body) w = (r, w')"
    using assms(2) False by (simp add: Audited_def)
  have kept: "keeps (frozen d) ?body" for d
    unfolding InsertAdminAction_def by (intro keeps_intros assms(3))
  have u: "undisturbed w" "committed w = None" using assms(1) by (simp_all add: calm_def)
  from u(1) run kept show ?thesis
  proof (cases rule: in_tx_outcome)
    case (committed x w1 w2)
    obtain c w3 where c: "run_state change w1 = (c, w3)" by (rule prod.exhaust)
    with committed(5) obtain detail out row where ok: "c = Inr (detail, out)" "x = (row, out)"
        and log: "run_state (?log detail) w3 = (Inr row, w2)"
      by (auto split: sum.splits prod.splits)
    have "undisturbed w3" using keepsD [OF assms(3) committed(3) c] by (simp add: frozen_def)
    note log = undisturbed_log [OF this log]
    show ?thesis using committed ok c False log
      by (intro recorded [of row out w1 detail w3]) simp_all
  qed (use u(2) in \<open>auto intro: failed\<close>)
qed

section \<open>Bystanders\<close>

text \<open>What only admins decide of every account and post but one, and the marks of all others.\<close>

definition bystanders :: "string \<times> uuid \<Rightarrow> database \<Rightarrow> authority" where
  "bystanders s d =
     \<lparr>au_admins = marked (\<lambda>u. u_role u = ''admin'' \<and> (''user'', u_id u) \<noteq> s) u_id (users d),
      au_suspensions = marked (\<lambda>u. u_suspended_at u \<noteq> None \<and> (''user'', u_id u) \<noteq> s)
        (\<lambda>u. (u_id u, u_suspended_at u, u_suspended_by u, u_suspend_reason u)) (users d),
      au_listings_down = marked (\<lambda>l. l_removed_at l \<noteq> None \<and> (''listing'', l_id l) \<noteq> s)
        (\<lambda>l. (l_id l, l_removed_at l, l_removed_by l, l_removed_reason l)) (listings d),
      au_requests_down = marked (\<lambda>q. q_removed_at q \<noteq> None \<and> (''request'', q_id q) \<noteq> s)
        (\<lambda>q. (q_id q, q_removed_at q, q_removed_by q, q_removed_reason q)) (requests d),
      au_ledger = admin_actions d\<rparr>"

lemma marked_apart:
  "(\<And>x. Q x \<Longrightarrow> \<not> B x \<and> \<not> B (f x)) \<Longrightarrow> marked B g (update_where Q f xs) = marked B g xs"
  by (induction xs) (auto simp: update_where_def)

lemma marked_apart_returning:
  "(\<And>x. Q x \<Longrightarrow> \<not> B x \<and> \<not> B (f x)) \<Longrightarrow>
   marked B g (snd (update_returning Q f check xs)) = marked B g xs"
  by (simp add: update_returning_def marked_apart split: option.split)

lemma bystanders_frame [simp]:
  "bystanders s (d\<lparr>refresh_tokens := rs\<rparr>) = bystanders s d"
  by (simp add: bystanders_def)

lemma bystanders_update_user:
  assumes "\<And>u. u_id (f u) = u_id u"
  shows "bystanders (''user'', i) (snd (update_user cond f i t d)) = bystanders (''user'', i) d"
  unfolding update_user_def bystanders_def Let_def
  by (simp split: option.split) (auto intro!: marked_apart simp: assms)

lemma bystanders_update_listing:
  assumes "\<And>l. l_id (f l) = l_id l" and "\<And>l. Q l \<Longrightarrow> l_id l = i"
  shows "bystanders (''listing'', i) (snd (on_listings (update_returning Q f check) d)) =
    bystanders (''listing'', i) d"
  unfolding bystanders_def by simp (rule marked_apart_returning, simp add: assms)

lemma bystanders_update_request:
  assumes "\<And>q. q_id (f q) = q_id q" and "\<And>q. Q q \<Longrightarrow> q_id q = i"
  shows "bystanders (''request'', i) (snd (on_requests (update_returning Q f check) d)) =
    bystanders (''request'', i) d"
  unfolding bystanders_def by simp (rule marked_apart_returning, simp add: assms)

lemma bystanders_users:
  "keeps (db_inv (\<lambda>d. bystanders (''user'', i) d = A)) (SetUserRole role i)"
  "keeps (db_inv (\<lambda>d. bystanders (''user'', i) d = A)) (SuspendUser actor why i)"
  "keeps (db_inv (\<lambda>d. bystanders (''user'', i) d = A)) (ReinstateUser i)"
  "keeps (db_inv (\<lambda>d. bystanders (''user'', i) d = A)) (VerifyUserAsAdmin i)"
  unfolding admin_query_defs
  by (rule db_inv_exec; simp add: bystanders_update_user split: option.split)+

lemma bystanders_posts:
  "keeps (db_inv (\<lambda>d. bystanders (''listing'', i) d = A)) (RemoveListing i actor why)"
  "keeps (db_inv (\<lambda>d. bystanders (''listing'', i) d = A)) (RestoreListing i)"
  "keeps (db_inv (\<lambda>d. bystanders (''request'', i) d = A)) (RemoveRequest i actor why)"
  "keeps (db_inv (\<lambda>d. bystanders (''request'', i) d = A)) (RestoreRequest i)"
  unfolding post_query_defs
  by (rule db_inv_exec, (subst bystanders_update_listing | subst bystanders_update_request); simp)+

section \<open>The six changes\<close>

text \<open>
  What a recorded change amounts to: one entry by that admin, with a reason, on the account or post it
  was made on, and nothing else of what only admins decide changed.
\<close>

definition recorded :: "uuid \<Rightarrow> database \<Rightarrow> database \<Rightarrow> bool" where
  "recorded me d d' \<longleftrightarrow> (\<exists>row. admin_actions d' = admin_actions d @ [row] \<and> a_actor_id row = Some me \<and>
     a_reason row \<noteq> [] \<and>
     bystanders (a_subject_type row, a_subject_id row) (d'\<lparr>admin_actions := admin_actions d\<rparr>) =
     bystanders (a_subject_type row, a_subject_id row) d)"

definition audited :: "uuid \<Rightarrow> 'a res go \<Rightarrow> bool" where
  "audited me m \<longleftrightarrow> (\<forall>w r w'. calm w \<longrightarrow> run_state m w = (r, w') \<longrightarrow> calm w' \<and>
     (case r of Inl _ \<Rightarrow> db w' = db w | Inr _ \<Rightarrow> recorded me (db w) (db w')))"

lemma audited_fail: "audited me (State_Monad.return (Inl e))"
  by (simp add: audited_def)

lemma audited_if: "(b \<Longrightarrow> audited me m) \<Longrightarrow> (\<not> b \<Longrightarrow> audited me n) \<Longrightarrow> audited me (if b then m else n)"
  by simp

lemma audited_res_map: "audited me m \<Longrightarrow> audited me (res_map f m)"
  unfolding audited_def
proof (intro allI impI)
  fix w r w'
  assume m: "\<forall>w r w'. calm w \<longrightarrow> run_state m w = (r, w') \<longrightarrow> calm w' \<and>
      (case r of Inl _ \<Rightarrow> db w' = db w | Inr _ \<Rightarrow> recorded me (db w) (db w'))"
    and w: "calm w" "run_state (res_map f m) w = (r, w')"
  obtain x v where run: "run_state m w = (x, v)" by (rule prod.exhaust)
  with m w show "calm w' \<and> (case r of Inl _ \<Rightarrow> db w' = db w | Inr _ \<Rightarrow> recorded me (db w) (db w'))"
    by (cases x) fastforce+
qed

lemma audited_Audited:
  assumes "ac_actor a = Some me" and "\<And>d. keeps (frozen d) change"
    and "\<And>A. keeps (db_inv (\<lambda>d. bystanders (ac_subject_type a, ac_subject a) d = A)) change"
  shows "audited me (Audited a change)"
  unfolding audited_def
proof (intro allI impI)
  fix w r w' assume "calm w" "run_state (Audited a change) w = (r, w')"
  then show "calm w' \<and> (case r of Inl _ \<Rightarrow> db w' = db w | Inr _ \<Rightarrow> recorded me (db w) (db w'))"
    using assms(2)
  proof (cases rule: Audited_outcome)
    case (recorded row out detail w1 w2)
    let ?s = "(ac_subject_type a, ac_subject a)"
    have "db_inv (\<lambda>d. bystanders ?s d = bystanders ?s (db w)) w1"
      using recorded by (subst frozen_db_inv) simp_all
    from keepsD [OF assms(3) this recorded(5)] have same: "bystanders ?s (db w2) = bystanders ?s (db w)"
      by (simp add: db_inv_def)
    then have ledger: "admin_actions (db w2) = admin_actions (db w)" by (simp add: bystanders_def)
    have "(db w2)\<lparr>admin_actions := admin_actions (db w)\<rparr> = db w2" by (simp flip: ledger)
    then have "bystanders ?s ((db w2)\<lparr>admin_actions := admin_actions (db w)\<rparr>) = bystanders ?s (db w)"
      by (metis same)
    with ledger recorded assms(1) show ?thesis by (auto simp: recorded_def intro!: exI [of _ row])
  qed simp
qed

lemma frozen_change:
  "opsFor subject = Inr ops \<Longrightarrow> keeps (frozen d) (po_get ops i)"
  "opsFor subject = Inr ops \<Longrightarrow> keeps (frozen d) (po_remove ops i actor' why)"
  "opsFor subject = Inr ops \<Longrightarrow> keeps (frozen d) (po_restore ops i)"
  unfolding opsFor_def
  by (auto simp: listingOps_def requestOps_def post_query_defs split: if_splits intro!: keeps_intros)

lemma bystanders_change:
  "opsFor subject = Inr ops \<Longrightarrow> keeps (db_inv (\<lambda>d. bystanders (subject, i) d = A)) (po_get ops i)"
  "opsFor subject = Inr ops \<Longrightarrow> keeps (db_inv (\<lambda>d. bystanders (subject, i) d = A)) (po_remove ops i actor' why)"
  "opsFor subject = Inr ops \<Longrightarrow> keeps (db_inv (\<lambda>d. bystanders (subject, i) d = A)) (po_restore ops i)"
  unfolding opsFor_def
  by (auto simp: listingOps_def requestOps_def split: if_splits intro!: keeps_intros bystanders_posts)

lemma frozen_accounts:
  "keeps (frozen d) (GetUserByID i)" "keeps (frozen d) CountAdmins" "keeps (frozen d) (SetUserRole role i)"
  "keeps (frozen d) (SuspendUser actor why' i)" "keeps (frozen d) (ReinstateUser i)"
  "keeps (frozen d) (VerifyUserAsAdmin i)" "keeps (frozen d) (RevokeAllRefreshTokensForUser i)"
  unfolding admin_query_defs account_query_defs by (intro keeps_intros)+

lemma bystanders_revoke:
  "keeps (db_inv (\<lambda>d. bystanders s d = A)) (RevokeAllRefreshTokensForUser i)"
  unfolding account_query_defs by (rule db_inv_exec) simp

lemma audited_accounts:
  "audited me (Suspend me i why)" "audited me (Reinstate me i why)" "audited me (VerifyByHand me i why)"
  "audited me (ChangeRole (Some me) i role why)"
  unfolding Suspend_def Reinstate_def VerifyByHand_def ChangeRole_def
  by ((intro audited_if audited_fail)?; rule audited_Audited;
      (intro keeps_intros frozen_accounts bystanders_revoke)?;
      (simp add: user_action_def)?; (intro keeps_intros bystanders_users bystanders_revoke)?)+

lemma audited_posts:
  "audited me (RemovePost me subject i why)" "audited me (RestorePost me subject i why)"
proof -
  show "audited me (RemovePost me subject i why)"
  proof (cases "opsFor subject")
    case (Inr ops)
    show ?thesis unfolding RemovePost_def Inr sum.case remove_change_def
      by (intro audited_res_map audited_Audited keeps_intros frozen_change [OF Inr])
        (simp_all add: bystanders_change [OF Inr])
  qed (simp add: RemovePost_def audited_fail)
  show "audited me (RestorePost me subject i why)"
  proof (cases "opsFor subject")
    case (Inr ops)
    show ?thesis unfolding RestorePost_def Inr sum.case restore_change_def
      by (intro audited_res_map audited_Audited keeps_intros frozen_change [OF Inr])
        (simp_all add: bystanders_change [OF Inr])
  qed (simp add: RestorePost_def audited_fail)
qed

section \<open>The requests\<close>

text \<open>What follows a change only reads.\<close>

definition moderates :: "uuid \<Rightarrow> 'a go \<Rightarrow> bool" where
  "moderates me m \<longleftrightarrow> (\<forall>w. calm w \<longrightarrow>
     db (snd (run_state m w)) = db w \<or> recorded me (db w) (db (snd (run_state m w))))"

lemma moderates_after:
  assumes "audited me m" and "\<And>r D. keeps (db_inv (\<lambda>d. d = D)) (k r)"
  shows "moderates me (State_Monad.bind m k)"
  unfolding moderates_def
proof (intro allI impI)
  fix w assume w: "calm w"
  obtain r w1 where run: "run_state m w = (r, w1)" by (rule prod.exhaust)
  from assms(1) w run have c: "calm w1"
    and eff: "case r of Inl _ \<Rightarrow> db w1 = db w | Inr _ \<Rightarrow> recorded me (db w) (db w1)"
    unfolding audited_def by blast+
  have "db_inv (\<lambda>d. d = db w1) w1" using c by (simp add: calm_db_inv)
  then have "db (snd (run_state (k r) w1)) = db w1"
    using keeps_run [OF assms(2)] db_inv_db by blast
  then show "db (snd (run_state (State_Monad.bind m k) w)) = db w \<or>
      recorded me (db w) (db (snd (run_state (State_Monad.bind m k) w)))"
    using eff run by (cases r) auto
qed

lemma moderates_quiet: "(\<And>D. keeps (db_inv (\<lambda>d. d = D)) m) \<Longrightarrow> moderates me m"
  unfolding moderates_def
proof (intro allI impI disjI1)
  fix w assume m: "\<And>D. keeps (db_inv (\<lambda>d. d = D)) m" and w: "calm w"
  have "db_inv (\<lambda>d. d = db w) w" using w by (simp add: calm_db_inv)
  from keeps_run [OF m this] show "db (snd (run_state m w)) = db w" by (rule db_inv_db)
qed

lemma moderates_if: "(b \<Longrightarrow> moderates me m) \<Longrightarrow> (\<not> b \<Longrightarrow> moderates me n) \<Longrightarrow> moderates me (if b then m else n)"
  by simp

lemma moderates_accountAction:
  assumes "\<And>why. audited me (act why)"
  shows "moderates me (accountAction i reason self act)"
proof (cases reason)
  case (Some raw)
  show ?thesis unfolding accountAction_def Some option.case Let_def
    by (intro moderates_if moderates_after assms moderates_quiet keeps_intros)
qed (simp add: accountAction_def moderates_quiet keeps_return)

lemma moderates_postAction:
  assumes "\<And>why. audited me (act why)" and "\<And>D. keeps (db_inv (\<lambda>d. d = D)) read_back"
  shows "moderates me (do { r \<leftarrow> postAction kind reason required act; post_reply read_back r })"
proof -
  have reply: "keeps (db_inv (\<lambda>d. d = D)) (post_reply read_back r)" for r D
    unfolding post_reply_def by (intro keeps_intros assms)
  show ?thesis unfolding postAction_def Let_def if_distrib [where f = "\<lambda>m. State_Monad.bind m _"] bind_assoc
    by (intro moderates_if moderates_after assms moderates_quiet keeps_intros reply)
qed

lemma moderates_requests:
  assumes "requireAdmin ctx = Some p" and "moderation r"
  shows "moderates (p_user_id p) (serve env ctx r)"
proof -
  have skip: "moderates me m \<Longrightarrow> moderates me (discard m)" for me and m :: "'x go"
    by (simp add: moderates_def)
  have role: "moderates me (if b then State_Monad.return x else accountAction i reason self act)"
    if "\<And>why. audited me (act why)" for me b x i reason self act
    by (intro moderates_if moderates_quiet keeps_return moderates_accountAction that)
  have reads: "keeps (db_inv (\<lambda>d. d = D)) (adminListing i)" "keeps (db_inv (\<lambda>d. d = D)) (adminRequest i)" for D i
    unfolding adminListing_def adminRequest_def by (intro keeps_intros)+
  show ?thesis
    using assms(2)
    by (cases r; simp only: serve.simps moderation.simps admin_write_defs as_admin_def assms(1) option.case;
      intro skip role moderates_accountAction moderates_postAction audited_res_map audited_accounts
        audited_posts reads)
qed

text \<open>C1: Whatever request is served, with whatever faults, if no other
  commit interferes: either it leaves alone everything that only admins decide, or it was made with
  an admin's session and leaves exactly one more entry in the ledger, by that admin and with a
  reason, and the account or post the entry names is the only one it changed. So no takedown,
  suspension or change of role goes without its record, and no record without the request.\<close>

theorem every_moderation_is_recorded:
  assumes "calm w"
  shows "authority_of (db (snd (run_state (serve env ctx r) w))) = authority_of (db w) \<or>
    (\<exists>p. ctx_principal ctx = Some p \<and> IsAdmin p \<and> moderation r \<and>
      recorded (p_user_id p) (db w) (db (snd (run_state (serve env ctx r) w))))"
proof (cases "requireAdmin ctx = None \<or> \<not> moderation r")
  case True
  then have "keeps (db_inv (\<lambda>d. authority_of d = authority_of (db w))) (serve env ctx r)"
    using authority.keeps_serve [of ctx r] authority.keeps_serve_others [of ctx r] by auto
  moreover have "db_inv (\<lambda>d. authority_of d = authority_of (db w)) w" using assms by (simp add: calm_db_inv)
  ultimately show ?thesis using keeps_run db_inv_db by blast
next
  case False
  then obtain p where p: "requireAdmin ctx = Some p" "moderation r" by auto
  then have "ctx_principal ctx = Some p \<and> IsAdmin p" by (auto simp: requireAdmin_def split: option.splits if_splits)
  moreover have "db (snd (run_state (serve env ctx r) w)) = db w \<or>
      recorded (p_user_id p) (db w) (db (snd (run_state (serve env ctx r) w)))"
    using moderates_requests [OF p] assms by (simp add: moderates_def)
  ultimately show ?thesis using p(2) by metis
qed

lemma every_moderation_is_recorded_witness:
  "recorded 3 sample_db (db (snd (run_state (SuspendAdminUser admin_ctx 2 (Some ''Spamming everyone'')) sample_world)))"
proof -
  let ?w = "snd (run_state (SuspendAdminUser admin_ctx 2 (Some ''Spamming everyone'')) sample_world)"
  have "calm sample_world" by (simp add: calm_def undisturbed_def sample_world_def)
  note r = every_moderation_is_recorded [OF this, of sample_env admin_ctx
    "R_SuspendAdminUser 2 (Some ''Spamming everyone'')"]
  have "au_ledger (authority_of (db ?w)) \<noteq> au_ledger (authority_of (db sample_world))" by code_simp
  with r have "authority_of (db ?w) \<noteq> authority_of (db sample_world)" by metis
  moreover have "p_user_id p = 3" if "ctx_principal admin_ctx = Some p" for p
    using that by (auto simp: admin_ctx_def)
  ultimately show ?thesis using r by (auto simp: sample_world_def)
qed

end
