(* ===== verification/Deals.thy ===== *)
theory Deals
  imports Atomic Integrity
begin

text \<open>
  The two ways a conversation begins: \<open>StartConversation\<close>, with its first message, and
  \<open>CreateOffer\<close>, with the offer and its note. Each writes everything or nothing, whichever of its
  statements fail and wherever the answer is lost.
\<close>

section \<open>Reads\<close>

lemma reads_queries [reads_intros]:
  "reads (GetConversationByListingAndEnquirer i u)" "reads (GetPublishedListing i)"
  "reads (GetConversationForParticipant u i)" "reads (GetNotificationRecipient i u mid)"
  "reads (GetPublishedRequest i)" "reads (GetListingForOwner i)" "reads (GetOfferForListing q i)"
  "reads (GetUserByID i)"
  unfolding conversation_query_defs offer_query_defs post_query_defs account_query_defs
  by (intro reads_intros)+

lemma reads_notify [reads_intros]: "reads (notify env n)"
  unfolding notify_def by (intro reads_intros)

lemma reads_conversationFor [reads_intros]: "reads (conversationFor i p)"
  unfolding conversationFor_def by (intro reads_intros)

section \<open>Starting a conversation\<close>

definition opened :: "uuid \<Rightarrow> uuid \<Rightarrow> uuid \<Rightarrow> string \<Rightarrow> database \<Rightarrow> database \<Rightarrow> bool" where
  "opened listing owner me text d d' \<longleftrightarrow> (\<exists>c m.
     d' = d\<lparr>conversations := conversations d @ [c], messages := messages d @ [m]\<rparr> \<and>
     c_listing_id c = listing \<and> c_owner_id c = owner \<and> c_enquirer_id c = me \<and> c_opened_by c = me \<and>
     owner \<noteq> me \<and> c_closed_at c = None \<and> c_address_shared_at c = None \<and>
     m_conversation_id m = c_id c \<and> m_sender_id m = me \<and> m_body m = text)"

lemma openedI:
  assumes "d' = d\<lparr>conversations := conversations d @ [c], messages := messages d @ [m]\<rparr>"
    and "c_listing_id c = listing \<and> c_owner_id c = owner \<and> c_enquirer_id c = me \<and> c_opened_by c = me \<and>
      owner \<noteq> me \<and> c_closed_at c = None \<and> c_address_shared_at c = None"
    and "m_conversation_id m = c_id c \<and> m_sender_id m = me \<and> m_body m = text"
  shows "opened listing owner me text d d'"
  unfolding opened_def using assms by blast

lemma open_conversation_triple:
  "triple (\<lambda>d. d = D) (open_conversation listing owner me text)
     (\<lambda>r d. case r of Inl _ \<Rightarrow> d = D | Inr c \<Rightarrow> opened listing owner me text D d)"
  unfolding open_conversation_def
proof (rule triple_in_tx)
  let ?written = "\<lambda>(c :: conversation) d. d = D\<lparr>conversations := conversations D @ [c]\<rparr> \<and>
    c_listing_id c = listing \<and> c_owner_id c = owner \<and> c_enquirer_id c = me \<and> c_opened_by c = me \<and>
    owner \<noteq> me \<and> c_closed_at c = None \<and> c_address_shared_at c = None"
  have conv: "succeeds_with (\<lambda>d. d = D) (CreateConversation listing owner me me) ?written"
    unfolding CreateConversation_def
    by (rule triple_insert_row) (auto simp: Let_def conversations_check_def split: if_splits)
  have msg: "succeeds_with (?written c) (CreateMessage (c_id c) me text)
      (\<lambda>_. opened listing owner me text D)" for c
    unfolding CreateMessage_def
    by (rule triple_insert_row) (auto simp: Let_def split: if_splits intro!: openedI)
  show "succeeds_with (\<lambda>d. d = D) (do {
     c \<leftarrow> CreateConversation listing owner me me;
     case c of
       Inl e \<Rightarrow> State_Monad.return (Inl e)
     | Inr conv \<Rightarrow> do {
         m \<leftarrow> CreateMessage (c_id conv) me text;
         case m of
           Inl e \<Rightarrow> State_Monad.return (Inl e)
         | Inr _ \<Rightarrow> State_Monad.return (Inr conv) } }) (\<lambda>_. opened listing owner me text D)"
    by (rule triple_bind [OF conv], rule triple_sum, rule triple_return, simp,
        simp, rule triple_bind [OF msg], rule triple_sum; rule triple_return; simp)
qed (unfold CreateConversation_def CreateMessage_def, intro keeps_intros)

lemma triple_after_read:
  assumes "reads m" and "\<And>a. triple P (k a) Q"
  shows "triple P (State_Monad.bind m k) Q"
  by (rule triple_bind [OF triple_reads [OF assms(1)] assms(2)])

text \<open>A read whose row matters later.\<close>

lemma triple_read_row:
  assumes "\<And>e. triple (\<lambda>d. d = D) (k (Inl e)) Q"
    and "\<And>t a. f t D = Some a \<Longrightarrow> triple (\<lambda>d. d = D) (k (Inr a)) Q"
  shows "triple (\<lambda>d. d = D) (State_Monad.bind (query_row f) k) Q"
proof (rule triple_bind)
  show "triple (\<lambda>d. d = D) (query_row f) (\<lambda>r d. d = D \<and> (\<forall>a. r = Inr a \<longrightarrow> (\<exists>t. f t D = Some a)))"
    by (rule triple_query_row) auto
  show "triple (\<lambda>d. d = D \<and> (\<forall>a. r = Inr a \<longrightarrow> (\<exists>t. f t D = Some a))) (k r) Q" for r
    using assms unfolding triple_def by (cases r) blast+
qed

lemma triple_published:
  assumes "\<And>e. triple (\<lambda>d. d = D) (k (Inl e)) Q"
    and "\<And>lw. find_listing D i = Some (lw_listing lw) \<Longrightarrow> public_listing D (lw_listing lw) \<Longrightarrow>
      triple (\<lambda>d. d = D) (k (Inr lw)) Q"
  shows "triple (\<lambda>d. d = D) (State_Monad.bind (GetPublishedListing i) k) Q"
  unfolding GetPublishedListing_def
  by (rule triple_read_row) (auto intro!: assms simp: join_owner_def split: option.splits if_splits)

lemma triple_published_request:
  assumes "\<And>e. triple (\<lambda>d. d = D) (k (Inl e)) Q"
    and "\<And>qw. find_request D i = Some (qw_request qw) \<Longrightarrow> public_request D (qw_request qw) \<Longrightarrow>
      triple (\<lambda>d. d = D) (k (Inr qw)) Q"
  shows "triple (\<lambda>d. d = D) (State_Monad.bind (GetPublishedRequest i) k) Q"
  unfolding GetPublishedRequest_def
  by (rule triple_read_row) (auto intro!: assms simp: join_poster_def split: option.splits if_splits)

lemma triple_listing:
  assumes "\<And>e. triple (\<lambda>d. d = D) (k (Inl e)) Q"
    and "\<And>l. find_listing D i = Some l \<Longrightarrow> triple (\<lambda>d. d = D) (k (Inr l)) Q"
  shows "triple (\<lambda>d. d = D) (State_Monad.bind (GetListingForOwner i) k) Q"
  unfolding GetListingForOwner_def by (rule triple_read_row) (auto intro!: assms)

text \<open>What a request to start a conversation may have done: nothing, or all of it.\<close>

definition started :: "request_ctx \<Rightarrow> uuid \<Rightarrow> string option \<Rightarrow> database \<Rightarrow> database \<Rightarrow> bool" where
  "started ctx i body D d \<longleftrightarrow> d = D \<or> (\<exists>p l. ctx_principal ctx = Some p \<and> p_verified p \<and>
     find_listing D i = Some l \<and> public_listing D l \<and> snd (messageBody body) = [] \<and>
     opened i (l_owner_id l) (p_user_id p) (fst (messageBody body)) D d)"

lemma started_nothing: "d = D \<Longrightarrow> started ctx i body D d"
  by (simp add: started_def)

lemma startedD:
  "started ctx i body D d \<Longrightarrow> d \<noteq> D \<Longrightarrow> ctx_principal ctx = Some p \<Longrightarrow>
   \<exists>l :: listing. opened i (l_owner_id l) (p_user_id p) (fst (messageBody body)) D d"
  by (auto simp: started_def)

lemma opening_triple:
  assumes "ctx_principal ctx = Some p" and "p_verified p" and "snd (messageBody body) = []"
    and "find_listing D i = Some l" and "public_listing D l" and "\<And>r. reads (k r)"
  shows "triple (\<lambda>d. d = D)
    (State_Monad.bind (open_conversation (l_id l) (l_owner_id l) (p_user_id p) (fst (messageBody body))) k)
    (\<lambda>_. started ctx i body D)"
proof (rule triple_bind [OF open_conversation_triple])
  fix r
  show "triple (\<lambda>d. case r of Inl _ \<Rightarrow> d = D
      | Inr c \<Rightarrow> opened (l_id l) (l_owner_id l) (p_user_id p) (fst (messageBody body)) D d)
      (k r) (\<lambda>_. started ctx i body D)"
    by (rule triple_post [OF triple_reads [OF assms(6)]])
      (use assms(1-5) find_listing_id [OF assms(4)] in \<open>auto simp: started_def split: sum.splits\<close>)
qed

lemma StartConversation_triple:
  "triple (\<lambda>d. d = D) (StartConversation env ctx i body) (\<lambda>_. started ctx i body D)"
proof (cases "ctx_principal ctx")
  case (Some p)
  show ?thesis
    unfolding StartConversation_def Some option.case Let_def case_prod_beta
    by (rule triple_if triple_return triple_published opening_triple [OF Some] triple_sum
      | erule started_nothing | assumption | (simp; fail) | (rule triple_after_read, rule reads_queries)
      | rule reads_intros)+
qed (simp add: StartConversation_def triple_return started_def)

section \<open>Making an offer\<close>

text \<open>
  The conversation an offer is made in is either new or one of those there are, possibly reopened by
  its owner; none other changes.
\<close>

definition placed ::
  "housing_request \<Rightarrow> listing \<Rightarrow> conversation \<Rightarrow> bool \<Rightarrow> database \<Rightarrow> database \<Rightarrow> bool" where
  "placed q l c new D d \<longleftrightarrow>
     d = D\<lparr>conversations := (if new then conversations D @ [c]
          else map (\<lambda>x. if c_id x = c_id c then c else x) (conversations D))\<rparr> \<and>
     (new \<or> c_id c \<in> c_id ` set (conversations D)) \<and>
     c_listing_id c = l_id l \<and> c_enquirer_id c = q_poster_id q \<and> c_closed_at c = None"

lemma conversation_unique:
  "content_ok D \<Longrightarrow> x \<in> set (conversations D) \<Longrightarrow> y \<in> set (conversations D) \<Longrightarrow> c_id x = c_id y \<Longrightarrow> x = y"
  by (rule conversations_t.ok_unique) (auto simp: content_ok_def)

lemma replace_itself:
  assumes "content_ok D" and "c \<in> set (conversations D)"
  shows "map (\<lambda>x. if c_id x = c_id c then c else x) (conversations D) = conversations D"
  using conversation_unique [OF assms(1) assms(2)] by (intro map_idI) metis

lemma replace_updated:
  assumes "content_ok D" and "c \<in> set (conversations D)" and "P c" and "\<And>x. P x \<Longrightarrow> c_id x = c_id c"
    and "c_id (f c) = c_id c"
  shows "map (\<lambda>x. if c_id x = c_id (f c) then f c else x) (conversations D) = update_where P f (conversations D)"
  unfolding update_where_def using conversation_unique [OF assms(1) _ assms(2)] assms(3-5)
  by (intro map_cong refl) metis

text \<open>The error of a statement ends the transaction.\<close>

lemma triple_ok_bind:
  assumes "succeeds_with P m R" and "\<And>a. succeeds_with (R a) (k a) Q"
  shows "succeeds_with P (State_Monad.bind m (\<lambda>r. case r of Inl e \<Rightarrow> State_Monad.return (Inl e) | Inr a \<Rightarrow> k a)) Q"
proof (rule triple_bind [OF assms(1)])
  fix r
  show "succeeds_with (\<lambda>d. case r of Inl _ \<Rightarrow> True | Inr a \<Rightarrow> R a d)
      (case r of Inl e \<Rightarrow> State_Monad.return (Inl e) | Inr a \<Rightarrow> k a) Q"
    using assms(2) by (cases r) (simp_all add: triple_return)
qed

lemma placed_new:
  "succeeds_with (\<lambda>d. d = D) (CreateConversation (l_id l) (l_owner_id l) (q_poster_id q) (l_owner_id l))
     (\<lambda>c. placed q l c True D)"
  unfolding CreateConversation_def
  by (rule triple_insert_row) (auto simp: Let_def placed_def split: if_splits)

lemma placed_old:
  assumes "content_ok D" and "c \<in> set (conversations D)" and "c_listing_id c = l_id l"
    and "c_enquirer_id c = q_poster_id q" and "c_closed_at c = None"
  shows "placed q l c False D D"
  using assms replace_itself [OF assms(1,2)] by (simp add: placed_def)

lemma placed_reopened:
  assumes "content_ok D" and "c \<in> set (conversations D)" and "c_listing_id c = l_id l"
    and "c_enquirer_id c = q_poster_id q"
  shows "succeeds_with (\<lambda>d. d = D) (ReopenConversation (c_id c) ow) (\<lambda>c. placed q l c False D)"
  unfolding ReopenConversation_def
proof (rule triple_exec; simp)
  fix t r d'
  let ?P = "\<lambda>x. c_id x = c_id c \<and> c_closed_by x = Some ow \<and> c_owner_id x = ow"
  let ?f = "\<lambda>x. x\<lparr>c_closed_at := None, c_closed_by := None, c_updated_at := t\<rparr>"
  assume "on_conversations (update_returning ?P ?f conversation_violation) D = (r, d')"
  then show "case r of Inl _ \<Rightarrow> True | Inr a \<Rightarrow> placed q l a False D d'"
  proof (cases r)
    case (Inr a)
    with \<open>_ = (r, d')\<close> obtain x where x: "List.find ?P (conversations D) = Some x" "a = ?f x"
        "d' = D\<lparr>conversations := update_where ?P ?f (conversations D)\<rparr>"
      by (auto simp: on_conversations_def update_returning_def split: option.splits prod.splits)
    from find_SomeD [OF x(1)] have "x \<in> set (conversations D)" "?P x" by simp_all
    moreover from this have "x = c" using conversation_unique [OF assms(1) _ assms(2)] by blast
    ultimately have P: "?P c" and a: "a = ?f c" using x(2) by simp_all
    have "map (\<lambda>y. if c_id y = c_id (?f c) then ?f c else y) (conversations D) =
        update_where ?P ?f (conversations D)"
      by (rule replace_updated [where P = ?P]) (use assms(1,2) P in simp_all)
    then have "d' = D\<lparr>conversations := map (\<lambda>y. if c_id y = c_id a then a else y) (conversations D)\<rparr>"
      unfolding x(3) a by (rule arg_cong [symmetric])
    moreover have "c_id a \<in> c_id ` set (conversations D)" "c_listing_id a = l_id l"
        "c_enquirer_id a = q_poster_id q" "c_closed_at a = None"
      unfolding a using assms(2-4) by auto
    ultimately show ?thesis unfolding Inr sum.case placed_def by simp
  qed simp
qed

lemma offer_conversation_triple:
  assumes "content_ok D"
  shows "succeeds_with (\<lambda>d. d = D) (offer_conversation env q l)
    (\<lambda>x d. case x of Refused _ \<Rightarrow> d = D | In c new \<Rightarrow> placed q l c new D d)"
  unfolding offer_conversation_def GetConversationByListingAndEnquirer_def
proof (rule triple_read_row)
  fix t c
  assume "List.find (\<lambda>c. c_listing_id c = l_id l \<and> c_enquirer_id c = q_poster_id q) (conversations D) = Some c"
  then have c: "c \<in> set (conversations D)" "c_listing_id c = l_id l" "c_enquirer_id c = q_poster_id q"
    using find_SomeD by fast+
  note old = placed_old [OF assms c] and reopened = placed_reopened [OF assms c]
  show "succeeds_with (\<lambda>d. d = D) (case Inr c of
      Inl e \<Rightarrow> (if errors_is e ErrNoRows then do {
            c \<leftarrow> CreateConversation (l_id l) (l_owner_id l) (q_poster_id q) (l_owner_id l);
            case c of Inl e \<Rightarrow> State_Monad.return (Inl e) | Inr c \<Rightarrow> State_Monad.return (Inr (In c True)) }
          else State_Monad.return (Inl e))
    | Inr c \<Rightarrow>
        if c_closed_at c = None then State_Monad.return (Inr (In c False))
        else if c_closed_by c \<noteq> Some (l_owner_id l) then
          State_Monad.return (Inr (Refused (errorBodyWithDetails CodeConflict
            ''That student has closed the conversation about this listing.''
            [(''conversation_id'', uuid_string env (c_id c))])))
        else do {
          r \<leftarrow> ReopenConversation (c_id c) (l_owner_id l);
          case r of Inl e \<Rightarrow> State_Monad.return (Inl e) | Inr c \<Rightarrow> State_Monad.return (Inr (In c False)) })
    (\<lambda>x d. case x of Refused _ \<Rightarrow> d = D | In c new \<Rightarrow> placed q l c new D d)"
    unfolding sum.case
    by (intro triple_if triple_return triple_ok_bind [OF reopened]) (auto simp: old)
qed (unfold sum.case, intro triple_if triple_return triple_ok_bind [OF placed_new]; simp)

text \<open>The offer, tied to its conversation, and its note as a message there.\<close>

definition offer_written ::
  "housing_request \<Rightarrow> listing \<Rightarrow> string \<Rightarrow> database \<Rightarrow> madeOffer \<Rightarrow> database \<Rightarrow> bool" where
  "offer_written q l note D made d \<longleftrightarrow> (\<exists>c d0 ms. placed q l c (mo_opened made) D d0 \<and>
     d = d0\<lparr>offers := offers D @ [mo_offer made], messages := messages D @ ms\<rparr> \<and>
     o_request_id (mo_offer made) = q_id q \<and> o_listing_id (mo_offer made) = l_id l \<and>
     o_owner_id (mo_offer made) = l_owner_id l \<and> o_note (mo_offer made) = note \<and>
     o_withdrawn_at (mo_offer made) = None \<and> o_conversation_id (mo_offer made) = Some (c_id c) \<and>
     mo_conversation_id made = c_id c \<and>
     map (\<lambda>m. (m_conversation_id m, m_sender_id m, m_body m)) ms =
       (if note = [] then [] else [(c_id c, l_owner_id l, note)]))"

lemma placed_tables: "placed q l c new D d \<Longrightarrow> offers d = offers D \<and> messages d = messages D"
  by (simp add: placed_def)

lemma create_offer_triple:
  "succeeds_with (placed q l c new D) (CreateOffer_sql (q_id q) (l_id l) (l_owner_id l) note)
     (\<lambda>x d. \<exists>d0. placed q l c new D d0 \<and> d = d0\<lparr>offers := offers D @ [x]\<rparr> \<and>
        o_id x \<notin> o_id ` set (offers D) \<and> o_request_id x = q_id q \<and> o_listing_id x = l_id l \<and>
        o_owner_id x = l_owner_id l \<and> o_note x = note \<and> o_withdrawn_at x = None)"
  unfolding CreateOffer_sql_def
  by (rule triple_insert_row)
    (auto simp: Let_def offers_clash_def list_ex_iff placed_tables split: if_splits intro!: exI)

lemma update_last:
  "o_id x \<notin> o_id ` set xs \<Longrightarrow> update_where (\<lambda>y. o_id y = o_id x) f (xs @ [x]) = xs @ [f x]"
  by (induction xs) (auto simp: update_where_def)

lemma find_last: "o_id x \<notin> o_id ` set xs \<Longrightarrow> List.find (\<lambda>y. o_id y = o_id x) (xs @ [x]) = Some x"
  by (induction xs) auto

definition attached ::
  "housing_request \<Rightarrow> listing \<Rightarrow> string \<Rightarrow> conversation \<Rightarrow> bool \<Rightarrow> database \<Rightarrow> request_offer \<Rightarrow> database \<Rightarrow> bool" where
  "attached q l note c new D y d \<longleftrightarrow> (\<exists>d0. placed q l c new D d0 \<and> d = d0\<lparr>offers := offers D @ [y]\<rparr> \<and>
     o_request_id y = q_id q \<and> o_listing_id y = l_id l \<and> o_owner_id y = l_owner_id l \<and>
     o_note y = note \<and> o_withdrawn_at y = None \<and> o_conversation_id y = Some (c_id c))"

lemma attach_triple:
  "succeeds_with (\<lambda>d. \<exists>d0. placed q l c new D d0 \<and> d = d0\<lparr>offers := offers D @ [x]\<rparr> \<and>
      o_id x \<notin> o_id ` set (offers D) \<and> o_request_id x = q_id q \<and> o_listing_id x = l_id l \<and>
      o_owner_id x = l_owner_id l \<and> o_note x = note \<and> o_withdrawn_at x = None)
    (SetOfferConversation (c_id c) (o_id x)) (attached q l note c new D)"
  unfolding SetOfferConversation_def
  by (rule triple_exec)
    (auto simp: on_offers_def update_returning_def update_last find_last attached_def
      split: option.splits if_splits intro!: exI)

lemma attached_written:
  assumes "attached q l note c new D y d" and "d' = d\<lparr>messages := messages D @ ms\<rparr>"
    and "map (\<lambda>m. (m_conversation_id m, m_sender_id m, m_body m)) ms =
      (if note = [] then [] else [(c_id c, l_owner_id l, note)])"
  shows "offer_written q l note D
    \<lparr>mo_offer = y, mo_conversation_id = c_id c, mo_opened = new, mo_note_id = n\<rparr> d'"
  using assms unfolding attached_def offer_written_def
  by (elim exE conjE) (intro exI [of _ c] exI [of _ ms] exI conjI; simp)

lemma attached_messages: "attached q l note c new D y d \<Longrightarrow> messages d = messages D"
  by (auto simp: attached_def dest: placed_tables)

lemma note_triple:
  assumes "note \<noteq> []"
  shows "succeeds_with (attached q l note c new D y) (CreateMessage (c_id c) (l_owner_id l) note)
    (\<lambda>m. offer_written q l note D
      \<lparr>mo_offer = y, mo_conversation_id = c_id c, mo_opened = new, mo_note_id = Some (m_id m)\<rparr>)"
  unfolding CreateMessage_def
  by (rule triple_insert_row)
    (auto simp: Let_def attached_messages assms split: if_splits intro!: attached_written)

lemma write_offer_triple:
  "succeeds_with (placed q l c new D) (write_offer q l note c new) (offer_written q l note D)"
  unfolding write_offer_def Let_def
proof (intro triple_ok_bind [OF create_offer_triple] triple_ok_bind [OF attach_triple] triple_if triple_return)
  fix y d
  assume "note = []" and y: "attached q l note c new D y d"
  moreover have "d = d\<lparr>messages := messages D @ []\<rparr>" using attached_messages [OF y] by simp
  ultimately show "case Inr \<lparr>mo_offer = y, mo_conversation_id = c_id c, mo_opened = new, mo_note_id = None\<rparr> of
      Inl _ \<Rightarrow> True | Inr a \<Rightarrow> offer_written q l note D a d"
    using attached_written [OF y, of d "[]"] by simp
qed (auto intro!: triple_ok_bind [OF note_triple] triple_return)

lemma makeOffer_triple:
  assumes "content_ok D"
  shows "triple (\<lambda>d. d = D) (makeOffer env q l note)
    (\<lambda>r d. case r of Inl _ \<Rightarrow> d = D | Inr x \<Rightarrow>
       (case x of Inl _ \<Rightarrow> d = D | Inr made \<Rightarrow> offer_written q l note D made d))"
  unfolding makeOffer_def
proof (rule triple_in_tx)
  have place: "succeeds_with
      (\<lambda>d. case x of Refused _ \<Rightarrow> d = D | In c new \<Rightarrow> placed q l c new D d)
      (case x of Refused b \<Rightarrow> State_Monad.return (Inr (Inl b))
       | In c new \<Rightarrow> do {
           made \<leftarrow> write_offer q l note c new;
           case made of Inl e \<Rightarrow> State_Monad.return (Inl e) | Inr mk \<Rightarrow> State_Monad.return (Inr (Inr mk)) })
      (\<lambda>y d. case y of Inl _ \<Rightarrow> d = D | Inr made \<Rightarrow> offer_written q l note D made d)" for x
    by (cases x) (auto intro!: triple_return triple_ok_bind [OF write_offer_triple])
  then show "succeeds_with (\<lambda>d. d = D) (do {
      place \<leftarrow> offer_conversation env q l;
      case place of
        Inl e \<Rightarrow> State_Monad.return (Inl e)
      | Inr (Refused b) \<Rightarrow> State_Monad.return (Inr (Inl b))
      | Inr (In c new) \<Rightarrow> do {
          made \<leftarrow> write_offer q l note c new;
          case made of
            Inl e \<Rightarrow> State_Monad.return (Inl e)
          | Inr mk \<Rightarrow> State_Monad.return (Inr (Inr mk)) } })
     (\<lambda>y d. case y of Inl _ \<Rightarrow> d = D | Inr made \<Rightarrow> offer_written q l note D made d)"
    by (rule triple_ok_bind [OF offer_conversation_triple [OF assms]])
qed (unfold offer_conversation_def write_offer_def Let_def conversation_query_defs offer_query_defs,
    intro keeps_intros)

lemma attempt_triple:
  assumes "content_ok D"
  shows "triple (\<lambda>d. d = D) (attempt_offer env q l note)
    (\<lambda>r d. case r of
       Attempted (Inr (Inr made)) \<Rightarrow> offer_written q l note D made d
     | _ \<Rightarrow> d = D)"
  unfolding attempt_offer_def
proof (rule triple_bind [OF makeOffer_triple [OF assms]])
  fix r
  let ?Q = "\<lambda>r d. case r of Attempted (Inr (Inr made)) \<Rightarrow> offer_written q l note D made d | _ \<Rightarrow> d = D"
  show "triple (\<lambda>d. case r of Inl _ \<Rightarrow> d = D
      | Inr (Inl _) \<Rightarrow> d = D | Inr (Inr made) \<Rightarrow> offer_written q l note D made d)
    (case r of Inr _ \<Rightarrow> State_Monad.return (Attempted r)
     | Inl e \<Rightarrow>
         if \<not> isUniqueViolation e then State_Monad.return (Attempted r)
         else do {
           existing \<leftarrow> GetOfferForListing (q_id q) (l_id l);
           case existing of
             Inr _ \<Rightarrow> State_Monad.return Duplicate
           | Inl _ \<Rightarrow> do {
               second \<leftarrow> makeOffer env q l note;
               State_Monad.return (Attempted second) } }) ?Q"
  proof (cases r)
    case (Inl e)
    have again: "triple (\<lambda>d. d = D) (do { second \<leftarrow> makeOffer env q l note; State_Monad.return (Attempted second) }) ?Q"
      by (rule triple_bind [OF makeOffer_triple [OF assms]], rule triple_return) (auto split: sum.splits)
    show ?thesis unfolding Inl sum.case
      by (rule triple_if triple_return again triple_sum | (rule triple_after_read, rule reads_queries)
        | (simp; fail))+
  qed (auto intro!: triple_return split: sum.splits)
qed

lemma reads_offerResponse [reads_intros]: "reads (offerResponse x l u)"
  unfolding offerResponse_def offer_query_defs account_query_defs by (intro reads_intros)

lemma reads_finish_offer [reads_intros]: "reads (finish_offer env l me a)"
  unfolding finish_offer_def
  by (cases a rule: offer_attempt.exhaust)
    (auto intro!: reads_intros split: sum.split option.split)

text \<open>What a request to make an offer may have done: nothing, or all of it.\<close>

definition offered ::
  "request_ctx \<Rightarrow> uuid \<Rightarrow> offer_input option \<Rightarrow> database \<Rightarrow> database \<Rightarrow> bool" where
  "offered ctx i body D d \<longleftrightarrow> d = D \<or>
     (\<exists>p inp q l made. ctx_principal ctx = Some p \<and> p_verified p \<and> body = Some inp \<and>
        find_request D i = Some q \<and> public_request D q \<and> q_poster_id q \<noteq> p_user_id p \<and>
        find_listing D (oi_listing_id inp) = Some l \<and> l_owner_id l = p_user_id p \<and>
        l_status l = ''published'' \<and> l_removed_at l = None \<and>
        offer_written q l (trim_space (default_if_nil (oi_note inp) [])) D made d)"

lemma offered_nothing: "d = D \<Longrightarrow> offered ctx i body D d"
  by (simp add: offered_def)

lemma offeredD:
  "offered ctx i (Some inp) D d \<Longrightarrow> d \<noteq> D \<Longrightarrow>
   \<exists>q (l :: listing) made. offer_written q l (trim_space (default_if_nil (oi_note inp) [])) D made d"
  by (auto simp: offered_def)

lemma offering_triple:
  assumes "content_ok D" and "ctx_principal ctx = Some p" and "p_verified p" and "body = Some inp"
    and "find_request D i = Some q" and "public_request D q" and "q_poster_id q \<noteq> p_user_id p"
    and "find_listing D (oi_listing_id inp) = Some l" and "\<not> l_owner_id l \<noteq> p_user_id p"
    and "\<not> l_status l \<noteq> ''published''" and "\<not> l_removed_at l \<noteq> None" and "\<And>a. reads (k a)"
  shows "triple (\<lambda>d. d = D)
    (State_Monad.bind (attempt_offer env q l (trim_space (default_if_nil (oi_note inp) []))) k)
    (\<lambda>_. offered ctx i body D)"
proof (rule triple_bind [OF attempt_triple [OF assms(1)]])
  fix a
  show "triple (\<lambda>d. case a of Attempted (Inr (Inr made)) \<Rightarrow>
        offer_written q l (trim_space (default_if_nil (oi_note inp) [])) D made d | _ \<Rightarrow> d = D)
      (k a) (\<lambda>_. offered ctx i body D)"
    by (rule triple_post [OF triple_reads [OF assms(12)]])
      (use assms(2-11) in \<open>auto simp: offered_def split: offer_attempt.splits sum.splits\<close>)
qed

lemma CreateOffer_triple:
  assumes "content_ok D"
  shows "triple (\<lambda>d. d = D) (CreateOffer env ctx i body) (\<lambda>_. offered ctx i body D)"
proof (cases "ctx_principal ctx")
  case (Some p)
  show ?thesis
  proof (cases body)
    case None
    then show ?thesis by (auto simp: CreateOffer_def Some intro!: triple_return offered_nothing)
  next
    case (Some inp)
    note offering = offering_triple [OF assms \<open>ctx_principal ctx = Some p\<close> _ Some]
    show ?thesis
      unfolding CreateOffer_def \<open>ctx_principal ctx = Some p\<close> Some option.case Let_def
      by (rule triple_if triple_return triple_published_request triple_listing offering [unfolded Some] triple_sum
        | erule offered_nothing | assumption | (simp; fail) | (rule triple_after_read, rule reads_queries)
        | rule reads_intros)+
  qed
qed (simp add: CreateOffer_def triple_return offered_def)

section \<open>All or nothing\<close>

text \<open>C9: However its statements fail, and whether or not the client
  gets an answer, a request to message the owner of a listing has done nothing to the database or all
  of it: one new conversation about that published listing, between its owner and the verified
  student who asked - never one's own listing -, open, with the address withheld, and in it the
  trimmed message, written by that student. Nothing else changes.\<close>

theorem conversation_starts_with_its_message:
  assumes "calm w"
  shows "started ctx i body (db w) (db (snd (run_state (StartConversation env ctx i body) w)))"
  using tripleD [OF StartConversation_triple [of "db w" env ctx i body] _ refl surjective_pairing] assms
  by (simp add: calm_def)

lemma sample_calm: "calm sample_world"
  by (simp add: calm_def undisturbed_def sample_world_def)

lemma conversation_starts_with_its_message_witness:
  "\<exists>l :: listing. opened 10 (l_owner_id l) 3 ''Is it free?'' sample_db
     (db (snd (run_state (StartConversation sample_env admin_ctx 10 (Some '' Is it free? '')) sample_world)))"
proof -
  let ?d = "db (snd (run_state (StartConversation sample_env admin_ctx 10 (Some '' Is it free? '')) sample_world))"
  have "map c_enquirer_id (conversations ?d) \<noteq> map c_enquirer_id (conversations sample_db)" by code_simp
  then have "?d \<noteq> sample_db"
    by (rule contrapos_nn) (erule arg_cong [where f = "\<lambda>d. map c_enquirer_id (conversations d)"])
  moreover have "started admin_ctx 10 (Some '' Is it free? '') sample_db ?d"
    using conversation_starts_with_its_message [OF sample_calm] by (simp add: sample_world_def)
  moreover have "ctx_principal admin_ctx = Some \<lparr>p_user_id = 3, p_role = ''admin'', p_verified = True\<rparr>"
    by (simp add: admin_ctx_def)
  ultimately have "\<exists>l :: listing. opened 10 (l_owner_id l)
      (p_user_id (\<lparr>p_user_id = 3, p_role = ''admin'', p_verified = True\<rparr> :: principal))
      (fst (messageBody (Some '' Is it free? ''))) sample_db ?d"
    by (intro startedD)
  moreover have "fst (messageBody (Some '' Is it free? '')) = ''Is it free?''" by code_simp
  ultimately show ?thesis by (simp only: principal.simps)
qed

text \<open>C8: However its statements fail, and through the retry after a collision, a
  request to make an offer has done nothing or all of it: one offer of a published listing of one's
  own on someone else's visible request, tied to the one conversation about that listing with the
  poster - new, or the existing one, reopened if its owner had closed it - and, if there is a note,
  that note as one message of the owner there. No other row of any table changes.\<close>

theorem offer_is_all_or_nothing:
  assumes "calm w" and "content_ok (db w)"
  shows "offered ctx i body (db w) (db (snd (run_state (CreateOffer env ctx i body) w)))"
  using tripleD [OF CreateOffer_triple [OF assms(2), of env ctx i body] _ refl surjective_pairing] assms(1)
  by (simp add: calm_def)

lemma offer_is_all_or_nothing_witness:
  "\<exists>q (l :: listing) made. offer_written q l ''Have a look'' sample_db made
     (db (snd (run_state (CreateOffer sample_env sample_ctx 20
        (Some \<lparr>oi_listing_id = 10, oi_note = Some ''Have a look''\<rparr>)) sample_world)))"
proof -
  let ?b = "Some \<lparr>oi_listing_id = 10, oi_note = Some ''Have a look''\<rparr>"
  let ?d = "db (snd (run_state (CreateOffer sample_env sample_ctx 20 ?b) sample_world))"
  have "length (offers ?d) \<noteq> length (offers sample_db)" by code_simp
  then have "?d \<noteq> sample_db"
    by (rule contrapos_nn) (erule arg_cong [where f = "\<lambda>d. length (offers d)"])
  moreover have "offered sample_ctx 20 ?b sample_db ?d"
    using offer_is_all_or_nothing [OF sample_calm] sample_content by (simp add: sample_world_def)
  ultimately have "\<exists>q (l :: listing) made. offer_written q l
      (trim_space (default_if_nil (oi_note \<lparr>oi_listing_id = 10, oi_note = Some ''Have a look''\<rparr>) []))
      sample_db made ?d"
    by (intro offeredD)
  moreover have "trim_space (default_if_nil (oi_note \<lparr>oi_listing_id = 10, oi_note = Some ''Have a look''\<rparr>) []) =
      ''Have a look''" by code_simp
  ultimately show ?thesis by (simp only:)
qed

end
