(* ===== verification/Dispatch.thy ===== *)
theory Dispatch
  imports Service
begin

text \<open>
  The strict server of \<open>internal/httpapi/gen/server.gen.go\<close> with its typed responses: \<open>dispatch\<close> calls
  the method of \<open>*Server\<close> an operation stands for and keeps the body of its response, where \<open>serve\<close>
  (\<open>Service\<close>) keeps only what the request did to the world. The two agree.
\<close>

datatype body =
    B_none
  | B_health health | B_registered registered | B_session session_view | B_cookies "cookie list"
  | B_user user_view
  | B_listings "listing_view list" page_meta | B_listing listing_view
  | B_my_listings "listing_view list" | B_calendar int "(int \<times> int) list"
  | B_requests "request_view list" page_meta | B_request request_view | B_my_requests "request_view list"
  | B_offer offer_view | B_offers "offer_view list"
  | B_conversation conversation_view | B_conversations "conversation_view list" page_meta
  | B_unread int int | B_messages "message_view list" page_meta | B_message message_view
  | B_overview overview | B_actions "admin_action_view list" page_meta
  | B_admin_users "admin_user_view list" page_meta
  | B_admin_user admin_user_view | B_admin_account admin_user_view "admin_action_view list"
  | B_admin_listings "(listing_view \<times> admin_post_owner) list" page_meta
  | B_admin_requests "(request_view \<times> admin_post_owner) list" page_meta
  | B_admin_listing listing_view admin_post_owner | B_admin_request request_view admin_post_owner

definition give :: "('b \<Rightarrow> body) \<Rightarrow> 'b handler \<Rightarrow> body handler" where
  "give f h = do { r \<leftarrow> h; State_Monad.return (map_reply f r) }"

lemma run_give [simp]: "run_state (give f h) w = (map_reply f (fst (run_state h w)), snd (run_state h w))"
  by (simp add: give_def split: prod.split)

fun dispatch :: "env \<Rightarrow> request_ctx \<Rightarrow> request \<Rightarrow> body handler" where
  "dispatch env ctx (R_GetHealth version) = give B_health (GetHealth version)"
| "dispatch env ctx (R_Register b) = give B_registered (Register env b)"
| "dispatch env ctx (R_VerifyEmail b) = give B_user (VerifyEmail env b)"
| "dispatch env ctx (R_ResendVerification b) = give (\<lambda>_. B_none) (ResendVerification env b)"
| "dispatch env ctx (R_Login b) = give B_session (Login env ctx b)"
| "dispatch env ctx R_RefreshSession = give B_session (RefreshSession env ctx)"
| "dispatch env ctx R_Logout = give B_cookies (Logout env ctx)"
| "dispatch env ctx (R_RequestPasswordReset b) = give (\<lambda>_. B_none) (RequestPasswordReset env b)"
| "dispatch env ctx (R_ConfirmPasswordReset b) = give (\<lambda>_. B_none) (ConfirmPasswordReset env b)"
| "dispatch env ctx R_GetMe = give B_user (GetMe ctx)"
| "dispatch env ctx (R_UpdateMyPreferences b) = give B_user (UpdateMyPreferences ctx b)"
| "dispatch env ctx (R_ListListings p) = give (\<lambda>(ls, m). B_listings ls m) (ListListings env p)"
| "dispatch env ctx (R_GetListing i) = give B_listing (GetListing i)"
| "dispatch env ctx (R_GetListingAvailability y p) =
     give (\<lambda>(y, ms). B_calendar y ms) (GetListingAvailability env y p)"
| "dispatch env ctx (R_CreateListing b) = give B_listing (CreateListing ctx b)"
| "dispatch env ctx (R_UpdateListing i b) = give B_listing (UpdateListing ctx i b)"
| "dispatch env ctx (R_SetListingStatus i b) = give B_listing (SetListingStatus ctx i b)"
| "dispatch env ctx (R_DeleteListing i) = give (\<lambda>_. B_none) (DeleteListing ctx i)"
| "dispatch env ctx R_ListMyListings = give B_my_listings (ListMyListings ctx)"
| "dispatch env ctx (R_ListRequests p) = give (\<lambda>(qs, m). B_requests qs m) (ListRequests env p)"
| "dispatch env ctx (R_GetRequest i) = give B_request (GetRequest i)"
| "dispatch env ctx (R_CreateRequest b) = give B_request (CreateRequest ctx b)"
| "dispatch env ctx (R_UpdateRequest i b) = give B_request (UpdateRequest ctx i b)"
| "dispatch env ctx (R_SetRequestStatus i b) = give B_request (SetRequestStatus ctx i b)"
| "dispatch env ctx (R_DeleteRequest i) = give (\<lambda>_. B_none) (DeleteRequest ctx i)"
| "dispatch env ctx R_ListMyRequests = give B_my_requests (ListMyRequests ctx)"
| "dispatch env ctx (R_CreateOffer i b) = give B_offer (CreateOffer env ctx i b)"
| "dispatch env ctx (R_ListOffers i) = give B_offers (ListOffers ctx i)"
| "dispatch env ctx (R_WithdrawOffer i) = give (\<lambda>_. B_none) (WithdrawOffer ctx i)"
| "dispatch env ctx (R_StartConversation i b) = give B_conversation (StartConversation env ctx i b)"
| "dispatch env ctx (R_ListMyConversations pg n s side) =
     give (\<lambda>(cs, m). B_conversations cs m) (ListMyConversations ctx pg n s side)"
| "dispatch env ctx R_GetUnreadCounts = give (\<lambda>(a, b). B_unread a b) (GetUnreadCounts ctx)"
| "dispatch env ctx (R_GetConversation i) = give B_conversation (GetConversation ctx i)"
| "dispatch env ctx (R_MarkConversationRead i) = give (\<lambda>_. B_none) (MarkConversationRead ctx i)"
| "dispatch env ctx (R_CloseConversation i) = give B_conversation (CloseConversation ctx i)"
| "dispatch env ctx (R_ShareAddress i) = give B_conversation (ShareAddress env ctx i)"
| "dispatch env ctx (R_ListMessages i pg n) = give (\<lambda>(ms, m). B_messages ms m) (ListMessages ctx i pg n)"
| "dispatch env ctx (R_SendMessage i b) = give B_message (SendMessage env ctx i b)"
| "dispatch env ctx R_GetAdminOverview = give B_overview (GetAdminOverview ctx)"
| "dispatch env ctx (R_ListAdminActions pg n) = give (\<lambda>(xs, m). B_actions xs m) (ListAdminActions ctx pg n)"
| "dispatch env ctx (R_ListAdminUsers pg n q) =
     give (\<lambda>(us, m). B_admin_users us m) (ListAdminUsers ctx pg n q)"
| "dispatch env ctx (R_GetAdminUser i) = give (\<lambda>(u, xs). B_admin_account u xs) (GetAdminUser ctx i)"
| "dispatch env ctx (R_SuspendAdminUser i why) = give B_admin_user (SuspendAdminUser ctx i why)"
| "dispatch env ctx (R_ReinstateAdminUser i why) = give B_admin_user (ReinstateAdminUser ctx i why)"
| "dispatch env ctx (R_VerifyAdminUser i why) = give B_admin_user (VerifyAdminUser ctx i why)"
| "dispatch env ctx (R_SetAdminUserRole i b) = give B_admin_user (SetAdminUserRole ctx i b)"
| "dispatch env ctx (R_ListAdminListings pg n q) =
     give (\<lambda>(ls, m). B_admin_listings ls m) (ListAdminListings env ctx pg n q)"
| "dispatch env ctx (R_ListAdminRequests pg n q) =
     give (\<lambda>(qs, m). B_admin_requests qs m) (ListAdminRequests env ctx pg n q)"
| "dispatch env ctx (R_RemoveAdminListing i why) =
     give (\<lambda>(l, ow). B_admin_listing l ow) (RemoveAdminListing ctx i why)"
| "dispatch env ctx (R_RestoreAdminListing i why) =
     give (\<lambda>(l, ow). B_admin_listing l ow) (RestoreAdminListing ctx i why)"
| "dispatch env ctx (R_RemoveAdminRequest i why) =
     give (\<lambda>(q, ow). B_admin_request q ow) (RemoveAdminRequest ctx i why)"
| "dispatch env ctx (R_RestoreAdminRequest i why) =
     give (\<lambda>(q, ow). B_admin_request q ow) (RestoreAdminRequest ctx i why)"

lemma snd_dispatch: "snd (run_state (dispatch env ctx r) w) = snd (run_state (serve env ctx r) w)"
  by (cases r) (simp_all only: dispatch.simps serve.simps run_give run_discard snd_conv)

end
