(* ===== verification/Middleware.thy ===== *)
theory Middleware
  imports AuthLib
begin

text \<open>
  \<open>internal/middleware\<close>: who is asking (\<open>Authenticate\<close>), the double-submit check on unsafe methods
  (\<open>CSRF\<close>) and the cross-origin headers (\<open>CORS\<close>). Request ids, logging and recovery from panics are
  not modelled. A request's cookies and headers are given as maps.
\<close>

record wire =
  wr_method :: string
  wr_cookies :: "string \<Rightarrow> string option"
  wr_headers :: "string \<Rightarrow> string"

definition Authenticate :: "env \<Rightarrow> time \<Rightarrow> wire \<Rightarrow> request_ctx" where
  "Authenticate env now req =
     \<lparr>ctx_principal =
        (case wr_cookies req SessionCookieName of
           None \<Rightarrow> None
         | Some value \<Rightarrow>
             if value = [] then None
             else (case VerifyAccessToken env now value of Inl _ \<Rightarrow> None | Inr p \<Rightarrow> Some p)),
      ctx_refresh = default_if_nil (wr_cookies req RefreshCookieName) [],
      ctx_user_agent = wr_headers req ''User-Agent'',
      ctx_login_key = []\<rparr>"

definition safe_method :: "string \<Rightarrow> bool" where
  "safe_method m \<longleftrightarrow> m \<in> {''GET'', ''HEAD'', ''OPTIONS''}"

text \<open>Nothing, or the refusal; the comparison takes constant time, its result is equality.\<close>

definition CSRF :: "wire \<Rightarrow> 'b reply option" where
  "CSRF req =
     (if safe_method (wr_method req) then None
      else if wr_cookies req SessionCookieName = None then None
      else
        (let token = default_if_nil (wr_cookies req CSRFCookieName) []
         in if token = [] then
              Some (Refuse 403 (errorBody CodeForbidden (''Missing CSRF token. Send the '' @ CSRFCookieName @
                '' cookie value in the '' @ CSRFHeaderName @ '' header.'')))
            else if token \<noteq> wr_headers req CSRFHeaderName then
              Some (Refuse 403 (errorBody CodeForbidden ''CSRF token does not match.''))
            else None))"

text \<open>The headers to set, and whether the request stops here with a 204.\<close>

definition CORS :: "string \<Rightarrow> wire \<Rightarrow> (string \<times> string) list \<times> bool" where
  "CORS origin req =
     ((if wr_headers req ''Origin'' \<noteq> [] \<and> wr_headers req ''Origin'' = origin then
         [(''Access-Control-Allow-Origin'', origin), (''Access-Control-Allow-Credentials'', ''true''),
          (''Access-Control-Allow-Methods'', ''GET, POST, PATCH, DELETE, OPTIONS''),
          (''Access-Control-Allow-Headers'', ''Content-Type, X-Request-ID, X-CSRF-Token''),
          (''Access-Control-Expose-Headers'', ''X-Request-ID''), (''Access-Control-Max-Age'', ''600''),
          (''Vary'', ''Origin'')]
       else []),
      wr_method req = ''OPTIONS'')"

text \<open>The chain of the router, in its order, up to the rate limiter.\<close>

definition admitted :: "env \<Rightarrow> string \<Rightarrow> time \<Rightarrow> wire \<Rightarrow> ('b reply + request_ctx) option" where
  "admitted env origin now req =
     (if snd (CORS origin req) then None
      else case CSRF req of
        Some refusal \<Rightarrow> Some (Inl refusal)
      | None \<Rightarrow> Some (Inr (Authenticate env now req)))"

end
