(* ===== verification/Router.thy ===== *)
theory Router
  imports Dispatch Middleware
begin

text \<open>
  \<open>internal/httpapi/router.go\<close> and the routing half of \<open>internal/httpapi/gen/server.gen.go\<close>: from an HTTP
  request to the operation it names, its bound parameters and body, through the middleware chain in
  the router's order, to the response written. gin's path matching is outside the repository: the
  request carries the pattern gin matched (\<open>hr_full_path\<close>, empty when none) and its \<open>:id\<close> segment. So
  is the binding of parameters and JSON bodies: \<open>binders\<close> holds those functions as parameters.
  Logging is left out; the model has no panics for \<open>Recovery\<close> to catch.
\<close>

section \<open>Incoming requests\<close>

record incoming = http_request +
  in_id :: string
  in_query :: "(string \<times> string list) list"

definition wire_of :: "('a) http_request_scheme \<Rightarrow> wire" where
  "wire_of req = \<lparr>wr_method = hr_method req, wr_cookies = map_of (hr_cookies req),
     wr_headers = (\<lambda>nm. case map_of (hr_headers req) nm of None \<Rightarrow> [] | Some v \<Rightarrow> v)\<rparr>"

text \<open>
  \<open>runtime.BindStyledParameterWithOptions\<close> and \<open>BindQueryParameterWithOptions\<close> at the types used, and
  gin's \<open>ShouldBindJSON\<close> at each body type; a failure is its text. An empty body is \<open>io.EOF\<close>.
\<close>

datatype 'a decoded = Decoded 'a | EmptyBody | Malformed string

record binders =
  bn_id :: "string \<Rightarrow> string + uuid"
  bn_year :: "string \<Rightarrow> (string \<times> string list) list \<Rightarrow> string + int"
  bn_int :: "string \<Rightarrow> (string \<times> string list) list \<Rightarrow> string + int option"
  bn_text :: "string \<Rightarrow> (string \<times> string list) list \<Rightarrow> string + string option"
  bn_day :: "string \<Rightarrow> (string \<times> string list) list \<Rightarrow> string + date option"
  bn_flag :: "string \<Rightarrow> (string \<times> string list) list \<Rightarrow> string + bool option"
  bn_texts :: "string \<Rightarrow> (string \<times> string list) list \<Rightarrow> string + string list option"
  bn_uuid :: "string \<Rightarrow> (string \<times> string list) list \<Rightarrow> string + uuid option"
  js_register :: "http_request \<Rightarrow> register_request decoded"
  js_credentials :: "http_request \<Rightarrow> credentials decoded"
  js_email :: "http_request \<Rightarrow> string decoded"
  js_token :: "http_request \<Rightarrow> string decoded"
  js_confirmation :: "http_request \<Rightarrow> reset_confirmation decoded"
  js_preferences :: "http_request \<Rightarrow> bool option decoded"
  js_listing :: "http_request \<Rightarrow> listing_input decoded"
  js_listing_edit :: "http_request \<Rightarrow> listing_update decoded"
  js_request :: "http_request \<Rightarrow> request_input decoded"
  js_request_edit :: "http_request \<Rightarrow> request_update decoded"
  js_status :: "http_request \<Rightarrow> string decoded"
  js_offer :: "http_request \<Rightarrow> offer_input decoded"
  js_message :: "http_request \<Rightarrow> string decoded"
  js_reason :: "http_request \<Rightarrow> string decoded"
  js_role :: "http_request \<Rightarrow> (string \<times> string) decoded"

section \<open>Routes\<close>

datatype operation =
    O_GetHealth | O_Register | O_VerifyEmail | O_ResendVerification | O_Login | O_RefreshSession
  | O_Logout | O_RequestPasswordReset | O_ConfirmPasswordReset | O_GetMe | O_UpdateMyPreferences
  | O_ListListings | O_CreateListing | O_GetListingAvailability | O_DeleteListing | O_GetListing
  | O_UpdateListing | O_SetListingStatus | O_ListMyListings | O_ListRequests | O_CreateRequest
  | O_DeleteRequest | O_GetRequest | O_UpdateRequest | O_SetRequestStatus | O_ListOffers
  | O_CreateOffer | O_WithdrawOffer | O_ListMyRequests | O_StartConversation | O_ListMyConversations
  | O_GetUnreadCounts | O_GetConversation | O_ListMessages | O_SendMessage | O_MarkConversationRead
  | O_CloseConversation | O_ShareAddress | O_GetAdminOverview | O_ListAdminUsers | O_GetAdminUser
  | O_SuspendAdminUser | O_ReinstateAdminUser | O_VerifyAdminUser | O_SetAdminUserRole
  | O_ListAdminListings | O_RemoveAdminListing | O_RestoreAdminListing | O_ListAdminRequests
  | O_RemoveAdminRequest | O_RestoreAdminRequest | O_ListAdminActions

definition routes :: "(string \<times> string \<times> operation) list" where
  "routes =
     [(''GET'', ''/healthz'', O_GetHealth),
      (''POST'', ''/auth/register'', O_Register),
      (''POST'', ''/auth/verify'', O_VerifyEmail),
      (''POST'', ''/auth/verify/resend'', O_ResendVerification),
      (''POST'', ''/auth/login'', O_Login),
      (''POST'', ''/auth/refresh'', O_RefreshSession),
      (''POST'', ''/auth/logout'', O_Logout),
      (''POST'', ''/auth/password-reset'', O_RequestPasswordReset),
      (''POST'', ''/auth/password-reset/confirm'', O_ConfirmPasswordReset),
      (''GET'', ''/me'', O_GetMe),
      (''PATCH'', ''/me/preferences'', O_UpdateMyPreferences),
      (''GET'', ''/listings'', O_ListListings),
      (''POST'', ''/listings'', O_CreateListing),
      (''GET'', ''/listings/availability'', O_GetListingAvailability),
      (''DELETE'', ''/listings/:id'', O_DeleteListing),
      (''GET'', ''/listings/:id'', O_GetListing),
      (''PATCH'', ''/listings/:id'', O_UpdateListing),
      (''POST'', ''/listings/:id/status'', O_SetListingStatus),
      (''GET'', ''/me/listings'', O_ListMyListings),
      (''GET'', ''/requests'', O_ListRequests),
      (''POST'', ''/requests'', O_CreateRequest),
      (''DELETE'', ''/requests/:id'', O_DeleteRequest),
      (''GET'', ''/requests/:id'', O_GetRequest),
      (''PATCH'', ''/requests/:id'', O_UpdateRequest),
      (''POST'', ''/requests/:id/status'', O_SetRequestStatus),
      (''GET'', ''/requests/:id/offers'', O_ListOffers),
      (''POST'', ''/requests/:id/offers'', O_CreateOffer),
      (''DELETE'', ''/offers/:id'', O_WithdrawOffer),
      (''GET'', ''/me/requests'', O_ListMyRequests),
      (''POST'', ''/listings/:id/conversations'', O_StartConversation),
      (''GET'', ''/me/conversations'', O_ListMyConversations),
      (''GET'', ''/me/conversations/unread'', O_GetUnreadCounts),
      (''GET'', ''/conversations/:id'', O_GetConversation),
      (''GET'', ''/conversations/:id/messages'', O_ListMessages),
      (''POST'', ''/conversations/:id/messages'', O_SendMessage),
      (''POST'', ''/conversations/:id/read'', O_MarkConversationRead),
      (''POST'', ''/conversations/:id/close'', O_CloseConversation),
      (''POST'', ''/conversations/:id/share-address'', O_ShareAddress),
      (''GET'', ''/admin/overview'', O_GetAdminOverview),
      (''GET'', ''/admin/users'', O_ListAdminUsers),
      (''GET'', ''/admin/users/:id'', O_GetAdminUser),
      (''POST'', ''/admin/users/:id/suspend'', O_SuspendAdminUser),
      (''POST'', ''/admin/users/:id/reinstate'', O_ReinstateAdminUser),
      (''POST'', ''/admin/users/:id/verify'', O_VerifyAdminUser),
      (''POST'', ''/admin/users/:id/role'', O_SetAdminUserRole),
      (''GET'', ''/admin/listings'', O_ListAdminListings),
      (''POST'', ''/admin/listings/:id/remove'', O_RemoveAdminListing),
      (''POST'', ''/admin/listings/:id/restore'', O_RestoreAdminListing),
      (''GET'', ''/admin/requests'', O_ListAdminRequests),
      (''POST'', ''/admin/requests/:id/remove'', O_RemoveAdminRequest),
      (''POST'', ''/admin/requests/:id/restore'', O_RestoreAdminRequest),
      (''GET'', ''/admin/actions'', O_ListAdminActions)]"

definition route_of :: "('a) http_request_scheme \<Rightarrow> operation option" where
  "route_of req = map_option (\<lambda>(_, _, op). op)
     (List.find (\<lambda>(m, p, _). m = hr_method req \<and> p = hr_full_path req) routes)"

section \<open>What a failed binding answers\<close>

definition parameterErrorMessage :: "string \<Rightarrow> string" where
  "parameterErrorMessage msg =
     (if contains msg ''uuid'' \<or> contains msg ''UUID'' then ''That id is not a valid UUID.''
      else if contains msg ''Invalid format for parameter'' then
        ''A parameter in the request has the wrong format.''
      else ''The request parameters could not be read. Check them against the API contract.'')"

definition requestErrorMessage :: "string \<Rightarrow> string" where
  "requestErrorMessage msg =
     (if contains msg ''EOF'' then ''A JSON body is required.''
      else if contains msg ''email'' then ''That email address is not valid.''
      else ''The request body could not be read. Check the field types against the API contract.'')"

text \<open>\<open>GinServerOptions.ErrorHandler\<close> and \<open>RequestErrorHandlerFunc\<close>; the result is the envelope's message.\<close>

definition bad_parameter :: "string \<Rightarrow> string \<Rightarrow> string" where
  "bad_parameter name msg = parameterErrorMessage (''Invalid format for parameter '' @ name @ '': '' @ msg)"

section \<open>Binding\<close>

text \<open>Each step binds one parameter and goes on with it, or stops with the message to answer.\<close>

definition path_id :: "binders \<Rightarrow> incoming \<Rightarrow> (uuid \<Rightarrow> string + 'a) \<Rightarrow> string + 'a" where
  "path_id B req k = (case bn_id B (in_id req) of Inl msg \<Rightarrow> Inl (bad_parameter ''id'' msg) | Inr i \<Rightarrow> k i)"

definition arg ::
  "(string \<Rightarrow> (string \<times> string list) list \<Rightarrow> string + 'b) \<Rightarrow> incoming \<Rightarrow> string \<Rightarrow>
   ('b \<Rightarrow> string + 'a) \<Rightarrow> string + 'a" where
  "arg bn req name k =
     (case bn name (in_query req) of Inl msg \<Rightarrow> Inl (bad_parameter name msg) | Inr v \<Rightarrow> k v)"

definition json_body ::
  "(http_request \<Rightarrow> 'b decoded) \<Rightarrow> incoming \<Rightarrow> ('b option \<Rightarrow> string + 'a) \<Rightarrow> string + 'a" where
  "json_body js req k =
     (case js (http_request.truncate req) of
        Decoded b \<Rightarrow> k (Some b)
      | EmptyBody \<Rightarrow> Inl (requestErrorMessage ''EOF'')
      | Malformed msg \<Rightarrow> Inl (requestErrorMessage msg))"

text \<open>A body the contract does not require: none is given when it is empty.\<close>

definition optional_json_body ::
  "(http_request \<Rightarrow> 'b decoded) \<Rightarrow> incoming \<Rightarrow> ('b option \<Rightarrow> string + 'a) \<Rightarrow> string + 'a" where
  "optional_json_body js req k =
     (case js (http_request.truncate req) of
        Decoded b \<Rightarrow> k (Some b)
      | EmptyBody \<Rightarrow> k None
      | Malformed msg \<Rightarrow> Inl (requestErrorMessage msg))"

definition page_args ::
  "binders \<Rightarrow> incoming \<Rightarrow> (int option \<Rightarrow> int option \<Rightarrow> string + 'a) \<Rightarrow> string + 'a" where
  "page_args B req k = arg (bn_int B) req ''page'' (\<lambda>page. arg (bn_int B) req ''per_page'' (k page))"

definition bind_ListListings :: "binders \<Rightarrow> incoming \<Rightarrow> (listing_params \<Rightarrow> string + 'a) \<Rightarrow> string + 'a" where
  "bind_ListListings B req k =
     page_args B req (\<lambda>page perPage. arg (bn_text B) req ''q'' (\<lambda>q.
     arg (bn_day B) req ''start_after'' (\<lambda>start_after. arg (bn_day B) req ''end_before'' (\<lambda>end_before.
     arg (bn_int B) req ''price_min_cents'' (\<lambda>price_min. arg (bn_int B) req ''price_max_cents'' (\<lambda>price_max.
     arg (bn_int B) req ''all_in_max_cents'' (\<lambda>all_in_max. arg (bn_int B) req ''distance_max_m'' (\<lambda>distance_max.
     arg (bn_int B) req ''bedrooms_min'' (\<lambda>bedrooms_min. arg (bn_flag B) req ''furnished'' (\<lambda>furnished.
     arg (bn_flag B) req ''parking'' (\<lambda>parking. arg (bn_flag B) req ''pets'' (\<lambda>pets.
     arg (bn_flag B) req ''laundry'' (\<lambda>laundry. arg (bn_texts B) req ''utilities'' (\<lambda>utilities.
     arg (bn_flag B) req ''verified_only'' (\<lambda>verified_only. arg (bn_text B) req ''sort'' (\<lambda>sort.
       k \<lparr>lp_page = page, lp_per_page = perPage, lp_q = q, lp_start_after = start_after,
         lp_end_before = end_before, lp_price_min_cents = price_min, lp_price_max_cents = price_max,
         lp_all_in_max_cents = all_in_max, lp_distance_max_m = distance_max,
         lp_bedrooms_min = bedrooms_min, lp_furnished = furnished, lp_parking = parking, lp_pets = pets,
         lp_laundry = laundry, lp_verified_only = verified_only, lp_utilities = utilities,
         lp_sort = sort\<rparr>))))))))))))))))"

definition bind_GetListingAvailability ::
  "binders \<Rightarrow> incoming \<Rightarrow> (int \<Rightarrow> listing_params \<Rightarrow> string + 'a) \<Rightarrow> string + 'a" where
  "bind_GetListingAvailability B req k =
     arg (bn_year B) req ''year'' (\<lambda>year. arg (bn_text B) req ''q'' (\<lambda>q.
     arg (bn_int B) req ''price_min_cents'' (\<lambda>price_min. arg (bn_int B) req ''price_max_cents'' (\<lambda>price_max.
     arg (bn_int B) req ''all_in_max_cents'' (\<lambda>all_in_max. arg (bn_int B) req ''distance_max_m'' (\<lambda>distance_max.
     arg (bn_int B) req ''bedrooms_min'' (\<lambda>bedrooms_min. arg (bn_flag B) req ''furnished'' (\<lambda>furnished.
     arg (bn_flag B) req ''parking'' (\<lambda>parking. arg (bn_flag B) req ''pets'' (\<lambda>pets.
     arg (bn_flag B) req ''laundry'' (\<lambda>laundry. arg (bn_texts B) req ''utilities'' (\<lambda>utilities.
     arg (bn_flag B) req ''verified_only'' (\<lambda>verified_only.
       k year \<lparr>lp_page = None, lp_per_page = None, lp_q = q,
         lp_start_after = None, lp_end_before = None, lp_price_min_cents = price_min,
         lp_price_max_cents = price_max, lp_all_in_max_cents = all_in_max,
         lp_distance_max_m = distance_max, lp_bedrooms_min = bedrooms_min, lp_furnished = furnished,
         lp_parking = parking, lp_pets = pets, lp_laundry = laundry, lp_verified_only = verified_only,
         lp_utilities = utilities, lp_sort = None\<rparr>)))))))))))))"

definition bind_ListRequests :: "binders \<Rightarrow> incoming \<Rightarrow> (request_params \<Rightarrow> string + 'a) \<Rightarrow> string + 'a" where
  "bind_ListRequests B req k =
     page_args B req (\<lambda>page perPage. arg (bn_text B) req ''q'' (\<lambda>q.
     arg (bn_day B) req ''start_after'' (\<lambda>start_after. arg (bn_day B) req ''end_before'' (\<lambda>end_before.
     arg (bn_int B) req ''budget_min_cents'' (\<lambda>budget_min. arg (bn_int B) req ''budget_max_cents'' (\<lambda>budget_max.
     arg (bn_int B) req ''distance_min_m'' (\<lambda>distance_min. arg (bn_int B) req ''occupants_max'' (\<lambda>occupants_max.
     arg (bn_flag B) req ''pets'' (\<lambda>pets. arg (bn_flag B) req ''furnished'' (\<lambda>furnished.
     arg (bn_flag B) req ''parking'' (\<lambda>parking. arg (bn_flag B) req ''laundry'' (\<lambda>laundry.
     arg (bn_flag B) req ''verified_only'' (\<lambda>verified_only. arg (bn_text B) req ''sort'' (\<lambda>sort.
       k \<lparr>rp_page = page, rp_per_page = perPage, rp_q = q, rp_start_after = start_after,
         rp_end_before = end_before, rp_budget_min_cents = budget_min, rp_budget_max_cents = budget_max,
         rp_distance_min_m = distance_min, rp_occupants_max = occupants_max, rp_pets = pets,
         rp_furnished = furnished, rp_parking = parking, rp_laundry = laundry,
         rp_verified_only = verified_only, rp_sort = sort\<rparr>))))))))))))))"

definition bind_ListMyConversations ::
  "binders \<Rightarrow> incoming \<Rightarrow> (int option \<Rightarrow> int option \<Rightarrow> string option \<Rightarrow> string option \<Rightarrow> string + 'a) \<Rightarrow> string + 'a" where
  "bind_ListMyConversations B req k =
     page_args B req (\<lambda>page perPage. arg (bn_text B) req ''status'' (\<lambda>status.
     arg (bn_text B) req ''side'' (\<lambda>side. k page perPage status side)))"

definition bind_ListMessages ::
  "binders \<Rightarrow> incoming \<Rightarrow> (uuid \<Rightarrow> int option \<Rightarrow> int option \<Rightarrow> string + 'a) \<Rightarrow> string + 'a" where
  "bind_ListMessages B req k = path_id B req (\<lambda>i. page_args B req (\<lambda>page perPage.
     k i page perPage))"

definition bind_ListAdminActions ::
  "binders \<Rightarrow> incoming \<Rightarrow> (int option \<Rightarrow> int option \<Rightarrow> string + 'a) \<Rightarrow> string + 'a" where
  "bind_ListAdminActions B req k = page_args B req k"

definition bind_ListAdminUsers ::
  "binders \<Rightarrow> incoming \<Rightarrow> (int option \<Rightarrow> int option \<Rightarrow> user_filters \<Rightarrow> string + 'a) \<Rightarrow> string + 'a" where
  "bind_ListAdminUsers B req k =
     page_args B req (\<lambda>page perPage. arg (bn_text B) req ''q'' (\<lambda>q. arg (bn_text B) req ''role'' (\<lambda>role.
     arg (bn_flag B) req ''verified'' (\<lambda>verified. arg (bn_flag B) req ''suspended'' (\<lambda>suspended.
       k page perPage \<lparr>uf_search = q, uf_role = role, uf_verified = verified,
         uf_suspended = suspended\<rparr>)))))"

definition post_args :: "binders \<Rightarrow> incoming \<Rightarrow> (post_filters \<Rightarrow> string + 'a) \<Rightarrow> string + 'a" where
  "post_args B req k =
     arg (bn_text B) req ''q'' (\<lambda>q. arg (bn_text B) req ''status'' (\<lambda>status.
     arg (bn_flag B) req ''removed'' (\<lambda>removed. arg (bn_uuid B) req ''owner_id'' (\<lambda>owner.
       k \<lparr>pf_search = q, pf_status = status, pf_removed = removed, pf_owner_id = owner\<rparr>))))"

definition bind_ListAdminListings ::
  "binders \<Rightarrow> incoming \<Rightarrow> (int option \<Rightarrow> int option \<Rightarrow> post_filters \<Rightarrow> string + 'a) \<Rightarrow> string + 'a" where
  "bind_ListAdminListings B req k =
     page_args B req (\<lambda>page perPage. post_args B req (k page perPage))"

definition bind_ListAdminRequests ::
  "binders \<Rightarrow> incoming \<Rightarrow> (int option \<Rightarrow> int option \<Rightarrow> post_filters \<Rightarrow> string + 'a) \<Rightarrow> string + 'a" where
  "bind_ListAdminRequests B req k =
     page_args B req (\<lambda>page perPage. post_args B req (k page perPage))"

text \<open>The wrapper and the strict handler of each operation; \<open>version\<close> is the build's.\<close>

fun bind_operation :: "binders \<Rightarrow> string \<Rightarrow> incoming \<Rightarrow> operation \<Rightarrow> string + request" where
  "bind_operation B version req O_GetHealth = Inr (R_GetHealth version)"
| "bind_operation B version req O_Register = json_body (js_register B) req (\<lambda>b. Inr (R_Register b))"
| "bind_operation B version req O_VerifyEmail = json_body (js_token B) req (\<lambda>b. Inr (R_VerifyEmail b))"
| "bind_operation B version req O_ResendVerification =
     json_body (js_email B) req (\<lambda>b. Inr (R_ResendVerification b))"
| "bind_operation B version req O_Login = json_body (js_credentials B) req (\<lambda>b. Inr (R_Login b))"
| "bind_operation B version req O_RefreshSession = Inr R_RefreshSession"
| "bind_operation B version req O_Logout = Inr R_Logout"
| "bind_operation B version req O_RequestPasswordReset =
     json_body (js_email B) req (\<lambda>b. Inr (R_RequestPasswordReset b))"
| "bind_operation B version req O_ConfirmPasswordReset =
     json_body (js_confirmation B) req (\<lambda>b. Inr (R_ConfirmPasswordReset b))"
| "bind_operation B version req O_GetMe = Inr R_GetMe"
| "bind_operation B version req O_UpdateMyPreferences =
     json_body (js_preferences B) req (\<lambda>b. Inr (R_UpdateMyPreferences b))"
| "bind_operation B version req O_ListListings = bind_ListListings B req (\<lambda>p. Inr (R_ListListings p))"
| "bind_operation B version req O_CreateListing = json_body (js_listing B) req (\<lambda>b. Inr (R_CreateListing b))"
| "bind_operation B version req O_GetListingAvailability = bind_GetListingAvailability B req (\<lambda>y p. Inr (R_GetListingAvailability y p))"
| "bind_operation B version req O_DeleteListing = path_id B req (\<lambda>i. Inr (R_DeleteListing i))"
| "bind_operation B version req O_GetListing = path_id B req (\<lambda>i. Inr (R_GetListing i))"
| "bind_operation B version req O_UpdateListing =
     path_id B req (\<lambda>i. json_body (js_listing_edit B) req (\<lambda>b. Inr (R_UpdateListing i b)))"
| "bind_operation B version req O_SetListingStatus =
     path_id B req (\<lambda>i. json_body (js_status B) req (\<lambda>b. Inr (R_SetListingStatus i b)))"
| "bind_operation B version req O_ListMyListings = Inr R_ListMyListings"
| "bind_operation B version req O_ListRequests = bind_ListRequests B req (\<lambda>p. Inr (R_ListRequests p))"
| "bind_operation B version req O_CreateRequest = json_body (js_request B) req (\<lambda>b. Inr (R_CreateRequest b))"
| "bind_operation B version req O_DeleteRequest = path_id B req (\<lambda>i. Inr (R_DeleteRequest i))"
| "bind_operation B version req O_GetRequest = path_id B req (\<lambda>i. Inr (R_GetRequest i))"
| "bind_operation B version req O_UpdateRequest =
     path_id B req (\<lambda>i. json_body (js_request_edit B) req (\<lambda>b. Inr (R_UpdateRequest i b)))"
| "bind_operation B version req O_SetRequestStatus =
     path_id B req (\<lambda>i. json_body (js_status B) req (\<lambda>b. Inr (R_SetRequestStatus i b)))"
| "bind_operation B version req O_ListOffers = path_id B req (\<lambda>i. Inr (R_ListOffers i))"
| "bind_operation B version req O_CreateOffer =
     path_id B req (\<lambda>i. json_body (js_offer B) req (\<lambda>b. Inr (R_CreateOffer i b)))"
| "bind_operation B version req O_WithdrawOffer = path_id B req (\<lambda>i. Inr (R_WithdrawOffer i))"
| "bind_operation B version req O_ListMyRequests = Inr R_ListMyRequests"
| "bind_operation B version req O_StartConversation =
     path_id B req (\<lambda>i. json_body (js_message B) req (\<lambda>b. Inr (R_StartConversation i b)))"
| "bind_operation B version req O_ListMyConversations = bind_ListMyConversations B req (\<lambda>pg n s side. Inr (R_ListMyConversations pg n s side))"
| "bind_operation B version req O_GetUnreadCounts = Inr R_GetUnreadCounts"
| "bind_operation B version req O_GetConversation = path_id B req (\<lambda>i. Inr (R_GetConversation i))"
| "bind_operation B version req O_ListMessages = bind_ListMessages B req (\<lambda>i pg n. Inr (R_ListMessages i pg n))"
| "bind_operation B version req O_SendMessage =
     path_id B req (\<lambda>i. json_body (js_message B) req (\<lambda>b. Inr (R_SendMessage i b)))"
| "bind_operation B version req O_MarkConversationRead = path_id B req (\<lambda>i. Inr (R_MarkConversationRead i))"
| "bind_operation B version req O_CloseConversation = path_id B req (\<lambda>i. Inr (R_CloseConversation i))"
| "bind_operation B version req O_ShareAddress = path_id B req (\<lambda>i. Inr (R_ShareAddress i))"
| "bind_operation B version req O_GetAdminOverview = Inr R_GetAdminOverview"
| "bind_operation B version req O_ListAdminUsers = bind_ListAdminUsers B req (\<lambda>pg n f. Inr (R_ListAdminUsers pg n f))"
| "bind_operation B version req O_GetAdminUser = path_id B req (\<lambda>i. Inr (R_GetAdminUser i))"
| "bind_operation B version req O_SuspendAdminUser =
     path_id B req (\<lambda>i. json_body (js_reason B) req (\<lambda>b. Inr (R_SuspendAdminUser i b)))"
| "bind_operation B version req O_ReinstateAdminUser =
     path_id B req (\<lambda>i. json_body (js_reason B) req (\<lambda>b. Inr (R_ReinstateAdminUser i b)))"
| "bind_operation B version req O_VerifyAdminUser =
     path_id B req (\<lambda>i. json_body (js_reason B) req (\<lambda>b. Inr (R_VerifyAdminUser i b)))"
| "bind_operation B version req O_SetAdminUserRole =
     path_id B req (\<lambda>i. json_body (js_role B) req (\<lambda>b. Inr (R_SetAdminUserRole i b)))"
| "bind_operation B version req O_ListAdminListings = bind_ListAdminListings B req (\<lambda>pg n f. Inr (R_ListAdminListings pg n f))"
| "bind_operation B version req O_RemoveAdminListing =
     path_id B req (\<lambda>i. json_body (js_reason B) req (\<lambda>b. Inr (R_RemoveAdminListing i b)))"
| "bind_operation B version req O_RestoreAdminListing =
     path_id B req (\<lambda>i. optional_json_body (js_reason B) req (\<lambda>b. Inr (R_RestoreAdminListing i b)))"
| "bind_operation B version req O_ListAdminRequests = bind_ListAdminRequests B req (\<lambda>pg n f. Inr (R_ListAdminRequests pg n f))"
| "bind_operation B version req O_RemoveAdminRequest =
     path_id B req (\<lambda>i. json_body (js_reason B) req (\<lambda>b. Inr (R_RemoveAdminRequest i b)))"
| "bind_operation B version req O_RestoreAdminRequest =
     path_id B req (\<lambda>i. optional_json_body (js_reason B) req (\<lambda>b. Inr (R_RestoreAdminRequest i b)))"
| "bind_operation B version req O_ListAdminActions = bind_ListAdminActions B req (\<lambda>pg n. Inr (R_ListAdminActions pg n))"

section \<open>Responses\<close>

text \<open>
  What is written: nothing, the body of a generated response, or an envelope; one written by
  \<open>internal/apierror\<close> carries the request id, one built by a handler does not.
\<close>

datatype payload = Empty | Payload body | Envelope err_body "string option"

record response =
  rs_status :: nat
  rs_payload :: payload

definition written :: "string \<Rightarrow> nat \<Rightarrow> err_body \<Rightarrow> response" where
  "written rid status e = \<lparr>rs_status = status, rs_payload = Envelope e (Some rid)\<rparr>"

definition Internal :: "string \<Rightarrow> response" where
  "Internal rid = written rid 500 (errorBody CodeInternal ''Something went wrong on our end. Try again.'')"

text \<open>\<open>NoRoute\<close>, and what \<open>requireAdmin\<close> writes for anyone who is not an admin.\<close>

definition no_endpoint :: "string \<Rightarrow> string \<Rightarrow> response" where
  "no_endpoint rid path = written rid 404 (errorBody CodeNotFound (''No endpoint at '' @ path))"

fun visit :: "string \<Rightarrow> string \<Rightarrow> body reply \<Rightarrow> response" where
  "visit rid path (Success status b) =
     \<lparr>rs_status = status, rs_payload = (case b of B_none \<Rightarrow> Empty | _ \<Rightarrow> Payload b)\<rparr>"
| "visit rid path (Refuse status e) = \<lparr>rs_status = status, rs_payload = Envelope e None\<rparr>"
| "visit rid path (HandlerError _) = Internal rid"
| "visit rid path Unrouted = no_endpoint rid path"

section \<open>The router\<close>

definition RequestIDHeader :: string where "RequestIDHeader = ''X-Request-ID''"

text \<open>\<open>fresh\<close> is the UUID drawn when the client sent no id.\<close>

definition RequestID :: "string \<Rightarrow> ('a) http_request_scheme \<Rightarrow> string" where
  "RequestID fresh req =
     (let i = wr_headers (wire_of req) RequestIDHeader in if i = [] then fresh else i)"

definition routed :: "env \<Rightarrow> binders \<Rightarrow> string \<Rightarrow> string \<Rightarrow> incoming \<Rightarrow> request_ctx \<Rightarrow> response go" where
  "routed env B version rid req ctx =
     (case route_of req of
        None \<Rightarrow> State_Monad.return (no_endpoint rid (hr_path req))
      | Some op \<Rightarrow>
          (case bind_operation B version req op of
             Inl msg \<Rightarrow> State_Monad.return (written rid 400 (errorBody CodeBadRequest msg))
           | Inr r \<Rightarrow> do {
               reply \<leftarrow> dispatch env ctx r;
               State_Monad.return (visit rid (hr_path req) reply) }))"

text \<open>
  A response of the limiter is written by \<open>apierror.TooManyRequests\<close>; one of the handlers behind it
  passes through.
\<close>

fun pass_limited :: "string \<Rightarrow> response reply \<Rightarrow> response" where
  "pass_limited rid (Success _ resp) = resp"
| "pass_limited rid (Refuse status e) = written rid status e"
| "pass_limited rid (HandlerError _) = Internal rid"
| "pass_limited rid Unrouted = Internal rid"

definition NewRouter ::
  "env \<Rightarrow> binders \<Rightarrow> string \<Rightarrow> string \<Rightarrow> string \<Rightarrow> incoming \<Rightarrow> response go" where
  "NewRouter env B origin version fresh req = do {
     now \<leftarrow> time_now;
     (let rid = RequestID fresh req
      in case admitted env origin now (wire_of req) of
           None \<Rightarrow> State_Monad.return \<lparr>rs_status = 204, rs_payload = Empty\<rparr>
         | Some (Inl refusal) \<Rightarrow> State_Monad.return (pass_limited rid refusal)
         | Some (Inr ctx) \<Rightarrow> do {
             r \<leftarrow> RateLimit env (http_request.truncate req) ctx (\<lambda>ctx. do {
               resp \<leftarrow> routed env B version rid req ctx;
               answer (rs_status resp) resp });
             State_Monad.return (pass_limited rid r) }) }"

end
