(* ===== verification/RouterProofs.thy ===== *)
theory RouterProofs
  imports Router LimitProofs Preserve
begin

text \<open>
  What the middleware chain and the route table of \<open>Router\<close> guarantee for a whole HTTP request: a
  request that cannot prove intent changes nothing, the routes limited per user do nothing for an
  anonymous caller, and the admin endpoints look unknown to everybody else, when their parameters and
  body can be read.
\<close>

section \<open>What a binding gives\<close>

lemma arg_Inr: "arg bn req name k = Inr r \<longleftrightarrow> (\<exists>v. bn name (in_query req) = Inr v \<and> k v = Inr r)"
  by (simp add: arg_def split: sum.split)

lemma path_id_Inr: "path_id B req k = Inr r \<longleftrightarrow> (\<exists>i. bn_id B (in_id req) = Inr i \<and> k i = Inr r)"
  by (simp add: path_id_def split: sum.split)

lemma json_body_Inr: "json_body js req k = Inr r \<longleftrightarrow>
    (\<exists>b. js (http_request.truncate req) = Decoded b \<and> k (Some b) = Inr r)"
  by (simp add: json_body_def split: decoded.split)

lemma optional_json_body_Inr: "optional_json_body js req k = Inr r \<longleftrightarrow>
    (\<exists>b. (js (http_request.truncate req) = (case b of None \<Rightarrow> EmptyBody | Some v \<Rightarrow> Decoded v)) \<and> k b = Inr r)"
  by (auto simp: optional_json_body_def split: decoded.split option.split)

lemma page_args_Inr: "page_args B req k = Inr r \<longleftrightarrow>
    (\<exists>p n. bn_int B ''page'' (in_query req) = Inr p \<and> bn_int B ''per_page'' (in_query req) = Inr n \<and> k p n = Inr r)"
  by (auto simp: page_args_def arg_Inr)

lemma post_args_Inr: "post_args B req k = Inr r \<Longrightarrow> \<exists>f. k f = Inr r"
  by (auto simp: post_args_def arg_Inr)

lemmas binding_Inr = arg_Inr path_id_Inr json_body_Inr optional_json_body_Inr page_args_Inr

lemmas binding_defs = bind_ListListings_def bind_GetListingAvailability_def bind_ListRequests_def
  bind_ListMyConversations_def bind_ListMessages_def bind_ListAdminActions_def bind_ListAdminUsers_def
  bind_ListAdminListings_def bind_ListAdminRequests_def

section \<open>The chain preserves what its handler preserves\<close>

lemma keeps_RateLimit:
  assumes "\<And>ctx'. ctx_principal ctx' = ctx_principal ctx \<Longrightarrow> keeps (db_inv P) (h ctx')"
  shows "keeps (db_inv P) (RateLimit env req ctx h)"
  unfolding keeps_def
proof (intro allI impI)
  fix w assume w: "db_inv P w"
  from RateLimit_stops_or_runs [of ctx h w env req]
  consider (stops) l e where "run_state (RateLimit env req ctx h) w = (Refuse 429 e, w\<lparr>rl := l\<rparr>)"
    | (runs) l ctx' where "ctx_principal ctx' = ctx_principal ctx"
        "run_state (RateLimit env req ctx h) w = run_state (h ctx') (w\<lparr>rl := l\<rparr>)"
    unfolding stops_or_runs_def by blast
  then show "db_inv P (snd (run_state (RateLimit env req ctx h) w))"
    by cases (use w in \<open>simp_all add: keeps_run [OF assms]\<close>)
qed

lemma keeps_dispatch: "keeps I (dispatch env ctx r) \<longleftrightarrow> keeps I (serve env ctx r)"
  by (simp only: keeps_def snd_dispatch)

lemma keeps_routed:
  assumes "\<And>op r. route_of req = Some op \<Longrightarrow> bind_operation B version req op = Inr r \<Longrightarrow>
    keeps (db_inv P) (serve env ctx r)"
  shows "keeps (db_inv P) (routed env B version rid req ctx)"
  unfolding routed_def by (intro keeps_intros) (simp_all add: keeps_dispatch assms)

lemma keeps_NewRouter:
  assumes "\<And>now ctx ctx' op r. admitted env origin now (wire_of req) = Some (Inr ctx :: response reply + _) \<Longrightarrow>
      ctx_principal ctx' = ctx_principal ctx \<Longrightarrow> route_of req = Some op \<Longrightarrow>
      bind_operation B version req op = Inr r \<Longrightarrow> keeps (db_inv P) (serve env ctx' r)"
  shows "keeps (db_inv P) (NewRouter env B origin version fresh req)"
  unfolding NewRouter_def Let_def
  by (intro keeps_intros keeps_RateLimit keeps_routed) (simp, rule assms; assumption)

section \<open>Cross-site requests\<close>

lemma route_of_SomeD: "route_of req = Some op \<Longrightarrow> (hr_method req, hr_full_path req, op) \<in> set routes"
  unfolding route_of_def by (auto dest!: find_SomeD)

text \<open>The operations routed under a safe method only read.\<close>

lemma safe_routes: "(m, p, op) \<in> set routes \<Longrightarrow> safe_method m \<Longrightarrow>
    op \<in> {O_GetHealth, O_GetMe, O_ListListings, O_GetListingAvailability, O_GetListing, O_ListMyListings,
      O_ListRequests, O_GetRequest, O_ListOffers, O_ListMyRequests, O_ListMyConversations, O_GetUnreadCounts,
      O_GetConversation, O_ListMessages, O_GetAdminOverview, O_ListAdminUsers, O_GetAdminUser,
      O_ListAdminListings, O_ListAdminRequests, O_ListAdminActions}"
  by (auto simp: routes_def safe_method_def)

lemma keeps_safe:
  assumes "route_of req = Some op" and "safe_method (hr_method req)"
    and "bind_operation B version req op = Inr r"
  shows "keeps (db_inv P) (serve env ctx r)"
  using safe_routes [OF route_of_SomeD [OF assms(1)] assms(2)] assms(3)
  by (elim insertE emptyE)
    (auto simp: binding_Inr binding_defs keeps_readers intro!: keeps_discard dest!: post_args_Inr)

lemma csrf_passes_iff: "CSRF req = None \<longleftrightarrow> safe_method (wr_method req) \<or>
    wr_cookies req SessionCookieName = None \<or>
    (wr_headers req CSRFHeaderName \<noteq> [] \<and> wr_cookies req CSRFCookieName = Some (wr_headers req CSRFHeaderName))"
  by (cases "wr_cookies req CSRFCookieName") (auto simp: CSRF_def Let_def)

lemma csrf_refusal: "CSRF req = Some r \<Longrightarrow> \<exists>e. r = Refuse 403 e"
  by (auto simp: CSRF_def Let_def split: if_splits)

lemma wire_of_method [simp]: "wr_method (wire_of req) = hr_method req"
  by (simp add: wire_of_def)

lemma csrf_without_header:
  assumes "wr_cookies (wire_of req) SessionCookieName = Some token"
    and "wr_headers (wire_of req) CSRFHeaderName = [] \<or>
      wr_cookies (wire_of req) CSRFCookieName \<noteq> Some (wr_headers (wire_of req) CSRFHeaderName)"
  shows "CSRF (wire_of req) = None \<longleftrightarrow> safe_method (hr_method req)"
  using assms by (auto simp: csrf_passes_iff)

text \<open>C13: A request that carries the session cookie without a CSRF header equal to its CSRF cookie
  changes nothing in the database, whatever its method and path: every property of the database that
  the other requests preserve holds after it. One with an unsafe method is refused with 403 before
  anything runs.\<close>

theorem forged_request_changes_nothing:
  assumes "wr_cookies (wire_of req) SessionCookieName = Some token"
    and "wr_headers (wire_of req) CSRFHeaderName = [] \<or>
      wr_cookies (wire_of req) CSRFCookieName \<noteq> Some (wr_headers (wire_of req) CSRFHeaderName)"
    and "db_inv P w"
  shows "db_inv P (snd (run_state (NewRouter env B origin version fresh req) w)) \<and>
    (\<not> safe_method (hr_method req) \<longrightarrow>
      snd (run_state (NewRouter env B origin version fresh req) w) = w \<and>
      rs_status (fst (run_state (NewRouter env B origin version fresh req) w)) = 403)"
proof (intro conjI impI)
  note refused = csrf_without_header [OF assms(1,2)]
  show "db_inv P (snd (run_state (NewRouter env B origin version fresh req) w))"
    by (rule keeps_run [OF keeps_NewRouter assms(3)], rule keeps_safe)
      (auto simp: admitted_def refused split: if_splits option.splits)
  assume unsafe: "\<not> safe_method (hr_method req)"
  then obtain r :: "response reply" where r: "CSRF (wire_of req) = Some r"
    by (cases "CSRF (wire_of req) :: response reply option") (simp_all add: refused)
  have "\<not> snd (CORS origin (wire_of req))" using unsafe by (auto simp: CORS_def safe_method_def)
  with r csrf_refusal [OF r] have "admitted env origin now (wire_of req) = Some (Inl r)" for now
    by (simp add: admitted_def)
  moreover have "rs_status (pass_limited rid r) = 403" for rid
    using csrf_refusal [OF r] by (auto simp: written_def)
  ultimately show "snd (run_state (NewRouter env B origin version fresh req) w) = w"
    and "rs_status (fst (run_state (NewRouter env B origin version fresh req) w)) = 403"
    by (simp_all add: NewRouter_def Let_def)
qed

text \<open>A request of the sample's member with a session but no CSRF header, and functions that bind anything.\<close>

definition sample_binders :: binders where
  "sample_binders =
     \<lparr>bn_id = (\<lambda>_. Inr 7), bn_year = (\<lambda>_ _. Inr 2026), bn_int = (\<lambda>_ _. Inr None), bn_text = (\<lambda>_ _. Inr None),
      bn_day = (\<lambda>_ _. Inr None), bn_flag = (\<lambda>_ _. Inr None), bn_texts = (\<lambda>_ _. Inr None),
      bn_uuid = (\<lambda>_ _. Inr None), js_register = (\<lambda>_. EmptyBody), js_credentials = (\<lambda>_. EmptyBody),
      js_email = (\<lambda>_. EmptyBody), js_token = (\<lambda>_. EmptyBody), js_confirmation = (\<lambda>_. EmptyBody),
      js_preferences = (\<lambda>_. Decoded None), js_listing = (\<lambda>_. EmptyBody), js_listing_edit = (\<lambda>_. EmptyBody),
      js_request = (\<lambda>_. EmptyBody), js_request_edit = (\<lambda>_. EmptyBody), js_status = (\<lambda>_. EmptyBody),
      js_offer = (\<lambda>_. EmptyBody), js_message = (\<lambda>_. Decoded ''hello''), js_reason = (\<lambda>_. EmptyBody),
      js_role = (\<lambda>_. EmptyBody)\<rparr>"

definition sample_incoming :: "string \<Rightarrow> string \<Rightarrow> (string \<times> string) list \<Rightarrow> incoming" where
  "sample_incoming m path cookies =
     \<lparr>hr_method = m, hr_full_path = path, hr_path = path, hr_headers = [], hr_cookies = cookies,
      hr_body = None, in_id = ''7'', in_query = []\<rparr>"

theorem forged_request_changes_nothing_witness:
  "let req = sample_incoming ''DELETE'' ''/listings/:id'' [(SessionCookieName, ''t'')];
       w' = snd (run_state (NewRouter sample_env sample_binders ''o'' ''v'' ''i'' req) sample_world)
   in db w' = db sample_world \<and> w' = sample_world"
proof -
  let ?req = "sample_incoming ''DELETE'' ''/listings/:id'' [(SessionCookieName, ''t'')]"
  have "wr_cookies (wire_of ?req) SessionCookieName = Some ''t''"
    and "wr_headers (wire_of ?req) CSRFHeaderName = []" and "\<not> safe_method (hr_method ?req)"
    by (simp_all add: wire_of_def sample_incoming_def safe_method_def)
  with forged_request_changes_nothing [where req = ?req and P = "\<lambda>_. True" and w = sample_world and
      env = sample_env and B = sample_binders and origin = "''o''" and version = "''v''" and fresh = "''i''"]
  show ?thesis by (simp add: sample_db_inv Let_def)
qed

section \<open>Routes limited per user\<close>

text \<open>Every route limited per user is one the router registers.\<close>

lemma user_routes: "list_all (\<lambda>route. lr_kind route = keyByUser \<longrightarrow>
    (case List.find (\<lambda>(m, p, _). m = lr_method route \<and> p = lr_path route) routes of
       None \<Rightarrow> False
     | Some (_, _, op) \<Rightarrow> op \<in> {O_CreateListing, O_CreateRequest, O_CreateOffer, O_StartConversation, O_SendMessage,
         O_ShareAddress, O_UpdateMyPreferences})) limitedRoutes"
  by code_simp

lemma anonymous_dispatch:
  assumes "op \<in> {O_CreateListing, O_CreateRequest, O_CreateOffer, O_StartConversation, O_SendMessage, O_ShareAddress,
      O_UpdateMyPreferences}"
    and "bind_operation B version req op = Inr r" and "ctx_principal ctx = None"
  shows "\<exists>e. run_state (dispatch env ctx r) w = (Refuse 401 e, w)"
  using assms
  by (elim insertE emptyE)
    (auto simp: binding_Inr CreateListing_def CreateRequest_def CreateOffer_def StartConversation_def
      SendMessage_def ShareAddress_def UpdateMyPreferences_def)

text \<open>The routes limited per user do nothing for an anonymous caller, who is not limited there: each
  answers 401, or 400 when the request cannot be read, and touches neither the database nor anything
  else.\<close>

theorem anonymous_limited_routes_refuse:
  assumes "route \<in> set limitedRoutes" and "lr_kind route = keyByUser"
    and "hr_method req = lr_method route" and "hr_full_path req = lr_path route"
    and "ctx_principal ctx = None"
  shows "\<exists>resp. run_state (routed env B version rid req ctx) w = (resp, w) \<and> rs_status resp \<in> {400, 401}"
proof -
  obtain op where op: "op \<in> {O_CreateListing, O_CreateRequest, O_CreateOffer, O_StartConversation,
      O_SendMessage, O_ShareAddress, O_UpdateMyPreferences}" and "route_of req = Some op"
    using user_routes assms(1-4) by (auto simp: list_all_iff route_of_def split: option.splits)
  then show ?thesis
    using anonymous_dispatch [OF op _ assms(5), of B version req _ env w]
    by (cases "bind_operation B version req op") (fastforce simp: routed_def written_def)+
qed

theorem anonymous_limited_routes_refuse_witness:
  "\<exists>resp. run_state (routed sample_env sample_binders [] [] (sample_incoming ''POST'' ''/conversations/:id/messages'' [])
     \<lparr>ctx_principal = None, ctx_refresh = [], ctx_user_agent = [], ctx_login_key = []\<rparr>) sample_world =
       (resp, sample_world) \<and> rs_status resp \<in> {400, 401}"
  by (rule anonymous_limited_routes_refuse
      [where route = "by_user ''POST'' ''/conversations/:id/messages'' MessagePerUser
        ''You are sending messages very quickly. Try again in %s.''"])
    (simp_all add: limitedRoutes_def by_user_def sample_incoming_def)

section \<open>Admin endpoints\<close>

definition admin_path :: "string \<Rightarrow> bool" where
  "admin_path path \<longleftrightarrow> take 7 path = ''/admin/''"

lemma admin_routes: "(m, p, op) \<in> set routes \<Longrightarrow> admin_path p \<Longrightarrow>
    op \<in> {O_GetAdminOverview, O_ListAdminUsers, O_GetAdminUser, O_SuspendAdminUser, O_ReinstateAdminUser,
      O_VerifyAdminUser, O_SetAdminUserRole, O_ListAdminListings, O_RemoveAdminListing, O_RestoreAdminListing,
      O_ListAdminRequests, O_RemoveAdminRequest, O_RestoreAdminRequest, O_ListAdminActions}"
  by (auto simp: routes_def admin_path_def)

lemma admin_dispatch:
  assumes "route_of req = Some op" and "admin_path (hr_full_path req)"
    and "bind_operation B version req op = Inr r" and "requireAdmin ctx = None"
  shows "run_state (dispatch env ctx r) w = (Unrouted, w)"
  using admin_routes [OF route_of_SomeD [OF assms(1)] assms(2)] assms(3,4)
  by (elim insertE emptyE)
    (auto simp: binding_Inr binding_defs admin_read_defs admin_write_defs as_admin_def dest!: post_args_Inr)

lemma limited_paths: "list_all (\<lambda>r. lr_path r \<noteq> [] \<and> \<not> admin_path (lr_path r)) limitedRoutes"
  "list_all (\<lambda>(m, p, op). p \<noteq> []) routes"
  by code_simp+

lemma admin_routes_unlimited: "admin_path (hr_full_path req) \<Longrightarrow> matchRoute req = None"
  using limited_paths(1) by (auto simp: matchRoute_def find_None_iff list_all_iff)

lemma unknown_route: "matchRoute (req\<lparr>hr_full_path := []\<rparr>) = None" "route_of (req'\<lparr>hr_full_path := []\<rparr>) = None"
  using limited_paths by (auto simp: matchRoute_def route_of_def find_None_iff list_all_iff)



text \<open>But a request is bound before the handler asks who is calling: anybody who posts an empty body to an
  admin endpoint is told that a body is required, where a path the router does not know answers 404.\<close>

theorem admin_endpoint_revealed:
  assumes "hr_method req = ''POST''" and "hr_full_path req = ''/admin/users/:id/suspend''"
    and "hr_cookies req = []" and "bn_id B (in_id req) = Inr i"
    and "js_reason B (http_request.truncate req) = EmptyBody"
  shows "rs_status (fst (run_state (NewRouter env B origin version fresh req) w)) = 400 \<and>
    rs_status (fst (run_state (NewRouter env B origin version fresh (req\<lparr>hr_full_path := []\<rparr>)) w)) = 404"
proof -
  let ?ctx = "Authenticate env (clock w) (wire_of req)"
  have admit: "admitted env origin (clock w) (wire_of req) = Some (Inr ?ctx :: response reply + request_ctx)"
    using assms(1,3) by (simp add: admitted_def CORS_def CSRF_def safe_method_def wire_of_def)
  have same: "wire_of (req\<lparr>hr_full_path := []\<rparr>) = wire_of req"
    "http_request.truncate (req\<lparr>hr_full_path := []\<rparr>) = (http_request.truncate req)\<lparr>hr_full_path := []\<rparr>"
    by (simp_all add: wire_of_def http_request.truncate_def)
  have "matchRoute (http_request.truncate req) = None"
    by (rule admin_routes_unlimited) (simp add: http_request.truncate_def assms(2) admin_path_def)
  moreover have "route_of req = Some O_SuspendAdminUser" using assms(1,2) by (simp add: route_of_def routes_def)
  ultimately have "rs_status (fst (run_state (NewRouter env B origin version fresh req) w)) = 400"
    by (simp add: NewRouter_def Let_def admit RateLimit_def routed_def path_id_def json_body_def assms(4,5) written_def)
  moreover have "rs_status (fst (run_state (NewRouter env B origin version fresh (req\<lparr>hr_full_path := []\<rparr>)) w)) = 404"
    by (simp add: NewRouter_def Let_def same admit RateLimit_def unknown_route routed_def no_endpoint_def written_def)
  ultimately show ?thesis by blast
qed

theorem admin_endpoint_revealed_witness:
  "let req = sample_incoming ''POST'' ''/admin/users/:id/suspend'' [];
       ask = (\<lambda>r. rs_status (fst (run_state (NewRouter sample_env sample_binders ''o'' ''v'' ''i'' r) sample_world)))
   in ask req = 400 \<and> ask (req\<lparr>hr_full_path := []\<rparr>) = 404"
  unfolding Let_def
  by (rule admin_endpoint_revealed [where i = 7]) (simp_all add: sample_incoming_def sample_binders_def)

section \<open>The refresh cookie\<close>

text \<open>
  A request that carries the refresh cookie and no session cookie passes the CSRF check without a
  header; \<open>POST /auth/refresh\<close> then rotates the session.
\<close>

lemma refresh_without_csrf_header:
  "let (resp, w') = run_state (NewRouter sample_env sample_binders ''o'' ''v'' ''i''
     (sample_incoming ''POST'' ''/auth/refresh'' [(RefreshCookieName, ''cookie'')])) sample_world
   in rs_status resp = 200 \<and> length (refresh_tokens (db w')) = 2 \<and> rt_revoked_at (hd (refresh_tokens (db w'))) \<noteq> None"
  by code_simp

end
