(* ===== verification/Generated.thy ===== *)
theory Generated
  imports Router
begin

text \<open>
  The three functions \<open>internal/httpapi/gen/server.gen.go\<close> has for every operation: the \<open>Visit\<close> methods of
  its response types, the strict handler that decodes the body and calls the server, and the wrapper
  that binds the parameters. \<open>Router\<close> has their composition as one function of the operation; here
  each stands as it is written, with the assertion of the strict handler that what the server returned
  is one of the operation's responses.
\<close>

section \<open>Responses\<close>

text \<open>
  How a response type writes itself: its status alone, its status and JSON, JSON with a \<open>Retry-After\<close>
  header, or, of the types of \<open>httpapi/responses.go\<close>, cookies with or without JSON.
\<close>

datatype encoding = Bare | Json | JsonRetryAfter | JsonCookies | BareCookies

text \<open>The types that implement an operation's response interface: their status and what \<open>Visit\<close> writes.\<close>

definition GetHealth_responses :: "(nat \<times> encoding) list" where
  "GetHealth_responses = [(200, Json), (503, Json)]"

definition Register_responses :: "(nat \<times> encoding) list" where
  "Register_responses = [(201, Json), (400, Json), (409, Json), (429, JsonRetryAfter), (500, Json)]"

definition VerifyEmail_responses :: "(nat \<times> encoding) list" where
  "VerifyEmail_responses = [(200, Json), (400, Json), (429, JsonRetryAfter), (500, Json)]"

definition ResendVerification_responses :: "(nat \<times> encoding) list" where
  "ResendVerification_responses = [(202, Bare), (400, Json), (429, JsonRetryAfter), (500, Json)]"

definition Login_responses :: "(nat \<times> encoding) list" where
  "Login_responses = [(200, Json), (400, Json), (401, Json), (403, Json), (429, JsonRetryAfter), (500, Json)]"

definition RefreshSession_responses :: "(nat \<times> encoding) list" where
  "RefreshSession_responses = [(200, Json), (401, Json), (500, Json)]"

definition Logout_responses :: "(nat \<times> encoding) list" where
  "Logout_responses = [(204, Bare), (500, Json)]"

definition RequestPasswordReset_responses :: "(nat \<times> encoding) list" where
  "RequestPasswordReset_responses = [(202, Bare), (400, Json), (429, JsonRetryAfter), (500, Json)]"

definition ConfirmPasswordReset_responses :: "(nat \<times> encoding) list" where
  "ConfirmPasswordReset_responses = [(204, Bare), (400, Json), (429, JsonRetryAfter), (500, Json)]"

definition GetMe_responses :: "(nat \<times> encoding) list" where
  "GetMe_responses = [(200, Json), (401, Json), (500, Json)]"

definition UpdateMyPreferences_responses :: "(nat \<times> encoding) list" where
  "UpdateMyPreferences_responses = [(200, Json), (400, Json), (401, Json), (429, JsonRetryAfter), (500, Json)]"

definition ListListings_responses :: "(nat \<times> encoding) list" where
  "ListListings_responses = [(200, Json), (400, Json), (500, Json)]"

definition CreateListing_responses :: "(nat \<times> encoding) list" where
  "CreateListing_responses = [(201, Json), (400, Json), (401, Json), (403, Json), (429, JsonRetryAfter), (500, Json)]"

definition GetListingAvailability_responses :: "(nat \<times> encoding) list" where
  "GetListingAvailability_responses = [(200, Json), (400, Json), (500, Json)]"

definition DeleteListing_responses :: "(nat \<times> encoding) list" where
  "DeleteListing_responses = [(204, Bare), (401, Json), (404, Json), (409, Json), (500, Json)]"

definition GetListing_responses :: "(nat \<times> encoding) list" where
  "GetListing_responses = [(200, Json), (400, Json), (404, Json), (500, Json)]"

definition UpdateListing_responses :: "(nat \<times> encoding) list" where
  "UpdateListing_responses = [(200, Json), (400, Json), (401, Json), (404, Json), (409, Json), (500, Json)]"

definition SetListingStatus_responses :: "(nat \<times> encoding) list" where
  "SetListingStatus_responses = [(200, Json), (400, Json), (401, Json), (404, Json), (409, Json), (500, Json)]"

definition ListMyListings_responses :: "(nat \<times> encoding) list" where
  "ListMyListings_responses = [(200, Json), (401, Json), (500, Json)]"

definition ListRequests_responses :: "(nat \<times> encoding) list" where
  "ListRequests_responses = [(200, Json), (400, Json), (500, Json)]"

definition CreateRequest_responses :: "(nat \<times> encoding) list" where
  "CreateRequest_responses = [(201, Json), (400, Json), (401, Json), (403, Json), (429, JsonRetryAfter), (500, Json)]"

definition DeleteRequest_responses :: "(nat \<times> encoding) list" where
  "DeleteRequest_responses = [(204, Bare), (401, Json), (404, Json), (409, Json), (500, Json)]"

definition GetRequest_responses :: "(nat \<times> encoding) list" where
  "GetRequest_responses = [(200, Json), (404, Json), (500, Json)]"

definition UpdateRequest_responses :: "(nat \<times> encoding) list" where
  "UpdateRequest_responses = [(200, Json), (400, Json), (401, Json), (404, Json), (409, Json), (500, Json)]"

definition SetRequestStatus_responses :: "(nat \<times> encoding) list" where
  "SetRequestStatus_responses = [(200, Json), (400, Json), (401, Json), (404, Json), (409, Json), (500, Json)]"

definition ListOffers_responses :: "(nat \<times> encoding) list" where
  "ListOffers_responses = [(200, Json), (401, Json), (404, Json), (500, Json)]"

definition CreateOffer_responses :: "(nat \<times> encoding) list" where
  "CreateOffer_responses = [(201, Json), (400, Json), (401, Json), (403, Json), (404, Json), (409, Json), (429, JsonRetryAfter), (500, Json)]"

definition WithdrawOffer_responses :: "(nat \<times> encoding) list" where
  "WithdrawOffer_responses = [(204, Bare), (401, Json), (404, Json), (500, Json)]"

definition ListMyRequests_responses :: "(nat \<times> encoding) list" where
  "ListMyRequests_responses = [(200, Json), (401, Json), (500, Json)]"

definition StartConversation_responses :: "(nat \<times> encoding) list" where
  "StartConversation_responses = [(201, Json), (400, Json), (401, Json), (403, Json), (404, Json), (409, Json), (429, JsonRetryAfter), (500, Json)]"

definition ListMyConversations_responses :: "(nat \<times> encoding) list" where
  "ListMyConversations_responses = [(200, Json), (400, Json), (401, Json), (500, Json)]"

definition GetUnreadCounts_responses :: "(nat \<times> encoding) list" where
  "GetUnreadCounts_responses = [(200, Json), (401, Json), (500, Json)]"

definition GetConversation_responses :: "(nat \<times> encoding) list" where
  "GetConversation_responses = [(200, Json), (401, Json), (404, Json), (500, Json)]"

definition ListMessages_responses :: "(nat \<times> encoding) list" where
  "ListMessages_responses = [(200, Json), (401, Json), (404, Json), (500, Json)]"

definition SendMessage_responses :: "(nat \<times> encoding) list" where
  "SendMessage_responses = [(201, Json), (400, Json), (401, Json), (403, Json), (404, Json), (409, Json), (429, JsonRetryAfter), (500, Json)]"

definition MarkConversationRead_responses :: "(nat \<times> encoding) list" where
  "MarkConversationRead_responses = [(204, Bare), (401, Json), (404, Json), (500, Json)]"

definition CloseConversation_responses :: "(nat \<times> encoding) list" where
  "CloseConversation_responses = [(200, Json), (401, Json), (404, Json), (500, Json)]"

definition ShareAddress_responses :: "(nat \<times> encoding) list" where
  "ShareAddress_responses = [(200, Json), (401, Json), (403, Json), (404, Json), (409, Json), (429, JsonRetryAfter), (500, Json)]"

definition GetAdminOverview_responses :: "(nat \<times> encoding) list" where
  "GetAdminOverview_responses = [(200, Json), (404, Json), (500, Json)]"

definition ListAdminUsers_responses :: "(nat \<times> encoding) list" where
  "ListAdminUsers_responses = [(200, Json), (400, Json), (404, Json), (500, Json)]"

definition GetAdminUser_responses :: "(nat \<times> encoding) list" where
  "GetAdminUser_responses = [(200, Json), (404, Json), (500, Json)]"

definition SuspendAdminUser_responses :: "(nat \<times> encoding) list" where
  "SuspendAdminUser_responses = [(200, Json), (400, Json), (404, Json), (409, Json), (500, Json)]"

definition ReinstateAdminUser_responses :: "(nat \<times> encoding) list" where
  "ReinstateAdminUser_responses = [(200, Json), (400, Json), (404, Json), (409, Json), (500, Json)]"

definition VerifyAdminUser_responses :: "(nat \<times> encoding) list" where
  "VerifyAdminUser_responses = [(200, Json), (400, Json), (404, Json), (409, Json), (500, Json)]"

definition SetAdminUserRole_responses :: "(nat \<times> encoding) list" where
  "SetAdminUserRole_responses = [(200, Json), (400, Json), (404, Json), (409, Json), (500, Json)]"

definition ListAdminListings_responses :: "(nat \<times> encoding) list" where
  "ListAdminListings_responses = [(200, Json), (400, Json), (404, Json), (500, Json)]"

definition RemoveAdminListing_responses :: "(nat \<times> encoding) list" where
  "RemoveAdminListing_responses = [(200, Json), (400, Json), (404, Json), (409, Json), (500, Json)]"

definition RestoreAdminListing_responses :: "(nat \<times> encoding) list" where
  "RestoreAdminListing_responses = [(200, Json), (400, Json), (404, Json), (409, Json), (500, Json)]"

definition ListAdminRequests_responses :: "(nat \<times> encoding) list" where
  "ListAdminRequests_responses = [(200, Json), (400, Json), (404, Json), (500, Json)]"

definition RemoveAdminRequest_responses :: "(nat \<times> encoding) list" where
  "RemoveAdminRequest_responses = [(200, Json), (400, Json), (404, Json), (409, Json), (500, Json)]"

definition RestoreAdminRequest_responses :: "(nat \<times> encoding) list" where
  "RestoreAdminRequest_responses = [(200, Json), (400, Json), (404, Json), (409, Json), (500, Json)]"

definition ListAdminActions_responses :: "(nat \<times> encoding) list" where
  "ListAdminActions_responses = [(200, Json), (404, Json), (500, Json)]"

fun responses :: "operation \<Rightarrow> (nat \<times> encoding) list" where
  "responses O_GetHealth = GetHealth_responses"
| "responses O_Register = Register_responses"
| "responses O_VerifyEmail = VerifyEmail_responses"
| "responses O_ResendVerification = ResendVerification_responses"
| "responses O_Login = Login_responses"
| "responses O_RefreshSession = RefreshSession_responses"
| "responses O_Logout = Logout_responses"
| "responses O_RequestPasswordReset = RequestPasswordReset_responses"
| "responses O_ConfirmPasswordReset = ConfirmPasswordReset_responses"
| "responses O_GetMe = GetMe_responses"
| "responses O_UpdateMyPreferences = UpdateMyPreferences_responses"
| "responses O_ListListings = ListListings_responses"
| "responses O_CreateListing = CreateListing_responses"
| "responses O_GetListingAvailability = GetListingAvailability_responses"
| "responses O_DeleteListing = DeleteListing_responses"
| "responses O_GetListing = GetListing_responses"
| "responses O_UpdateListing = UpdateListing_responses"
| "responses O_SetListingStatus = SetListingStatus_responses"
| "responses O_ListMyListings = ListMyListings_responses"
| "responses O_ListRequests = ListRequests_responses"
| "responses O_CreateRequest = CreateRequest_responses"
| "responses O_DeleteRequest = DeleteRequest_responses"
| "responses O_GetRequest = GetRequest_responses"
| "responses O_UpdateRequest = UpdateRequest_responses"
| "responses O_SetRequestStatus = SetRequestStatus_responses"
| "responses O_ListOffers = ListOffers_responses"
| "responses O_CreateOffer = CreateOffer_responses"
| "responses O_WithdrawOffer = WithdrawOffer_responses"
| "responses O_ListMyRequests = ListMyRequests_responses"
| "responses O_StartConversation = StartConversation_responses"
| "responses O_ListMyConversations = ListMyConversations_responses"
| "responses O_GetUnreadCounts = GetUnreadCounts_responses"
| "responses O_GetConversation = GetConversation_responses"
| "responses O_ListMessages = ListMessages_responses"
| "responses O_SendMessage = SendMessage_responses"
| "responses O_MarkConversationRead = MarkConversationRead_responses"
| "responses O_CloseConversation = CloseConversation_responses"
| "responses O_ShareAddress = ShareAddress_responses"
| "responses O_GetAdminOverview = GetAdminOverview_responses"
| "responses O_ListAdminUsers = ListAdminUsers_responses"
| "responses O_GetAdminUser = GetAdminUser_responses"
| "responses O_SuspendAdminUser = SuspendAdminUser_responses"
| "responses O_ReinstateAdminUser = ReinstateAdminUser_responses"
| "responses O_VerifyAdminUser = VerifyAdminUser_responses"
| "responses O_SetAdminUserRole = SetAdminUserRole_responses"
| "responses O_ListAdminListings = ListAdminListings_responses"
| "responses O_RemoveAdminListing = RemoveAdminListing_responses"
| "responses O_RestoreAdminListing = RestoreAdminListing_responses"
| "responses O_ListAdminRequests = ListAdminRequests_responses"
| "responses O_RemoveAdminRequest = RemoveAdminRequest_responses"
| "responses O_RestoreAdminRequest = RestoreAdminRequest_responses"
| "responses O_ListAdminActions = ListAdminActions_responses"

text \<open>The types of \<open>httpapi/responses.go\<close>, and the operations whose responses \<open>unrouted\<close> is one of.\<close>

fun cookie_responses :: "operation \<Rightarrow> (nat \<times> encoding) list" where
  "cookie_responses O_Login = [(200, JsonCookies)]"
| "cookie_responses O_RefreshSession = [(200, JsonCookies)]"
| "cookie_responses O_Logout = [(204, BareCookies)]"
| "cookie_responses _ = []"

definition unrouted :: "operation \<Rightarrow> bool" where
  "unrouted op \<longleftrightarrow> op \<in> {O_GetAdminOverview, O_ListAdminUsers, O_GetAdminUser, O_ListAdminActions,
     O_SuspendAdminUser, O_ReinstateAdminUser, O_VerifyAdminUser, O_SetAdminUserRole, O_ListAdminListings,
     O_RemoveAdminListing, O_RestoreAdminListing, O_ListAdminRequests, O_RemoveAdminRequest,
     O_RestoreAdminRequest}"

definition contract :: "operation \<Rightarrow> nat \<Rightarrow> encoding option" where
  "contract op = map_of (cookie_responses op @ responses op)"

section \<open>The strict server\<close>

text \<open>A \<open>gin.Context\<close> as a handler of this server finds it.\<close>

record exchange =
  x_env :: env
  x_binders :: binders
  x_version :: string
  x_rid :: string
  x_req :: incoming
  x_ctx :: request_ctx

text \<open>What stays when nothing is written: the assertion failed, and that is only logged.\<close>

definition unwritten :: response where
  "unwritten = \<lparr>rs_status = 200, rs_payload = Empty\<rparr>"

text \<open>
  The end of every strict handler. What a handler returned is one of the operation's responses and
  writes itself; only a type with that header writes \<open>Retry-After\<close>.
\<close>

definition respond :: "exchange \<Rightarrow> operation \<Rightarrow> body reply \<Rightarrow> response" where
  "respond x op r =
     (case r of
        HandlerError _ \<Rightarrow> Internal (x_rid x)
      | Unrouted \<Rightarrow> if unrouted op then no_endpoint (x_rid x) (hr_path (x_req x)) else unwritten
      | Success status b \<Rightarrow>
          (case contract op status of
             None \<Rightarrow> unwritten
           | Some Bare \<Rightarrow> \<lparr>rs_status = status, rs_payload = Empty\<rparr>
           | Some _ \<Rightarrow> \<lparr>rs_status = status, rs_payload = Payload b\<rparr>)
      | Refuse status e \<Rightarrow>
          (case contract op status of
             Some JsonRetryAfter \<Rightarrow> \<lparr>rs_status = status, rs_payload = Envelope e None\<rparr>
           | Some Json \<Rightarrow> \<lparr>rs_status = status, rs_payload = Envelope (e\<lparr>e_retry_after := None\<rparr>) None\<rparr>
           | _ \<Rightarrow> unwritten))"

definition strict :: "exchange \<Rightarrow> operation \<Rightarrow> body handler \<Rightarrow> response go" where
  "strict x op h = do { r \<leftarrow> h; State_Monad.return (respond x op r) }"

text \<open>A binding that failed is answered, one that succeeded goes on.\<close>

definition bound :: "exchange \<Rightarrow> string + response go \<Rightarrow> response go" where
  "bound x r =
     (case r of
        Inl msg \<Rightarrow> State_Monad.return (written (x_rid x) 400 (errorBody CodeBadRequest msg))
      | Inr m \<Rightarrow> m)"

section \<open>The strict handlers\<close>

definition sh_GetHealth :: "exchange \<Rightarrow> response go" where
  "sh_GetHealth x =
     strict x O_GetHealth (give B_health (GetHealth (x_version x)))"

definition sh_Register :: "exchange \<Rightarrow> response go" where
  "sh_Register x =
     bound x (json_body (js_register (x_binders x)) (x_req x) (\<lambda>b.
     Inr (strict x O_Register (give B_registered (Register (x_env x) b)))))"

definition sh_VerifyEmail :: "exchange \<Rightarrow> response go" where
  "sh_VerifyEmail x =
     bound x (json_body (js_token (x_binders x)) (x_req x) (\<lambda>b.
     Inr (strict x O_VerifyEmail (give B_user (VerifyEmail (x_env x) b)))))"

definition sh_ResendVerification :: "exchange \<Rightarrow> response go" where
  "sh_ResendVerification x =
     bound x (json_body (js_email (x_binders x)) (x_req x) (\<lambda>b.
     Inr (strict x O_ResendVerification (give (\<lambda>_. B_none) (ResendVerification (x_env x) b)))))"

definition sh_Login :: "exchange \<Rightarrow> response go" where
  "sh_Login x =
     bound x (json_body (js_credentials (x_binders x)) (x_req x) (\<lambda>b.
     Inr (strict x O_Login (give B_session (Login (x_env x) (x_ctx x) b)))))"

definition sh_RefreshSession :: "exchange \<Rightarrow> response go" where
  "sh_RefreshSession x =
     strict x O_RefreshSession (give B_session (RefreshSession (x_env x) (x_ctx x)))"

definition sh_Logout :: "exchange \<Rightarrow> response go" where
  "sh_Logout x =
     strict x O_Logout (give B_cookies (Logout (x_env x) (x_ctx x)))"

definition sh_RequestPasswordReset :: "exchange \<Rightarrow> response go" where
  "sh_RequestPasswordReset x =
     bound x (json_body (js_email (x_binders x)) (x_req x) (\<lambda>b.
     Inr (strict x O_RequestPasswordReset (give (\<lambda>_. B_none) (RequestPasswordReset (x_env x) b)))))"

definition sh_ConfirmPasswordReset :: "exchange \<Rightarrow> response go" where
  "sh_ConfirmPasswordReset x =
     bound x (json_body (js_confirmation (x_binders x)) (x_req x) (\<lambda>b.
     Inr (strict x O_ConfirmPasswordReset (give (\<lambda>_. B_none) (ConfirmPasswordReset (x_env x) b)))))"

definition sh_GetMe :: "exchange \<Rightarrow> response go" where
  "sh_GetMe x =
     strict x O_GetMe (give B_user (GetMe (x_ctx x)))"

definition sh_UpdateMyPreferences :: "exchange \<Rightarrow> response go" where
  "sh_UpdateMyPreferences x =
     bound x (json_body (js_preferences (x_binders x)) (x_req x) (\<lambda>b.
     Inr (strict x O_UpdateMyPreferences (give B_user (UpdateMyPreferences (x_ctx x) b)))))"

definition sh_ListListings :: "exchange \<Rightarrow> listing_params \<Rightarrow> response go" where
  "sh_ListListings x p =
     strict x O_ListListings (give (\<lambda>(ls, m). B_listings ls m) (ListListings (x_env x) p))"

definition sh_CreateListing :: "exchange \<Rightarrow> response go" where
  "sh_CreateListing x =
     bound x (json_body (js_listing (x_binders x)) (x_req x) (\<lambda>b.
     Inr (strict x O_CreateListing (give B_listing (CreateListing (x_ctx x) b)))))"

definition sh_GetListingAvailability :: "exchange \<Rightarrow> int \<Rightarrow> listing_params \<Rightarrow> response go" where
  "sh_GetListingAvailability x y p =
     strict x O_GetListingAvailability (give (\<lambda>(y, ms). B_calendar y ms) (GetListingAvailability (x_env x) y p))"

definition sh_DeleteListing :: "exchange \<Rightarrow> uuid \<Rightarrow> response go" where
  "sh_DeleteListing x i =
     strict x O_DeleteListing (give (\<lambda>_. B_none) (DeleteListing (x_ctx x) i))"

definition sh_GetListing :: "exchange \<Rightarrow> uuid \<Rightarrow> response go" where
  "sh_GetListing x i =
     strict x O_GetListing (give B_listing (GetListing i))"

definition sh_UpdateListing :: "exchange \<Rightarrow> uuid \<Rightarrow> response go" where
  "sh_UpdateListing x i =
     bound x (json_body (js_listing_edit (x_binders x)) (x_req x) (\<lambda>b.
     Inr (strict x O_UpdateListing (give B_listing (UpdateListing (x_ctx x) i b)))))"

definition sh_SetListingStatus :: "exchange \<Rightarrow> uuid \<Rightarrow> response go" where
  "sh_SetListingStatus x i =
     bound x (json_body (js_status (x_binders x)) (x_req x) (\<lambda>b.
     Inr (strict x O_SetListingStatus (give B_listing (SetListingStatus (x_ctx x) i b)))))"

definition sh_ListMyListings :: "exchange \<Rightarrow> response go" where
  "sh_ListMyListings x =
     strict x O_ListMyListings (give B_my_listings (ListMyListings (x_ctx x)))"

definition sh_ListRequests :: "exchange \<Rightarrow> request_params \<Rightarrow> response go" where
  "sh_ListRequests x p =
     strict x O_ListRequests (give (\<lambda>(qs, m). B_requests qs m) (ListRequests (x_env x) p))"

definition sh_CreateRequest :: "exchange \<Rightarrow> response go" where
  "sh_CreateRequest x =
     bound x (json_body (js_request (x_binders x)) (x_req x) (\<lambda>b.
     Inr (strict x O_CreateRequest (give B_request (CreateRequest (x_ctx x) b)))))"

definition sh_DeleteRequest :: "exchange \<Rightarrow> uuid \<Rightarrow> response go" where
  "sh_DeleteRequest x i =
     strict x O_DeleteRequest (give (\<lambda>_. B_none) (DeleteRequest (x_ctx x) i))"

definition sh_GetRequest :: "exchange \<Rightarrow> uuid \<Rightarrow> response go" where
  "sh_GetRequest x i =
     strict x O_GetRequest (give B_request (GetRequest i))"

definition sh_UpdateRequest :: "exchange \<Rightarrow> uuid \<Rightarrow> response go" where
  "sh_UpdateRequest x i =
     bound x (json_body (js_request_edit (x_binders x)) (x_req x) (\<lambda>b.
     Inr (strict x O_UpdateRequest (give B_request (UpdateRequest (x_ctx x) i b)))))"

definition sh_SetRequestStatus :: "exchange \<Rightarrow> uuid \<Rightarrow> response go" where
  "sh_SetRequestStatus x i =
     bound x (json_body (js_status (x_binders x)) (x_req x) (\<lambda>b.
     Inr (strict x O_SetRequestStatus (give B_request (SetRequestStatus (x_ctx x) i b)))))"

definition sh_ListOffers :: "exchange \<Rightarrow> uuid \<Rightarrow> response go" where
  "sh_ListOffers x i =
     strict x O_ListOffers (give B_offers (ListOffers (x_ctx x) i))"

definition sh_CreateOffer :: "exchange \<Rightarrow> uuid \<Rightarrow> response go" where
  "sh_CreateOffer x i =
     bound x (json_body (js_offer (x_binders x)) (x_req x) (\<lambda>b.
     Inr (strict x O_CreateOffer (give B_offer (CreateOffer (x_env x) (x_ctx x) i b)))))"

definition sh_WithdrawOffer :: "exchange \<Rightarrow> uuid \<Rightarrow> response go" where
  "sh_WithdrawOffer x i =
     strict x O_WithdrawOffer (give (\<lambda>_. B_none) (WithdrawOffer (x_ctx x) i))"

definition sh_ListMyRequests :: "exchange \<Rightarrow> response go" where
  "sh_ListMyRequests x =
     strict x O_ListMyRequests (give B_my_requests (ListMyRequests (x_ctx x)))"

definition sh_StartConversation :: "exchange \<Rightarrow> uuid \<Rightarrow> response go" where
  "sh_StartConversation x i =
     bound x (json_body (js_message (x_binders x)) (x_req x) (\<lambda>b.
     Inr (strict x O_StartConversation (give B_conversation (StartConversation (x_env x) (x_ctx x) i b)))))"

definition sh_ListMyConversations :: "exchange \<Rightarrow> int option \<Rightarrow> int option \<Rightarrow> string option \<Rightarrow> string option \<Rightarrow> response go" where
  "sh_ListMyConversations x pg n s side =
     strict x O_ListMyConversations (give (\<lambda>(cs, m). B_conversations cs m) (ListMyConversations (x_ctx x) pg n s side))"

definition sh_GetUnreadCounts :: "exchange \<Rightarrow> response go" where
  "sh_GetUnreadCounts x =
     strict x O_GetUnreadCounts (give (\<lambda>(a, b). B_unread a b) (GetUnreadCounts (x_ctx x)))"

definition sh_GetConversation :: "exchange \<Rightarrow> uuid \<Rightarrow> response go" where
  "sh_GetConversation x i =
     strict x O_GetConversation (give B_conversation (GetConversation (x_ctx x) i))"

definition sh_ListMessages :: "exchange \<Rightarrow> uuid \<Rightarrow> int option \<Rightarrow> int option \<Rightarrow> response go" where
  "sh_ListMessages x i pg n =
     strict x O_ListMessages (give (\<lambda>(ms, m). B_messages ms m) (ListMessages (x_ctx x) i pg n))"

definition sh_SendMessage :: "exchange \<Rightarrow> uuid \<Rightarrow> response go" where
  "sh_SendMessage x i =
     bound x (json_body (js_message (x_binders x)) (x_req x) (\<lambda>b.
     Inr (strict x O_SendMessage (give B_message (SendMessage (x_env x) (x_ctx x) i b)))))"

definition sh_MarkConversationRead :: "exchange \<Rightarrow> uuid \<Rightarrow> response go" where
  "sh_MarkConversationRead x i =
     strict x O_MarkConversationRead (give (\<lambda>_. B_none) (MarkConversationRead (x_ctx x) i))"

definition sh_CloseConversation :: "exchange \<Rightarrow> uuid \<Rightarrow> response go" where
  "sh_CloseConversation x i =
     strict x O_CloseConversation (give B_conversation (CloseConversation (x_ctx x) i))"

definition sh_ShareAddress :: "exchange \<Rightarrow> uuid \<Rightarrow> response go" where
  "sh_ShareAddress x i =
     strict x O_ShareAddress (give B_conversation (ShareAddress (x_env x) (x_ctx x) i))"

definition sh_GetAdminOverview :: "exchange \<Rightarrow> response go" where
  "sh_GetAdminOverview x =
     strict x O_GetAdminOverview (give B_overview (GetAdminOverview (x_ctx x)))"

definition sh_ListAdminUsers :: "exchange \<Rightarrow> int option \<Rightarrow> int option \<Rightarrow> user_filters \<Rightarrow> response go" where
  "sh_ListAdminUsers x pg n q =
     strict x O_ListAdminUsers (give (\<lambda>(us, m). B_admin_users us m) (ListAdminUsers (x_ctx x) pg n q))"

definition sh_GetAdminUser :: "exchange \<Rightarrow> uuid \<Rightarrow> response go" where
  "sh_GetAdminUser x i =
     strict x O_GetAdminUser (give (\<lambda>(u, xs). B_admin_account u xs) (GetAdminUser (x_ctx x) i))"

definition sh_SuspendAdminUser :: "exchange \<Rightarrow> uuid \<Rightarrow> response go" where
  "sh_SuspendAdminUser x i =
     bound x (json_body (js_reason (x_binders x)) (x_req x) (\<lambda>why.
     Inr (strict x O_SuspendAdminUser (give B_admin_user (SuspendAdminUser (x_ctx x) i why)))))"

definition sh_ReinstateAdminUser :: "exchange \<Rightarrow> uuid \<Rightarrow> response go" where
  "sh_ReinstateAdminUser x i =
     bound x (json_body (js_reason (x_binders x)) (x_req x) (\<lambda>why.
     Inr (strict x O_ReinstateAdminUser (give B_admin_user (ReinstateAdminUser (x_ctx x) i why)))))"

definition sh_VerifyAdminUser :: "exchange \<Rightarrow> uuid \<Rightarrow> response go" where
  "sh_VerifyAdminUser x i =
     bound x (json_body (js_reason (x_binders x)) (x_req x) (\<lambda>why.
     Inr (strict x O_VerifyAdminUser (give B_admin_user (VerifyAdminUser (x_ctx x) i why)))))"

definition sh_SetAdminUserRole :: "exchange \<Rightarrow> uuid \<Rightarrow> response go" where
  "sh_SetAdminUserRole x i =
     bound x (json_body (js_role (x_binders x)) (x_req x) (\<lambda>b.
     Inr (strict x O_SetAdminUserRole (give B_admin_user (SetAdminUserRole (x_ctx x) i b)))))"

definition sh_ListAdminListings :: "exchange \<Rightarrow> int option \<Rightarrow> int option \<Rightarrow> post_filters \<Rightarrow> response go" where
  "sh_ListAdminListings x pg n q =
     strict x O_ListAdminListings (give (\<lambda>(ls, m). B_admin_listings ls m) (ListAdminListings (x_env x) (x_ctx x) pg n q))"

definition sh_RemoveAdminListing :: "exchange \<Rightarrow> uuid \<Rightarrow> response go" where
  "sh_RemoveAdminListing x i =
     bound x (json_body (js_reason (x_binders x)) (x_req x) (\<lambda>why.
     Inr (strict x O_RemoveAdminListing (give (\<lambda>(l, ow). B_admin_listing l ow) (RemoveAdminListing (x_ctx x) i why)))))"

definition sh_RestoreAdminListing :: "exchange \<Rightarrow> uuid \<Rightarrow> response go" where
  "sh_RestoreAdminListing x i =
     bound x (optional_json_body (js_reason (x_binders x)) (x_req x) (\<lambda>why.
     Inr (strict x O_RestoreAdminListing (give (\<lambda>(l, ow). B_admin_listing l ow) (RestoreAdminListing (x_ctx x) i why)))))"

definition sh_ListAdminRequests :: "exchange \<Rightarrow> int option \<Rightarrow> int option \<Rightarrow> post_filters \<Rightarrow> response go" where
  "sh_ListAdminRequests x pg n q =
     strict x O_ListAdminRequests (give (\<lambda>(qs, m). B_admin_requests qs m) (ListAdminRequests (x_env x) (x_ctx x) pg n q))"

definition sh_RemoveAdminRequest :: "exchange \<Rightarrow> uuid \<Rightarrow> response go" where
  "sh_RemoveAdminRequest x i =
     bound x (json_body (js_reason (x_binders x)) (x_req x) (\<lambda>why.
     Inr (strict x O_RemoveAdminRequest (give (\<lambda>(q, ow). B_admin_request q ow) (RemoveAdminRequest (x_ctx x) i why)))))"

definition sh_RestoreAdminRequest :: "exchange \<Rightarrow> uuid \<Rightarrow> response go" where
  "sh_RestoreAdminRequest x i =
     bound x (optional_json_body (js_reason (x_binders x)) (x_req x) (\<lambda>why.
     Inr (strict x O_RestoreAdminRequest (give (\<lambda>(q, ow). B_admin_request q ow) (RestoreAdminRequest (x_ctx x) i why)))))"

definition sh_ListAdminActions :: "exchange \<Rightarrow> int option \<Rightarrow> int option \<Rightarrow> response go" where
  "sh_ListAdminActions x pg n =
     strict x O_ListAdminActions (give (\<lambda>(xs, m). B_actions xs m) (ListAdminActions (x_ctx x) pg n))"

section \<open>The wrappers\<close>

definition siw_GetHealth :: "exchange \<Rightarrow> response go" where
  "siw_GetHealth x = sh_GetHealth x"

definition siw_Register :: "exchange \<Rightarrow> response go" where
  "siw_Register x = sh_Register x"

definition siw_VerifyEmail :: "exchange \<Rightarrow> response go" where
  "siw_VerifyEmail x = sh_VerifyEmail x"

definition siw_ResendVerification :: "exchange \<Rightarrow> response go" where
  "siw_ResendVerification x = sh_ResendVerification x"

definition siw_Login :: "exchange \<Rightarrow> response go" where
  "siw_Login x = sh_Login x"

definition siw_RefreshSession :: "exchange \<Rightarrow> response go" where
  "siw_RefreshSession x = sh_RefreshSession x"

definition siw_Logout :: "exchange \<Rightarrow> response go" where
  "siw_Logout x = sh_Logout x"

definition siw_RequestPasswordReset :: "exchange \<Rightarrow> response go" where
  "siw_RequestPasswordReset x = sh_RequestPasswordReset x"

definition siw_ConfirmPasswordReset :: "exchange \<Rightarrow> response go" where
  "siw_ConfirmPasswordReset x = sh_ConfirmPasswordReset x"

definition siw_GetMe :: "exchange \<Rightarrow> response go" where
  "siw_GetMe x = sh_GetMe x"

definition siw_UpdateMyPreferences :: "exchange \<Rightarrow> response go" where
  "siw_UpdateMyPreferences x = sh_UpdateMyPreferences x"

definition siw_ListListings :: "exchange \<Rightarrow> response go" where
  "siw_ListListings x = bound x (bind_ListListings (x_binders x) (x_req x) (\<lambda>p. Inr (sh_ListListings x p)))"

definition siw_CreateListing :: "exchange \<Rightarrow> response go" where
  "siw_CreateListing x = sh_CreateListing x"

definition siw_GetListingAvailability :: "exchange \<Rightarrow> response go" where
  "siw_GetListingAvailability x = bound x (bind_GetListingAvailability (x_binders x) (x_req x) (\<lambda>y p. Inr (sh_GetListingAvailability x y p)))"

definition siw_DeleteListing :: "exchange \<Rightarrow> response go" where
  "siw_DeleteListing x = bound x (path_id (x_binders x) (x_req x) (\<lambda>i. Inr (sh_DeleteListing x i)))"

definition siw_GetListing :: "exchange \<Rightarrow> response go" where
  "siw_GetListing x = bound x (path_id (x_binders x) (x_req x) (\<lambda>i. Inr (sh_GetListing x i)))"

definition siw_UpdateListing :: "exchange \<Rightarrow> response go" where
  "siw_UpdateListing x = bound x (path_id (x_binders x) (x_req x) (\<lambda>i. Inr (sh_UpdateListing x i)))"

definition siw_SetListingStatus :: "exchange \<Rightarrow> response go" where
  "siw_SetListingStatus x = bound x (path_id (x_binders x) (x_req x) (\<lambda>i. Inr (sh_SetListingStatus x i)))"

definition siw_ListMyListings :: "exchange \<Rightarrow> response go" where
  "siw_ListMyListings x = sh_ListMyListings x"

definition siw_ListRequests :: "exchange \<Rightarrow> response go" where
  "siw_ListRequests x = bound x (bind_ListRequests (x_binders x) (x_req x) (\<lambda>p. Inr (sh_ListRequests x p)))"

definition siw_CreateRequest :: "exchange \<Rightarrow> response go" where
  "siw_CreateRequest x = sh_CreateRequest x"

definition siw_DeleteRequest :: "exchange \<Rightarrow> response go" where
  "siw_DeleteRequest x = bound x (path_id (x_binders x) (x_req x) (\<lambda>i. Inr (sh_DeleteRequest x i)))"

definition siw_GetRequest :: "exchange \<Rightarrow> response go" where
  "siw_GetRequest x = bound x (path_id (x_binders x) (x_req x) (\<lambda>i. Inr (sh_GetRequest x i)))"

definition siw_UpdateRequest :: "exchange \<Rightarrow> response go" where
  "siw_UpdateRequest x = bound x (path_id (x_binders x) (x_req x) (\<lambda>i. Inr (sh_UpdateRequest x i)))"

definition siw_SetRequestStatus :: "exchange \<Rightarrow> response go" where
  "siw_SetRequestStatus x = bound x (path_id (x_binders x) (x_req x) (\<lambda>i. Inr (sh_SetRequestStatus x i)))"

definition siw_ListOffers :: "exchange \<Rightarrow> response go" where
  "siw_ListOffers x = bound x (path_id (x_binders x) (x_req x) (\<lambda>i. Inr (sh_ListOffers x i)))"

definition siw_CreateOffer :: "exchange \<Rightarrow> response go" where
  "siw_CreateOffer x = bound x (path_id (x_binders x) (x_req x) (\<lambda>i. Inr (sh_CreateOffer x i)))"

definition siw_WithdrawOffer :: "exchange \<Rightarrow> response go" where
  "siw_WithdrawOffer x = bound x (path_id (x_binders x) (x_req x) (\<lambda>i. Inr (sh_WithdrawOffer x i)))"

definition siw_ListMyRequests :: "exchange \<Rightarrow> response go" where
  "siw_ListMyRequests x = sh_ListMyRequests x"

definition siw_StartConversation :: "exchange \<Rightarrow> response go" where
  "siw_StartConversation x = bound x (path_id (x_binders x) (x_req x) (\<lambda>i. Inr (sh_StartConversation x i)))"

definition siw_ListMyConversations :: "exchange \<Rightarrow> response go" where
  "siw_ListMyConversations x = bound x (bind_ListMyConversations (x_binders x) (x_req x) (\<lambda>pg n s side. Inr (sh_ListMyConversations x pg n s side)))"

definition siw_GetUnreadCounts :: "exchange \<Rightarrow> response go" where
  "siw_GetUnreadCounts x = sh_GetUnreadCounts x"

definition siw_GetConversation :: "exchange \<Rightarrow> response go" where
  "siw_GetConversation x = bound x (path_id (x_binders x) (x_req x) (\<lambda>i. Inr (sh_GetConversation x i)))"

definition siw_ListMessages :: "exchange \<Rightarrow> response go" where
  "siw_ListMessages x = bound x (bind_ListMessages (x_binders x) (x_req x) (\<lambda>i pg n. Inr (sh_ListMessages x i pg n)))"

definition siw_SendMessage :: "exchange \<Rightarrow> response go" where
  "siw_SendMessage x = bound x (path_id (x_binders x) (x_req x) (\<lambda>i. Inr (sh_SendMessage x i)))"

definition siw_MarkConversationRead :: "exchange \<Rightarrow> response go" where
  "siw_MarkConversationRead x = bound x (path_id (x_binders x) (x_req x) (\<lambda>i. Inr (sh_MarkConversationRead x i)))"

definition siw_CloseConversation :: "exchange \<Rightarrow> response go" where
  "siw_CloseConversation x = bound x (path_id (x_binders x) (x_req x) (\<lambda>i. Inr (sh_CloseConversation x i)))"

definition siw_ShareAddress :: "exchange \<Rightarrow> response go" where
  "siw_ShareAddress x = bound x (path_id (x_binders x) (x_req x) (\<lambda>i. Inr (sh_ShareAddress x i)))"

definition siw_GetAdminOverview :: "exchange \<Rightarrow> response go" where
  "siw_GetAdminOverview x = sh_GetAdminOverview x"

definition siw_ListAdminUsers :: "exchange \<Rightarrow> response go" where
  "siw_ListAdminUsers x = bound x (bind_ListAdminUsers (x_binders x) (x_req x) (\<lambda>pg n q. Inr (sh_ListAdminUsers x pg n q)))"

definition siw_GetAdminUser :: "exchange \<Rightarrow> response go" where
  "siw_GetAdminUser x = bound x (path_id (x_binders x) (x_req x) (\<lambda>i. Inr (sh_GetAdminUser x i)))"

definition siw_SuspendAdminUser :: "exchange \<Rightarrow> response go" where
  "siw_SuspendAdminUser x = bound x (path_id (x_binders x) (x_req x) (\<lambda>i. Inr (sh_SuspendAdminUser x i)))"

definition siw_ReinstateAdminUser :: "exchange \<Rightarrow> response go" where
  "siw_ReinstateAdminUser x = bound x (path_id (x_binders x) (x_req x) (\<lambda>i. Inr (sh_ReinstateAdminUser x i)))"

definition siw_VerifyAdminUser :: "exchange \<Rightarrow> response go" where
  "siw_VerifyAdminUser x = bound x (path_id (x_binders x) (x_req x) (\<lambda>i. Inr (sh_VerifyAdminUser x i)))"

definition siw_SetAdminUserRole :: "exchange \<Rightarrow> response go" where
  "siw_SetAdminUserRole x = bound x (path_id (x_binders x) (x_req x) (\<lambda>i. Inr (sh_SetAdminUserRole x i)))"

definition siw_ListAdminListings :: "exchange \<Rightarrow> response go" where
  "siw_ListAdminListings x = bound x (bind_ListAdminListings (x_binders x) (x_req x) (\<lambda>pg n q. Inr (sh_ListAdminListings x pg n q)))"

definition siw_RemoveAdminListing :: "exchange \<Rightarrow> response go" where
  "siw_RemoveAdminListing x = bound x (path_id (x_binders x) (x_req x) (\<lambda>i. Inr (sh_RemoveAdminListing x i)))"

definition siw_RestoreAdminListing :: "exchange \<Rightarrow> response go" where
  "siw_RestoreAdminListing x = bound x (path_id (x_binders x) (x_req x) (\<lambda>i. Inr (sh_RestoreAdminListing x i)))"

definition siw_ListAdminRequests :: "exchange \<Rightarrow> response go" where
  "siw_ListAdminRequests x = bound x (bind_ListAdminRequests (x_binders x) (x_req x) (\<lambda>pg n q. Inr (sh_ListAdminRequests x pg n q)))"

definition siw_RemoveAdminRequest :: "exchange \<Rightarrow> response go" where
  "siw_RemoveAdminRequest x = bound x (path_id (x_binders x) (x_req x) (\<lambda>i. Inr (sh_RemoveAdminRequest x i)))"

definition siw_RestoreAdminRequest :: "exchange \<Rightarrow> response go" where
  "siw_RestoreAdminRequest x = bound x (path_id (x_binders x) (x_req x) (\<lambda>i. Inr (sh_RestoreAdminRequest x i)))"

definition siw_ListAdminActions :: "exchange \<Rightarrow> response go" where
  "siw_ListAdminActions x = bound x (bind_ListAdminActions (x_binders x) (x_req x) (\<lambda>pg n. Inr (sh_ListAdminActions x pg n)))"

fun wrapper :: "operation \<Rightarrow> exchange \<Rightarrow> response go" where
  "wrapper O_GetHealth = siw_GetHealth"
| "wrapper O_Register = siw_Register"
| "wrapper O_VerifyEmail = siw_VerifyEmail"
| "wrapper O_ResendVerification = siw_ResendVerification"
| "wrapper O_Login = siw_Login"
| "wrapper O_RefreshSession = siw_RefreshSession"
| "wrapper O_Logout = siw_Logout"
| "wrapper O_RequestPasswordReset = siw_RequestPasswordReset"
| "wrapper O_ConfirmPasswordReset = siw_ConfirmPasswordReset"
| "wrapper O_GetMe = siw_GetMe"
| "wrapper O_UpdateMyPreferences = siw_UpdateMyPreferences"
| "wrapper O_ListListings = siw_ListListings"
| "wrapper O_CreateListing = siw_CreateListing"
| "wrapper O_GetListingAvailability = siw_GetListingAvailability"
| "wrapper O_DeleteListing = siw_DeleteListing"
| "wrapper O_GetListing = siw_GetListing"
| "wrapper O_UpdateListing = siw_UpdateListing"
| "wrapper O_SetListingStatus = siw_SetListingStatus"
| "wrapper O_ListMyListings = siw_ListMyListings"
| "wrapper O_ListRequests = siw_ListRequests"
| "wrapper O_CreateRequest = siw_CreateRequest"
| "wrapper O_DeleteRequest = siw_DeleteRequest"
| "wrapper O_GetRequest = siw_GetRequest"
| "wrapper O_UpdateRequest = siw_UpdateRequest"
| "wrapper O_SetRequestStatus = siw_SetRequestStatus"
| "wrapper O_ListOffers = siw_ListOffers"
| "wrapper O_CreateOffer = siw_CreateOffer"
| "wrapper O_WithdrawOffer = siw_WithdrawOffer"
| "wrapper O_ListMyRequests = siw_ListMyRequests"
| "wrapper O_StartConversation = siw_StartConversation"
| "wrapper O_ListMyConversations = siw_ListMyConversations"
| "wrapper O_GetUnreadCounts = siw_GetUnreadCounts"
| "wrapper O_GetConversation = siw_GetConversation"
| "wrapper O_ListMessages = siw_ListMessages"
| "wrapper O_SendMessage = siw_SendMessage"
| "wrapper O_MarkConversationRead = siw_MarkConversationRead"
| "wrapper O_CloseConversation = siw_CloseConversation"
| "wrapper O_ShareAddress = siw_ShareAddress"
| "wrapper O_GetAdminOverview = siw_GetAdminOverview"
| "wrapper O_ListAdminUsers = siw_ListAdminUsers"
| "wrapper O_GetAdminUser = siw_GetAdminUser"
| "wrapper O_SuspendAdminUser = siw_SuspendAdminUser"
| "wrapper O_ReinstateAdminUser = siw_ReinstateAdminUser"
| "wrapper O_VerifyAdminUser = siw_VerifyAdminUser"
| "wrapper O_SetAdminUserRole = siw_SetAdminUserRole"
| "wrapper O_ListAdminListings = siw_ListAdminListings"
| "wrapper O_RemoveAdminListing = siw_RemoveAdminListing"
| "wrapper O_RestoreAdminListing = siw_RestoreAdminListing"
| "wrapper O_ListAdminRequests = siw_ListAdminRequests"
| "wrapper O_RemoveAdminRequest = siw_RemoveAdminRequest"
| "wrapper O_RestoreAdminRequest = siw_RestoreAdminRequest"
| "wrapper O_ListAdminActions = siw_ListAdminActions"

text \<open>\<open>RegisterHandlersWithOptions\<close>, and the router's answer to any other path.\<close>

definition generated :: "exchange \<Rightarrow> response go" where
  "generated x =
     (case route_of (x_req x) of
        None \<Rightarrow> State_Monad.return (no_endpoint (x_rid x) (hr_path (x_req x)))
      | Some op \<Rightarrow> wrapper op x)"

end
