(* ===== verification/Conform.thy ===== *)
theory Conform
  imports Generated
begin

text \<open>
  Every handler keeps to the contract of its operation: what it returns is one of the operation's
  responses. So the assertion of the strict handlers never fails, and the generated server is the
  composition \<open>Router\<close> has for it.
\<close>

section \<open>Conformance\<close>

fun operation_of :: "request \<Rightarrow> operation" where
  "operation_of (R_GetHealth _) = O_GetHealth"
| "operation_of (R_Register _) = O_Register"
| "operation_of (R_VerifyEmail _) = O_VerifyEmail"
| "operation_of (R_ResendVerification _) = O_ResendVerification"
| "operation_of (R_Login _) = O_Login"
| "operation_of R_RefreshSession = O_RefreshSession"
| "operation_of R_Logout = O_Logout"
| "operation_of (R_RequestPasswordReset _) = O_RequestPasswordReset"
| "operation_of (R_ConfirmPasswordReset _) = O_ConfirmPasswordReset"
| "operation_of R_GetMe = O_GetMe"
| "operation_of (R_UpdateMyPreferences _) = O_UpdateMyPreferences"
| "operation_of (R_ListListings _) = O_ListListings"
| "operation_of (R_CreateListing _) = O_CreateListing"
| "operation_of (R_GetListingAvailability _ _) = O_GetListingAvailability"
| "operation_of (R_DeleteListing _) = O_DeleteListing"
| "operation_of (R_GetListing _) = O_GetListing"
| "operation_of (R_UpdateListing _ _) = O_UpdateListing"
| "operation_of (R_SetListingStatus _ _) = O_SetListingStatus"
| "operation_of R_ListMyListings = O_ListMyListings"
| "operation_of (R_ListRequests _) = O_ListRequests"
| "operation_of (R_CreateRequest _) = O_CreateRequest"
| "operation_of (R_DeleteRequest _) = O_DeleteRequest"
| "operation_of (R_GetRequest _) = O_GetRequest"
| "operation_of (R_UpdateRequest _ _) = O_UpdateRequest"
| "operation_of (R_SetRequestStatus _ _) = O_SetRequestStatus"
| "operation_of (R_ListOffers _) = O_ListOffers"
| "operation_of (R_CreateOffer _ _) = O_CreateOffer"
| "operation_of (R_WithdrawOffer _) = O_WithdrawOffer"
| "operation_of R_ListMyRequests = O_ListMyRequests"
| "operation_of (R_StartConversation _ _) = O_StartConversation"
| "operation_of (R_ListMyConversations _ _ _ _) = O_ListMyConversations"
| "operation_of R_GetUnreadCounts = O_GetUnreadCounts"
| "operation_of (R_GetConversation _) = O_GetConversation"
| "operation_of (R_ListMessages _ _ _) = O_ListMessages"
| "operation_of (R_SendMessage _ _) = O_SendMessage"
| "operation_of (R_MarkConversationRead _) = O_MarkConversationRead"
| "operation_of (R_CloseConversation _) = O_CloseConversation"
| "operation_of (R_ShareAddress _) = O_ShareAddress"
| "operation_of R_GetAdminOverview = O_GetAdminOverview"
| "operation_of (R_ListAdminUsers _ _ _) = O_ListAdminUsers"
| "operation_of (R_GetAdminUser _) = O_GetAdminUser"
| "operation_of (R_SuspendAdminUser _ _) = O_SuspendAdminUser"
| "operation_of (R_ReinstateAdminUser _ _) = O_ReinstateAdminUser"
| "operation_of (R_VerifyAdminUser _ _) = O_VerifyAdminUser"
| "operation_of (R_SetAdminUserRole _ _) = O_SetAdminUserRole"
| "operation_of (R_ListAdminListings _ _ _) = O_ListAdminListings"
| "operation_of (R_RemoveAdminListing _ _) = O_RemoveAdminListing"
| "operation_of (R_RestoreAdminListing _ _) = O_RestoreAdminListing"
| "operation_of (R_ListAdminRequests _ _ _) = O_ListAdminRequests"
| "operation_of (R_RemoveAdminRequest _ _) = O_RemoveAdminRequest"
| "operation_of (R_RestoreAdminRequest _ _) = O_RestoreAdminRequest"
| "operation_of (R_ListAdminActions _ _) = O_ListAdminActions"

fun conforms :: "operation \<Rightarrow> body reply \<Rightarrow> bool" where
  "conforms op (Success status b) =
     (case contract op status of
        None \<Rightarrow> False
      | Some Bare \<Rightarrow> b = B_none
      | Some Json \<Rightarrow> b \<noteq> B_none
      | Some JsonRetryAfter \<Rightarrow> False
      | Some JsonCookies \<Rightarrow> (\<exists>s. b = B_session s)
      | Some BareCookies \<Rightarrow> (\<exists>cs. b = B_cookies cs))"
| "conforms op (Refuse status e) =
     (contract op status = Some JsonRetryAfter \<or> contract op status = Some Json \<and> e_retry_after e = None)"
| "conforms op (HandlerError _) = True"
| "conforms op Unrouted = unrouted op"

definition yields :: "('a \<Rightarrow> bool) \<Rightarrow> 'a go \<Rightarrow> bool" where
  "yields Q m \<longleftrightarrow> (\<forall>w. Q (fst (run_state m w)))"

named_theorems yields_intros \<open>rules for what a computation returns\<close>

lemma yields_return [yields_intros]: "Q a \<Longrightarrow> yields Q (State_Monad.return a)"
  by (simp add: yields_def)

lemma yields_bind [yields_intros]: "(\<And>a. yields Q (k a)) \<Longrightarrow> yields Q (State_Monad.bind m k)"
  by (simp add: yields_def split: prod.split)

lemma yields_then: "yields R m \<Longrightarrow> (\<And>a. R a \<Longrightarrow> yields Q (k a)) \<Longrightarrow> yields Q (State_Monad.bind m k)"
  by (auto simp: yields_def split: prod.split) (metis fst_conv)

lemma yields_branches [yields_intros]:
  "(b \<Longrightarrow> yields Q m) \<Longrightarrow> (\<not> b \<Longrightarrow> yields Q n) \<Longrightarrow> yields Q (if b then m else n)"
  "(\<And>e. r = Inl e \<Longrightarrow> yields Q (f e)) \<Longrightarrow> (\<And>a. r = Inr a \<Longrightarrow> yields Q (g a)) \<Longrightarrow>
   yields Q (case r of Inl e \<Rightarrow> f e | Inr a \<Rightarrow> g a)"
  "(z = None \<Longrightarrow> yields Q m) \<Longrightarrow> (\<And>a. z = Some a \<Longrightarrow> yields Q (h a)) \<Longrightarrow>
   yields Q (case z of None \<Rightarrow> m | Some a \<Rightarrow> h a)"
  "(\<And>y v. p = (y, v) \<Longrightarrow> yields Q (q y v)) \<Longrightarrow> yields Q (case p of (y, v) \<Rightarrow> q y v)"
  "(xs = [] \<Longrightarrow> yields Q m) \<Longrightarrow> (\<And>y ys. xs = y # ys \<Longrightarrow> yields Q (u y ys)) \<Longrightarrow>
   yields Q (case xs of [] \<Rightarrow> m | y # ys \<Rightarrow> u y ys)"
  "yields Q (l c) \<Longrightarrow> yields Q (Let c l)"
  by (simp_all split: sum.split option.split prod.split list.split)

abbreviation meets :: "operation \<Rightarrow> ('b \<Rightarrow> body) \<Rightarrow> 'b handler \<Rightarrow> bool" where
  "meets op f \<equiv> yields (\<lambda>r. conforms op (map_reply f r))"

lemmas response_defs =
  GetHealth_responses_def Register_responses_def VerifyEmail_responses_def
  ResendVerification_responses_def Login_responses_def RefreshSession_responses_def
  Logout_responses_def RequestPasswordReset_responses_def ConfirmPasswordReset_responses_def
  GetMe_responses_def UpdateMyPreferences_responses_def ListListings_responses_def
  CreateListing_responses_def GetListingAvailability_responses_def DeleteListing_responses_def
  GetListing_responses_def UpdateListing_responses_def SetListingStatus_responses_def
  ListMyListings_responses_def ListRequests_responses_def CreateRequest_responses_def
  DeleteRequest_responses_def GetRequest_responses_def UpdateRequest_responses_def
  SetRequestStatus_responses_def ListOffers_responses_def CreateOffer_responses_def
  WithdrawOffer_responses_def ListMyRequests_responses_def StartConversation_responses_def
  ListMyConversations_responses_def GetUnreadCounts_responses_def GetConversation_responses_def
  ListMessages_responses_def SendMessage_responses_def MarkConversationRead_responses_def
  CloseConversation_responses_def ShareAddress_responses_def GetAdminOverview_responses_def
  ListAdminUsers_responses_def GetAdminUser_responses_def SuspendAdminUser_responses_def
  ReinstateAdminUser_responses_def VerifyAdminUser_responses_def SetAdminUserRole_responses_def
  ListAdminListings_responses_def RemoveAdminListing_responses_def RestoreAdminListing_responses_def
  ListAdminRequests_responses_def RemoveAdminRequest_responses_def RestoreAdminRequest_responses_def
  ListAdminActions_responses_def

lemma no_retry [simp]: "e_retry_after (errorBody c m) = None" "e_retry_after (errorBodyWithDetails c m ds) = None"
  by (simp_all add: errorBody_def errorBodyWithDetails_def)

lemmas contract_simps = contract_def response_defs unrouted_def

lemma meets_browse:
  "meets O_GetHealth B_health (GetHealth version)"
  "meets O_ListListings (\<lambda>(ls, m). B_listings ls m) (ListListings env lp)"
  "meets O_GetListingAvailability (\<lambda>(y, ms). B_calendar y ms) (GetListingAvailability env y lp)"
  "meets O_GetListing B_listing (GetListing i)"
  "meets O_ListRequests (\<lambda>(qs, m). B_requests qs m) (ListRequests env rp)"
  "meets O_GetRequest B_request (GetRequest i)"
  unfolding GetHealth_def browse_handler_defs
  by (intro yields_intros; simp add: contract_simps split: sum.splits prod.splits if_splits)+

lemma meets_auth:
  "meets O_Register B_registered (Register env rb)"
  "meets O_VerifyEmail B_user (VerifyEmail env tb)"
  "meets O_ResendVerification (\<lambda>_. B_none) (ResendVerification env tb)"
  "meets O_RequestPasswordReset (\<lambda>_. B_none) (RequestPasswordReset env tb)"
  "meets O_ConfirmPasswordReset (\<lambda>_. B_none) (ConfirmPasswordReset env cb)"
  "meets O_GetMe B_user (GetMe ctx)"
  "meets O_UpdateMyPreferences B_user (UpdateMyPreferences ctx pb)"
  unfolding Register_def VerifyEmail_def ResendVerification_def RequestPasswordReset_def
    ConfirmPasswordReset_def GetMe_def UpdateMyPreferences_def
  by (intro yields_intros; simp add: contract_simps)+

lemma meets_session:
  "meets O_Login B_session (Login env ctx lb)"
  "meets O_RefreshSession B_session (RefreshSession env ctx)"
  "meets O_Logout B_cookies (Logout env ctx)"
  unfolding Login_def RefreshSession_def Logout_def
  by (intro yields_intros; simp add: contract_simps invalidCredentials_def)+

text \<open>The refusals of an owner's post.\<close>

lemmas refusal_defs =
  updateRefusal_def statusRefusal_def deleteRefusal_def updateRequestRefusal_def
  requestStatusRefusal_def deleteRequestRefusal_def

lemma meets_listings:
  "meets O_CreateListing B_listing (CreateListing ctx cl)"
  "meets O_UpdateListing B_listing (UpdateListing ctx i ul)"
  "meets O_SetListingStatus B_listing (SetListingStatus ctx i st)"
  "meets O_DeleteListing (\<lambda>_. B_none) (DeleteListing ctx i)"
  "meets O_ListMyListings B_my_listings (ListMyListings ctx)"
  unfolding CreateListing_def UpdateListing_def SetListingStatus_def DeleteListing_def ListMyListings_def
  by (intro yields_intros; simp add: contract_simps refusal_defs)+

lemma meets_requests:
  "meets O_CreateRequest B_request (CreateRequest ctx cr)"
  "meets O_UpdateRequest B_request (UpdateRequest ctx i ur)"
  "meets O_SetRequestStatus B_request (SetRequestStatus ctx i st)"
  "meets O_DeleteRequest (\<lambda>_. B_none) (DeleteRequest ctx i)"
  "meets O_ListMyRequests B_my_requests (ListMyRequests ctx)"
  unfolding CreateRequest_def UpdateRequest_def SetRequestStatus_def DeleteRequest_def ListMyRequests_def
  by (intro yields_intros; simp add: contract_simps refusal_defs)+

lemma meets_conversations:
  "meets O_StartConversation B_conversation (StartConversation env ctx i msg)"
  "meets O_ListMyConversations (\<lambda>(cs, m). B_conversations cs m) (ListMyConversations ctx pg n s side)"
  "meets O_GetUnreadCounts (\<lambda>(a, b). B_unread a b) (GetUnreadCounts ctx)"
  "meets O_GetConversation B_conversation (GetConversation ctx i)"
  "meets O_MarkConversationRead (\<lambda>_. B_none) (MarkConversationRead ctx i)"
  "meets O_CloseConversation B_conversation (CloseConversation ctx i)"
  "meets O_ShareAddress B_conversation (ShareAddress env ctx i)"
  "meets O_ListMessages (\<lambda>(ms, m). B_messages ms m) (ListMessages ctx i pg n)"
  "meets O_SendMessage B_message (SendMessage env ctx i msg)"
  unfolding StartConversation_def ListMyConversations_def GetUnreadCounts_def GetConversation_def
    MarkConversationRead_def CloseConversation_def ShareAddress_def ListMessages_def SendMessage_def
  by (intro yields_intros; simp add: contract_simps existingConversation_def conversationNotFound_def
        split: prod.splits)+

section \<open>Offers and the admin's actions\<close>

text \<open>These answer with a refusal another routine made, so what that routine returns is followed.\<close>

definition plain_offer :: "(err_body + madeOffer) res \<Rightarrow> bool" where
  "plain_offer r = (case r of Inr (Inl b) \<Rightarrow> e_retry_after b = None | _ \<Rightarrow> True)"

lemma yields_in_tx: "yields Q m \<Longrightarrow> (\<And>e. Q (Inl e)) \<Longrightarrow> yields Q (in_tx m)"
  unfolding in_tx_def by (intro yields_bind yields_branches yields_then [of Q m] yields_return) simp_all

lemma offer_conversation_plain:
  "yields (\<lambda>r. \<forall>b. r = Inr (Refused b) \<longrightarrow> e_retry_after b = None) (offer_conversation env req listing)"
  unfolding offer_conversation_def by (intro yields_intros; simp)

lemma makeOffer_plain: "yields plain_offer (makeOffer env req listing body)"
  unfolding makeOffer_def
proof (intro yields_in_tx yields_then [OF offer_conversation_plain])
  fix place :: "error + offer_place"
  assume "\<forall>b. place = Inr (Refused b) \<longrightarrow> e_retry_after b = None"
  then show "yields plain_offer
      (case place of Inl e \<Rightarrow> State_Monad.return (Inl e)
       | Inr (Refused b) \<Rightarrow> State_Monad.return (Inr (Inl b))
       | Inr (In c opened) \<Rightarrow> do {
           made \<leftarrow> write_offer req listing body c opened;
           case made of Inl e \<Rightarrow> State_Monad.return (Inl e)
           | Inr mk \<Rightarrow> State_Monad.return (Inr (Inr mk)) })"
    by (auto simp: plain_offer_def split: sum.split offer_place.split intro!: yields_intros)
qed (simp add: plain_offer_def)

lemma attempt_offer_plain:
  "yields (\<lambda>a. \<forall>r. a = Attempted r \<longrightarrow> plain_offer r) (attempt_offer env req listing body)"
  unfolding attempt_offer_def
  by (intro yields_then [OF makeOffer_plain] yields_branches yields_bind yields_return) simp_all

lemma finish_offer_meets:
  "\<forall>r. a = Attempted r \<longrightarrow> plain_offer r \<Longrightarrow> meets O_CreateOffer B_offer (finish_offer env listing me a)"
  unfolding finish_offer_def
  by (auto simp: plain_offer_def contract_simps split: offer_attempt.split sum.split intro!: yields_intros)

lemma meets_offers:
  "meets O_CreateOffer B_offer (CreateOffer env ctx i ob)"
  "meets O_ListOffers B_offers (ListOffers ctx i)"
  "meets O_WithdrawOffer (\<lambda>_. B_none) (WithdrawOffer ctx i)"
proof -
  note attempt = yields_then [OF attempt_offer_plain finish_offer_meets]
  show "meets O_CreateOffer B_offer (CreateOffer env ctx i ob)"
    unfolding CreateOffer_def by (intro attempt yields_intros; simp add: contract_simps)
  show "meets O_ListOffers B_offers (ListOffers ctx i)"
    "meets O_WithdrawOffer (\<lambda>_. B_none) (WithdrawOffer ctx i)"
    unfolding ListOffers_def WithdrawOffer_def by (intro yields_intros; simp add: contract_simps)+
qed

lemma yields_as_admin [yields_intros]:
  "Q Unrouted \<Longrightarrow> (\<And>p. requireAdmin ctx = Some p \<Longrightarrow> yields Q (body p)) \<Longrightarrow> yields Q (as_admin ctx body)"
  unfolding as_admin_def by (intro yields_intros)

lemma meets_admin_reads:
  "meets O_GetAdminOverview B_overview (GetAdminOverview ctx)"
  "meets O_ListAdminActions (\<lambda>(xs, m). B_actions xs m) (ListAdminActions ctx pg n)"
  "meets O_ListAdminUsers (\<lambda>(us, m). B_admin_users us m) (ListAdminUsers ctx pg n q)"
  "meets O_GetAdminUser (\<lambda>(u, xs). B_admin_account u xs) (GetAdminUser ctx i)"
  "meets O_ListAdminListings (\<lambda>(ls, m). B_admin_listings ls m) (ListAdminListings env ctx pg n pf)"
  "meets O_ListAdminRequests (\<lambda>(qs, m). B_admin_requests qs m) (ListAdminRequests env ctx pg n pf)"
  unfolding admin_read_defs by (intro yields_intros; simp add: contract_simps split: prod.splits)+

lemma account_refusal_plain:
  "account_refusal self e = Some (status, b) \<Longrightarrow> status \<in> {404, 409} \<and> e_retry_after b = None"
  by (auto simp: account_refusal_def Let_def split: if_splits)

lemma accountAction_meets:
  assumes "contract op 400 = Some Json" "contract op 404 = Some Json" "contract op 409 = Some Json"
    "contract op 200 = Some Json"
  shows "meets op B_admin_user (accountAction i reason self act)"
  unfolding accountAction_def using assms
  by (intro yields_intros; auto simp: dest!: account_refusal_plain)

lemma meets_accounts:
  "meets O_SuspendAdminUser B_admin_user (SuspendAdminUser ctx i why)"
  "meets O_ReinstateAdminUser B_admin_user (ReinstateAdminUser ctx i why)"
  "meets O_VerifyAdminUser B_admin_user (VerifyAdminUser ctx i why)"
  "meets O_SetAdminUserRole B_admin_user (SetAdminUserRole ctx i role)"
  unfolding admin_write_defs
  by (intro accountAction_meets yields_intros; simp add: contract_simps)+

lemma postAction_plain:
  "yields (\<lambda>r. \<forall>status b. r = Inr (Some (status, b)) \<longrightarrow> status \<in> {400, 404, 409} \<and> e_retry_after b = None)
     (postAction kind reason required act)"
  unfolding postAction_def by (intro yields_intros; simp)

lemma post_reply_meets:
  assumes "\<forall>status b. r = Inr (Some (status, b)) \<longrightarrow> status \<in> {400, 404, 409} \<and> e_retry_after b = None"
    and "\<forall>status\<in>{200, 400, 404, 409}. contract op status = Some Json" and "\<And>v. F v \<noteq> B_none"
  shows "meets op F (post_reply read_back r)"
  unfolding post_reply_def using assms by (intro yields_intros; auto)

lemma meets_posts:
  "meets O_RemoveAdminListing (\<lambda>(l, ow). B_admin_listing l ow) (RemoveAdminListing ctx i why)"
  "meets O_RestoreAdminListing (\<lambda>(l, ow). B_admin_listing l ow) (RestoreAdminListing ctx i why)"
  "meets O_RemoveAdminRequest (\<lambda>(q, ow). B_admin_request q ow) (RemoveAdminRequest ctx i why)"
  "meets O_RestoreAdminRequest (\<lambda>(q, ow). B_admin_request q ow) (RestoreAdminRequest ctx i why)"
  unfolding admin_write_defs
  by (intro yields_as_admin yields_then [OF postAction_plain post_reply_meets];
      simp add: contract_simps split: prod.split)+

section \<open>The contract is kept\<close>

lemmas meets_handlers =
  meets_browse meets_auth meets_session meets_listings meets_requests meets_conversations meets_offers
  meets_admin_reads meets_accounts meets_posts

lemma dispatch_meets: "yields (conforms (operation_of r)) (dispatch env ctx r)"
  unfolding yields_def
  by (cases r) (simp_all only: dispatch.simps operation_of.simps run_give fst_conv
      meets_handlers [unfolded yields_def, rule_format] simp_thms)


section \<open>The generated server\<close>

lemma conforming_response:
  "conforms op r \<Longrightarrow> respond x op r = visit (x_rid x) (hr_path (x_req x)) r"
  by (cases r)
    (auto simp: respond_def split: option.splits encoding.splits body.splits)

text \<open>What \<open>Router\<close> does with a bound operation, for an exchange.\<close>

definition settled :: "exchange \<Rightarrow> string + request \<Rightarrow> response go" where
  "settled x q =
     (case q of
        Inl msg \<Rightarrow> State_Monad.return (written (x_rid x) 400 (errorBody CodeBadRequest msg))
      | Inr r \<Rightarrow> do {
          reply \<leftarrow> dispatch (x_env x) (x_ctx x) r;
          State_Monad.return (visit (x_rid x) (hr_path (x_req x)) reply) })"

lemma settled_Inr: "settled x (Inr r) = strict x (operation_of r) (dispatch (x_env x) (x_ctx x) r)"
proof (rule state.expand, rule ext)
  fix w
  show "run_state (settled x (Inr r)) w =
      run_state (strict x (operation_of r) (dispatch (x_env x) (x_ctx x) r)) w"
    using dispatch_meets [of r "x_env x" "x_ctx x"]
    by (simp add: settled_def strict_def yields_def conforming_response split: prod.split)
      (metis conforming_response fst_conv)
qed

lemma bound_Inr [simp]: "bound x (Inr m) = m"
  by (simp add: bound_def)

lemma settled_Inl [simp]: "settled x (Inl msg) = bound x (Inl msg)"
  by (simp add: settled_def bound_def)

text \<open>A parameter bound by the wrapper and by \<open>bind_operation\<close>, for what each goes on with.\<close>

named_theorems binding_agrees

lemma settled_arg [binding_agrees]:
  "(\<And>v. bound x (k v) = settled x (k' v)) \<Longrightarrow> bound x (arg bn req name k) = settled x (arg bn req name k')"
  by (simp add: arg_def split: sum.split)

lemma settled_path_id [binding_agrees]:
  "(\<And>i. bound x (k i) = settled x (k' i)) \<Longrightarrow> bound x (path_id B req k) = settled x (path_id B req k')"
  by (simp add: path_id_def split: sum.split)

lemma settled_json_body [binding_agrees]:
  "(\<And>b. bound x (k b) = settled x (k' b)) \<Longrightarrow> bound x (json_body js req k) = settled x (json_body js req k')"
  by (simp add: json_body_def split: decoded.split)

lemma settled_optional_json_body [binding_agrees]:
  "(\<And>b. bound x (k b) = settled x (k' b)) \<Longrightarrow>
   bound x (optional_json_body js req k) = settled x (optional_json_body js req k')"
  by (simp add: optional_json_body_def split: decoded.split)

lemma settled_page_args [binding_agrees]:
  "(\<And>pg n. bound x (k pg n) = settled x (k' pg n)) \<Longrightarrow>
   bound x (page_args B req k) = settled x (page_args B req k')"
  unfolding page_args_def by (intro binding_agrees)

lemma settled_post_args [binding_agrees]:
  "(\<And>f. bound x (k f) = settled x (k' f)) \<Longrightarrow> bound x (post_args B req k) = settled x (post_args B req k')"
  unfolding post_args_def by (intro binding_agrees)

lemmas wrapper_defs =
  siw_GetHealth_def siw_Register_def siw_VerifyEmail_def siw_ResendVerification_def siw_Login_def
  siw_RefreshSession_def siw_Logout_def siw_RequestPasswordReset_def siw_ConfirmPasswordReset_def
  siw_GetMe_def siw_UpdateMyPreferences_def siw_ListListings_def siw_CreateListing_def
  siw_GetListingAvailability_def siw_DeleteListing_def siw_GetListing_def siw_UpdateListing_def
  siw_SetListingStatus_def siw_ListMyListings_def siw_ListRequests_def siw_CreateRequest_def
  siw_DeleteRequest_def siw_GetRequest_def siw_UpdateRequest_def siw_SetRequestStatus_def
  siw_ListOffers_def siw_CreateOffer_def siw_WithdrawOffer_def siw_ListMyRequests_def
  siw_StartConversation_def siw_ListMyConversations_def siw_GetUnreadCounts_def
  siw_GetConversation_def siw_ListMessages_def siw_SendMessage_def siw_MarkConversationRead_def
  siw_CloseConversation_def siw_ShareAddress_def siw_GetAdminOverview_def siw_ListAdminUsers_def
  siw_GetAdminUser_def siw_SuspendAdminUser_def siw_ReinstateAdminUser_def siw_VerifyAdminUser_def
  siw_SetAdminUserRole_def siw_ListAdminListings_def siw_RemoveAdminListing_def
  siw_RestoreAdminListing_def siw_ListAdminRequests_def siw_RemoveAdminRequest_def
  siw_RestoreAdminRequest_def siw_ListAdminActions_def

lemmas strict_handler_defs =
  sh_GetHealth_def sh_Register_def sh_VerifyEmail_def sh_ResendVerification_def sh_Login_def
  sh_RefreshSession_def sh_Logout_def sh_RequestPasswordReset_def sh_ConfirmPasswordReset_def
  sh_GetMe_def sh_UpdateMyPreferences_def sh_ListListings_def sh_CreateListing_def
  sh_GetListingAvailability_def sh_DeleteListing_def sh_GetListing_def sh_UpdateListing_def
  sh_SetListingStatus_def sh_ListMyListings_def sh_ListRequests_def sh_CreateRequest_def
  sh_DeleteRequest_def sh_GetRequest_def sh_UpdateRequest_def sh_SetRequestStatus_def
  sh_ListOffers_def sh_CreateOffer_def sh_WithdrawOffer_def sh_ListMyRequests_def
  sh_StartConversation_def sh_ListMyConversations_def sh_GetUnreadCounts_def
  sh_GetConversation_def sh_ListMessages_def sh_SendMessage_def sh_MarkConversationRead_def
  sh_CloseConversation_def sh_ShareAddress_def sh_GetAdminOverview_def sh_ListAdminUsers_def
  sh_GetAdminUser_def sh_SuspendAdminUser_def sh_ReinstateAdminUser_def sh_VerifyAdminUser_def
  sh_SetAdminUserRole_def sh_ListAdminListings_def sh_RemoveAdminListing_def
  sh_RestoreAdminListing_def sh_ListAdminRequests_def sh_RemoveAdminRequest_def
  sh_RestoreAdminRequest_def sh_ListAdminActions_def

lemmas query_binding_defs =
  bind_ListListings_def bind_GetListingAvailability_def bind_ListRequests_def
  bind_ListMyConversations_def bind_ListMessages_def bind_ListAdminActions_def bind_ListAdminUsers_def
  bind_ListAdminListings_def bind_ListAdminRequests_def

lemma wrapper_settles: "wrapper op x = settled x (bind_operation (x_binders x) (x_version x) (x_req x) op)"
proof -
  have "bound x (Inr (wrapper op x)) = settled x (bind_operation (x_binders x) (x_version x) (x_req x) op)"
    by (cases op;
        simp only: wrapper.simps bind_operation.simps wrapper_defs strict_handler_defs query_binding_defs bound_Inr;
        ((rule binding_agrees | simp only: bound_Inr)+)?; simp add: settled_Inr)
  then show ?thesis by simp
qed


end
