(* ===== verification/Enums.thy ===== *)
theory Enums
  imports Dispatch
begin

text \<open>
  The enumerations of the API description, as the \<open>Valid\<close> method \<open>gen/server.gen.go\<close> has for each, and
  which fields of a response the description declares with one. The handlers pass the strings of the
  database on; only \<open>SetAdminUserRole\<close> asks \<open>Valid\<close> of what it is sent.
\<close>

section \<open>Enumerations\<close>

definition AdminActionAction_Valid :: "string \<Rightarrow> bool" where
  "AdminActionAction_Valid e \<longleftrightarrow> e \<in> {''reinstate'', ''remove_post'',
     ''restore_post'', ''set_role'', ''suspend'', ''verify''}"

definition AdminActionSubjectType_Valid :: "string \<Rightarrow> bool" where
  "AdminActionSubjectType_Valid e \<longleftrightarrow> e \<in> {''listing'', ''request'', ''user''}"

definition AdminRoleChangeRole_Valid :: "string \<Rightarrow> bool" where
  "AdminRoleChangeRole_Valid e \<longleftrightarrow> e \<in> {''admin'', ''user''}"

definition AdminUserRole_Valid :: "string \<Rightarrow> bool" where
  "AdminUserRole_Valid e \<longleftrightarrow> e \<in> {''admin'', ''moderator'', ''user''}"

definition ConversationStatus_Valid :: "string \<Rightarrow> bool" where
  "ConversationStatus_Valid e \<longleftrightarrow> e \<in> {''closed'', ''open''}"

definition ConversationRefStatus_Valid :: "string \<Rightarrow> bool" where
  "ConversationRefStatus_Valid e \<longleftrightarrow> e \<in> {''closed'', ''open''}"

definition ErrorCode_Valid :: "string \<Rightarrow> bool" where
  "ErrorCode_Valid e \<longleftrightarrow> e \<in> {''bad_request'', ''conflict'', ''forbidden'',
     ''internal_error'', ''not_found'', ''rate_limited'', ''service_unavailable'',
     ''unauthorized'', ''validation_failed''}"

definition HealthDatabase_Valid :: "string \<Rightarrow> bool" where
  "HealthDatabase_Valid e \<longleftrightarrow> e \<in> {''ok'', ''unreachable''}"

definition HealthStatus_Valid :: "string \<Rightarrow> bool" where
  "HealthStatus_Valid e \<longleftrightarrow> e \<in> {''degraded'', ''ok''}"

definition HousingRequestStatus_Valid :: "string \<Rightarrow> bool" where
  "HousingRequestStatus_Valid e \<longleftrightarrow> e \<in> {''archived'', ''draft'', ''paused'',
     ''published''}"

definition ListingBathType_Valid :: "string \<Rightarrow> bool" where
  "ListingBathType_Valid e \<longleftrightarrow> e \<in> {''ensuite'', ''private'', ''shared''}"

definition ListingCommuteMode_Valid :: "string \<Rightarrow> bool" where
  "ListingCommuteMode_Valid e \<longleftrightarrow> e \<in> {''bus'', ''walk''}"

definition ListingStatus_Valid :: "string \<Rightarrow> bool" where
  "ListingStatus_Valid e \<longleftrightarrow> e \<in> {''archived'', ''draft'', ''paused'',
     ''published''}"

definition ListingUnitType_Valid :: "string \<Rightarrow> bool" where
  "ListingUnitType_Valid e \<longleftrightarrow> e \<in> {''room'', ''studio'', ''unit''}"

definition ListingUtilities_Valid :: "string \<Rightarrow> bool" where
  "ListingUtilities_Valid e \<longleftrightarrow> e \<in> {''gas'', ''heat'', ''hydro'',
     ''internet'', ''water''}"

definition ListingInputBathType_Valid :: "string \<Rightarrow> bool" where
  "ListingInputBathType_Valid e \<longleftrightarrow> e \<in> {''ensuite'', ''private'', ''shared''}"

definition ListingInputStatus_Valid :: "string \<Rightarrow> bool" where
  "ListingInputStatus_Valid e \<longleftrightarrow> e \<in> {''draft'', ''published''}"

definition ListingInputUnitType_Valid :: "string \<Rightarrow> bool" where
  "ListingInputUnitType_Valid e \<longleftrightarrow> e \<in> {''room'', ''studio'', ''unit''}"

definition ListingInputUtilities_Valid :: "string \<Rightarrow> bool" where
  "ListingInputUtilities_Valid e \<longleftrightarrow> e \<in> {''gas'', ''heat'', ''hydro'',
     ''internet'', ''water''}"

definition ListingUpdateBathType_Valid :: "string \<Rightarrow> bool" where
  "ListingUpdateBathType_Valid e \<longleftrightarrow> e \<in> {''ensuite'', ''private'', ''shared''}"

definition ListingUpdateUnitType_Valid :: "string \<Rightarrow> bool" where
  "ListingUpdateUnitType_Valid e \<longleftrightarrow> e \<in> {''room'', ''studio'', ''unit''}"

definition ListingUpdateUtilities_Valid :: "string \<Rightarrow> bool" where
  "ListingUpdateUtilities_Valid e \<longleftrightarrow> e \<in> {''gas'', ''heat'', ''hydro'',
     ''internet'', ''water''}"

definition RequestInputStatus_Valid :: "string \<Rightarrow> bool" where
  "RequestInputStatus_Valid e \<longleftrightarrow> e \<in> {''draft'', ''published''}"

definition UserRole_Valid :: "string \<Rightarrow> bool" where
  "UserRole_Valid e \<longleftrightarrow> e \<in> {''admin'', ''moderator'', ''user''}"

definition ListAdminListingsParamsStatus_Valid :: "string \<Rightarrow> bool" where
  "ListAdminListingsParamsStatus_Valid e \<longleftrightarrow> e \<in> {''archived'', ''draft'',
     ''paused'', ''published''}"

definition ListAdminRequestsParamsStatus_Valid :: "string \<Rightarrow> bool" where
  "ListAdminRequestsParamsStatus_Valid e \<longleftrightarrow> e \<in> {''archived'', ''draft'',
     ''paused'', ''published''}"

definition ListAdminUsersParamsRole_Valid :: "string \<Rightarrow> bool" where
  "ListAdminUsersParamsRole_Valid e \<longleftrightarrow> e \<in> {''admin'', ''moderator'',
     ''user''}"

definition ListListingsParamsUtilities_Valid :: "string \<Rightarrow> bool" where
  "ListListingsParamsUtilities_Valid e \<longleftrightarrow> e \<in> {''gas'', ''heat'', ''hydro'',
     ''internet'', ''water''}"

definition ListListingsParamsSort_Valid :: "string \<Rightarrow> bool" where
  "ListListingsParamsSort_Valid e \<longleftrightarrow> e \<in> {''allInAsc'', ''distance'',
     ''match'', ''new'', ''priceAsc'', ''priceDesc''}"

definition GetListingAvailabilityParamsUtilities_Valid :: "string \<Rightarrow> bool" where
  "GetListingAvailabilityParamsUtilities_Valid e \<longleftrightarrow> e \<in> {''gas'', ''heat'',
     ''hydro'', ''internet'', ''water''}"

definition SetListingStatusJSONBodyStatus_Valid :: "string \<Rightarrow> bool" where
  "SetListingStatusJSONBodyStatus_Valid e \<longleftrightarrow> e \<in> {''archived'', ''draft'',
     ''paused'', ''published''}"

definition ListMyConversationsParamsStatus_Valid :: "string \<Rightarrow> bool" where
  "ListMyConversationsParamsStatus_Valid e \<longleftrightarrow> e \<in> {''closed'', ''open''}"

definition ListMyConversationsParamsSide_Valid :: "string \<Rightarrow> bool" where
  "ListMyConversationsParamsSide_Valid e \<longleftrightarrow> e \<in> {''enquirer'', ''owner''}"

definition ListRequestsParamsSort_Valid :: "string \<Rightarrow> bool" where
  "ListRequestsParamsSort_Valid e \<longleftrightarrow> e \<in> {''budgetAsc'', ''budgetDesc'',
     ''match'', ''new'', ''soonest''}"

definition SetRequestStatusJSONBodyStatus_Valid :: "string \<Rightarrow> bool" where
  "SetRequestStatusJSONBodyStatus_Valid e \<longleftrightarrow> e \<in> {''archived'', ''draft'',
     ''paused'', ''published''}"

lemmas enum_defs =
  AdminActionAction_Valid_def AdminActionSubjectType_Valid_def AdminRoleChangeRole_Valid_def
  AdminUserRole_Valid_def ConversationStatus_Valid_def ConversationRefStatus_Valid_def ErrorCode_Valid_def
  HealthDatabase_Valid_def HealthStatus_Valid_def HousingRequestStatus_Valid_def ListingBathType_Valid_def
  ListingCommuteMode_Valid_def ListingStatus_Valid_def ListingUnitType_Valid_def ListingUtilities_Valid_def
  ListingInputBathType_Valid_def ListingInputStatus_Valid_def ListingInputUnitType_Valid_def
  ListingInputUtilities_Valid_def ListingUpdateBathType_Valid_def ListingUpdateUnitType_Valid_def
  ListingUpdateUtilities_Valid_def RequestInputStatus_Valid_def UserRole_Valid_def
  ListAdminListingsParamsStatus_Valid_def ListAdminRequestsParamsStatus_Valid_def
  ListAdminUsersParamsRole_Valid_def ListListingsParamsUtilities_Valid_def ListListingsParamsSort_Valid_def
  GetListingAvailabilityParamsUtilities_Valid_def SetListingStatusJSONBodyStatus_Valid_def
  ListMyConversationsParamsStatus_Valid_def ListMyConversationsParamsSide_Valid_def
  ListRequestsParamsSort_Valid_def SetRequestStatusJSONBodyStatus_Valid_def

section \<open>One field, several declarations\<close>

text \<open>
  The generator gives every place of the description an enumeration of its own. Where a field is sent
  and returned they agree, but for the status of a new post, which starts as a draft or published.
\<close>

lemma enumerations_agree:
  "ListingInputUnitType_Valid = ListingUnitType_Valid" "ListingUpdateUnitType_Valid = ListingUnitType_Valid"
  "ListingInputBathType_Valid = ListingBathType_Valid" "ListingUpdateBathType_Valid = ListingBathType_Valid"
  "ListingInputUtilities_Valid = ListingUtilities_Valid" "ListingUpdateUtilities_Valid = ListingUtilities_Valid"
  "ListListingsParamsUtilities_Valid = ListingUtilities_Valid"
  "GetListingAvailabilityParamsUtilities_Valid = ListingUtilities_Valid"
  "SetListingStatusJSONBodyStatus_Valid = ListingStatus_Valid"
  "ListAdminListingsParamsStatus_Valid = ListingStatus_Valid"
  "SetRequestStatusJSONBodyStatus_Valid = HousingRequestStatus_Valid"
  "ListAdminRequestsParamsStatus_Valid = HousingRequestStatus_Valid"
  "RequestInputStatus_Valid = ListingInputStatus_Valid"
  "ListMyConversationsParamsStatus_Valid = ConversationStatus_Valid"
  "ConversationRefStatus_Valid = ConversationStatus_Valid"
  "AdminUserRole_Valid = UserRole_Valid" "ListAdminUsersParamsRole_Valid = UserRole_Valid"
  by (simp_all add: fun_eq_iff enum_defs)

lemma new_status_is_a_status: "ListingInputStatus_Valid s \<Longrightarrow> ListingStatus_Valid s"
  by (auto simp: enum_defs)

section \<open>The enumerated fields of a response\<close>

text \<open>The utilities of a listing are left out: no layer checks them, see \<open>unknown_utility_is_published\<close>.\<close>

definition listing_enums :: "listing_view \<Rightarrow> bool" where
  "listing_enums v \<longleftrightarrow> ListingStatus_Valid (lv_status v) \<and> ListingUnitType_Valid (lv_unit_type v) \<and>
     ListingBathType_Valid (lv_bath_type v) \<and> ListingCommuteMode_Valid (lv_commute_mode v)"

definition request_enums :: "request_view \<Rightarrow> bool" where
  "request_enums v \<longleftrightarrow> HousingRequestStatus_Valid (qv_status v)"

definition offer_enums :: "offer_view \<Rightarrow> bool" where
  "offer_enums v \<longleftrightarrow> listing_enums (fv_listing v) \<and>
     (case fv_conversation v of None \<Rightarrow> True | Some c \<Rightarrow> ConversationRefStatus_Valid (cr_status c))"

definition action_enums :: "admin_action_view \<Rightarrow> bool" where
  "action_enums v \<longleftrightarrow> AdminActionAction_Valid (av_action v) \<and> AdminActionSubjectType_Valid (av_subject_type v)"

fun body_enums :: "body \<Rightarrow> bool" where
  "body_enums (B_health h) = (HealthStatus_Valid (he_status h) \<and> HealthDatabase_Valid (he_database h))"
| "body_enums (B_registered r) = UserRole_Valid (uv_role (rg_user r))"
| "body_enums (B_session s) = UserRole_Valid (uv_role (sv_user s))"
| "body_enums (B_user u) = UserRole_Valid (uv_role u)"
| "body_enums (B_listings ls _) = list_all listing_enums ls"
| "body_enums (B_listing l) = listing_enums l"
| "body_enums (B_my_listings ls) = list_all listing_enums ls"
| "body_enums (B_requests qs _) = list_all request_enums qs"
| "body_enums (B_request q) = request_enums q"
| "body_enums (B_my_requests qs) = list_all request_enums qs"
| "body_enums (B_offer x) = offer_enums x"
| "body_enums (B_offers xs) = list_all offer_enums xs"
| "body_enums (B_conversation c) = ConversationStatus_Valid (cv_status c)"
| "body_enums (B_conversations cs _) = list_all (\<lambda>c. ConversationStatus_Valid (cv_status c)) cs"
| "body_enums (B_actions xs _) = list_all action_enums xs"
| "body_enums (B_admin_users us _) = list_all (\<lambda>u. AdminUserRole_Valid (uw_role u)) us"
| "body_enums (B_admin_user u) = AdminUserRole_Valid (uw_role u)"
| "body_enums (B_admin_account u xs) = (AdminUserRole_Valid (uw_role u) \<and> list_all action_enums xs)"
| "body_enums (B_admin_listings ls _) = list_all (\<lambda>(l, _). listing_enums l) ls"
| "body_enums (B_admin_requests qs _) = list_all (\<lambda>(q, _). request_enums q) qs"
| "body_enums (B_admin_listing l _) = listing_enums l"
| "body_enums (B_admin_request q _) = request_enums q"
| "body_enums _ = True"

text \<open>The wire form of an error code: \<open>errorBody\<close> converts it to the description's \<open>ErrorCode\<close>.\<close>

fun code_string :: "code \<Rightarrow> string" where
  "code_string CodeBadRequest = ''bad_request''"
| "code_string CodeValidation = ''validation_failed''"
| "code_string CodeUnauthorized = ''unauthorized''"
| "code_string CodeForbidden = ''forbidden''"
| "code_string CodeNotFound = ''not_found''"
| "code_string CodeConflict = ''conflict''"
| "code_string CodeRateLimited = ''rate_limited''"
| "code_string CodeInternal = ''internal_error''"
| "code_string CodeUnavailable = ''service_unavailable''"

text \<open>The two replies without a body of the handler's get the router's \<open>Internal\<close> and \<open>NotFound\<close>.\<close>

fun reply_enums :: "body reply \<Rightarrow> bool" where
  "reply_enums (Success _ b) = body_enums b"
| "reply_enums (Refuse _ b) = ErrorCode_Valid (code_string (e_code b))"
| "reply_enums (HandlerError _) = ErrorCode_Valid (code_string CodeInternal)"
| "reply_enums Unrouted = ErrorCode_Valid (code_string CodeNotFound)"

end
