(* ===== verification/Enumerated.thy ===== *)
theory Enumerated
  imports Enums Integrity ListingProofs
begin

text \<open>
  The constraints of the tables and the enumerations of the API description agree: the handlers answer
  with rows the tables let in, so the enumerated fields of a response have declared values. \<open>gives\<close> says
  what a computation returns when the database is well kept; its rules follow the handlers to the
  rows their answers come from.
\<close>

section \<open>Two invariants at once\<close>

definition writes :: "'a res go \<Rightarrow> bool" where
  "writes m \<longleftrightarrow> (\<exists>f. m = exec f) \<or> (\<exists>f. m = insert_row f)"

lemma keeps_execD:
  assumes "keeps (db_inv P) (exec f)" and "P d"
  shows "P (snd (f t d))"
proof -
  let ?w = "sample_world\<lparr>db := d, clock := t\<rparr>"
  have "db_inv P ?w" using assms(2) by (simp add: db_inv_def sample_world_def)
  from keeps_run [OF assms(1) this] show ?thesis by (simp add: quiet_exec sample_world_def db_inv_def)
qed

lemma keeps_insertD:
  assumes "keeps (db_inv P) (insert_row f)" and "P d"
  shows "P (snd (f i t d))"
proof -
  let ?w = "sample_world\<lparr>db := d, clock := t, uuid_source := \<lambda>_. i\<rparr>"
  have "db_inv P ?w" using assms(2) by (simp add: db_inv_def sample_world_def)
  from keeps_run [OF assms(1) this] show ?thesis
    by (simp add: quiet_insert_row sample_world_def db_inv_def split: prod.splits)
qed

lemma keeps_both:
  assumes "writes m" and "keeps (db_inv P) m" and "keeps (db_inv Q) m"
  shows "keeps (db_inv (\<lambda>d. P d \<and> Q d)) m"
  using assms(1) unfolding writes_def
proof (elim disjE exE)
  fix f assume m: "m = exec f"
  show ?thesis unfolding m
    by (rule db_inv_exec) (use assms(2,3) [unfolded m] keeps_execD in blast)
next
  fix f assume m: "m = insert_row f"
  show ?thesis unfolding m
    by (rule db_inv_insert_row) (use assms(2,3) [unfolded m] keeps_insertD in blast)
qed

lemma writes_accounts:
  "writes (CreateUser email username hash)" "writes (MarkUserVerified i)"
  "writes (SetEmailNotifications b i)" "writes (UpdateUserPassword i hash)"
  "writes (ConsumeAllEmailVerificationTokensForUser i)"
  "writes (ConsumeAllPasswordResetTokensForUser i)"
  "writes (ConsumeEmailVerificationToken h)" "writes (ConsumePasswordResetToken h)"
  "writes (CreateEmailVerificationToken h i x)" "writes (CreatePasswordResetToken h i x)"
  "writes (CreateRefreshToken h i x a)" "writes (RevokeAllRefreshTokensForUser i)"
  "writes (RevokeRefreshToken h)" "writes (SetUserRole r i)" "writes (SuspendUser actor why i)"
  "writes (ReinstateUser i)" "writes (VerifyUserAsAdmin i)"
  unfolding account_query_defs admin_query_defs writes_def by blast+

lemma writes_posts:
  "writes (CreateListing_sql p)" "writes (UpdateListing_sql i u)" "writes (SetListingStatus_sql i s)"
  "writes (RemoveListing i actor reason)" "writes (RestoreListing i)"
  "writes (CreateRequest_sql q)" "writes (UpdateRequest_sql i v)" "writes (SetRequestStatus_sql i s)"
  "writes (RemoveRequest i actor reason)" "writes (RestoreRequest i)"
  "writes (InsertAdminAction actor' a ty i text detail)"
  unfolding post_query_defs admin_query_defs writes_def by blast+

lemma writes_conversations:
  "writes (CreateConversation l ow en op)" "writes (CreateMessage c u text)"
  "writes (CloseConversation_sql u i)" "writes (ReopenConversation i u)"
  "writes (ShareConversationAddress i u)" "writes (MarkConversationRead_sql u i)"
  "writes (CreateOffer_sql q l u text)" "writes (WithdrawOffer_sql i)" "writes (SetOfferConversation c i)"
  unfolding conversation_query_defs offer_query_defs writes_def by blast+

section \<open>A well-kept database\<close>

definition people_ok :: "database \<Rightarrow> bool" where
  "people_ok d \<longleftrightarrow> users_ok (users d)"

definition well_kept :: "database \<Rightarrow> bool" where
  "well_kept d \<longleftrightarrow> content_ok d \<and> people_ok d"

lemma people_account_writes [keeps_intros]:
  "keeps (db_inv people_ok) (CreateUser email username hash)"
  "keeps (db_inv people_ok) (MarkUserVerified i)"
  "keeps (db_inv people_ok) (SetEmailNotifications b i)"
  "keeps (db_inv people_ok) (UpdateUserPassword i hash)"
  "keeps (db_inv people_ok) (SetUserRole r i)"
  "keeps (db_inv people_ok) (SuspendUser actor why i)"
  "keeps (db_inv people_ok) (ReinstateUser i)"
  "keeps (db_inv people_ok) (VerifyUserAsAdmin i)"
  unfolding account_query_defs admin_query_defs
  by (rule db_inv_exec db_inv_insert_row;
      auto simp: update_user_ok(1) Let_def users_ok_insert users_ok_password people_ok_def
        split: option.split)+

lemma people_frames [keeps_intros]:
  "keeps (db_inv people_ok) (ConsumeAllEmailVerificationTokensForUser i)"
  "keeps (db_inv people_ok) (ConsumeAllPasswordResetTokensForUser i)"
  "keeps (db_inv people_ok) (ConsumeEmailVerificationToken h)"
  "keeps (db_inv people_ok) (ConsumePasswordResetToken h)"
  "keeps (db_inv people_ok) (CreateEmailVerificationToken h i x)"
  "keeps (db_inv people_ok) (CreatePasswordResetToken h i x)"
  "keeps (db_inv people_ok) (CreateRefreshToken h i x a)"
  "keeps (db_inv people_ok) (RevokeAllRefreshTokensForUser i)"
  "keeps (db_inv people_ok) (RevokeRefreshToken h)"
  "keeps (db_inv people_ok) (CreateListing_sql p)"
  "keeps (db_inv people_ok) (UpdateListing_sql i u)"
  "keeps (db_inv people_ok) (SetListingStatus_sql i s)"
  "keeps (db_inv people_ok) (RemoveListing i actor reason)"
  "keeps (db_inv people_ok) (RestoreListing i)"
  "keeps (db_inv people_ok) (CreateRequest_sql q)"
  "keeps (db_inv people_ok) (UpdateRequest_sql i v)"
  "keeps (db_inv people_ok) (SetRequestStatus_sql i s)"
  "keeps (db_inv people_ok) (RemoveRequest i actor reason)"
  "keeps (db_inv people_ok) (RestoreRequest i)"
  "keeps (db_inv people_ok) (InsertAdminAction actor' act ty i text detail)"
  "keeps (db_inv people_ok) (CreateConversation l ow en op)"
  "keeps (db_inv people_ok) (CreateMessage c me text)"
  "keeps (db_inv people_ok) (CloseConversation_sql me i)"
  "keeps (db_inv people_ok) (ReopenConversation i me)"
  "keeps (db_inv people_ok) (ShareConversationAddress i me)"
  "keeps (db_inv people_ok) (MarkConversationRead_sql me i)"
  "keeps (db_inv people_ok) (CreateOffer_sql j l me text)"
  "keeps (db_inv people_ok) (WithdrawOffer_sql i)"
  "keeps (db_inv people_ok) (SetOfferConversation c i)"
  by (rule frame_tokens frame_listings frame_requests frame_actions frame_conversations frame_messages
        frame_offers; simp add: people_ok_def)+

lemma well_kept_write:
  "writes m \<Longrightarrow> keeps (db_inv content_ok) m \<Longrightarrow> keeps (db_inv people_ok) m \<Longrightarrow> keeps (db_inv well_kept) m"
  unfolding well_kept_def by (rule keeps_both)

lemma well_kept_writes [keeps_intros]:
  "keeps (db_inv well_kept) (CreateUser email username hash)"
  "keeps (db_inv well_kept) (MarkUserVerified i)"
  "keeps (db_inv well_kept) (SetEmailNotifications b i)"
  "keeps (db_inv well_kept) (UpdateUserPassword i hash)"
  "keeps (db_inv well_kept) (SetUserRole r i)"
  "keeps (db_inv well_kept) (SuspendUser actor' why i)"
  "keeps (db_inv well_kept) (ReinstateUser i)"
  "keeps (db_inv well_kept) (VerifyUserAsAdmin i)"
  "keeps (db_inv well_kept) (ConsumeAllEmailVerificationTokensForUser i)"
  "keeps (db_inv well_kept) (ConsumeAllPasswordResetTokensForUser i)"
  "keeps (db_inv well_kept) (ConsumeEmailVerificationToken h)"
  "keeps (db_inv well_kept) (ConsumePasswordResetToken h)"
  "keeps (db_inv well_kept) (CreateEmailVerificationToken h i x)"
  "keeps (db_inv well_kept) (CreatePasswordResetToken h i x)"
  "keeps (db_inv well_kept) (CreateRefreshToken h i x a)"
  "keeps (db_inv well_kept) (RevokeAllRefreshTokensForUser i)"
  "keeps (db_inv well_kept) (RevokeRefreshToken h)"
  "keeps (db_inv well_kept) (CreateListing_sql p)"
  "keeps (db_inv well_kept) (UpdateListing_sql i u)"
  "keeps (db_inv well_kept) (SetListingStatus_sql i s)"
  "keeps (db_inv well_kept) (RemoveListing i actor reason)"
  "keeps (db_inv well_kept) (RestoreListing i)"
  "keeps (db_inv well_kept) (CreateRequest_sql q)"
  "keeps (db_inv well_kept) (UpdateRequest_sql i v)"
  "keeps (db_inv well_kept) (SetRequestStatus_sql i s)"
  "keeps (db_inv well_kept) (RemoveRequest i actor reason)"
  "keeps (db_inv well_kept) (RestoreRequest i)"
  "keeps (db_inv well_kept) (InsertAdminAction actor act ty i text detail)"
  "keeps (db_inv well_kept) (CreateConversation l ow en op)"
  "keeps (db_inv well_kept) (CreateMessage c me text)"
  "keeps (db_inv well_kept) (CloseConversation_sql me i)"
  "keeps (db_inv well_kept) (ReopenConversation i me)"
  "keeps (db_inv well_kept) (ShareConversationAddress i me)"
  "keeps (db_inv well_kept) (MarkConversationRead_sql me i)"
  "keeps (db_inv well_kept) (CreateOffer_sql j l me text)"
  "keeps (db_inv well_kept) (WithdrawOffer_sql i)"
  "keeps (db_inv well_kept) (SetOfferConversation c i)"
  by (rule well_kept_write, rule writes_accounts writes_posts writes_conversations;
      rule people_account_writes people_frames content_account_writes content_listing_writes
        content_request_writes content_admin_writes content_conversation_writes content_offer_writes)+

interpretation kept_well: preserved well_kept "\<lambda>_. True" "\<lambda>_ _. True" True
  by unfold_locales (auto intro: well_kept_writes)

section \<open>What a computation returns\<close>

definition gives :: "('a \<Rightarrow> bool) \<Rightarrow> 'a go \<Rightarrow> bool" where
  "gives Q m \<longleftrightarrow> (\<forall>w. db_inv well_kept w \<longrightarrow>
     db_inv well_kept (snd (run_state m w)) \<and> Q (fst (run_state m w)))"

text \<open>A statement's result, unless it is an error.\<close>

abbreviation row_is :: "('a \<Rightarrow> bool) \<Rightarrow> 'a res \<Rightarrow> bool" where
  "row_is \<equiv> pred_sum (\<lambda>_. True)"

named_theorems gives_rules \<open>structural rules\<close>
named_theorems gives_rows \<open>what the queries return\<close>

lemma gives_bind [gives_rules]:
  "gives Q m \<Longrightarrow> (\<And>a. Q a \<Longrightarrow> gives R (f a)) \<Longrightarrow> gives R (State_Monad.bind m f)"
  by (simp add: gives_def split: prod.splits) (metis fst_conv snd_conv)

lemma gives_return [gives_rules]: "Q a \<Longrightarrow> gives Q (State_Monad.return a)"
  by (simp add: gives_def)

lemma gives_if [gives_rules]:
  "(b \<Longrightarrow> gives Q m) \<Longrightarrow> (\<not> b \<Longrightarrow> gives Q n) \<Longrightarrow> gives Q (if b then m else n)"
  by simp

lemma gives_sum [gives_rules]:
  "(\<And>e. r = Inl e \<Longrightarrow> gives Q (f e)) \<Longrightarrow> (\<And>a. r = Inr a \<Longrightarrow> gives Q (g a)) \<Longrightarrow>
   gives Q (case r of Inl e \<Rightarrow> f e | Inr a \<Rightarrow> g a)"
  by (cases r) auto

lemma gives_option [gives_rules]:
  "(x = None \<Longrightarrow> gives Q m) \<Longrightarrow> (\<And>a. x = Some a \<Longrightarrow> gives Q (f a)) \<Longrightarrow>
   gives Q (case x of None \<Rightarrow> m | Some a \<Rightarrow> f a)"
  by (cases x) auto

lemma gives_prod [gives_rules]:
  "(\<And>a b. p = (a, b) \<Longrightarrow> gives Q (f a b)) \<Longrightarrow> gives Q (case p of (a, b) \<Rightarrow> f a b)"
  by (cases p) auto

lemma gives_Let [gives_rules]: "(\<And>x. x = t \<Longrightarrow> gives Q (f x)) \<Longrightarrow> gives Q (let x = t in f x)"
  by simp

lemma gives_as_admin [gives_rules]:
  "Q Unrouted \<Longrightarrow> (\<And>p. gives Q (body p)) \<Longrightarrow> gives Q (as_admin ctx body)"
  by (simp add: as_admin_def gives_return split: option.split)

text \<open>Where only the database matters.\<close>

lemma gives_any: "keeps (db_inv well_kept) m \<Longrightarrow> gives (\<lambda>_. True) m"
  by (simp add: gives_def keeps_def)

lemma gives_stmt:
  assumes "keeps (db_inv well_kept) (stmt f)"
    and "\<And>w r w'. well_kept (db w) \<Longrightarrow> f w = (Inr r, w') \<Longrightarrow> Q r"
  shows "gives (row_is Q) (stmt f)"
  unfolding gives_def
proof (intro allI impI conjI)
  fix w assume w: "db_inv well_kept w"
  then show "db_inv well_kept (snd (run_state (stmt f) w))" by (rule keeps_run [OF assms(1)])
  obtain r w' where run: "run_state (stmt f) w = (r, w')" by (rule prod.exhaust)
  from w run show "row_is Q (fst (run_state (stmt f) w))"
  proof (cases rule: db_inv_stmtE)
    case (ran w1)
    then show ?thesis using assms(2) [of w1] by (cases r) (auto simp: run db_inv_def)
  qed (simp add: run)
qed

lemma gives_query: "(\<And>t d. well_kept d \<Longrightarrow> Q (f t d)) \<Longrightarrow> gives (row_is Q) (query f)"
  unfolding query_def
  by (intro gives_stmt db_inv_query [unfolded query_def]) auto

lemma gives_query_row:
  "(\<And>t d r. well_kept d \<Longrightarrow> f t d = Some r \<Longrightarrow> Q r) \<Longrightarrow> gives (row_is Q) (query_row f)"
  unfolding query_row_def
  by (intro gives_stmt db_inv_query_row [unfolded query_row_def]) (auto split: option.splits)

lemma gives_exec:
  "keeps (db_inv well_kept) (exec f) \<Longrightarrow> (\<And>t d r d'. well_kept d \<Longrightarrow> f t d = (Inr r, d') \<Longrightarrow> Q r) \<Longrightarrow>
   gives (row_is Q) (exec f)"
  unfolding exec_def by (rule gives_stmt) (auto split: prod.splits)

lemma gives_insert_row:
  "keeps (db_inv well_kept) (insert_row f) \<Longrightarrow>
   (\<And>i t d r d'. well_kept d \<Longrightarrow> f i t d = (Inr r, d') \<Longrightarrow> Q r) \<Longrightarrow> gives (row_is Q) (insert_row f)"
  unfolding insert_row_def by (rule gives_stmt) (auto split: prod.splits)

section \<open>Rows\<close>

abbreviation listing_row_ok :: "listing \<Rightarrow> bool" where
  "listing_row_ok l \<equiv> listing_violation l = None"

abbreviation request_row_ok :: "housing_request \<Rightarrow> bool" where
  "request_row_ok q \<equiv> request_violation q = None"

lemma well_keptD:
  assumes "well_kept d"
  shows "l \<in> set (listings d) \<Longrightarrow> listing_row_ok l" "q \<in> set (requests d) \<Longrightarrow> request_row_ok q"
    "u \<in> set (users d) \<Longrightarrow> users_check u" "a \<in> set (admin_actions d) \<Longrightarrow> admin_actions_check a"
  using assms
  by (auto simp: well_kept_def content_ok_def people_ok_def users_ok_def table_ok_def list_all_iff)

lemma well_kept_listing: "well_kept d \<Longrightarrow> find_listing d i = Some l \<Longrightarrow> listing_row_ok l"
  using find_listing_id well_keptD(1) by blast

lemma find_user_set: "find_user d i = Some u \<Longrightarrow> u \<in> set (users d)"
  unfolding find_user_def by (drule find_SomeD) simp

lemma list_all_map_filter:
  "(\<And>x y. x \<in> set xs \<Longrightarrow> f x = Some y \<Longrightarrow> P y) \<Longrightarrow> list_all P (List.map_filter f xs)"
  by (auto simp: list_all_iff map_filter_def)

lemma list_all_limit_offset: "list_all P xs \<Longrightarrow> list_all P (limit_offset l off xs)"
  by (auto simp: limit_offset_def list_all_iff dest: in_set_takeD in_set_dropD)

lemma gives_page_query:
  "(\<And>t d. well_kept d \<Longrightarrow> list_all Q (f t d)) \<Longrightarrow> gives (row_is (list_all Q)) (page_query l off f)"
  unfolding page_query_def
  by (rule gives_exec [OF db_inv_page_query [unfolded page_query_def]])
    (auto simp: list_all_limit_offset split: if_splits)

text \<open>An update that returns a row returns one its constraints let in.\<close>

lemma update_user_row: "update_user P f i t d = (Inr u, d') \<Longrightarrow> users_check u"
  by (auto simp: update_user_def Let_def split: option.splits if_splits)

lemma updated_listing:
  "on_listings (update_returning P f listing_violation) d = (Inr l, d') \<Longrightarrow> listing_row_ok l"
  by (auto simp: on_listings_def update_returning_def split: prod.splits option.splits)

lemma updated_request:
  "on_requests (update_returning P f request_violation) d = (Inr q, d') \<Longrightarrow> request_row_ok q"
  by (auto simp: on_requests_def update_returning_def split: prod.splits option.splits)

lemma gives_accounts [gives_rows]:
  "gives (row_is users_check) (GetUserByEmail email)"
  "gives (row_is users_check) (GetUserByID i)"
  "gives (row_is users_check) (CreateUser email username hash)"
  "gives (row_is users_check) (MarkUserVerified i)"
  "gives (row_is users_check) (SetEmailNotifications b i)"
proof -
  show "gives (row_is users_check) (GetUserByEmail email)"
    unfolding GetUserByEmail_def by (rule gives_query_row) (auto dest: find_SomeD well_keptD)
  show "gives (row_is users_check) (GetUserByID i)"
    unfolding GetUserByID_def by (rule gives_query_row) (auto dest: find_user_set well_keptD)
  show "gives (row_is users_check) (CreateUser email username hash)"
    using well_kept_writes(1) unfolding CreateUser_def
    by (rule gives_insert_row) (auto simp: Let_def split: if_splits)
  show "gives (row_is users_check) (MarkUserVerified i)"
    using well_kept_writes(2) unfolding MarkUserVerified_def
    by (rule gives_exec) (rule update_user_row)
  show "gives (row_is users_check) (SetEmailNotifications b i)"
    using well_kept_writes(3) unfolding SetEmailNotifications_def
    by (rule gives_exec) (rule update_user_row)
qed

lemma gives_listings [gives_rows]:
  "gives (row_is listing_row_ok) (GetListingForOwner i)"
  "gives (row_is (\<lambda>r. listing_row_ok (lw_listing r))) (GetPublishedListing i)"
  "gives (row_is (list_all (\<lambda>r. listing_row_ok (lw_listing r)))) (ListListingsByOwner i)"
  "gives (row_is listing_row_ok) (CreateListing_sql p)"
  "gives (row_is listing_row_ok) (UpdateListing_sql i u)"
  "gives (row_is listing_row_ok) (SetListingStatus_sql i s)"
proof -
  show "gives (row_is listing_row_ok) (GetListingForOwner i)"
    unfolding GetListingForOwner_def by (rule gives_query_row) (auto dest: find_listing_id well_keptD)
  show "gives (row_is (\<lambda>r. listing_row_ok (lw_listing r))) (GetPublishedListing i)"
    unfolding GetPublishedListing_def
    by (rule gives_query_row)
      (auto simp: join_owner_def dest: find_listing_id well_keptD split: option.splits if_splits)
  show "gives (row_is (list_all (\<lambda>r. listing_row_ok (lw_listing r)))) (ListListingsByOwner i)"
    unfolding ListListingsByOwner_def
    by (intro gives_query list_all_map_filter) (auto simp: join_owner_def dest: well_keptD)
  show "gives (row_is listing_row_ok) (CreateListing_sql p)"
    using well_kept_writes(18) unfolding CreateListing_sql_def
    by (rule gives_insert_row) (auto simp: Let_def split: option.splits if_splits)
  show "gives (row_is listing_row_ok) (UpdateListing_sql i u)"
    using well_kept_writes(19) unfolding UpdateListing_sql_def
    by (rule gives_exec) (rule updated_listing)
  show "gives (row_is listing_row_ok) (SetListingStatus_sql i s)"
    using well_kept_writes(20) unfolding SetListingStatus_sql_def
    by (rule gives_exec) (rule updated_listing)
qed

lemma gives_requests [gives_rows]:
  "gives (row_is request_row_ok) (GetRequestForOwner i)"
  "gives (row_is (\<lambda>r. request_row_ok (qw_request r))) (GetPublishedRequest i)"
  "gives (row_is (list_all (\<lambda>r. request_row_ok (qw_request r)))) (ListRequestsByPoster i)"
  "gives (row_is request_row_ok) (CreateRequest_sql p)"
  "gives (row_is request_row_ok) (UpdateRequest_sql i u)"
  "gives (row_is request_row_ok) (SetRequestStatus_sql i s)"
proof -
  show "gives (row_is request_row_ok) (GetRequestForOwner i)"
    unfolding GetRequestForOwner_def by (rule gives_query_row) (auto dest: find_request_id well_keptD)
  show "gives (row_is (\<lambda>r. request_row_ok (qw_request r))) (GetPublishedRequest i)"
    unfolding GetPublishedRequest_def
    by (rule gives_query_row)
      (auto simp: join_poster_def dest: find_request_id well_keptD split: option.splits if_splits)
  show "gives (row_is (list_all (\<lambda>r. request_row_ok (qw_request r)))) (ListRequestsByPoster i)"
    unfolding ListRequestsByPoster_def
    by (intro gives_query list_all_map_filter) (auto simp: join_poster_def dest: well_keptD)
  show "gives (row_is request_row_ok) (CreateRequest_sql p)"
    using well_kept_writes(23) unfolding CreateRequest_sql_def
    by (rule gives_insert_row) (auto simp: Let_def split: option.splits if_splits)
  show "gives (row_is request_row_ok) (UpdateRequest_sql i u)"
    using well_kept_writes(24) unfolding UpdateRequest_sql_def
    by (rule gives_exec) (rule updated_request)
  show "gives (row_is request_row_ok) (SetRequestStatus_sql i s)"
    using well_kept_writes(25) unfolding SetRequestStatus_sql_def
    by (rule gives_exec) (rule updated_request)
qed

lemma browsed: "browse_listings env f d = Inr ls \<Longrightarrow> set ls \<subseteq> set (listings d)"
  by (auto simp: browse_listings_def Let_def split: if_splits)

lemma ordered: "order_listings f ls = Inr ls' \<Longrightarrow> set ls' \<subseteq> set ls"
  by (auto simp: order_listings_def Let_def nulls_last_def split: if_splits option.splits)

lemma set_order_requests: "set (order_requests f qs) = set qs"
  by (simp add: order_requests_def Let_def)

lemma gives_browse [gives_rows]:
  "gives (row_is (list_all (\<lambda>r. listing_row_ok (lw_listing r)))) (ListListings_sql env f limit off)"
  "gives (row_is (list_all (\<lambda>r. request_row_ok (qw_request r)))) (ListRequests_sql env g limit off)"
proof -
  have subset: "set ls \<subseteq> set (listings d)"
    if "browse_listings env f d = Inr hits" "order_listings f hits = Inr ls" for d hits ls
    using browsed [OF that(1)] ordered [OF that(2)] by (rule order.trans [rotated])
  have rows: "list_all (\<lambda>r. listing_row_ok (lw_listing r)) (List.map_filter (join_owner d) ls)"
    if "well_kept d" "browse_listings env f d = Inr hits" "order_listings f hits = Inr ls" for d hits ls
    using that(1) subset [OF that(2,3)]
    by (intro list_all_map_filter) (auto simp: join_owner_def subset_iff dest: well_keptD)
  have "keeps (db_inv well_kept) (ListListings_sql env f limit off)" by (rule keeps_intros)
  then show "gives (row_is (list_all (\<lambda>r. listing_row_ok (lw_listing r)))) (ListListings_sql env f limit off)"
    unfolding ListListings_sql_def
    by (rule gives_exec)
      (auto simp: rows list_all_limit_offset split: if_splits sum.splits)
  show "gives (row_is (list_all (\<lambda>r. request_row_ok (qw_request r)))) (ListRequests_sql env g limit off)"
    unfolding ListRequests_sql_def
    by (intro gives_page_query list_all_map_filter)
      (auto simp: join_poster_def set_order_requests dest: well_keptD)
qed

lemma gives_admin_rows [gives_rows]:
  "gives (row_is (\<lambda>r. users_check (ar_user r))) (GetUserForAdmin i)"
  "gives (row_is (list_all (\<lambda>r. users_check (ar_user r)))) (ListUsersForAdmin f limit off)"
  "gives (row_is (list_all (\<lambda>(a, _). admin_actions_check a))) (ListAdminActions_sql limit off)"
  "gives (row_is (list_all (\<lambda>(a, _). admin_actions_check a))) (ListAdminActionsForSubject ty i)"
  "gives (row_is (list_all (\<lambda>(l, _). listing_row_ok l))) (ListListingsForAdmin env pf limit off)"
  "gives (row_is (list_all (\<lambda>(q, _). request_row_ok q))) (ListRequestsForAdmin env pf limit off)"
proof -
  show "gives (row_is (\<lambda>r. users_check (ar_user r))) (GetUserForAdmin i)"
    unfolding GetUserForAdmin_def
    by (rule gives_query_row) (auto simp: admin_user_row_for_def dest: find_user_set well_keptD(3))
  show "gives (row_is (list_all (\<lambda>r. users_check (ar_user r)))) (ListUsersForAdmin f limit off)"
    unfolding ListUsersForAdmin_def
    by (rule gives_page_query)
      (auto simp: list_all_iff admin_user_rows_def admin_user_row_for_def dest: well_keptD(3))
  show "gives (row_is (list_all (\<lambda>(a, _). admin_actions_check a))) (ListAdminActions_sql limit off)"
    unfolding ListAdminActions_sql_def
    by (rule gives_page_query) (auto simp: list_all_iff newest_actions_def dest: well_keptD(4))
  show "gives (row_is (list_all (\<lambda>(a, _). admin_actions_check a))) (ListAdminActionsForSubject ty i)"
    unfolding ListAdminActionsForSubject_def
    by (rule gives_query) (auto simp: list_all_iff newest_actions_def dest: well_keptD(4))
  show "gives (row_is (list_all (\<lambda>(l, _). listing_row_ok l))) (ListListingsForAdmin env pf limit off)"
    unfolding ListListingsForAdmin_def
    by (intro gives_page_query list_all_map_filter) (auto dest: well_keptD)
  show "gives (row_is (list_all (\<lambda>(q, _). request_row_ok q))) (ListRequestsForAdmin env pf limit off)"
    unfolding ListRequestsForAdmin_def
    by (intro gives_page_query list_all_map_filter) (auto dest: well_keptD)
qed

lemma gives_offer_rows [gives_rows]:
  "gives (row_is (list_all (\<lambda>r. listing_row_ok (ow_listing r)))) (ListOffersForRequest i)"
  unfolding ListOffersForRequest_def
  by (rule gives_query)
    (auto simp: offer_rows_def offer_row_for_def split: option.splits intro!: list_all_map_filter,
      (erule (1) well_kept_listing)+)

section \<open>From rows to views\<close>

lemma listing_declared: "listing_row_ok l \<Longrightarrow> listing_enums (toListing l ow ps e)"
  by (auto simp: listing_violation_def listings_check_def statuses_def listing_enums_def toListing_def
      ListingStatus_Valid_def ListingUnitType_Valid_def ListingBathType_Valid_def ListingCommuteMode_Valid_def
      split: if_splits)

lemma request_declared: "request_row_ok q \<Longrightarrow> request_enums (toRequest q ow n)"
  by (auto simp: request_violation_def requests_check_def statuses_def request_enums_def toRequest_def
      HousingRequestStatus_Valid_def split: if_splits)

lemma user_declared: "users_check u \<Longrightarrow> UserRole_Valid (uv_role (toUser u e))"
  by (auto simp: users_check_def toUser_def UserRole_Valid_def)

lemma admin_user_declared: "users_check (ar_user r) \<Longrightarrow> AdminUserRole_Valid (uw_role (toAdminUser r))"
  by (auto simp: users_check_def toAdminUser_def AdminUserRole_Valid_def Let_def)

lemma action_declared: "admin_actions_check a \<Longrightarrow> action_enums (toAdminAction (a, n))"
  by (auto simp: admin_actions_check_def toAdminAction_def action_enums_def AdminActionAction_Valid_def
      AdminActionSubjectType_Valid_def)

lemma conversation_declared: "ConversationStatus_Valid (cv_status (toConversation r p))"
  by (simp add: toConversation_def ConversationStatus_Valid_def Let_def)

lemma ref_declared: "conversationRef i t b = Some c \<Longrightarrow> ConversationRefStatus_Valid (cr_status c)"
  by (auto simp: conversationRef_def ConversationRefStatus_Valid_def split: if_splits)

lemma offer_declared: "listing_row_ok (ow_listing r) \<Longrightarrow> offer_enums (toRequestOffer r)"
  by (auto simp: offer_enums_def toRequestOffer_def Let_def listing_declared ref_declared split: option.split)

lemma code_declared: "ErrorCode_Valid (code_string c)"
  by (cases c) (simp_all add: ErrorCode_Valid_def)

lemmas declared_simps = listing_declared request_declared user_declared admin_user_declared action_declared
  conversation_declared offer_declared code_declared

section \<open>The handlers\<close>

declare code_string.simps [simp del]

lemma kept_steps [keeps_intros]:
  "keeps (db_inv well_kept) (issueVerificationEmail env u)"
  "keeps (db_inv well_kept) (startSession env u agent)"
  "keeps (db_inv well_kept) (chargeFailedLogin ctx)"
  "keeps (db_inv well_kept) (open_conversation l ow me text)"
  "keeps (db_inv well_kept) (attempt_offer env q li text)"
  unfolding issueVerificationEmail_def startSession_def chargeFailedLogin_def open_conversation_def
    attempt_offer_def makeOffer_def offer_conversation_def write_offer_def Let_def
  by (intro keeps_intros)+

abbreviation declares :: "('b \<Rightarrow> body) \<Rightarrow> 'b handler \<Rightarrow> bool" where
  "declares f h \<equiv> gives (\<lambda>r. reply_enums (map_reply f r)) h"

lemma gives_responses [gives_rows]:
  "listing_row_ok l \<Longrightarrow> gives listing_enums (listingResponse l)"
  "request_row_ok q \<Longrightarrow> gives request_enums (requestResponse q)"
  "listing_row_ok l \<Longrightarrow> gives offer_enums (offerResponse x l ow)"
  "gives (row_is (\<lambda>v. ConversationStatus_Valid (cv_status v))) (conversationFor i p)"
  "gives (row_is (\<lambda>v. body_enums (case v of (l, ow) \<Rightarrow> B_admin_listing l ow))) (adminListing i)"
  "gives (row_is (\<lambda>v. body_enums (case v of (q, ow) \<Rightarrow> B_admin_request q ow))) (adminRequest i)"
proof -
  show "gives listing_enums (listingResponse l)" if "listing_row_ok l"
    unfolding listingResponse_def by (rule gives_rows gives_rules gives_any keeps_intros | simp add: declared_simps that)+
  show "gives request_enums (requestResponse q)" if "request_row_ok q"
    unfolding requestResponse_def by (rule gives_rows gives_rules gives_any keeps_intros | simp add: declared_simps that)+
  have found: "offer_enums (toRequestOffer row)"
    if "row_is (list_all (\<lambda>r. listing_row_ok (ow_listing r))) rows"
      "(case rows of Inl _ \<Rightarrow> None | Inr rs \<Rightarrow> List.find P rs) = Some row" for rows row P
    using that by (auto simp: list_all_iff split: sum.splits dest!: find_SomeD intro!: offer_declared)
  show "gives offer_enums (offerResponse x l ow)" if "listing_row_ok l"
    unfolding offerResponse_def
    by (rule gives_rows gives_rules gives_any keeps_intros | (erule (1) found)
      | auto simp: offer_enums_def that listing_declared conversationRef_def ConversationRefStatus_Valid_def
          split: option.split)+
  show "gives (row_is (\<lambda>v. ConversationStatus_Valid (cv_status v))) (conversationFor i p)"
    unfolding conversationFor_def by (rule gives_rows gives_rules gives_any keeps_intros | simp add: declared_simps)+
  show "gives (row_is (\<lambda>v. body_enums (case v of (l, ow) \<Rightarrow> B_admin_listing l ow))) (adminListing i)"
    unfolding adminListing_def by (rule gives_rows gives_rules gives_any keeps_intros | simp add: declared_simps)+
  show "gives (row_is (\<lambda>v. body_enums (case v of (q, ow) \<Rightarrow> B_admin_request q ow))) (adminRequest i)"
    unfolding adminRequest_def by (rule gives_rows gives_rules gives_any keeps_intros | simp add: declared_simps)+
qed


lemma refusals_declared:
  "reply_enums (map_reply f (updateRefusal r))" "reply_enums (map_reply f (statusRefusal r))"
  "reply_enums (map_reply g (updateRequestRefusal r))" "reply_enums (map_reply g (requestStatusRefusal r))"
  by (simp_all add: updateRefusal_def statusRefusal_def updateRequestRefusal_def requestStatusRefusal_def
      code_declared)

lemma declares_accounts:
  "declares B_registered (Register env rb)" "declares B_user (VerifyEmail env tb)"
  "declares B_session (Login env ctx lb)" "declares B_session (RefreshSession env ctx)"
  "declares B_user (GetMe ctx)" "declares B_user (UpdateMyPreferences ctx pb)"
  unfolding Register_def VerifyEmail_def Login_def RefreshSession_def GetMe_def UpdateMyPreferences_def
    invalidCredentials_def
  by (rule gives_rows gives_rules gives_any keeps_intros | simp add: declared_simps)+

lemma declares_listings:
  "declares (\<lambda>(ls, m). B_listings ls m) (ListListings env lp)" "declares B_listing (GetListing i)"
  "declares B_listing (CreateListing ctx li)" "declares B_my_listings (ListMyListings ctx)"
  unfolding ListListings_def GetListing_def CreateListing_def ListMyListings_def
  by (rule gives_rows gives_rules gives_any keeps_intros | simp add: declared_simps list_all_iff)+

lemma gives_owned [gives_rows]:
  "gives (pred_sum (\<lambda>_. True) listing_row_ok) (ownedListing ctx i)"
  "gives (pred_sum (\<lambda>_. True) request_row_ok) (ownedRequest ctx i)"
  unfolding ownedListing_def ownedRequest_def
  by (rule gives_rows gives_rules gives_any keeps_intros | auto split: sum.split)+

lemma declares_listing_writes:
  "declares B_listing (UpdateListing ctx i lu)" "declares B_listing (SetListingStatus ctx i s)"
  unfolding UpdateListing_def SetListingStatus_def
  by (rule gives_rows gives_rules gives_any keeps_intros | simp add: declared_simps refusals_declared)+

lemma declares_requests:
  "declares (\<lambda>(qs, m). B_requests qs m) (ListRequests env rp)" "declares B_request (GetRequest i)"
  "declares B_request (CreateRequest ctx ri)" "declares B_my_requests (ListMyRequests ctx)"
  "declares B_request (UpdateRequest ctx i ru)" "declares B_request (SetRequestStatus ctx i s)"
  unfolding ListRequests_def GetRequest_def CreateRequest_def ListMyRequests_def UpdateRequest_def
    SetRequestStatus_def
  by (rule gives_rows gives_rules gives_any keeps_intros
      | simp add: declared_simps refusals_declared list_all_iff)+

lemma declares_conversations:
  "declares B_conversation (StartConversation env ctx i b)"
  "declares (\<lambda>(cs, m). B_conversations cs m) (ListMyConversations ctx pg n s side)"
  "declares B_conversation (GetConversation ctx i)" "declares B_conversation (CloseConversation ctx i)"
  "declares B_conversation (ShareAddress env ctx i)"
  unfolding StartConversation_def ListMyConversations_def GetConversation_def CloseConversation_def
    ShareAddress_def
  by (rule gives_rows gives_rules gives_any keeps_intros | simp add: declared_simps list_all_iff)+

lemma declares_admin_reads:
  "declares (\<lambda>(xs, m). B_actions xs m) (ListAdminActions ctx pg n)"
  "declares (\<lambda>(us, m). B_admin_users us m) (ListAdminUsers ctx pg n uf)"
  "declares (\<lambda>(u, xs). B_admin_account u xs) (GetAdminUser ctx i)"
  "declares (\<lambda>(ls, m). B_admin_listings ls m) (ListAdminListings env ctx pg n pf)"
  "declares (\<lambda>(qs, m). B_admin_requests qs m) (ListAdminRequests env ctx pg n pf)"
  unfolding admin_read_defs
  by (rule gives_rows gives_rules gives_any keeps_intros
      | auto simp: declared_simps list_all_iff split: prod.splits)+

lemma gives_accountAction [gives_rules]:
  assumes "\<And>why. keeps (db_inv well_kept) (act why)"
  shows "declares B_admin_user (accountAction i reason self act)"
  unfolding accountAction_def
  by (rule gives_rows gives_rules gives_any keeps_intros assms | simp add: declared_simps)+

lemma gives_post_reply [gives_rules]:
  "gives (row_is (\<lambda>v. body_enums (f v))) m \<Longrightarrow> declares f (post_reply m r)"
  unfolding post_reply_def
  by (assumption | rule gives_rules gives_any keeps_intros | simp add: declared_simps)+

lemma declares_admin_writes:
  "declares B_admin_user (SuspendAdminUser ctx i why)" "declares B_admin_user (ReinstateAdminUser ctx i why)"
  "declares B_admin_user (VerifyAdminUser ctx i why)" "declares B_admin_user (SetAdminUserRole ctx i role)"
  "declares (\<lambda>(l, ow). B_admin_listing l ow) (RemoveAdminListing ctx i why)"
  "declares (\<lambda>(l, ow). B_admin_listing l ow) (RestoreAdminListing ctx i why)"
  "declares (\<lambda>(q, ow). B_admin_request q ow) (RemoveAdminRequest ctx i why)"
  "declares (\<lambda>(q, ow). B_admin_request q ow) (RestoreAdminRequest ctx i why)"
  unfolding admin_write_defs
  by (rule gives_rows gives_rules gives_any keeps_intros kept_well.keeps_moderation
      | simp add: declared_simps)+

lemma declares_finish_offer [gives_rules]:
  assumes "listing_row_ok l"
  shows "declares B_offer (finish_offer env l me a)"
proof -
  have notified: "keeps (db_inv well_kept)
      (case n of None \<Rightarrow> State_Monad.return () | Some n \<Rightarrow> notify env n)" for n
    by (intro keeps_intros)
  show ?thesis
    unfolding finish_offer_def
    by (simp split: offer_attempt.split sum.split,
        (rule gives_any [OF notified] gives_rows gives_rules | simp add: declared_simps assms
          | intro conjI allI impI)+)
qed

lemma declares_offers:
  "declares B_offer (CreateOffer env ctx i b)" "declares B_offers (ListOffers ctx i)"
  unfolding CreateOffer_def ListOffers_def
  by (rule gives_rows gives_rules gives_any keeps_intros | simp add: declared_simps list_all_iff)+

lemma declares_health: "declares B_health (GetHealth version)"
  unfolding GetHealth_def
  by (rule gives_rows gives_rules gives_any keeps_intros
      | simp add: HealthStatus_Valid_def HealthDatabase_Valid_def)+

section \<open>The service\<close>

lemma declared_reply:
  "declares f h \<Longrightarrow> db_inv well_kept w \<Longrightarrow> reply_enums (fst (run_state (give f h) w))"
  by (simp add: gives_def)

lemma plain_reply: "(\<And>b. body_enums (f b)) \<Longrightarrow> reply_enums (fst (run_state (give f h) w))"
  by (cases "fst (run_state h w)") (simp_all add: code_declared)

lemma dispatch_declared:
  assumes "db_inv well_kept w"
  shows "reply_enums (fst (run_state (dispatch env ctx r) w))"
  by (cases r; simp only: dispatch.simps;
      (rule plain_reply, simp split: prod.split; fail
       | rule declared_reply [OF _ assms], rule declares_health declares_accounts declares_listings
           declares_listing_writes declares_requests declares_conversations declares_admin_reads
           declares_admin_writes declares_offers))

text \<open>C31: Whatever the service handled before, with whatever faults and
  concurrent commits, the statuses, kinds, roles, actions and error codes of the response to the next
  request are values the API description declares for them. For the utilities of a listing nothing
  sees to that (\<open>unknown_utility_is_published\<close>).\<close>

theorem responses_are_enumerated:
  assumes "(history env anything well_kept)\<^sup>*\<^sup>* w w'" and "db_inv well_kept w"
  shows "reply_enums (fst (run_state (dispatch env ctx r) w'))"
  using db_inv_history [OF assms kept_well.keeps_serve] by (simp add: dispatch_declared)

lemma sample_well_kept: "well_kept sample_db"
  by code_simp

lemma responses_are_enumerated_witness:
  "reply_enums (fst (run_state (dispatch sample_env sample_ctx (R_GetListing 10))
     (snd (run_state (serve sample_env student_ctx (R_SendMessage 30 (Some ''Is it free?''))) sample_world))))"
  using one_request sample_db_inv [of well_kept, OF sample_well_kept]
  by (rule responses_are_enumerated) simp

section \<open>Values that are not declared\<close>

text \<open>
  The description lists the utilities a listing may include, but neither the validation nor the
  table looks at them: any text is stored and comes back in the response. It lets a post start as a
  draft or published, but the validation takes every status: a listing can be posted archived.
\<close>

abbreviation posted :: "listing_input \<Rightarrow> (listing_view \<Rightarrow> bool) \<Rightarrow> bool" where
  "posted inp P \<equiv> (case fst (run_state (CreateListing sample_ctx (Some inp)) sample_world) of
     Success status v \<Rightarrow> status = 201 \<and> P v | _ \<Rightarrow> False)"

lemma unknown_utility_is_published:
  "posted (sample_posting\<lparr>li_utilities := Some [''pool'']\<rparr>) (\<lambda>v.
     lv_status v = ''published'' \<and> \<not> list_all ListingUtilities_Valid (lv_utilities v))"
  by code_simp

lemma listing_posted_archived:
  "posted (sample_posting\<lparr>li_status := Some ''archived''\<rparr>) (\<lambda>v.
     lv_status v = ''archived'' \<and> \<not> ListingInputStatus_Valid (lv_status v))"
  by code_simp

end
