(* ===== verification/Retry.thy ===== *)
theory Retry
  imports Offers
begin

text \<open>
  The loop of \<open>CreateOffer\<close> as it is written, \<open>for attempt := 0; ; attempt++\<close>: a loop without a
  condition, left by its \<open>break\<close> and by a \<open>return\<close>. It is a partial function here, so that it returns
  is a theorem; what it returns is \<open>attempt_offer\<close>, the two attempts written out, which the rest of
  the development reasons about.
\<close>

partial_function (option) offer_loop ::
  "env \<Rightarrow> housing_request \<Rightarrow> listing \<Rightarrow> string \<Rightarrow> int \<Rightarrow> world \<Rightarrow> (offer_attempt \<times> world) option" where
  "offer_loop env req listing note attempt w =
     (let (made, w) = run_state (makeOffer env req listing note) w
      in case made of
           Inr _ \<Rightarrow> Some (Attempted made, w)
         | Inl e \<Rightarrow>
             if \<not> isUniqueViolation e \<or> 0 < attempt then Some (Attempted made, w)
             else
               (let (existing, w) = run_state (GetOfferForListing (q_id req) (l_id listing)) w
                in case existing of
                     Inr _ \<Rightarrow> Some (Duplicate, w)
                   | Inl _ \<Rightarrow> offer_loop env req listing note (attempt + 1) w))"

lemma last_attempt:
  "0 < attempt \<Longrightarrow>
   offer_loop env req listing note attempt w =
     (let (made, w) = run_state (makeOffer env req listing note) w in Some (Attempted made, w))"
  by (subst offer_loop.simps) (simp split: prod.split sum.split)

text \<open>C33: the retry loop of an offer returns, whatever the database and the other
  transactions do: it makes at most two attempts, and its result and the state it leaves are those of
  \<open>attempt_offer\<close>.\<close>

theorem offer_loop_terminates:
  "offer_loop env req listing note 0 w = Some (run_state (attempt_offer env req listing note) w)"
  by (subst offer_loop.simps)
    (simp add: attempt_offer_def last_attempt split: prod.split sum.split)

end
