(* ===== verification/Privacy.thy ===== *)
theory Privacy
  imports Dispatch Sample
begin

text \<open>
  Who learns the exact place of a listing: its address line and its coordinates. Two databases that
  differ only in places a viewer may not see (\<open>known_to\<close>) give the viewer the same answer to every
  read. The proof follows two runs of a handler side by side: \<open>alike\<close> relates their results, a rule for
  each way the handlers are put together carries the relation through, and each query is shown to
  depend on the places only where its rows keep them.
\<close>

section \<open>What a viewer knows\<close>

text \<open>The owner of a listing sees its place, and so does a participant of a conversation that reveals it.\<close>

definition sees :: "database \<Rightarrow> uuid option \<Rightarrow> listing \<Rightarrow> bool" where
  "sees d viewer l =
     (case viewer of
        None \<Rightarrow> False
      | Some u \<Rightarrow> l_owner_id l = u \<or>
          list_ex (\<lambda>c. participant u c \<and> c_listing_id c = l_id l \<and>
            (case find_user d (c_owner_id c) of None \<Rightarrow> False | Some owner \<Rightarrow> revealed c l owner))
            (conversations d))"

definition known_to :: "uuid option \<Rightarrow> database \<Rightarrow> database" where
  "known_to viewer d =
     d\<lparr>listings := map (\<lambda>l. if sees d viewer l then l else without_place l) (listings d)\<rparr>"

definition blind :: "database \<Rightarrow> database" where
  "blind d = d\<lparr>listings := map without_place (listings d)\<rparr>"

lemma without_place_simps [simp]:
  "l_id (without_place l) = l_id l" "l_owner_id (without_place l) = l_owner_id l"
  "l_status (without_place l) = l_status l" "l_removed_at (without_place l) = l_removed_at l"
  "l_title (without_place l) = l_title l" "l_body (without_place l) = l_body l"
  "l_neighbourhood (without_place l) = l_neighbourhood l" "l_cross_streets (without_place l) = l_cross_streets l"
  "l_price_cents (without_place l) = l_price_cents l" "l_distance_m (without_place l) = l_distance_m l"
  "l_bedrooms_total (without_place l) = l_bedrooms_total l" "l_furnished (without_place l) = l_furnished l"
  "l_parking (without_place l) = l_parking l" "l_pets (without_place l) = l_pets l"
  "l_laundry (without_place l) = l_laundry l" "l_utilities (without_place l) = l_utilities l"
  "l_start_date (without_place l) = l_start_date l" "l_end_date (without_place l) = l_end_date l"
  "l_shorter_stays (without_place l) = l_shorter_stays l" "l_min_stay_months (without_place l) = l_min_stay_months l"
  "l_bills_estimate_cents (without_place l) = l_bills_estimate_cents l"
  "l_created_at (without_place l) = l_created_at l"
  "without_place (without_place l) = without_place l"
  by (simp_all add: without_place_def)

lemma blind_simps [simp]:
  "users (blind d) = users d" "photos (blind d) = photos d" "requests (blind d) = requests d"
  "offers (blind d) = offers d" "conversations (blind d) = conversations d" "messages (blind d) = messages d"
  "listings (blind d) = map without_place (listings d)"
  by (simp_all add: blind_def)

lemma known_to_simps [simp]:
  "users (known_to v d) = users d" "photos (known_to v d) = photos d" "requests (known_to v d) = requests d"
  "offers (known_to v d) = offers d" "conversations (known_to v d) = conversations d"
  "messages (known_to v d) = messages d"
  "listings (known_to v d) = map (\<lambda>l. if sees d v l then l else without_place l) (listings d)"
  by (simp_all add: known_to_def)

lemma blind_known [simp]: "blind (known_to v d) = blind d"
  by (simp add: blind_def known_to_def comp_def)

lemma known_blind: "known_to v d = known_to v d' \<Longrightarrow> blind d = blind d'"
  by (metis blind_known)

section \<open>Two runs side by side\<close>

definition agree :: "uuid option \<Rightarrow> world \<Rightarrow> world \<Rightarrow> bool" where
  "agree v w w' \<longleftrightarrow> (\<exists>D. w' = w\<lparr>db := D\<rparr> \<and> known_to v (db w) = known_to v D) \<and>
     (\<forall>g d d'. Meanwhile g \<in> set (events w) \<longrightarrow> known_to v d = known_to v d' \<longrightarrow>
        known_to v (g d) = known_to v (g d'))"

definition alike :: "uuid option \<Rightarrow> ('a \<Rightarrow> 'b \<Rightarrow> bool) \<Rightarrow> 'a go \<Rightarrow> 'b go \<Rightarrow> bool" where
  "alike v R m m' \<longleftrightarrow> (\<forall>w w'. agree v w w' \<longrightarrow>
     R (fst (run_state m w)) (fst (run_state m' w')) \<and> agree v (snd (run_state m w)) (snd (run_state m' w')))"

lemma alikeD: "alike v R m m' \<Longrightarrow> agree v w w' \<Longrightarrow> R (fst (run_state m w)) (fst (run_state m' w'))"
  by (simp add: alike_def)

lemma alike_bind:
  assumes "alike v R m m'" and "\<And>a a'. R a a' \<Longrightarrow> alike v S (k a) (k' a')"
  shows "alike v S (State_Monad.bind m k) (State_Monad.bind m' k')"
  using assms by (simp add: alike_def split: prod.split) (metis fst_conv snd_conv)

lemma alike_return: "R a a' \<Longrightarrow> alike v R (State_Monad.return a) (State_Monad.return a')"
  by (simp add: alike_def)

lemma alike_if:
  "b = b' \<Longrightarrow> alike v R m m' \<Longrightarrow> alike v R n n' \<Longrightarrow> alike v R (if b then m else n) (if b' then m' else n')"
  by simp

lemma alike_sum:
  assumes "rel_sum (=) R x x'" and "\<And>e. alike v S (f e) (f' e)"
    and "\<And>a a'. R a a' \<Longrightarrow> alike v S (g a) (g' a')"
  shows "alike v S (case x of Inl e \<Rightarrow> f e | Inr a \<Rightarrow> g a) (case x' of Inl e \<Rightarrow> f' e | Inr a \<Rightarrow> g' a)"
  using assms by (cases x; cases x') auto

lemma agreeI:
  assumes "w' = w\<lparr>db := D\<rparr>" and "known_to v (db w) = known_to v D"
    and "\<And>g d d'. Meanwhile g \<in> set (events w) \<Longrightarrow> known_to v d = known_to v d' \<Longrightarrow> known_to v (g d) = known_to v (g d')"
  shows "agree v w w'"
  unfolding agree_def
proof (intro conjI allI impI)
  show "\<exists>D. w' = w\<lparr>db := D\<rparr> \<and> known_to v (db w) = known_to v D"
    by (intro exI [of _ D] conjI) (rule assms)+
qed (rule assms(3))

lemma agreeE:
  assumes "agree v w w'"
  obtains D where "w' = w\<lparr>db := D\<rparr>" and "known_to v (db w) = known_to v D"
    and "\<And>g d d'. Meanwhile g \<in> set (events w) \<Longrightarrow> known_to v d = known_to v d' \<Longrightarrow> known_to v (g d) = known_to v (g d')"
  using assms unfolding agree_def by blast

lemma agree_later:
  assumes "agree v w w'" and "events w = e # es"
  shows "agree v (w\<lparr>events := es\<rparr>) (w'\<lparr>events := es\<rparr>)"
  using assms(1)
proof (rule agreeE)
  fix D assume D: "w' = w\<lparr>db := D\<rparr>" "known_to v (db w) = known_to v D"
    and rely: "\<And>g d d'. Meanwhile g \<in> set (events w) \<Longrightarrow> known_to v d = known_to v d' \<Longrightarrow>
      known_to v (g d) = known_to v (g d')"
  show ?thesis
  proof (rule agreeI)
    show "w'\<lparr>events := es\<rparr> = w\<lparr>events := es\<rparr>\<lparr>db := D\<rparr>" by (cases w) (simp add: D(1))
    show "known_to v (db (w\<lparr>events := es\<rparr>)) = known_to v D" by (simp add: D(2))
  qed (rule rely, simp_all add: assms(2))
qed

lemma agree_meanwhile:
  assumes "agree v w w'" and "events w = Meanwhile g # es"
  shows "agree v (w\<lparr>events := es, db := g (db w), committed := map_option g (committed w)\<rparr>)
    (w'\<lparr>events := es, db := g (db w'), committed := map_option g (committed w')\<rparr>)"
  using assms(1)
proof (rule agreeE)
  fix D assume D: "w' = w\<lparr>db := D\<rparr>" "known_to v (db w) = known_to v D"
    and rely: "\<And>g d d'. Meanwhile g \<in> set (events w) \<Longrightarrow> known_to v d = known_to v d' \<Longrightarrow>
      known_to v (g d) = known_to v (g d')"
  show ?thesis
  proof (rule agreeI)
    show "w'\<lparr>events := es, db := g (db w'), committed := map_option g (committed w')\<rparr> =
      w\<lparr>events := es, db := g (db w), committed := map_option g (committed w)\<rparr>\<lparr>db := g D\<rparr>"
      by (cases w) (simp add: D(1))
    show "known_to v (db (w\<lparr>events := es, db := g (db w), committed := map_option g (committed w)\<rparr>)) =
      known_to v (g D)"
      using rely [OF _ D(2)] assms(2) by simp
  qed (rule rely, simp_all add: assms(2))
qed

lemma agree_stmt:
  assumes "\<And>w w'. agree v w w' \<Longrightarrow> rel_sum (=) R (fst (f w)) (fst (f w')) \<and> snd (f w) = w \<and> snd (f w') = w'"
  shows "alike v (rel_sum (=) R) (stmt f) (stmt f)"
  unfolding alike_def
proof (intro allI impI)
  fix w w' assume a: "agree v w w'"
  then obtain D where w': "w' = w\<lparr>db := D\<rparr>" by (rule agreeE)
  show "rel_sum (=) R (fst (run_state (stmt f) w)) (fst (run_state (stmt f) w')) \<and>
    agree v (snd (run_state (stmt f) w)) (snd (run_state (stmt f) w'))"
  proof (cases "events w")
    case Nil
    with assms [OF a] a w' show ?thesis by (simp add: stmt_def)
  next
    case (Cons e es)
    have rest: "agree v (w\<lparr>events := es\<rparr>) (w'\<lparr>events := es\<rparr>)"
      using a Cons by (rule agree_later)
    show ?thesis
    proof (cases e)
      case (Meanwhile g)
      have "agree v (w\<lparr>events := es, db := g (db w), committed := map_option g (committed w)\<rparr>)
        (w'\<lparr>events := es, db := g (db w'), committed := map_option g (committed w')\<rparr>)"
        using a Cons unfolding Meanwhile by (rule agree_meanwhile)
      from assms [OF this] this Cons Meanwhile w' show ?thesis by (simp add: stmt_def)
    qed (use Cons rest assms [OF rest] w' in \<open>simp_all add: stmt_def\<close>)
  qed
qed

lemma agree_db: "agree v w w' \<Longrightarrow> known_to v (db w) = known_to v (db w') \<and> clock w' = clock w"
  by (auto simp: agree_def)

lemma alike_query:
  assumes "\<And>t d d'. known_to v d = known_to v d' \<Longrightarrow> R (f t d) (f t d')"
  shows "alike v (rel_sum (=) R) (query f) (query f)"
  unfolding query_def by (rule agree_stmt) (use assms agree_db in fastforce)

lemma alike_query_row:
  assumes "\<And>t d d'. known_to v d = known_to v d' \<Longrightarrow> rel_option R (f t d) (f t d')"
  shows "alike v (rel_sum (=) R) (query_row f) (query_row f)"
  unfolding query_row_def
proof (rule agree_stmt)
  fix w w' assume a: "agree v w w'"
  with assms [of "db w" "db w'" "clock w"] agree_db [OF a]
  show "rel_sum (=) R
      (fst (case f (clock w) (db w) of None \<Rightarrow> Inl ErrNoRows | Some a \<Rightarrow> Inr a, w))
      (fst (case f (clock w') (db w') of None \<Rightarrow> Inl ErrNoRows | Some a \<Rightarrow> Inr a, w')) \<and>
      snd (case f (clock w) (db w) of None \<Rightarrow> Inl ErrNoRows | Some a \<Rightarrow> Inr a, w) = w \<and>
      snd (case f (clock w') (db w') of None \<Rightarrow> Inl ErrNoRows | Some a \<Rightarrow> Inr a, w') = w'"
    by (cases "f (clock w) (db w)"; cases "f (clock w) (db w')") auto
qed

lemma alike_exec:
  assumes "\<And>t d d'. known_to v d = known_to v d' \<Longrightarrow> rel_sum (=) R (f t d) (f t d')"
  shows "alike v (rel_sum (=) R) (exec (\<lambda>t d. (f t d, d))) (exec (\<lambda>t d. (f t d, d)))"
  unfolding exec_def by (rule agree_stmt) (use assms agree_db in fastforce)

section \<open>Public reads\<close>

lemma find_map: "List.find P (map f xs) = map_option f (List.find (\<lambda>x. P (f x)) xs)"
  by (induction xs) auto

lemma insort_map: "insort_key k (g x) (map g xs) = map g (insort_key (\<lambda>x. k (g x)) x xs)"
  by (induction xs) auto

lemma sort_key_map: "sort_key k (map g xs) = map g (sort_key (\<lambda>x. k (g x)) xs)"
  by (induction xs) (simp_all add: insort_map)

lemma insert_desc_map: "insert_desc k (g x) (map g xs) = map g (insert_desc (\<lambda>x. k (g x)) x xs)"
  by (induction xs) auto

lemma sort_desc_map: "sort_desc k (map g xs) = map g (sort_desc (\<lambda>x. k (g x)) xs)"
  by (induction xs) (simp_all add: sort_desc_def insert_desc_map)

lemma filter_through: "filter P (map g xs) = map g (filter (\<lambda>x. P (g x)) xs)"
  by (simp add: filter_map comp_def)

lemma map_filter_through: "(\<And>x. f (g x) = map_option h (f x)) \<Longrightarrow>
    List.map_filter f (map g xs) = map h (List.map_filter f xs)"
  by (induction xs) (simp_all add: map_filter_simps split: option.split)

lemma list_ex_through: "list_ex P (map g xs) = list_ex (\<lambda>x. P (g x)) xs"
  by (induction xs) auto

lemma limit_offset_map: "limit_offset l off (map h xs) = map h (limit_offset l off xs)"
  by (simp add: limit_offset_def take_map drop_map)

definition hide :: "listing_row \<Rightarrow> listing_row" where
  "hide r = r\<lparr>lw_listing := without_place (lw_listing r)\<rparr>"

lemma find_user_blind [simp]: "find_user (blind d) = find_user d"
  by (simp add: find_user_def fun_eq_iff)

lemma find_listing_blind [simp]: "find_listing (blind d) i = map_option without_place (find_listing d i)"
  by (simp add: find_listing_def find_map)

lemma public_blind [simp]:
  "public_listing (blind d) l = public_listing d l" "public_listing d (without_place l) = public_listing d l"
  "public_request (blind d) q = public_request d q" "user_active (blind d) = user_active d"
  "owner_verified (blind d) = owner_verified d" "find_request (blind d) = find_request d"
  "find_conversation (blind d) = find_conversation d"
  by (simp_all add: public_listing_def public_request_def user_active_def owner_verified_def
      find_request_def find_conversation_def fun_eq_iff)

lemma join_owner_blind [simp]: "join_owner (blind d) = join_owner d"
  "join_owner d (without_place l) = map_option hide (join_owner d l)"
  by (simp_all add: join_owner_def fun_eq_iff option.map_comp comp_def hide_def)

lemma live_offer_blind [simp]: "live_offer (blind d) = live_offer d"
  by (auto simp: live_offer_def fun_eq_iff split: option.split)

lemma join_poster_blind [simp]: "join_poster (blind d) = join_poster d" "offer_count (blind d) = offer_count d"
  by (simp_all add: join_poster_def offer_count_def fun_eq_iff)

lemma features_blind [simp]:
  "listing_features env f (blind d) l = listing_features env f d l"
  "listing_features env f d (without_place l) = listing_features env f d l"
  "listing_window f (without_place l) = listing_window f l" "affordable f (without_place l) = affordable f l"
  "cost_overflows (without_place l) = cost_overflows l" "all_in (without_place l) = all_in l"
  "takes_window a b (without_place l) = takes_window a b l"
  by (simp_all add: listing_features_def listing_text_def listing_window_def affordable_def all_in_def
      cost_overflows_def takes_window_def)

lemma browse_blind:
  "browse_listings env f (blind d) = map_sum id (map without_place) (browse_listings env f d)"
  by (simp add: browse_listings_def Let_def filter_through list_ex_through)

lemma nulls_last_map: "(\<And>x. k (g x) = k x) \<Longrightarrow> nulls_last k (map g xs) = map g (nulls_last k xs)"
  by (simp add: nulls_last_def filter_through sort_key_map)

lemma order_blind:
  "order_listings f (map without_place ls) = map_sum id (map without_place) (order_listings f ls)"
  by (simp add: order_listings_def Let_def sort_desc_map sort_key_map nulls_last_map filter_through list_ex_through
      split: option.split)

lemma map_sum_Inl_iff: "map_sum id h x = map_sum id h x' \<longleftrightarrow> rel_sum (=) (\<lambda>a a'. h a = h a') x x'"
  by (cases x; cases x') auto

text \<open>The results of a query that depend on the places only where the rows keep them.\<close>

lemma alike_blind:
  assumes "\<And>t d. f t (blind d) = map_sum id h (f t d)"
  shows "alike v (rel_sum (=) (\<lambda>a a'. h a = h a')) (exec (\<lambda>t d. (f t d, d))) (exec (\<lambda>t d. (f t d, d)))"
  by (rule alike_exec) (metis assms known_blind map_sum_Inl_iff)

lemma alike_blind_row:
  assumes "\<And>t d. f t (blind d) = map_option h (f t d)"
  shows "alike v (rel_sum (=) (\<lambda>a a'. h a = h a')) (query_row f) (query_row f)"
proof (rule alike_query_row)
  fix t d d' assume "known_to v d = known_to v d'"
  then have "map_option h (f t d) = map_option h (f t d')" using assms known_blind by metis
  then show "rel_option (\<lambda>a a'. h a = h a') (f t d) (f t d')" by (cases "f t d"; cases "f t d'") auto
qed

lemma alike_blind_query:
  assumes "\<And>t d. f t (blind d) = h (f t d)"
  shows "alike v (rel_sum (=) (\<lambda>a a'. h a = h a')) (query f) (query f)"
  by (rule alike_query) (metis assms known_blind)

lemma alike_same_query:
  assumes "\<And>t d. f t (blind d) = f t d"
  shows "alike v (rel_sum (=) (=)) (query f) (query f)"
  by (rule alike_query) (metis assms known_blind)

lemma alike_listings:
  "alike v (rel_sum (=) (\<lambda>a a'. map hide a = map hide a')) (ListListings_sql env f l off) (ListListings_sql env f l off)"
  unfolding ListListings_sql_def
  by (rule alike_blind)
    (simp add: browse_blind order_blind limit_offset_map map_filter_through split: sum.split)

lemma alike_same_exec:
  assumes "\<And>t d. f t (blind d) = f t d"
  shows "alike v (=) (exec (\<lambda>t d. (f t d, d))) (exec (\<lambda>t d. (f t d, d)))"
proof -
  have "alike v (rel_sum (=) (=)) (exec (\<lambda>t d. (f t d, d))) (exec (\<lambda>t d. (f t d, d)))"
    by (rule alike_exec) (simp only: sum.rel_eq, metis assms known_blind)
  then show ?thesis by (simp only: sum.rel_eq)
qed

lemma alike_same_row:
  assumes "\<And>t d. f t (blind d) = f t d"
  shows "alike v (=) (query_row f) (query_row f)"
proof -
  have "alike v (rel_sum (=) (=)) (query_row f) (query_row f)"
    by (rule alike_query_row) (simp only: option.rel_eq, metis assms known_blind)
  then show ?thesis by (simp only: sum.rel_eq)
qed

lemmas alike_same = alike_same_query [unfolded sum.rel_eq] alike_same_exec alike_same_row

named_theorems alike_intros \<open>queries and handlers whose answers hide the places\<close>

lemma alike_public_queries [alike_intros]:
  "alike v (=) (CountListings env f) (CountListings env f)"
  "alike v (=) (ListingAvailabilityByMonth env y f) (ListingAvailabilityByMonth env y f)"
  "alike v (=) (ListPhotosForListing i) (ListPhotosForListing i)"
  "alike v (=) (ListPhotosForListings ids) (ListPhotosForListings ids)"
  "alike v (=) (GetPublishedRequest i) (GetPublishedRequest i)"
  "alike v (=) (GetRequestForOwner i) (GetRequestForOwner i)"
  "alike v (=) (ListRequestsByPoster i) (ListRequestsByPoster i)"
  "alike v (=) (ListRequests_sql env qf l off) (ListRequests_sql env qf l off)"
  "alike v (=) (CountRequests env qf) (CountRequests env qf)"
  "alike v (=) (GetUserByID i) (GetUserByID i)" "alike v (=) Ping Ping"
proof -
  have availability: "map_sum g h (map_sum id k x) = map_sum g (\<lambda>y. h (k y)) x" for g :: "error \<Rightarrow> error" and h k x
    by (cases x) simp_all
  have matches: "request_match env qf (blind d) = request_match env qf d" for d
    by (simp add: request_match_def fun_eq_iff)
  show "alike v (=) (CountListings env f) (CountListings env f)"
    unfolding CountListings_def by (rule alike_same) (simp add: browse_blind availability)
  show "alike v (=) (ListingAvailabilityByMonth env y f) (ListingAvailabilityByMonth env y f)"
    unfolding ListingAvailabilityByMonth_def
    by (rule alike_same) (simp add: browse_blind count_where_def filter_through split: sum.split)
  show "alike v (=) (ListPhotosForListing i) (ListPhotosForListing i)"
    "alike v (=) (ListPhotosForListings ids) (ListPhotosForListings ids)"
    "alike v (=) (GetPublishedRequest i) (GetPublishedRequest i)"
    "alike v (=) (GetRequestForOwner i) (GetRequestForOwner i)"
    "alike v (=) (ListRequestsByPoster i) (ListRequestsByPoster i)"
    "alike v (=) (GetUserByID i) (GetUserByID i)" "alike v (=) Ping Ping"
    unfolding ListPhotosForListing_def ListPhotosForListings_def GetPublishedRequest_def
      GetRequestForOwner_def ListRequestsByPoster_def GetUserByID_def Ping_def
    by (rule alike_same; simp cong: option.case_cong if_cong)+
  show "alike v (=) (ListRequests_sql env qf l off) (ListRequests_sql env qf l off)"
    unfolding ListRequests_sql_def page_query_def by (rule alike_same) (simp add: matches)
  show "alike v (=) (CountRequests env qf) (CountRequests env qf)"
    unfolding CountRequests_def by (rule alike_same) (simp add: matches)
qed

lemma alike_published:
  "alike v (rel_sum (=) (\<lambda>a a'. hide a = hide a')) (GetPublishedListing i) (GetPublishedListing i)"
  unfolding GetPublishedListing_def by (rule alike_blind_row) (simp split: option.split)

definition hide_offer :: "offer_row \<Rightarrow> offer_row" where
  "hide_offer r = r\<lparr>ow_listing := without_place (ow_listing r)\<rparr>"

lemma alike_offers:
  "alike v (rel_sum (=) (\<lambda>a a'. map hide_offer a = map hide_offer a')) (ListOffersForRequest i) (ListOffersForRequest i)"
proof -
  have row: "offer_row_for (blind d) q x = map_option hide_offer (offer_row_for d q x)" for d q x
    by (simp add: offer_row_for_def hide_offer_def split: option.split)
  have filtered: "List.map_filter (\<lambda>x. map_option h (g x)) xs = map h (List.map_filter g xs)"
    for h :: "offer_row \<Rightarrow> offer_row" and g and xs :: "request_offer list"
    by (induction xs) (simp_all add: map_filter_simps split: option.split)
  have "offer_rows (blind d) i = map hide_offer (offer_rows d i)" for d
    by (simp add: offer_rows_def fun_eq_iff [THEN iffD2, OF allI, OF row] filtered split: option.split)
  then show ?thesis unfolding ListOffersForRequest_def by (rule alike_blind_query)
qed

section \<open>Reads of one viewer\<close>

lemma alike_known_query: "(\<And>t d. f t (known_to v d) = f t d) \<Longrightarrow> alike v (=) (query f) (query f)"
  by (rule alike_query [where R = "(=)", unfolded sum.rel_eq]) metis

lemma alike_known_row: "(\<And>t d. f t (known_to v d) = f t d) \<Longrightarrow> alike v (=) (query_row f) (query_row f)"
  by (rule alike_query_row [where R = "(=)", unfolded sum.rel_eq option.rel_eq]) metis

lemma alike_known_page:
  "(\<And>t d. f t (known_to v d) = f t d) \<Longrightarrow> alike v (=) (page_query l off f) (page_query l off f)"
  unfolding page_query_def by (rule alike_exec [where R = "(=)", unfolded sum.rel_eq]) metis

lemmas alike_known = alike_known_query alike_known_row alike_known_page

lemma find_user_known [simp]: "find_user (known_to v d) = find_user d"
  and find_conversation_known [simp]: "find_conversation (known_to v d) = find_conversation d"
  by (simp_all add: find_user_def find_conversation_def fun_eq_iff)

lemma find_listing_known: "find_listing (known_to v d) i =
    map_option (\<lambda>l. if sees d v l then l else without_place l) (find_listing d i)"
  unfolding find_listing_def known_to_simps find_map by (rule arg_cong [of _ _ "map_option _"]) (rule arg_cong2 [of _ _ _ _ List.find]; auto)

text \<open>A participant of a conversation sees whatever place it reveals.\<close>

lemma conversation_row_known:
  assumes "c \<in> set (conversations d)" and "participant u c"
  shows "conversation_row_for (known_to (Some u) d) u c = conversation_row_for d u c"
proof (cases "find_listing d (c_listing_id c)")
  case (Some l)
  have "sees d (Some u) l" if "find_user d (c_owner_id c) = Some ow" and "revealed c l ow" for ow
    using find_SomeD [OF Some [unfolded find_listing_def]] assms that
    by (auto simp: sees_def list_ex_iff intro!: bexI [of _ c])
  moreover have "last_message (known_to (Some u) d) = last_message d"
    by (simp add: last_message_def newest_first_def fun_eq_iff)
  moreover have "revealed c (without_place l) ow = revealed c l ow" for ow
    by (simp add: revealed_def)
  ultimately show ?thesis
    by (auto simp: conversation_row_for_def find_listing_known Some Let_def split: option.split)
qed (simp add: conversation_row_for_def find_listing_known)

lemma map_filter_cong: "(\<And>x. x \<in> set xs \<Longrightarrow> f x = g x) \<Longrightarrow> List.map_filter f xs = List.map_filter g xs"
  by (induction xs) (simp_all add: map_filter_simps split: option.split)

lemma owned_known: "filter (\<lambda>l. l_owner_id l = u) (map (\<lambda>l. if sees d (Some u) l then l else without_place l) ls) =
    filter (\<lambda>l. l_owner_id l = u) ls"
  by (induction ls) (auto simp: sees_def)

lemma alike_own_queries [alike_intros]:
  "alike (Some u) (=) (GetConversationForParticipant u i) (GetConversationForParticipant u i)"
  "alike (Some u) (=) (ListConversationsForUser u s t l off) (ListConversationsForUser u s t l off)"
  "alike (Some u) (=) (CountConversationsForUser u s t) (CountConversationsForUser u s t)"
  "alike (Some u) (=) (ListMessages_sql i l off) (ListMessages_sql i l off)"
  "alike (Some u) (=) (CountMessages i) (CountMessages i)"
  "alike (Some u) (=) (UnreadCountsForUser u) (UnreadCountsForUser u)"
  "alike (Some u) (=) (ListListingsByOwner u) (ListListingsByOwner u)"
proof -
  have inbox: "inbox_rows u s t (known_to (Some u) d) = inbox_rows u s t d" for d
    by (simp add: inbox_rows_def, rule arg_cong [of _ _ "sort_desc _"], rule arg_cong [of _ _ "sort_desc _"],
        rule map_filter_cong) (auto simp: inbox_match_def conversation_row_known)
  have waiting: "waiting_for (known_to (Some u) d) = waiting_for d" for d
    by (simp add: waiting_for_def fun_eq_iff)
  have one: "(case find_conversation d i of None \<Rightarrow> None
      | Some c \<Rightarrow> if participant u c then conversation_row_for (known_to (Some u) d) u c else None) =
    (case find_conversation d i of None \<Rightarrow> None
      | Some c \<Rightarrow> if participant u c then conversation_row_for d u c else None)" for d
    by (auto simp: find_conversation_def conversation_row_known dest: find_SomeD split: option.split)
  have mine: "join_owner (known_to (Some u) d) = join_owner d" for d
    by (simp add: join_owner_def fun_eq_iff)
  show "alike (Some u) (=) (GetConversationForParticipant u i) (GetConversationForParticipant u i)"
    "alike (Some u) (=) (ListConversationsForUser u s t l off) (ListConversationsForUser u s t l off)"
    "alike (Some u) (=) (CountConversationsForUser u s t) (CountConversationsForUser u s t)"
    "alike (Some u) (=) (ListMessages_sql i l off) (ListMessages_sql i l off)"
    "alike (Some u) (=) (CountMessages i) (CountMessages i)"
    "alike (Some u) (=) (UnreadCountsForUser u) (UnreadCountsForUser u)"
    "alike (Some u) (=) (ListListingsByOwner u) (ListListingsByOwner u)"
    unfolding conversation_query_defs ListListingsByOwner_def
    by (rule alike_known; simp add: inbox waiting one mine owned_known newest_first_def fun_eq_iff)+
qed

section \<open>Every read of a member or a visitor\<close>

lemma alike_bind_same [alike_intros]:
  "alike v (=) m m \<Longrightarrow> (\<And>x. alike v S (k x) (k' x)) \<Longrightarrow> alike v S (State_Monad.bind m k) (State_Monad.bind m k')"
  by (rule alike_bind [where R = "(=)"]) auto

lemma alike_return_same [alike_intros]: "alike v (=) (State_Monad.return a) (State_Monad.return a)"
  by (rule alike_return) (rule refl)

lemma alike_branches [alike_intros]:
  "alike v S m m' \<Longrightarrow> alike v S n n' \<Longrightarrow> alike v S (if b then m else n) (if b then m' else n')"
  "(\<And>e. alike v S (f e) (f' e)) \<Longrightarrow> (\<And>a. alike v S (g a) (g' a)) \<Longrightarrow>
    alike v S (case r of Inl e \<Rightarrow> f e | Inr a \<Rightarrow> g a) (case r of Inl e \<Rightarrow> f' e | Inr a \<Rightarrow> g' a)"
  "alike v S m m' \<Longrightarrow> (\<And>a. alike v S (h a) (h' a)) \<Longrightarrow>
    alike v S (case x of None \<Rightarrow> m | Some a \<Rightarrow> h a) (case x of None \<Rightarrow> m' | Some a \<Rightarrow> h' a)"
  "(\<And>y. alike v S (l y) (l' y)) \<Longrightarrow> alike v S (Let z l) (Let z l')"
  "(\<And>y z. alike v S (q y z) (q' y z)) \<Longrightarrow>
    alike v S (case p of (y, z) \<Rightarrow> q y z) (case p of (y, z) \<Rightarrow> q' y z)"
  by (simp_all split: sum.split option.split prod.split)

lemma alike_bind_rows:
  assumes "alike v (rel_sum (=) R) m m" and "\<And>a a'. R a a' \<Longrightarrow> alike v S (g a) (g a')"
    and "\<And>e. alike v S (f e) (f e)"
  shows "alike v S (State_Monad.bind m (\<lambda>r. case r of Inl e \<Rightarrow> f e | Inr a \<Rightarrow> g a))
    (State_Monad.bind m (\<lambda>r. case r of Inl e \<Rightarrow> f e | Inr a \<Rightarrow> g a))"
  by (rule alike_bind [OF assms(1)], erule alike_sum) (rule assms; assumption)+

lemma alike_photos [alike_intros]: "alike v (=) (photosByListing ids) (photosByListing ids)"
  unfolding photosByListing_def by (intro alike_intros)

lemma alike_conversationFor [alike_intros]:
  "alike (Some (p_user_id p)) (=) (conversationFor i p) (conversationFor i p)"
  unfolding conversationFor_def by (intro alike_intros)

lemma hide_views:
  "toListing (lw_listing (hide r)) (listing_owner (hide r)) ps False = toListing (lw_listing r) (listing_owner r) ps False"
  "l_id (lw_listing (hide r)) = l_id (lw_listing r)"
  "toRequestOffer (hide_offer x) = toRequestOffer x" "o_owner_id (ow_offer (hide_offer x)) = o_owner_id (ow_offer x)"
  by (simp_all add: hide_def listing_owner_def toListing_hides_place hide_offer_def toRequestOffer_def)

lemma map_through: "map h xs = map h ys \<Longrightarrow> (\<And>x. F (h x) = F x) \<Longrightarrow> (\<And>x. P (h x) = P x) \<Longrightarrow>
    map F (filter P xs) = map F (filter P ys)"
proof -
  assume h: "map h xs = map h ys" "\<And>x. F (h x) = F x" "\<And>x. P (h x) = P x"
  have "map F (filter P (map h zs)) = map F (filter P zs)" for zs
    by (simp add: filter_through h(2,3) comp_def)
  then show ?thesis using h(1) by metis
qed

lemma hidden_rows:
  assumes "map hide a = map hide a'"
  shows "map (\<lambda>r. l_id (lw_listing r)) a = map (\<lambda>r. l_id (lw_listing r)) a'"
    and "map (\<lambda>r. toListing (lw_listing r) (listing_owner r) (ps (l_id (lw_listing r))) False) a =
      map (\<lambda>r. toListing (lw_listing r) (listing_owner r) (ps (l_id (lw_listing r))) False) a'"
  using map_through [OF assms, of "\<lambda>r. l_id (lw_listing r)" "\<lambda>_. True"]
    map_through [OF assms, of "\<lambda>r. toListing (lw_listing r) (listing_owner r) (ps (l_id (lw_listing r))) False"
      "\<lambda>_. True"]
  by (simp_all add: hide_views)

lemma hidden_row:
  assumes "hide r = hide r'"
  shows "l_id (lw_listing r) = l_id (lw_listing r')"
    and "toListing (lw_listing r) (listing_owner r) ps False = toListing (lw_listing r') (listing_owner r') ps False"
  using hide_views(1,2) assms by metis+

lemma alike_browse [alike_intros]:
  "alike v (=) (ListListings env p) (ListListings env p)" "alike v (=) (GetListing i) (GetListing i)"
  subgoal
    unfolding ListListings_def
    apply (rule alike_bind_rows [OF alike_listings] alike_intros)+
    subgoal premises p by (simp only: hidden_rows [OF p], intro alike_intros)
    apply (rule alike_intros)+
    done
  subgoal
    unfolding GetListing_def
    apply (rule alike_bind_rows [OF alike_published] alike_intros)+
    subgoal premises p by (simp only: hidden_row [OF p], intro alike_intros)
    apply (rule alike_intros)+
    done
  done

lemma alike_readers [alike_intros]:
  "alike v (=) (GetListingAvailability env y p) (GetListingAvailability env y p)"
  "alike v (=) (GetRequest i) (GetRequest i)" "alike v (=) (ListRequests env rp) (ListRequests env rp)"
  "alike v (=) (GetHealth version) (GetHealth version)" "alike v (=) (GetMe ctx) (GetMe ctx)"
  "alike v (=) (ListMyRequests ctx) (ListMyRequests ctx)"
  unfolding GetListingAvailability_def GetRequest_def ListRequests_def GetHealth_def GetMe_def ListMyRequests_def
  by (intro alike_intros)+

lemma alike_ListOffers [alike_intros]: "alike v (=) (ListOffers ctx i) (ListOffers ctx i)"
proof -
  have views: "map toRequestOffer (filter (\<lambda>r. b \<or> o_owner_id (ow_offer r) = u) a) =
      map toRequestOffer (filter (\<lambda>r. b \<or> o_owner_id (ow_offer r) = u) a')"
    if "map hide_offer a = map hide_offer a'" for a a' b u
    by (rule map_through [OF that]) (simp_all add: hide_views)
  show ?thesis
    unfolding ListOffers_def Let_def
    apply (rule alike_bind_rows [OF alike_offers] alike_intros)+
    defer
    apply (rule alike_intros)+
    subgoal premises p by (rule alike_return) (simp only: views [OF p])
    done
qed

lemma alike_own_reads:
  assumes "v = map_option p_user_id (ctx_principal ctx)"
  shows "alike v (=) (ListMyListings ctx) (ListMyListings ctx)"
    "alike v (=) (ListMyConversations ctx pg n s side) (ListMyConversations ctx pg n s side)"
    "alike v (=) (GetUnreadCounts ctx) (GetUnreadCounts ctx)"
    "alike v (=) (GetConversation ctx i) (GetConversation ctx i)"
    "alike v (=) (ListMessages ctx i pg n) (ListMessages ctx i pg n)"
  unfolding ListMyListings_def ListMyConversations_def GetUnreadCounts_def GetConversation_def ListMessages_def assms
  by (cases "ctx_principal ctx"; simp only: option.case option.map; intro alike_intros)+

lemma alike_give: "alike v (=) h h \<Longrightarrow> alike v (=) (give f h) (give f h)"
  unfolding give_def by (intro alike_intros)

text \<open>The reads open to members and visitors.\<close>

fun reading :: "request \<Rightarrow> bool" where
  "reading (R_GetHealth _) = True"
| "reading R_GetMe = True"
| "reading (R_ListListings _) = True"
| "reading (R_GetListing _) = True"
| "reading (R_GetListingAvailability _ _) = True"
| "reading R_ListMyListings = True"
| "reading (R_ListRequests _) = True"
| "reading (R_GetRequest _) = True"
| "reading R_ListMyRequests = True"
| "reading (R_ListOffers _) = True"
| "reading (R_ListMyConversations _ _ _ _) = True"
| "reading R_GetUnreadCounts = True"
| "reading (R_GetConversation _) = True"
| "reading (R_ListMessages _ _ _) = True"
| "reading _ = False"

text \<open>C4: No read tells a viewer the exact place of a listing that is not the viewer's own and that no
  conversation of the viewer reveals: two worlds that differ only in such places, while faults and the
  other requests' commits strike both alike, give the same answer to every read outside the admin
  pages.\<close>

theorem reads_hide_the_place:
  assumes "reading r" and "agree (map_option p_user_id (ctx_principal ctx)) w w'"
  shows "fst (run_state (dispatch env ctx r) w) = fst (run_state (dispatch env ctx r) w')"
proof -
  have "alike (map_option p_user_id (ctx_principal ctx)) (=) (dispatch env ctx r) (dispatch env ctx r)"
    using assms(1)
    by (cases r) (simp_all only: reading.simps dispatch.simps alike_give alike_own_reads [OF refl]
        alike_readers alike_browse alike_ListOffers)
  from alikeD [OF this assms(2)] show ?thesis .
qed

theorem reads_hide_the_place_witness:
  "let w' = sample_world\<lparr>db := sample_db\<lparr>listings := [sample_listing\<lparr>l_address_line := ''9 Elm St''\<rparr>]\<rparr>\<rparr>
   in fst (run_state (dispatch sample_env student_ctx (R_GetConversation 30)) sample_world) =
      fst (run_state (dispatch sample_env student_ctx (R_GetConversation 30)) w')"
proof -
  let ?d = "sample_db\<lparr>listings := [sample_listing\<lparr>l_address_line := ''9 Elm St''\<rparr>]\<rparr>"
  have "known_to (Some 2) sample_db = known_to (Some 2) ?d"
    by (simp add: known_to_def sees_def sample_db_def sample_listing_def sample_conversation_def without_place_def
        find_user_def sample_user_def revealed_def)
  then have "agree (map_option p_user_id (ctx_principal student_ctx)) sample_world (sample_world\<lparr>db := ?d\<rparr>)"
    by (intro agreeI) (simp_all add: sample_world_def student_ctx_def)
  from reads_hide_the_place [OF _ this, of "R_GetConversation 30" sample_env] show ?thesis by (simp add: Let_def)
qed

end
