(* ===== verification/Config.thy ===== *)
theory Config
  imports GoText
begin

text \<open>
  \<open>internal/config/config.go\<close>: the configuration of one process, read from the environment and
  validated together. \<open>getenv\<close> is \<open>os.Getenv\<close> after godotenv has loaded its file; the parser of mail
  addresses (\<open>net/mail\<close>) is a parameter. A problem is a constructor with the value its message quotes.
  \<open>newMailer\<close> of \<open>cmd/api/main.go\<close>, which chooses how mail leaves the process, is here too.
\<close>

section \<open>The configuration\<close>

datatype Environment = Development | Production

text \<open>\<open>slog.Level\<close>: the four levels a setting can name, in the order of their numbers.\<close>

datatype slog_level = LevelDebug | LevelInfo | LevelWarn | LevelError

fun level_number :: "slog_level \<Rightarrow> int" where
  "level_number LevelDebug = - 4"
| "level_number LevelInfo = 0"
| "level_number LevelWarn = 4"
| "level_number LevelError = 8"

instantiation slog_level :: linorder
begin

definition less_eq_slog_level :: "slog_level \<Rightarrow> slog_level \<Rightarrow> bool" where
  "less_eq_slog_level l m \<longleftrightarrow> level_number l \<le> level_number m"

definition less_slog_level :: "slog_level \<Rightarrow> slog_level \<Rightarrow> bool" where
  "less_slog_level l m \<longleftrightarrow> level_number l < level_number m"

instance
proof
  fix l m :: slog_level
  assume "l \<le> m" "m \<le> l"
  then show "l = m" by (cases l; cases m) (simp_all add: less_eq_slog_level_def)
qed (auto simp: less_eq_slog_level_def less_slog_level_def)

end

record Config =
  DatabaseURL :: string
  Port :: int
  CORSOrigin :: string
  LogLevel :: slog_level
  Environment :: Environment
  JWTSecret :: string
  AppURL :: string
  ResendAPIKey :: string
  EmailFrom :: "string \<times> string"

datatype problem =
    PG_DSN_not_set
  | PORT_not_valid string
  | LOG_LEVEL_unknown string
  | ENVIRONMENT_unknown string
  | JWT_SECRET_not_set
  | JWT_SECRET_too_short int
  | RESEND_API_KEY_not_a_key
  | EMAIL_FROM_not_a_mailbox string

definition minJWTSecretBytes :: nat where "minJWTSecretBytes = 32"

definition DefaultEmailFrom :: string where
  "DefaultEmailFrom = ''WaterlooStar <no-reply@waterloostar.com>''"

definition IsDevelopment :: "Config \<Rightarrow> bool" where
  "IsDevelopment c = (Environment c = Development)"

definition Addr :: "Config \<Rightarrow> string" where
  "Addr c = '':'' @ itoa (Port c)"

section \<open>What the standard library reads\<close>

fun digits_value :: "int \<Rightarrow> string \<Rightarrow> int option" where
  "digits_value n [] = Some n"
| "digits_value n (c # s) =
     (if between 48 57 (byte c) then digits_value (n * 10 + int (byte c) - 48) s else None)"

text \<open>\<open>strconv.Atoi\<close>: an optional sign, digits, and a value that fits 64 bits.\<close>

definition Atoi :: "string \<Rightarrow> int option" where
  "Atoi s =
     (let negative = (take 1 s = ''-'');
          ds = (if negative \<or> take 1 s = ''+'' then drop 1 s else s)
      in if ds = [] then None
         else case digits_value 0 ds of
           None \<Rightarrow> None
         | Some n \<Rightarrow>
             (let v = (if negative then - n else n)
              in if - 9223372036854775808 \<le> v \<and> v \<le> 9223372036854775807 then Some v else None))"

text \<open>\<open>strings.TrimRight\<close> with a cutset of one character.\<close>

definition trim_right :: "string \<Rightarrow> char \<Rightarrow> string" where
  "trim_right s c = rev (dropWhile (\<lambda>x. x = c) (rev s))"

lemma trim_right_end: "trim_right s c = [] \<or> last (trim_right s c) \<noteq> c"
proof (cases "dropWhile (\<lambda>x. x = c) (rev s)")
  case (Cons x xs)
  then have "x \<noteq> c" by (metis (mono_tags) dropWhile_eq_Cons_conv)
  with Cons show ?thesis by (simp add: trim_right_def)
qed (simp add: trim_right_def)

section \<open>Loading\<close>

definition parseLevel :: "string \<Rightarrow> slog_level option" where
  "parseLevel raw =
     (let l = to_lower raw
      in if l = ''debug'' then Some LevelDebug
         else if l = ''info'' then Some LevelInfo
         else if l = ''warn'' \<or> l = ''warning'' then Some LevelWarn
         else if l = ''error'' then Some LevelError
         else None)"

definition parseEnvironment :: "string \<Rightarrow> Environment option" where
  "parseEnvironment raw =
     (let l = to_lower raw
      in if l = ''development'' then Some Development
         else if l = ''production'' then Some Production
         else None)"

definition parsePort :: "string \<Rightarrow> int option" where
  "parsePort raw =
     (case Atoi raw of None \<Rightarrow> None | Some port \<Rightarrow> if port < 1 \<or> 65535 < port then None else Some port)"

text \<open>A setting with a default: what is set has to be readable, or is a problem and the default stays.\<close>

definition setting :: "string \<Rightarrow> 'a \<Rightarrow> (string \<Rightarrow> 'a option) \<Rightarrow> (string \<Rightarrow> problem) \<Rightarrow> 'a \<times> problem list" where
  "setting raw dflt parse bad =
     (if raw = [] then (dflt, [])
      else case parse raw of None \<Rightarrow> (dflt, [bad raw]) | Some v \<Rightarrow> (v, []))"

definition Load :: "(string \<Rightarrow> string) \<Rightarrow> (string \<Rightarrow> (string \<times> string) option) \<Rightarrow> problem list + Config" where
  "Load getenv ParseAddress =
     (let env = (\<lambda>k. trim_space (getenv k));
          dsn = env ''PG_DSN'';
          p_dsn = (if dsn = [] then [PG_DSN_not_set] else []);
          (port, p_port) = setting (env ''PORT'') 8080 parsePort PORT_not_valid;
          origin = env ''CORS_ORIGIN'';
          origin = (if origin = [] then ''http://localhost:3000'' else origin);
          (level, p_level) = setting (env ''LOG_LEVEL'') LevelInfo parseLevel LOG_LEVEL_unknown;
          (environment, p_env) = setting (env ''ENVIRONMENT'') Development parseEnvironment ENVIRONMENT_unknown;
          secret = env ''JWT_SECRET'';
          p_secret = (if secret = [] then [JWT_SECRET_not_set]
            else if length secret < minJWTSecretBytes then [JWT_SECRET_too_short (int (length secret))]
            else []);
          app = env ''APP_URL'';
          app = (if app = [] then origin else app);
          app = trim_right app (CHR ''/'');
          key = env ''RESEND_API_KEY'';
          p_key = (if key \<noteq> [] \<and> take 3 key \<noteq> ''re_'' then [RESEND_API_KEY_not_a_key] else []);
          from_addr = env ''EMAIL_FROM'';
          from_addr = (if from_addr = [] then DefaultEmailFrom else from_addr);
          (mailbox, p_from) = (case ParseAddress from_addr of
            None \<Rightarrow> (([], []), [EMAIL_FROM_not_a_mailbox from_addr])
          | Some a \<Rightarrow> (a, []));
          problems = p_dsn @ p_port @ p_level @ p_env @ p_secret @ p_key @ p_from
      in if problems \<noteq> [] then Inl problems
         else Inr \<lparr>DatabaseURL = dsn, Port = port, CORSOrigin = origin, LogLevel = level,
           Environment = environment, JWTSecret = secret, AppURL = app, ResendAPIKey = key,
           EmailFrom = mailbox\<rparr>)"

section \<open>How mail leaves\<close>

datatype sender = LogSender | ResendSender string "string \<times> string"

definition newMailer :: "Config \<Rightarrow> sender" where
  "newMailer c = (if ResendAPIKey c = [] then LogSender else ResendSender (ResendAPIKey c) (EmailFrom c))"

text \<open>The handler of the log writes a line at its level and above.\<close>

definition logged_at :: "Config \<Rightarrow> slog_level \<Rightarrow> bool" where
  "logged_at c l \<longleftrightarrow> LogLevel c \<le> l"

lemma logged_at_more: "logged_at c l \<Longrightarrow> l \<le> m \<Longrightarrow> logged_at c m"
  unfolding logged_at_def by (rule order_trans)

section \<open>Numbers as text\<close>

text \<open>What \<open>itoa\<close> prints \<open>Atoi\<close> reads.\<close>

lemma digits_value_append:
  "digits_value n (s @ [c]) =
     (case digits_value n s of
        None \<Rightarrow> None
      | Some m \<Rightarrow> if between 48 57 (byte c) then Some (m * 10 + int (byte c) - 48) else None)"
  by (induction s arbitrary: n) simp_all

lemma digits_value_digits: "digits_value 0 (digits n) = Some (int n)"
proof (induction n rule: digits.induct)
  case (1 n)
  then show ?case
    by (subst digits.simps) (auto simp: digits_value_append between_def of_char_of zdiv_int zmod_int)
qed

lemma digits_value_only: "digits_value n s = Some v \<Longrightarrow> c \<in> set s \<Longrightarrow> between 48 57 (byte c)"
  by (induction s arbitrary: n) (auto split: if_splits)

lemma Atoi_itoa:
  assumes "0 \<le> n" and "n < 2 ^ 63"
  shows "Atoi (itoa n) = Some n"
proof -
  have all: "between 48 57 (byte c)" if "c \<in> set (digits (nat n))" for c
    by (rule digits_value_only [OF digits_value_digits that])
  have "digits (nat n) \<noteq> []" by (subst digits.simps) simp
  then obtain c s where cs: "digits (nat n) = c # s" by (cases "digits (nat n)") auto
  have "between 48 57 (byte c)" by (rule all) (simp add: cs)
  then have sign: "c \<noteq> CHR ''-''" "c \<noteq> CHR ''+''" by (auto simp: between_def)
  have "digits_value 0 (c # s) = Some n" using digits_value_digits [of "nat n"] assms(1) unfolding cs by simp
  then show ?thesis
    using sign assms by (simp add: Atoi_def itoa_def cs Let_def del: digits_value.simps)
qed

lemma parsePort_itoa: "1 \<le> p \<Longrightarrow> p \<le> 65535 \<Longrightarrow> parsePort (itoa p) = Some p"
  by (simp add: parsePort_def Atoi_itoa)

lemma Addr_port [simp]: "drop (Suc 0) (Addr c) = itoa (Port c)"
  by (simp add: Addr_def)

section \<open>What a loaded configuration is\<close>

definition config_ok :: "Config \<Rightarrow> bool" where
  "config_ok c \<longleftrightarrow>
     DatabaseURL c \<noteq> [] \<and> 1 \<le> Port c \<and> Port c \<le> 65535 \<and> CORSOrigin c \<noteq> [] \<and>
     32 \<le> length (JWTSecret c) \<and>
     parsePort (drop 1 (Addr c)) = Some (Port c) \<and> (AppURL c = [] \<or> last (AppURL c) \<noteq> CHR ''/'') \<and>
     (ResendAPIKey c = [] \<or> take 3 (ResendAPIKey c) = ''re_'')"

lemma setting_cases:
  "snd (setting raw d parse bad) = [] \<Longrightarrow> raw = [] \<and> fst (setting raw d parse bad) = d \<or>
     parse raw = Some (fst (setting raw d parse bad))"
  by (auto simp: setting_def split: if_splits option.splits)

lemma snd_setting: "snd (setting raw d parse bad) = (if raw = [] \<or> parse raw \<noteq> None then [] else [bad raw])"
  by (simp add: setting_def split: option.split)

text \<open>When every setting is in order, in the words of the variables themselves.\<close>

definition settings_ok :: "(string \<Rightarrow> string) \<Rightarrow> (string \<Rightarrow> (string \<times> string) option) \<Rightarrow> bool" where
  "settings_ok getenv ParseAddress \<longleftrightarrow>
     (let env = (\<lambda>k. trim_space (getenv k))
      in env ''PG_DSN'' \<noteq> [] \<and> (env ''PORT'' = [] \<or> parsePort (env ''PORT'') \<noteq> None) \<and>
         (env ''LOG_LEVEL'' = [] \<or> parseLevel (env ''LOG_LEVEL'') \<noteq> None) \<and>
         (env ''ENVIRONMENT'' = [] \<or> parseEnvironment (env ''ENVIRONMENT'') \<noteq> None) \<and>
         32 \<le> length (env ''JWT_SECRET'') \<and>
         (env ''RESEND_API_KEY'' = [] \<or> take 3 (env ''RESEND_API_KEY'') = ''re_'') \<and>
         ParseAddress (if env ''EMAIL_FROM'' = [] then DefaultEmailFrom else env ''EMAIL_FROM'') \<noteq> None)"

text \<open>C36: Loading succeeds exactly when every variable is in order, and what it returns is well formed: a
  database, a port between 1 and 65535 that the listen address spells out, a signing secret of at least 32 bytes, an application URL that
  does not end in a slash, an API key that is one or absent.\<close>

theorem loaded_config_well_formed:
  "case Load getenv ParseAddress of
     Inl problems \<Rightarrow> problems \<noteq> [] \<and> \<not> settings_ok getenv ParseAddress
   | Inr c \<Rightarrow> config_ok c \<and> settings_ok getenv ParseAddress"
proof -
  let ?env = "\<lambda>k. trim_space (getenv k)"
  obtain port bad_port where port: "setting (?env ''PORT'') 8080 parsePort PORT_not_valid = (port, bad_port)"
    by (rule prod.exhaust)
  obtain level bad_level where level:
    "setting (?env ''LOG_LEVEL'') LevelInfo parseLevel LOG_LEVEL_unknown = (level, bad_level)"
    by (rule prod.exhaust)
  obtain environment bad_env where env:
    "setting (?env ''ENVIRONMENT'') Development parseEnvironment ENVIRONMENT_unknown = (environment, bad_env)"
    by (rule prod.exhaust)
  have range: "1 \<le> port \<and> port \<le> 65535" if "bad_port = []"
    using setting_cases [of "?env ''PORT''" 8080 parsePort PORT_not_valid] that
    by (auto simp: port parsePort_def split: option.splits if_splits)
  have bad: "bad_port = [] \<longleftrightarrow> ?env ''PORT'' = [] \<or> parsePort (?env ''PORT'') \<noteq> None"
    "bad_level = [] \<longleftrightarrow> ?env ''LOG_LEVEL'' = [] \<or> parseLevel (?env ''LOG_LEVEL'') \<noteq> None"
    "bad_env = [] \<longleftrightarrow> ?env ''ENVIRONMENT'' = [] \<or> parseEnvironment (?env ''ENVIRONMENT'') \<noteq> None"
    using snd_setting [of "?env ''PORT''" 8080 parsePort PORT_not_valid]
      snd_setting [of "?env ''LOG_LEVEL''" LevelInfo parseLevel LOG_LEVEL_unknown]
      snd_setting [of "?env ''ENVIRONMENT''" Development parseEnvironment ENVIRONMENT_unknown]
    by (auto simp: port level env)
  show ?thesis
    unfolding Load_def Let_def port level env prod.case settings_ok_def bad [symmetric]
    using range trim_right_end
    by (cases "ParseAddress (if ?env ''EMAIL_FROM'' = [] then DefaultEmailFrom else ?env ''EMAIL_FROM'')")
      (simp_all add: minJWTSecretBytes_def config_ok_def parsePort_itoa)
qed

end
