(* ===== verification/Resend.thy ===== *)
theory Resend
  imports Email
begin

text \<open>
  \<open>internal/email/resend.go\<close>: the one call to Resend's API, and what its errors may say. The HTTP
  client is outside the repository: \<open>outcome\<close> is what it returned, an answer with its status and,
  when the body is Resend's JSON with a name, its error.
\<close>

section \<open>The request\<close>

record resendEmail =
  re_from :: string
  re_to :: "string list"
  re_subject :: string
  re_text :: string

record resend_request =
  rq_url :: string
  rq_headers :: "(string \<times> string) list"
  rq_body :: resendEmail

definition resend_call :: "string \<Rightarrow> string \<Rightarrow> string \<Rightarrow> mail \<Rightarrow> resend_request" where
  "resend_call apiKey from_addr baseURL msg =
     \<lparr>rq_url = baseURL @ ''/emails'',
      rq_headers = [(''Authorization'', ''Bearer '' @ apiKey), (''Content-Type'', ''application/json''),
        (''User-Agent'', ''WaterlooStar-Backend'')] @
        (if mail_id msg = [] then [] else [(''Idempotency-Key'', mail_id msg)]),
      rq_body = \<lparr>re_from = from_addr, re_to = [mail_to msg], re_subject = mail_subject msg,
        re_text = mail_body msg\<rparr>\<rparr>"

section \<open>Replacing\<close>

text \<open>\<open>strings.ReplaceAll\<close> of a non-empty string.\<close>

function replace_all :: "string \<Rightarrow> string \<Rightarrow> string \<Rightarrow> string" where
  "replace_all old new s =
     (if s = [] \<or> old = [] then s
      else if take (length old) s = old then new @ replace_all old new (drop (length old) s)
      else hd s # replace_all old new (tl s))"
  by pat_completeness auto
termination by (relation "measure (\<lambda>(old, new, s). length s)") auto

declare replace_all.simps [simp del]

lemma replace_all_Nil [simp]: "replace_all old new [] = []"
  by (subst replace_all.simps) simp

text \<open>The longest match of \<open>https?://\S+\<close> at the front: its length.\<close>

definition spaces :: "char list" where
  "spaces = [CHR 0x09, CHR 0x0A, CHR 0x0C, CHR 0x0D, CHR '' '']"

definition url_prefix :: "string \<Rightarrow> nat option" where
  "url_prefix s =
     (if take 7 s = ''http://'' then Some 7 else if take 8 s = ''https://'' then Some 8 else None)"

definition url_match :: "string \<Rightarrow> nat option" where
  "url_match s =
     (case url_prefix s of
        None \<Rightarrow> None
      | Some n \<Rightarrow>
          (let m = length (takeWhile (\<lambda>c. c \<notin> set spaces) (drop n s))
           in if m = 0 then None else Some (n + m)))"

lemma url_match_pos: "url_match s = Some n \<Longrightarrow> 7 < n"
  by (auto simp: url_match_def url_prefix_def Let_def split: if_splits)

text \<open>\<open>urlPattern.ReplaceAllString(s, "[link]")\<close>.\<close>

function replace_urls :: "string \<Rightarrow> string" where
  "replace_urls s =
     (case s of
        [] \<Rightarrow> []
      | c # cs \<Rightarrow>
          (case url_match s of
             Some n \<Rightarrow> ''[link]'' @ replace_urls (drop n s)
           | None \<Rightarrow> c # replace_urls cs))"
  by pat_completeness auto
termination by (relation "measure length") (auto dest: url_match_pos)

declare replace_urls.simps [simp del]

section \<open>Errors\<close>

record resendError =
  rse_name :: string
  rse_message :: string

datatype outcome =
    NoAnswer bool string
  | Answer int "resendError option"

definition redact :: "string list \<Rightarrow> string \<Rightarrow> string" where
  "redact secrets message =
     replace_urls (foldl (\<lambda>m secret. if secret = [] then m else replace_all secret ''[redacted]'' m) message secrets)"

definition describeResendError :: "string \<Rightarrow> mail \<Rightarrow> int \<Rightarrow> resendError option \<Rightarrow> string" where
  "describeResendError apiKey msg status body =
     (let start = ''resend email: status '' @ itoa status
      in case body of
           None \<Rightarrow> start
         | Some b \<Rightarrow>
             if rse_name b = [] then start
             else (let message = redact [apiKey, mail_to msg] (rse_message b)
                   in if message = [] then start @ '': '' @ rse_name b
                      else start @ '': '' @ rse_name b @ '': '' @ message))"

text \<open>\<open>NoAnswer\<close> carries whether the deadline passed and the text of the inner error.\<close>

fun Send :: "string \<Rightarrow> string \<Rightarrow> mail \<Rightarrow> outcome \<Rightarrow> string + unit" where
  "Send apiKey timeout msg (NoAnswer late inner) =
     Inl (if late then ''resend email: no answer within '' @ timeout
          else ''resend email: request failed: '' @ inner)"
| "Send apiKey timeout msg (Answer status body) =
     (if 200 \<le> status \<and> status < 300 then Inr ()
      else Inl (describeResendError apiKey msg status body))"

text \<open>The whole of \<open>(*ResendSender).Send\<close>: what is asked of the client, and what becomes of its outcome.\<close>

definition resend_send ::
  "string \<Rightarrow> string \<Rightarrow> string \<Rightarrow> string \<Rightarrow> (resend_request \<Rightarrow> outcome) \<Rightarrow> mail \<Rightarrow> string + unit" where
  "resend_send apiKey from_addr baseURL timeout transport msg =
     Send apiKey timeout msg (transport (resend_call apiKey from_addr baseURL msg))"

section \<open>What a redaction leaves\<close>

text \<open>A text without one character is a factor of one side of it.\<close>

lemma sublist_around:
  assumes "c \<notin> set t"
  shows "sublist t (xs @ c # ys) \<longleftrightarrow> sublist t xs \<or> sublist t ys"
proof
  assume "sublist t (xs @ c # ys)"
  then obtain a b where ab: "xs @ c # ys = a @ t @ b" by (auto simp: sublist_def)
  show "sublist t xs \<or> sublist t ys"
  proof (cases "length (a @ t) \<le> length xs")
    case True
    have "take (length (a @ t)) (xs @ c # ys) = a @ t" unfolding ab by simp
    with True have "take (length (a @ t)) xs = a @ t" by simp
    then have "sublist t xs" by (metis append.assoc append_take_drop_id sublist_appendI)
    then show ?thesis ..
  next
    case False
    have "\<not> length a \<le> length xs"
    proof
      assume "length a \<le> length xs"
      with False have "c = (a @ t @ b) ! length xs" and "length xs - length a < length t"
        unfolding ab [symmetric] by auto
      moreover have "(a @ t @ b) ! length xs = t ! (length xs - length a)"
        using \<open>length a \<le> length xs\<close> calculation(2) by (simp add: nth_append)
      ultimately show False using assms by (metis nth_mem)
    qed
    then have "drop (Suc (length xs)) a @ t @ b = ys"
      using arg_cong [OF ab, of "drop (Suc (length xs))"] by simp
    then show ?thesis by (metis sublist_appendI)
  qed
next
  show "sublist t xs \<or> sublist t ys \<Longrightarrow> sublist t (xs @ c # ys)"
    by (metis append_Cons append_Nil sublist_append_leftI sublist_append_rightI sublist_order.order.trans)
qed

text \<open>The mark put in the place of what was found: brackets around a word.\<close>

definition unmarked :: "string \<Rightarrow> bool" where
  "unmarked t \<longleftrightarrow> t \<noteq> [] \<and> CHR ''['' \<notin> set t \<and> CHR '']'' \<notin> set t \<and>
     \<not> sublist t ''redacted'' \<and> \<not> sublist t ''link''"

lemma sublist_mark:
  assumes "CHR ''['' \<notin> set t" and "CHR '']'' \<notin> set t"
  shows "sublist t (xs @ CHR ''['' # word @ CHR '']'' # ys) \<longleftrightarrow> sublist t xs \<or> sublist t word \<or> sublist t ys"
  by (simp only: sublist_around [OF assms(1)] sublist_around [OF assms(2)])

lemma replace_all_cases:
  assumes "old \<noteq> []"
  shows "replace_all old new s = s \<and> \<not> sublist old s \<or>
    (\<exists>pre post. s = pre @ old @ post \<and> \<not> sublist old pre \<and>
       replace_all old new s = pre @ new @ replace_all old new post)"
proof (induction s)
  case (Cons c s)
  show ?case
  proof (cases "take (length old) (c # s) = old")
    case True
    then have "c # s = [] @ old @ drop (length old) (c # s)" by (metis append_Nil append_take_drop_id)
    moreover have "replace_all old new (c # s) = [] @ new @ replace_all old new (drop (length old) (c # s))"
      using True assms by (subst replace_all.simps) simp
    ultimately show ?thesis using assms by fastforce
  next
    case False
    then have step: "replace_all old new (c # s) = c # replace_all old new s"
      using assms by (subst replace_all.simps) simp
    have new: "\<not> prefix old (c # s)" using False by (simp add: take_eq_prefix)
    from Cons.IH show ?thesis
    proof
      assume "replace_all old new s = s \<and> \<not> sublist old s"
      with step new show ?thesis by (simp add: sublist_Cons_right)
    next
      assume "\<exists>pre post. s = pre @ old @ post \<and> \<not> sublist old pre \<and>
        replace_all old new s = pre @ new @ replace_all old new post"
      then obtain pre post where p: "s = pre @ old @ post" "\<not> sublist old pre"
        "replace_all old new s = pre @ new @ replace_all old new post" by blast
      have "\<not> prefix old (c # pre)" using new p(1) by (metis append_Cons prefix_prefix)
      with p(2) have "\<not> sublist old (c # pre)" by (simp add: sublist_Cons_right)
      with p step show ?thesis by (metis append_Cons)
    qed
  qed
qed (simp add: assms)

lemma redacted_free:
  assumes "old \<noteq> []" and "unmarked t" and "t = old \<or> \<not> sublist t s"
  shows "\<not> sublist t (replace_all old ''[redacted]'' s)"
  using assms(3)
proof (induction s rule: length_induct)
  case (1 s)
  from replace_all_cases [OF assms(1), of "''[redacted]''" s] show ?case
  proof
    assume "\<exists>pre post. s = pre @ old @ post \<and> \<not> sublist old pre \<and>
      replace_all old ''[redacted]'' s = pre @ ''[redacted]'' @ replace_all old ''[redacted]'' post"
    then obtain pre post where p: "s = pre @ old @ post" "\<not> sublist old pre"
      "replace_all old ''[redacted]'' s = pre @ ''[redacted]'' @ replace_all old ''[redacted]'' post" by blast
    have "t = old \<or> \<not> sublist t post" "\<not> sublist t pre"
      using "1.prems" p(1,2) by (auto simp: sublist_append)
    moreover have "length post < length s" using p(1) assms(1) by simp
    ultimately have "\<not> sublist t (replace_all old ''[redacted]'' post)" using "1.IH" by blast
    with \<open>\<not> sublist t pre\<close> assms(2) show ?thesis
      unfolding p(3) by (simp add: sublist_mark [where word = "''redacted''", simplified] unmarked_def)
  qed (use "1.prems" in auto)
qed

section \<open>Links\<close>

text \<open>Where a link starts in a text.\<close>

definition has_link :: "string \<Rightarrow> bool" where
  "has_link s \<longleftrightarrow> list_ex (\<lambda>u. url_match u \<noteq> None) (suffixes s)"

lemma has_link_iff: "has_link s \<longleftrightarrow> (\<exists>u. suffix u s \<and> url_match u \<noteq> None)"
  by (auto simp: has_link_def list_ex_iff in_set_suffixes)

lemma has_link_Cons: "has_link (c # s) \<longleftrightarrow> url_match (c # s) \<noteq> None \<or> has_link s"
  by (auto simp: has_link_iff suffix_Cons)

lemma replace_urls_Cons: "replace_urls (c # s) =
    (case url_match (c # s) of Some n \<Rightarrow> ''[link]'' @ replace_urls (drop n (c # s)) | None \<Rightarrow> c # replace_urls s)"
  by (subst replace_urls.simps) simp

lemma replace_urls_Nil [simp]: "replace_urls [] = []"
  by (subst replace_urls.simps) simp

lemma url_match_iff:
  "url_match s \<noteq> None \<longleftrightarrow> (\<exists>n. url_prefix s = Some n \<and> n < length s \<and> s ! n \<notin> set spaces)"
proof (cases "url_prefix s")
  case (Some n)
  have "takeWhile P (drop n s) = [] \<longleftrightarrow> \<not> n < length s \<or> \<not> P (s ! n)" for P
    by (cases "n < length s") (simp_all add: Cons_nth_drop_Suc [symmetric])
  with Some show ?thesis by (simp add: url_match_def Let_def)
qed (simp add: url_match_def)

lemma take_marked:
  assumes "take k (y @ c # v) = lit" and "c \<notin> set lit" and "k = length lit"
  shows "k \<le> length y \<and> take k (y @ w) = lit"
proof -
  have "k \<le> length y"
  proof (rule ccontr)
    assume "\<not> k \<le> length y"
    then have "lit ! length y = c" using assms(1) by (metis not_le nth_append_length nth_take)
    with assms \<open>\<not> k \<le> length y\<close> show False by (metis not_le nth_mem)
  qed
  with assms(1) show ?thesis by simp
qed

lemma url_prefix_marked:
  assumes "url_prefix (y @ c # v) = Some n" and "c \<notin> set ''https:/''"
  shows "n \<le> length y \<and> url_prefix (y @ w) = Some n"
proof (cases "take 7 (y @ c # v) = ''http://''")
  case True
  then have "n = 7" using assms(1) by (simp add: url_prefix_def)
  with take_marked [OF True, of w] assms(2) show ?thesis by (simp add: url_prefix_def del: take_append)
next
  case False
  with assms(1) have h: "take 8 (y @ c # v) = ''https://''" "n = 8" by (auto simp: url_prefix_def split: if_splits)
  from take_marked [OF h(1), of w] assms(2) have t: "8 \<le> length y" "take 8 (y @ w) = ''https://''" by auto
  have "take 7 (take 8 (y @ w)) = ''https:/''" unfolding t(2) by simp
  then have "take 7 (y @ w) = ''https:/''" by (simp del: take_append)
  with t h(2) show ?thesis by (simp add: url_prefix_def)
qed

text \<open>The mark does not complete a link begun before it that what it stands for did not.\<close>

lemma no_new_link:
  assumes "url_match (y @ CHR ''h'' # u) = None"
  shows "url_match (y @ CHR ''['' # v) = None"
proof (rule ccontr)
  assume "url_match (y @ CHR ''['' # v) \<noteq> None"
  then obtain n where n: "url_prefix (y @ CHR ''['' # v) = Some n" "(y @ CHR ''['' # v) ! n \<notin> set spaces"
    by (auto simp only: url_match_iff)
  from url_prefix_marked [OF n(1), of "CHR ''h'' # u"]
  have m: "n \<le> length y" "url_prefix (y @ CHR ''h'' # u) = Some n" by auto
  have "(y @ CHR ''h'' # u) ! n \<notin> set spaces"
    using n(2) m(1) by (cases "n = length y") (auto simp: nth_append spaces_def)
  with m have "url_match (y @ CHR ''h'' # u) \<noteq> None" unfolding url_match_iff by auto
  with assms show False by simp
qed

lemma url_match_h: "url_match (c # s) \<noteq> None \<Longrightarrow> c = CHR ''h''"
  using url_match_iff [of "c # s"] by (auto simp: url_prefix_def split: if_splits)

lemma replaced_still_none: "url_match (y @ t) = None \<Longrightarrow> url_match (y @ replace_urls t) = None"
proof (induction t arbitrary: y)
  case (Cons c t)
  show ?case
  proof (cases "url_match (c # t)")
    case None
    with Cons.IH [of "y @ [c]"] Cons.prems show ?thesis by (simp add: replace_urls_Cons)
  next
    case (Some n)
    with url_match_h [of c t] Cons.prems no_new_link [of y t] show ?thesis by (simp add: replace_urls_Cons)
  qed
qed simp

lemma replaced_has_no_link: "\<not> has_link (replace_urls s)"
proof (induction s rule: length_induct)
  case (1 s)
  show ?case
  proof (cases s)
    case (Cons c t)
    show ?thesis
    proof (cases "url_match s")
      case None
      with replaced_still_none [of "[c]" t] Cons have "url_match (c # replace_urls t) = None" by simp
      with 1 None Cons show ?thesis by (simp add: replace_urls_Cons has_link_Cons)
    next
      case (Some n)
      have plain: "url_match (x # u) = None" if "x \<noteq> CHR ''h''" for x u
        using url_match_h [of x u] that by blast
      from url_match_pos [OF Some] 1 Cons have "\<not> has_link (replace_urls (drop n s))" by simp
      with Some Cons plain show ?thesis by (simp add: replace_urls_Cons has_link_Cons)
    qed
  qed (simp add: has_link_def url_match_def url_prefix_def)
qed

text \<open>Replacing the links leaves a text without brackets out as before.\<close>

lemma unlinked_free:
  assumes "unmarked t" and "\<not> sublist t (x @ s)"
  shows "\<not> sublist t (x @ replace_urls s)"
  using assms(2)
proof (induction s arbitrary: x rule: length_induct)
  case (1 s)
  show ?case
  proof (cases s)
    case (Cons c u)
    show ?thesis
    proof (cases "url_match s")
      case None
      with "1.IH" [rule_format, of u "x @ [c]"] "1.prems" Cons show ?thesis by (simp add: replace_urls_Cons)
    next
      case (Some n)
      have "\<not> sublist t (drop n s)" "\<not> sublist t x"
        using "1.prems" by (metis append_take_drop_id sublist_append_leftI sublist_append_rightI sublist_order.order.trans)+
      moreover have "length (drop n s) < length s" using url_match_pos [OF Some] Cons by simp
      ultimately have "\<not> sublist t ([] @ replace_urls (drop n s))" using "1.IH" by (metis append_Nil)
      with \<open>\<not> sublist t x\<close> assms(1) Some Cons show ?thesis
        using sublist_mark [of t x "''link''" "replace_urls (drop n s)"] by (simp add: replace_urls_Cons unmarked_def)
    qed
  qed (use "1.prems" in simp)
qed

lemma redacted:
  assumes "unmarked apiKey" and "unmarked address"
  shows "\<not> contains (redact [apiKey, address] message) apiKey \<and>
    \<not> contains (redact [apiKey, address] message) address \<and> \<not> has_link (redact [apiKey, address] message)"
proof -
  have nonempty: "apiKey \<noteq> []" "address \<noteq> []" using assms by (simp_all add: unmarked_def)
  let ?m = "replace_all apiKey ''[redacted]'' message"
  have key: "\<not> sublist apiKey ?m" by (rule redacted_free [OF nonempty(1) assms(1)]) simp
  have "\<not> sublist apiKey (replace_all address ''[redacted]'' ?m)"
    by (rule redacted_free [OF nonempty(2) assms(1)]) (simp add: key)
  moreover have "\<not> sublist address (replace_all address ''[redacted]'' ?m)"
    by (rule redacted_free [OF nonempty(2) assms(2)]) simp
  ultimately show ?thesis
    using unlinked_free [where x = "[]"] assms replaced_has_no_link
    by (simp add: redact_def nonempty contains_iff)
qed

fun_cases Send_refusedE: "Send apiKey timeout msg (Answer status body) = Inl e"



end
