(* ===== verification/Cli.thy ===== *)
theory Cli
  imports Admin
begin

text \<open>
  \<open>cmd/admin/main.go\<close>: granting and removing the admin role from the host, the only way the first
  admin comes to be. A subcommand's output is the list of its lines; an error is a constructor with
  what its message names. \<open>main\<close> itself, which loads the configuration and opens the pool, is left out.
\<close>

section \<open>Arguments\<close>

datatype flag_error = BadSyntax string | NotDefined string | NeedsArgument string | HelpRequested

datatype cli_error =
    FlagError flag_error
  | EmailRequired
  | UnexpectedArguments "string list"
  | UnknownCommand string
  | NoAccount string
  | LastAdmin string
  | Failed error

definition defaultReason :: string where
  "defaultReason = ''Changed from the host with cmd/admin''"

text \<open>A flag's name, and its value when it is written after an equals sign.\<close>

definition split_equals :: "string \<Rightarrow> string \<times> string option" where
  "split_equals s =
     (let name = take 1 s @ takeWhile (\<lambda>c. c \<noteq> CHR ''='') (drop 1 s)
      in (name, if length name < length s then Some (drop (Suc (length name)) s) else None))"

text \<open>
  \<open>flag.FlagSet.Parse\<close> with the one string flag \<open>reason\<close>, from its value so far: flags up to the first
  argument that is not one, or up to \<open>--\<close>; the result is the flag's value and the arguments left.
\<close>

fun parse_flags :: "string \<Rightarrow> string list \<Rightarrow> flag_error + (string \<times> string list)" where
  "parse_flags reason [] = Inr (reason, [])"
| "parse_flags reason (s # rest) =
     (if length s < 2 \<or> take 1 s \<noteq> ''-'' then Inr (reason, s # rest)
      else if s = ''--'' then Inr (reason, rest)
      else (let name = (if take 2 s = ''--'' then drop 2 s else drop 1 s)
            in if name = [] \<or> take 1 name = ''-'' \<or> take 1 name = ''='' then Inl (BadSyntax s)
               else (let (key, value) = split_equals name
                     in if key \<noteq> ''reason'' then
                          Inl (if key = ''help'' \<or> key = ''h'' then HelpRequested else NotDefined key)
                        else (case value of
                            Some v \<Rightarrow> parse_flags v rest
                          | None \<Rightarrow>
                              (case rest of
                                 [] \<Rightarrow> Inl (NeedsArgument key)
                               | v # rest' \<Rightarrow> parse_flags v rest')))))"

definition parseTarget :: "string list \<Rightarrow> cli_error + (string \<times> string)" where
  "parseTarget args =
     (case parse_flags defaultReason args of
        Inl e \<Rightarrow> Inl (FlagError e)
      | Inr (reason, left) \<Rightarrow>
          (case left of
             [] \<Rightarrow> Inl EmailRequired
           | addr # rest \<Rightarrow>
               (case parse_flags reason rest of
                  Inl e \<Rightarrow> Inl (FlagError e)
                | Inr (reason, extra) \<Rightarrow>
                    if extra \<noteq> [] then Inl (UnexpectedArguments extra)
                    else Inr (trim_space addr, reason))))"

section \<open>Subcommands\<close>

datatype cli_line =
    AlreadyRole string string
  | RoleChanged string string string
  | NotVerifiedNote
  | NoAdminsYet
  | AdminLine string string time

definition article :: "string \<Rightarrow> string" where
  "article role = (if role = ''admin'' then ''an admin'' else ''a '' @ role)"

definition setRole :: "string list \<Rightarrow> string \<Rightarrow> (cli_error + cli_line list) go" where
  "setRole args role =
     (case parseTarget args of
        Inl e \<Rightarrow> State_Monad.return (Inl e)
      | Inr (email, reason) \<Rightarrow> do {
          found \<leftarrow> GetUserByEmail email;
          case found of
            Inl e \<Rightarrow> State_Monad.return (Inl (if errors_is e ErrNoRows then NoAccount email else Failed e))
          | Inr user \<Rightarrow> do {
              change \<leftarrow> ChangeRole None (u_id user) role reason;
              case change of
                Inl e \<Rightarrow> State_Monad.return
                  (if errors_is e ErrRoleUnchanged then Inr [AlreadyRole (u_email user) (article role)]
                   else if errors_is e ErrLastAdmin then Inl (LastAdmin (u_email user))
                   else Inl (Failed e))
              | Inr (logged, after, previous) \<Rightarrow> State_Monad.return (Inr
                  (RoleChanged (u_email after) previous (u_role after) #
                   (if role = ''admin'' \<and> \<not> u_verified after then [NotVerifiedNote] else []))) } })"

definition list_admins :: "(cli_error + cli_line list) go" where
  "list_admins = do {
     rows \<leftarrow> ListUsersForAdmin
       \<lparr>uf_search = None, uf_role = Some ''admin'', uf_verified = None, uf_suspended = None\<rparr> 1000 0;
     case rows of
       Inl e \<Rightarrow> State_Monad.return (Inl (Failed e))
     | Inr rs \<Rightarrow> State_Monad.return (Inr
         (if rs = [] then [NoAdminsYet]
          else map (\<lambda>r. AdminLine (u_email (ar_user r)) (u_username (ar_user r)) (u_created_at (ar_user r))) rs)) }"

text \<open>\<open>run\<close> with the arguments of the process after its name; \<open>main\<close> refuses an empty list.\<close>

definition run_admin :: "string list \<Rightarrow> (cli_error + cli_line list) go" where
  "run_admin args =
     (case args of
        [] \<Rightarrow> State_Monad.return (Inl (UnknownCommand []))
      | command # rest \<Rightarrow>
          if command = ''promote'' then setRole rest ''admin''
          else if command = ''demote'' then setRole rest ''user''
          else if command = ''list'' then list_admins
          else State_Monad.return (Inl (UnknownCommand command)))"

section \<open>The flag on either side\<close>

definition positional :: "string \<Rightarrow> bool" where
  "positional s \<longleftrightarrow> length s < 2 \<or> take 1 s \<noteq> ''-''"

lemma parse_positional: "positional a \<Longrightarrow> parse_flags reason (a # rest) = Inr (reason, a # rest)"
  by (auto simp: positional_def)

declare parse_flags.simps(2) [simp del]

lemma parse_flags_append:
  "parse_flags reason flags = Inr (r, []) \<Longrightarrow> positional a \<Longrightarrow> parse_flags reason (flags @ [a]) = Inr (r, [a])"
proof (induction "length flags" arbitrary: reason flags rule: less_induct)
  case less
  show ?case
  proof (cases flags)
    case Nil
    with less.prems show ?thesis by (simp add: parse_positional)
  next
    case (Cons s rest)
    have rest: "parse_flags v rest = Inr (r, []) \<Longrightarrow> parse_flags v (rest @ [a]) = Inr (r, [a])" for v
      using less.hyps [of rest v] less.prems(2) Cons by simp
    have rest': "rest = x # xs \<Longrightarrow> parse_flags v xs = Inr (r, []) \<Longrightarrow> parse_flags v (xs @ [a]) = Inr (r, [a])" for v x xs
      using less.hyps [of xs v] less.prems(2) Cons by simp
    show ?thesis
    proof (cases rest)
      case Nil
      from less.prems(1) show ?thesis
        unfolding \<open>flags = s # rest\<close> Nil append_Cons append_Nil parse_flags.simps(2) [of _ s]
        by (auto simp: Let_def parse_positional [OF less.prems(2)] split: if_splits option.splits prod.splits)
    next
      case (Cons x xs)
      have tail: "parse_flags v (x # xs) = Inr (r, []) \<Longrightarrow> parse_flags v (x # xs @ [a]) = Inr (r, [a])"
        "parse_flags v xs = Inr (r, []) \<Longrightarrow> parse_flags v (xs @ [a]) = Inr (r, [a])" for v
        using rest [of v] rest' [OF Cons, of v] Cons by simp_all
      from less.prems(1) show ?thesis
        unfolding \<open>flags = s # rest\<close> Cons append_Cons parse_flags.simps(2) [of _ s]
        by (auto simp: Let_def tail split: if_splits option.splits prod.splits)
    qed
  qed
qed

text \<open>An operator may write the flags before the address or after it: any flags that are read in full
  by themselves give the same address and the same reason on either side, the last one given, or the
  default.\<close>

theorem flag_on_either_side:
  assumes "parse_flags defaultReason flags = Inr (reason, [])" and "positional addr"
  shows "parseTarget (flags @ [addr]) = Inr (trim_space addr, reason) \<and>
    parseTarget (addr # flags) = Inr (trim_space addr, reason)"
  using parse_flags_append [OF assms] assms by (simp add: parseTarget_def parse_positional)

theorem flag_on_either_side_witness:
  "parseTarget [''-reason'', ''why'', ''a@b''] = Inr (''a@b'', ''why'') \<and>
   parseTarget [''a@b'', ''-reason'', ''why''] = Inr (''a@b'', ''why'')"
proof -
  have "parse_flags defaultReason [''-reason'', ''why''] = Inr (''why'', [])" "positional ''a@b''" "trim_space ''a@b'' = ''a@b''"
    by code_simp+
  then show ?thesis using flag_on_either_side [of "[''-reason'', ''why'']" "''why''" "''a@b''"] by simp
qed

end
