(* ===== verification/Admins.thy ===== *)
theory Admins
  imports LedgerProofs Deals Cli
begin

text \<open>
  The service cannot be left without an admin: neither a request nor a command from the host takes the
  role from the last one. The count that \<open>ChangeRole\<close> makes is one of committed rows and its own,
  though, so that two demotions that run at once can.
\<close>

section \<open>Some admin\<close>

definition staffed :: "database \<Rightarrow> bool" where
  "staffed d \<longleftrightarrow> distinct (map u_id (users d)) \<and> ''admin'' \<in> set (map u_role (users d))"

lemma staffed_frame [simp]:
  "staffed (d\<lparr>listings := ls\<rparr>) = staffed d" "staffed (d\<lparr>requests := qs\<rparr>) = staffed d"
  "staffed (d\<lparr>conversations := cs\<rparr>) = staffed d" "staffed (d\<lparr>messages := ms\<rparr>) = staffed d"
  "staffed (d\<lparr>offers := xs\<rparr>) = staffed d" "staffed (d\<lparr>admin_actions := as\<rparr>) = staffed d"
  "staffed (d\<lparr>verification_tokens := ks\<rparr>) = staffed d" "staffed (d\<lparr>reset_tokens := ks\<rparr>) = staffed d"
  "staffed (d\<lparr>refresh_tokens := rs\<rparr>) = staffed d"
  by (simp_all add: staffed_def)

lemma staffed_update:
  assumes "staffed d" and "\<And>u. u_id (f u) = u_id u" "\<And>u. u_role (f u) = u_role u"
  shows "staffed (d\<lparr>users := update_where Q f (users d)\<rparr>)"
  using assms by (simp add: staffed_def map_update_where del: set_map)

lemma staffed_update_user:
  assumes "staffed d" and "\<And>u. u_id (f u) = u_id u" "\<And>u. u_role (f u) = u_role u"
  shows "staffed (snd (update_user Q f i t d))"
  unfolding update_user_def Let_def using assms by (auto intro!: staffed_update split: option.split)

lemma staffed_accounts:
  "keeps (db_inv staffed) (CreateUser email username hash)" "keeps (db_inv staffed) (MarkUserVerified i)"
  "keeps (db_inv staffed) (SetEmailNotifications b i)" "keeps (db_inv staffed) (UpdateUserPassword i hash)"
  "keeps (db_inv staffed) (SuspendUser actor why i)" "keeps (db_inv staffed) (ReinstateUser i)"
  "keeps (db_inv staffed) (VerifyUserAsAdmin i)"
proof -
  show "keeps (db_inv staffed) (CreateUser email username hash)"
    unfolding CreateUser_def
    by (rule db_inv_insert_row) (auto simp: Let_def staffed_def list_ex_iff users_clash_def)
qed (unfold account_query_defs admin_query_defs,
  (rule db_inv_exec; auto intro: staffed_update_user staffed_update split: option.split)+)

interpretation staffed: preserved staffed "\<lambda>_. True" "\<lambda>_ _. True" False
  by unfold_locales (auto intro: staffed_accounts frame_tokens frame_listings frame_requests
    frame_conversations frame_messages frame_offers)

section \<open>A change of role\<close>

lemma triple_query:
  assumes "\<And>e d. P d \<Longrightarrow> Q (Inl e) d" and "\<And>t d. P d \<Longrightarrow> Q (Inr (f t d)) d"
  shows "triple P (query f) Q"
  unfolding query_def by (rule triple_stmt) (auto intro: assms)

text \<open>After the update, and until the count: the keys are distinct, and there is an admin if it was not one who lost the role.\<close>

definition uncounted :: "user \<Rightarrow> database \<Rightarrow> bool" where
  "uncounted old d \<longleftrightarrow> distinct (map u_id (users d)) \<and> (u_role old = ''admin'' \<or> staffed d)"

lemma uncounted_role:
  assumes "staffed d" and "old \<in> set (users d)" "u_id old = i"
  shows "uncounted old (d\<lparr>users := update_where (\<lambda>v. u_id v = i) (\<lambda>v. v\<lparr>u_role := role, u_updated_at := t\<rparr>) (users d)\<rparr>)"
proof (cases "u_role old = ''admin''")
  case False
  from assms(1) obtain u where u: "u \<in> set (users d)" "u_role u = ''admin''" by (auto simp: staffed_def)
  then have "u_id u \<noteq> i"
    using assms False by (auto simp: staffed_def distinct_map dest: inj_onD)
  with u have "u \<in> set (update_where (\<lambda>v. u_id v = i) (\<lambda>v. v\<lparr>u_role := role, u_updated_at := t\<rparr>) (users d))"
    by (auto simp: set_update_where)
  then have "''admin'' \<in> u_role ` set (update_where (\<lambda>v. u_id v = i) (\<lambda>v. v\<lparr>u_role := role, u_updated_at := t\<rparr>) (users d))"
    using u(2) by force
  then show ?thesis using assms(1) by (simp add: uncounted_def staffed_def map_update_where)
qed (use assms(1) in \<open>simp add: uncounted_def staffed_def map_update_where\<close>)

lemma uncounted_admins: "uncounted old d \<Longrightarrow> count_where (\<lambda>u. u_role u = ''admin'') (users d) \<noteq> 0 \<Longrightarrow> staffed d"
  by (force simp: uncounted_def staffed_def count_where_def filter_empty_conv)

lemma Audited_staffed:
  assumes "staffed D" and "\<And>d. keeps (frozen d) change" and "succeeds_with (\<lambda>d. d = D) change (\<lambda>_. staffed)"
  shows "triple (\<lambda>d. d = D) (Audited a change) (\<lambda>_. staffed)"
proof -
  have log: "triple staffed (InsertAdminAction actor act ty j reason detail) (\<lambda>_. staffed)"
    for actor act ty j reason detail
    unfolding InsertAdminAction_def by (rule triple_insert_row) (auto simp: Let_def split: if_splits)
  let ?all = "\<lambda>reason. do {
     r \<leftarrow> change;
     case r of
       Inl e \<Rightarrow> State_Monad.return (Inl e)
     | Inr (detail, out) \<Rightarrow> do {
         logged \<leftarrow> InsertAdminAction (ac_actor a) (ac_action a) (ac_subject_type a) (ac_subject a) reason detail;
         case logged of
           Inl e \<Rightarrow> State_Monad.return (Inl (Wrapped ''record admin action'' e))
         | Inr row \<Rightarrow> State_Monad.return (Inr (row, out)) } }"
  have "triple (\<lambda>d. d = D) (in_tx (?all reason)) (\<lambda>_. staffed)" for reason
  proof (rule triple_post [OF triple_in_tx])
    show "succeeds_with (\<lambda>d. d = D) (?all reason) (\<lambda>_. staffed)"
      by (simp only: sum.case | (simp only: split_paired_all prod.case, rule triple_bind [OF log])
        | rule triple_bind [OF assms(3)] triple_return triple_sum TrueI | assumption | hypsubst)+
    show "keeps (frozen d) (?all reason)" for d
      unfolding InsertAdminAction_def by (intro keeps_intros assms(2))
  qed (use assms(1) in \<open>simp split: sum.splits\<close>)
  then show ?thesis
    unfolding Audited_def Let_def using assms(1) by (intro triple_if triple_return) simp_all
qed

lemma ChangeRole_staffed:
  assumes "staffed D"
  shows "triple (\<lambda>d. d = D) (ChangeRole actor i role why) (\<lambda>_. staffed)"
proof -
  let ?counted = "\<lambda>old r d. uncounted old d \<and> (case r of Inl _ \<Rightarrow> True | Inr _ \<Rightarrow> staffed d)"
  have set: "succeeds_with (\<lambda>d. d = D) (SetUserRole role i) (\<lambda>_. uncounted old)"
    if "find_user D i = Some old" for old
    unfolding SetUserRole_def
    by (rule triple_exec)
      (use that assms in \<open>auto simp: update_user_def find_user_def Let_def split: option.splits if_splits
        dest!: find_SomeD intro!: uncounted_role\<close>)
  have count: "triple (uncounted old) CountAdmins (\<lambda>r d. uncounted old d \<and> (\<forall>k. r = Inr k \<longrightarrow> k \<noteq> 0 \<longrightarrow> staffed d))" for old
    unfolding CountAdmins_def by (rule triple_query) (auto dest: uncounted_admins)
  have last: "succeeds_with (uncounted old)
      (if u_role old = ''admin'' then do {
         n \<leftarrow> CountAdmins;
         case n of
           Inl e \<Rightarrow> State_Monad.return (Inl e)
         | Inr k \<Rightarrow> State_Monad.return (if k = 0 then Inl ErrLastAdmin else Inr ()) }
       else State_Monad.return (Inr ())) (\<lambda>_. staffed)" for old
    by (intro triple_if triple_bind [OF count] triple_sum triple_return) (auto simp: uncounted_def)
  have revoke: "triple staffed (RevokeAllRefreshTokensForUser i) (\<lambda>_. staffed)"
    unfolding RevokeAllRefreshTokensForUser_def by (rule triple_exec) auto
  show ?thesis
    unfolding ChangeRole_def
  proof (intro triple_if triple_return Audited_staffed [OF assms])
    show "staffed d" if "d = D" for d using that assms by simp
  next
    show "succeeds_with (\<lambda>d. d = D) (do {
        found \<leftarrow> GetUserByID i;
        case found of
          Inl e \<Rightarrow> State_Monad.return (Inl e)
        | Inr old \<Rightarrow>
            if u_role old = role then State_Monad.return (Inl ErrRoleUnchanged)
            else do {
              changed \<leftarrow> SetUserRole role i;
              case changed of
                Inl e \<Rightarrow> State_Monad.return (Inl e)
              | Inr new \<Rightarrow> do {
                  (left :: unit res) \<leftarrow>
                    (if u_role old = ''admin'' then do {
                       n \<leftarrow> CountAdmins;
                       case n of
                         Inl e \<Rightarrow> State_Monad.return (Inl e)
                       | Inr k \<Rightarrow> State_Monad.return (if k = 0 then Inl ErrLastAdmin else Inr ()) }
                     else State_Monad.return (Inr ()));
                  case left of
                    Inl e \<Rightarrow> State_Monad.return (Inl e)
                  | Inr _ \<Rightarrow> do {
                      ended \<leftarrow> RevokeAllRefreshTokensForUser i;
                      case ended of
                        Inl e \<Rightarrow> State_Monad.return (Inl e)
                      | Inr _ \<Rightarrow> State_Monad.return (Inr
                          ([(''from'', JString (u_role old)), (''to'', JString role),
                            (''sessions_revoked'', JBool True)], (new, u_role old))) } } } }) (\<lambda>_. staffed)"
      unfolding GetUserByID_def
      by (simp only: sum.case | assumption | rule triple_read_row triple_bind [OF set] triple_bind [OF last]
          triple_bind [OF revoke] triple_if triple_return triple_sum TrueI | hypsubst)+
  qed (intro keeps_intros frozen_accounts)
qed

section \<open>Requests and commands\<close>

lemma reads_page_query [reads_intros]: "reads (page_query k n f)"
  unfolding reads_def page_query_def exec_def
proof (intro allI impI)
  fix w r w'
  let ?f = "\<lambda>t d. (if n < 0 then Inl (PgError ''2201X'') else Inr (limit_offset k n (f t d)), d)"
  assume "undisturbed w" "run_state (stmt (\<lambda>w. case ?f (clock w) (db w) of (r, d) \<Rightarrow> (r, w\<lparr>db := d\<rparr>))) w = (r, w')"
  then show "undisturbed w' \<and> db w' = db w" by (cases rule: undisturbed_stmt) auto
qed

lemma reads_admin [reads_intros]: "reads (GetUserForAdmin i)" "reads (ListUsersForAdmin f k n)" "reads (GetUserByEmail email)"
  unfolding GetUserForAdmin_def ListUsersForAdmin_def account_query_defs by (intro reads_intros)+

lemma SetAdminUserRole_staffed:
  assumes "staffed D"
  shows "triple (\<lambda>d. d = D) (SetAdminUserRole ctx i body) (\<lambda>_. staffed)"
proof -
  have change: "triple (\<lambda>d. d = D) (res_map f (ChangeRole actor i role why)) (\<lambda>_. staffed)" for f :: "_ \<Rightarrow> unit" and actor role why
    unfolding res_map_def
    by (rule triple_bind [OF ChangeRole_staffed [OF assms]]) (rule triple_return)
  have quiet: "triple (\<lambda>d. d = D) (m :: 'x go) (\<lambda>_. staffed)" if "reads m" for m
    by (rule triple_post [OF triple_reads [OF that]]) (use assms in simp)
  have act: "triple (\<lambda>d. d = D) (accountAction i reason self act) (\<lambda>_. staffed)"
    if "\<And>why. triple (\<lambda>d. d = D) (act why) (\<lambda>_. staffed)" for reason self act
  proof (cases reason)
    case (Some raw)
    show ?thesis unfolding accountAction_def Some option.case Let_def
      by (intro triple_if quiet reads_intros triple_bind [OF that] triple_reads)
  qed (simp add: accountAction_def quiet reads_intros)
  show ?thesis
  proof (cases "requireAdmin ctx")
    case (Some p)
    show ?thesis unfolding SetAdminUserRole_def as_admin_def Some option.case
      by (intro triple_if act change quiet reads_intros)
  qed (simp add: SetAdminUserRole_def as_admin_def quiet reads_intros)
qed

lemma staffed_moderation:
  "keeps (db_inv staffed) (SuspendAdminUser ctx i why)" "keeps (db_inv staffed) (ReinstateAdminUser ctx i why)"
  "keeps (db_inv staffed) (VerifyAdminUser ctx i why)"
  "keeps (db_inv staffed) (RemoveAdminListing ctx i why)" "keeps (db_inv staffed) (RestoreAdminListing ctx i why)"
  "keeps (db_inv staffed) (RemoveAdminRequest ctx i why)" "keeps (db_inv staffed) (RestoreAdminRequest ctx i why)"
proof -
  have posts: "keeps (db_inv staffed) (po_get ops i)" "keeps (db_inv staffed) (po_remove ops i actor reason)"
    "keeps (db_inv staffed) (po_restore ops i)" if "opsFor subject = Inr ops" for subject ops actor reason
    using that
    by (auto simp: opsFor_def listingOps_def requestOps_def frame_listings frame_requests split: if_splits
      intro!: keeps_intros)
  have log: "keeps (db_inv staffed) (InsertAdminAction a b c d e f)" for a b c d e f
    by (rule frame_actions) simp
  have revoke: "keeps (db_inv staffed) (RevokeAllRefreshTokensForUser j)" for j
    by (rule frame_tokens) simp_all
  note changes = Suspend_def Reinstate_def VerifyByHand_def RemovePost_def RestorePost_def
    remove_change_def restore_change_def Audited_def Let_def
  show "keeps (db_inv staffed) (SuspendAdminUser ctx i why)" "keeps (db_inv staffed) (ReinstateAdminUser ctx i why)"
    "keeps (db_inv staffed) (VerifyAdminUser ctx i why)"
    "keeps (db_inv staffed) (RemoveAdminListing ctx i why)" "keeps (db_inv staffed) (RestoreAdminListing ctx i why)"
    "keeps (db_inv staffed) (RemoveAdminRequest ctx i why)" "keeps (db_inv staffed) (RestoreAdminRequest ctx i why)"
    unfolding admin_write_defs changes
    by (rule keeps_as_admin, intro keeps_intros log revoke staffed_accounts posts | assumption)+
qed

lemma run_admin_staffed:
  assumes "staffed D"
  shows "triple (\<lambda>d. d = D) (run_admin args) (\<lambda>_. staffed)"
proof -
  have quiet: "triple (\<lambda>d. d = D) (m :: 'x go) (\<lambda>_. staffed)" if "reads m" for m
    by (rule triple_post [OF triple_reads [OF that]]) (use assms in simp)
  have set: "triple (\<lambda>d. d = D) (setRole rest role) (\<lambda>_. staffed)" for rest role
  proof (cases "parseTarget rest")
    case (Inr target)
    obtain email reason where target: "target = (email, reason)" by (rule prod.exhaust)
    show ?thesis unfolding setRole_def Inr sum.case target prod.case
      by (rule triple_after_read, rule reads_admin, rule triple_sum, rule quiet, rule reads_intros,
          rule triple_bind [OF ChangeRole_staffed [OF assms]], rule triple_reads, intro reads_intros)
  qed (simp add: setRole_def quiet reads_intros)
  show ?thesis
    unfolding run_admin_def list_admins_def by (cases args) (auto intro!: quiet set reads_intros)
qed

text \<open>C24: While there is an admin there will be one: if nothing else commits meanwhile, whatever
  request is served, whoever makes it and whichever of its statements fail, and whatever command is
  run on the host, some account is an admin afterwards if one was before. In particular an admin who
  was just demoted, and whose session still says otherwise, cannot demote the last one.\<close>

theorem an_admin_remains:
  assumes "calm w" and "staffed (db w)"
  shows "staffed (db (snd (run_state (serve env ctx r) w))) \<and> staffed (db (snd (run_state (run_admin args) w)))"
proof -
  have u: "undisturbed w" and i: "db_inv staffed w" using assms by (simp_all add: calm_def calm_db_inv)
  have by_triple: "staffed (db (snd (run_state m w)))" if "triple (\<lambda>d. d = db w) m (\<lambda>_. staffed)" for m :: "'x go"
    using tripleD [OF that u refl] by (metis prod.collapse)
  have by_keeps: "staffed (db (snd (run_state m w)))" if "keeps (db_inv staffed) m" for m :: "'x go"
    by (rule db_inv_db [OF keeps_run [OF that i]])
  have "staffed (db (snd (run_state (serve env ctx r) w)))"
  proof (cases "moderation r")
    case False
    show ?thesis by (rule by_keeps [OF staffed.keeps_serve_others]) (use False in simp_all)
  next
    case True
    then show ?thesis
      by (cases r) (simp_all add: by_keeps staffed_moderation by_triple SetAdminUserRole_staffed [OF assms(2)])
  qed
  with by_triple [OF run_admin_staffed [OF assms(2)]] show ?thesis by simp
qed

lemma an_admin_remains_witness:
  "staffed (db (snd (run_state (run_admin [''demote'', ''operator@uwaterloo.ca'']) sample_world)))"
proof -
  have "calm sample_world" by (simp add: calm_def undisturbed_def sample_world_def)
  moreover have "staffed (db sample_world)" by code_simp
  ultimately show ?thesis using an_admin_remains [of sample_world] by blast
qed

section \<open>The race\<close>

text \<open>Two admins; each may demote the other.\<close>

definition two_admins :: world where
  "two_admins = sample_world\<lparr>db := sample_db\<lparr>users := [sample_admin, (sample_user 4 ''deputy'')\<lparr>u_role := ''admin''\<rparr>]\<rparr>\<rparr>"

definition deputy_ctx :: request_ctx where
  "deputy_ctx = sample_ctx\<lparr>ctx_principal := Some \<lparr>p_user_id = 4, p_role = ''admin'', p_verified = True\<rparr>\<rparr>"

text \<open>The count that is to leave an admin is taken before the other transaction commits. When
  two admins demote each other at once, each counts the other, both are answered 200, and nobody is an
  admin any more: only a command on the host can bring one back.\<close>

theorem two_admins_demote_each_other:
  "let mine = run_state (SetAdminUserRole deputy_ctx 3 (Some (''user'', ''Leaving the team''))) two_admins;
       theirs = (\<lambda>d. d\<lparr>users := update_where (\<lambda>u. u_id u = 3) (\<lambda>u. u\<lparr>u_role := ''user''\<rparr>) (users d)\<rparr>);
       yours = run_state (SetAdminUserRole admin_ctx 4 (Some (''user'', ''Leaving the team'')))
         (two_admins\<lparr>events := [Quiet, Quiet, Quiet, Quiet, Meanwhile theirs]\<rparr>)
   in status_of (fst mine) = 200 \<and> users (db (snd mine)) = users (theirs (db two_admins)) \<and>
      status_of (fst yours) = 200 \<and> map u_role (users (db (snd yours))) = [''user'', ''user'']"
  by code_simp

end
