(* ===== verification/Takedown.thy ===== *)
theory Takedown
  imports LedgerProofs Integrity
begin

text \<open>
  A takedown can be undone: restoring a post brings it back as it was, and what the restoration
  erases from the post stays in the ledger.
\<close>

section \<open>Marks\<close>

text \<open>
  A table of posts: \<open>down\<close> sets the three columns of a takedown, \<open>up\<close> clears them, and both stamp
  the row. \<open>kept\<close> blanks the stamp, and who took the post down where nobody has.
\<close>

locale post_table = table violation clash ident key
  for violation :: "'r \<Rightarrow> error option" and clash ident and key :: "'r \<Rightarrow> uuid" +
  fixes gone :: "'r \<Rightarrow> time option" and down :: "time \<Rightarrow> uuid option \<Rightarrow> string \<Rightarrow> 'r \<Rightarrow> 'r"
    and up :: "time \<Rightarrow> 'r \<Rightarrow> 'r" and kept :: "'r \<Rightarrow> 'r"
  assumes key_down: "key (down t a s r) = key r" and gone_down: "gone (down t a s r) = Some t"
    and kept_up: "violation r = None \<Longrightarrow> gone r = None \<Longrightarrow> kept (up t' (down t a s r)) = kept r"
begin

lemma down_up:
  assumes "table_ok violation clash rows"
    and "update_returning (\<lambda>r. key r = i \<and> gone r = None) (down t a s) v rows = (Inr x, rows1)"
    and "update_returning (\<lambda>r. key r = i \<and> gone r \<noteq> None) (up t') v' rows1 = (Inr y, rows2)"
  shows "map kept rows2 = map kept rows"
proof -
  obtain r where r: "r \<in> set rows" "key r = i" "gone r = None"
      "rows1 = update_where (\<lambda>r. key r = i \<and> gone r = None) (down t a s) rows"
    using assms(2) by (cases rule: update_returning_cases) auto
  have rows2: "rows2 = update_where (\<lambda>r. key r = i \<and> gone r \<noteq> None) (up t') rows1"
    using assms(3) by (cases rule: update_returning_cases) auto
  have "kept (let r' = if key q = i \<and> gone q = None then down t a s q else q
      in if key r' = i \<and> gone r' \<noteq> None then up t' r' else r') = kept q" if "q \<in> set rows" for q
  proof (cases "key q = i")
    case True
    have "q = r" using ok_unique [OF assms(1) that r(1)] True r(2) by simp
    moreover have "violation r = None" using assms(1) r(1) by (simp add: table_ok_def list_all_iff)
    ultimately show ?thesis using True r(3) by (simp add: Let_def key_down gone_down kept_up)
  qed (simp add: Let_def)
  then show ?thesis by (auto simp: rows2 r(4) update_where_def Let_def)
qed

lemma find_down:
  assumes "update_returning (\<lambda>r. key r = i \<and> gone r = None) (down t a s) v rows = (Inr x, rows1)"
    and "table_ok violation clash rows"
  shows "\<exists>r. List.find (\<lambda>r. key r = i) rows1 = Some (down t a s r)"
proof -
  obtain r where r: "r \<in> set rows" "key r = i" "gone r = None"
      "rows1 = update_where (\<lambda>r. key r = i \<and> gone r = None) (down t a s) rows"
    using assms(1) by (cases rule: update_returning_cases) auto
  with ok_find [OF assms(2) r(1)] show ?thesis
    by (intro exI [of _ r]) (simp add: find_update_where key_down)
qed

end

definition listing_down :: "time \<Rightarrow> uuid option \<Rightarrow> string \<Rightarrow> listing \<Rightarrow> listing" where
  "listing_down t actor reason l = l\<lparr>l_removed_at := Some t, l_removed_by := actor,
     l_removed_reason := Some reason, l_updated_at := t\<rparr>"

definition listing_up :: "time \<Rightarrow> listing \<Rightarrow> listing" where
  "listing_up t l = l\<lparr>l_removed_at := None, l_removed_by := None, l_removed_reason := None, l_updated_at := t\<rparr>"

definition listing_settled :: "listing \<Rightarrow> listing" where
  "listing_settled l = l\<lparr>l_updated_at := 0, l_removed_by := (if l_removed_at l = None then None else l_removed_by l)\<rparr>"

definition request_down :: "time \<Rightarrow> uuid option \<Rightarrow> string \<Rightarrow> housing_request \<Rightarrow> housing_request" where
  "request_down t actor reason q = q\<lparr>q_removed_at := Some t, q_removed_by := actor,
     q_removed_reason := Some reason, q_updated_at := t\<rparr>"

definition request_up :: "time \<Rightarrow> housing_request \<Rightarrow> housing_request" where
  "request_up t q = q\<lparr>q_removed_at := None, q_removed_by := None, q_removed_reason := None, q_updated_at := t\<rparr>"

definition request_settled :: "housing_request \<Rightarrow> housing_request" where
  "request_settled q = q\<lparr>q_updated_at := 0, q_removed_by := (if q_removed_at q = None then None else q_removed_by q)\<rparr>"

interpretation listing_posts: post_table listing_violation listings_clash l_id l_id l_removed_at
    listing_down listing_up listing_settled
proof unfold_locales
  fix r t t' a s
  assume "listing_violation r = None" "l_removed_at r = None"
  then have "l_removed_reason r = None"
    by (auto simp: listing_violation_def listings_check_def split: if_splits)
  with \<open>l_removed_at r = None\<close> show "listing_settled (listing_up t' (listing_down t a s r)) = listing_settled r"
    by (cases r) (simp add: listing_settled_def listing_up_def listing_down_def)
qed (simp_all add: listing_down_def)

interpretation request_posts: post_table request_violation requests_clash q_id q_id q_removed_at
    request_down request_up request_settled
proof unfold_locales
  fix r t t' a s
  assume "request_violation r = None" "q_removed_at r = None"
  then have "q_removed_reason r = None"
    by (auto simp: request_violation_def requests_check_def split: if_splits)
  with \<open>q_removed_at r = None\<close> show "request_settled (request_up t' (request_down t a s r)) = request_settled r"
    by (cases r) (simp add: request_settled_def request_up_def request_down_def)
qed (simp_all add: request_down_def)

section \<open>The two changes\<close>

lemma undisturbed_read_row:
  assumes "undisturbed w" and "run_state (query_row f) w = (Inr a, w')"
  obtains t where "f t (db w) = Some a" "db w' = db w" "undisturbed w'"
  using assms(1) assms(2) [unfolded query_row_def]
  by (cases rule: undisturbed_stmt) (auto split: option.splits)

lemma undisturbed_po_get:
  assumes "undisturbed w" and "run_state (po_get ops i) w = (Inr old, w')" and "opsFor subject = Inr ops"
  shows "undisturbed w' \<and> db w' = db w \<and>
    (if subject = ''listing'' then \<exists>l. find_listing (db w) i = Some l \<and> old = listing_state l
     else subject = ''request'' \<and> (\<exists>q. find_request (db w) i = Some q \<and> old = request_state q))"
proof (cases "subject = ''listing''")
  case True
  obtain x v where run: "run_state (query_row (\<lambda>_ d. find_listing d i)) w = (x, v)" by (rule prod.exhaust)
  then show ?thesis using assms True
    by (cases x) (auto simp: opsFor_def listingOps_def GetListingForOwner_def elim: undisturbed_read_row)
next
  case False
  obtain x v where run: "run_state (query_row (\<lambda>_ d. find_request d i)) w = (x, v)" by (rule prod.exhaust)
  then show ?thesis using assms False
    by (cases x) (auto simp: opsFor_def requestOps_def GetRequestForOwner_def split: if_splits elim: undisturbed_read_row)
qed

definition put_down :: "string \<Rightarrow> uuid \<Rightarrow> uuid \<Rightarrow> string \<Rightarrow> database \<Rightarrow> database \<Rightarrow> bool" where
  "put_down subject i actor why d d' \<longleftrightarrow>
     (if subject = ''listing'' then
        \<exists>t v x ls. update_returning (\<lambda>l. l_id l = i \<and> l_removed_at l = None)
          (listing_down t (Some actor) why) v (listings d) = (Inr x, ls) \<and> d\<lparr>listings := ls\<rparr> = d'
      else
        \<exists>t v x qs. update_returning (\<lambda>q. q_id q = i \<and> q_removed_at q = None)
          (request_down t (Some actor) why) v (requests d) = (Inr x, qs) \<and> d\<lparr>requests := qs\<rparr> = d')"

definition put_up :: "string \<Rightarrow> uuid \<Rightarrow> database \<Rightarrow> database \<Rightarrow> bool" where
  "put_up subject i d d' \<longleftrightarrow>
     (if subject = ''listing'' then
        \<exists>t v x ls. update_returning (\<lambda>l. l_id l = i \<and> l_removed_at l \<noteq> None)
          (listing_up t) v (listings d) = (Inr x, ls) \<and> d\<lparr>listings := ls\<rparr> = d'
      else
        \<exists>t v x qs. update_returning (\<lambda>q. q_id q = i \<and> q_removed_at q \<noteq> None)
          (request_up t) v (requests d) = (Inr x, qs) \<and> d\<lparr>requests := qs\<rparr> = d')"

lemma undisturbed_po_remove:
  assumes "undisturbed w" and "run_state (po_remove ops i (Some actor) why) w = (Inr (), w')"
    and "opsFor subject = Inr ops"
  shows "put_down subject i actor why (db w) (db w')"
proof (cases "subject = ''listing''")
  case True
  obtain x v where run: "run_state (RemoveListing i (Some actor) why) w = (x, v)" by (rule prod.exhaust)
  with assms True have x: "\<exists>l. x = Inr l" "w' = v"
    by (cases x, auto simp: opsFor_def listingOps_def)+
  with assms(1) run show ?thesis unfolding RemoveListing_def
    by (auto elim!: undisturbed_exec simp: put_down_def True on_listings_def listing_down_def [abs_def] split: prod.splits) blast+
next
  case False
  obtain x v where run: "run_state (RemoveRequest i (Some actor) why) w = (x, v)" by (rule prod.exhaust)
  with assms False have x: "\<exists>q. x = Inr q" "w' = v"
    by (cases x, auto simp: opsFor_def requestOps_def split: if_splits)+
  with assms(1) run show ?thesis unfolding RemoveRequest_def
    by (auto elim!: undisturbed_exec simp: put_down_def False on_requests_def request_down_def [abs_def] split: prod.splits) blast+
qed

lemma undisturbed_po_restore:
  assumes "undisturbed w" and "run_state (po_restore ops i) w = (Inr (), w')" and "opsFor subject = Inr ops"
  shows "put_up subject i (db w) (db w')"
proof (cases "subject = ''listing''")
  case True
  obtain x v where run: "run_state (RestoreListing i) w = (x, v)" by (rule prod.exhaust)
  with assms True have x: "\<exists>l. x = Inr l" "w' = v"
    by (cases x, auto simp: opsFor_def listingOps_def)+
  with assms(1) run show ?thesis unfolding RestoreListing_def
    by (auto elim!: undisturbed_exec simp: put_up_def True on_listings_def listing_up_def [abs_def] split: prod.splits) blast+
next
  case False
  obtain x v where run: "run_state (RestoreRequest i) w = (x, v)" by (rule prod.exhaust)
  with assms False have x: "\<exists>q. x = Inr q" "w' = v"
    by (cases x, auto simp: opsFor_def requestOps_def split: if_splits)+
  with assms(1) run show ?thesis unfolding RestoreRequest_def
    by (auto elim!: undisturbed_exec simp: put_up_def False on_requests_def request_up_def [abs_def] split: prod.splits) blast+
qed

lemma frozen_undisturbed: "frozen d w \<Longrightarrow> undisturbed w"
  by (simp add: frozen_def)

definition logs :: "string \<Rightarrow> string \<Rightarrow> uuid \<Rightarrow> uuid \<Rightarrow> admin_action \<Rightarrow> bool" where
  "logs act subject i actor row \<longleftrightarrow> a_action row = act \<and> a_subject_type row = subject \<and>
     a_subject_id row = i \<and> a_actor_id row = Some actor"

lemma RemovePost_effect:
  assumes "calm w" and "run_state (RemovePost actor subject i why) w = (Inr (), w')"
  obtains d row where "calm w'" "put_down subject i actor (trimmedReason why) (db w) d"
    "db w' = d\<lparr>admin_actions := admin_actions d @ [row]\<rparr>" "logs ''remove_post'' subject i actor row"
proof (cases "opsFor subject")
  case (Inr ops)
  let ?a = "\<lparr>ac_actor = Some actor, ac_action = ''remove_post'', ac_subject_type = subject,
    ac_subject = i, ac_reason = why\<rparr>"
  obtain x where run: "run_state (Audited ?a (remove_change ops actor i why)) w = (Inr x, w')"
    using assms(2) by (cases "run_state (Audited ?a (remove_change ops actor i why)) w")
      (auto simp: RemovePost_def Inr map_sum_def split: sum.splits)
  have "keeps (frozen d) (remove_change ops actor i why)" for d
    unfolding remove_change_def by (intro keeps_intros frozen_change [OF Inr])
  with assms(1) run show ?thesis
  proof (cases rule: Audited_outcome)
    case (recorded row out detail w1 w2)
    from recorded(5) obtain old w3 where read: "run_state (po_get ops i) w1 = (Inr old, w3)"
        and wrote: "run_state (po_remove ops i (Some actor) (trimmedReason why)) w3 = (Inr (), w2)"
      by (auto simp: remove_change_def split: sum.splits prod.splits)
    from undisturbed_po_get [OF frozen_undisturbed [OF recorded(3)] read Inr]
    have w3: "undisturbed w3" "db w3 = db w" using recorded(4) by simp_all
    have "put_down subject i actor (trimmedReason why) (db w) (db w2)"
      using undisturbed_po_remove [OF w3(1) wrote Inr] w3(2) by simp
    with recorded show ?thesis by (intro that [of "db w2" row]) (simp_all add: logs_def)
  qed simp
qed (use assms(2) in \<open>simp add: RemovePost_def\<close>)

lemma RestorePost_effect:
  assumes "calm w" and "run_state (RestorePost actor subject i why) w = (Inr (), w')"
  obtains d row ops old v v' where "calm w'" "put_up subject i (db w) d"
    "db w' = d\<lparr>admin_actions := admin_actions d @ [row]\<rparr>" "logs ''restore_post'' subject i actor row"
    "opsFor subject = Inr ops" "undisturbed v" "db v = db w" "run_state (po_get ops i) v = (Inr old, v')"
    "\<And>s. ps_removed_reason old = Some s \<Longrightarrow> (''removed_reason'', JString s) \<in> set (a_detail row)"
proof (cases "opsFor subject")
  case (Inr ops)
  let ?why = "if trimmedReason why = [] then DefaultRestoreReason else why"
  let ?a = "\<lparr>ac_actor = Some actor, ac_action = ''restore_post'', ac_subject_type = subject,
    ac_subject = i, ac_reason = ?why\<rparr>"
  obtain x where run: "run_state (Audited ?a (restore_change ops i)) w = (Inr x, w')"
    using assms(2) by (cases "run_state (Audited ?a (restore_change ops i)) w")
      (auto simp: RestorePost_def Inr map_sum_def split: sum.splits)
  have "keeps (frozen d) (restore_change ops i)" for d
    unfolding restore_change_def by (intro keeps_intros frozen_change [OF Inr])
  with assms(1) run show ?thesis
  proof (cases rule: Audited_outcome)
    case (recorded row out detail w1 w2)
    from recorded(5) obtain old w3 where read: "run_state (po_get ops i) w1 = (Inr old, w3)"
        and wrote: "run_state (po_restore ops i) w3 = (Inr (), w2)"
        and detail: "\<And>s. ps_removed_reason old = Some s \<Longrightarrow> (''removed_reason'', JString s) \<in> set detail"
      by (auto simp: restore_change_def split: sum.splits prod.splits)
    note u = frozen_undisturbed [OF recorded(3)]
    from undisturbed_po_get [OF u read Inr]
    have w3: "undisturbed w3" "db w3 = db w" using recorded(4) by simp_all
    have "put_up subject i (db w) (db w2)"
      using undisturbed_po_restore [OF w3(1) wrote Inr] w3(2) by simp
    with recorded show ?thesis
      by (intro that [of "db w2" row ops w1 old w3, OF _ _ _ _ Inr u _ read]) (simp_all add: logs_def detail)
  qed simp
qed (use assms(2) in \<open>simp add: RestorePost_def\<close>)

section \<open>The round trip\<close>

text \<open>A database without the ledger and the stamps of its posts.\<close>

definition settled :: "database \<Rightarrow> database" where
  "settled d = d\<lparr>listings := map listing_settled (listings d), requests := map request_settled (requests d),
     admin_actions := []\<rparr>"

lemma settled_ledger [simp]: "settled (d\<lparr>admin_actions := as\<rparr>) = settled d"
  by (cases d) (simp add: settled_def)

lemma settled_round_trip:
  assumes "content_ok d" and "put_down subject i actor why d d1" and "put_up subject i d1' d2"
    and "d1' = d1\<lparr>admin_actions := as\<rparr>"
  shows "settled d2 = settled d \<and> admin_actions d1 = admin_actions d \<and> admin_actions d2 = as"
proof (cases "subject = ''listing''")
  case True
  with assms obtain t v x ls where down: "update_returning (\<lambda>l. l_id l = i \<and> l_removed_at l = None)
      (listing_down t (Some actor) why) v (listings d) = (Inr x, ls)" "d\<lparr>listings := ls\<rparr> = d1"
    by (auto simp: put_down_def)
  with True assms obtain t' v' y ls' where up: "update_returning (\<lambda>l. l_id l = i \<and> l_removed_at l \<noteq> None)
      (listing_up t') v' ls = (Inr y, ls')" "d1'\<lparr>listings := ls'\<rparr> = d2"
    by (auto simp: put_up_def)
  have "map listing_settled ls' = map listing_settled (listings d)"
    by (rule listing_posts.down_up [OF _ down(1) up(1)]) (use assms(1) in \<open>simp add: content_ok_def\<close>)
  then show ?thesis using down(2) up(2) assms(4) by (cases d) (auto simp: settled_def)
next
  case False
  with assms obtain t v x qs where down: "update_returning (\<lambda>q. q_id q = i \<and> q_removed_at q = None)
      (request_down t (Some actor) why) v (requests d) = (Inr x, qs)" "d\<lparr>requests := qs\<rparr> = d1"
    by (auto simp: put_down_def)
  with False assms obtain t' v' y qs' where up: "update_returning (\<lambda>q. q_id q = i \<and> q_removed_at q \<noteq> None)
      (request_up t') v' qs = (Inr y, qs')" "d1'\<lparr>requests := qs'\<rparr> = d2"
    by (auto simp: put_up_def)
  have "map request_settled qs' = map request_settled (requests d)"
    by (rule request_posts.down_up [OF _ down(1) up(1)]) (use assms(1) in \<open>simp add: content_ok_def\<close>)
  then show ?thesis using down(2) up(2) assms(4) by (cases d) (auto simp: settled_def)
qed

lemma reason_after_down:
  assumes "content_ok d" and "put_down subject i actor why d d1" and "opsFor subject = Inr ops"
    and "undisturbed v" and "db v = d1\<lparr>admin_actions := as\<rparr>" and "run_state (po_get ops i) v = (Inr old, v')"
  shows "ps_removed_reason old = Some why"
proof (cases "subject = ''listing''")
  case True
  with assms(2) obtain t u x ls where down: "update_returning (\<lambda>l. l_id l = i \<and> l_removed_at l = None)
      (listing_down t (Some actor) why) u (listings d) = (Inr x, ls)" "d\<lparr>listings := ls\<rparr> = d1"
    by (auto simp: put_down_def)
  obtain l where "List.find (\<lambda>l. l_id l = i) ls = Some (listing_down t (Some actor) why l)"
    using listing_posts.find_down [OF down(1)] assms(1) by (auto simp: content_ok_def)
  with down(2) undisturbed_po_get [OF assms(4,6,3)] True assms(5) show ?thesis
    by (auto simp: find_listing_def listing_state_def listing_down_def)
next
  case False
  with assms(2) obtain t u x qs where down: "update_returning (\<lambda>q. q_id q = i \<and> q_removed_at q = None)
      (request_down t (Some actor) why) u (requests d) = (Inr x, qs)" "d\<lparr>requests := qs\<rparr> = d1"
    by (auto simp: put_down_def)
  obtain q where "List.find (\<lambda>q. q_id q = i) qs = Some (request_down t (Some actor) why q)"
    using request_posts.find_down [OF down(1)] assms(1) by (auto simp: content_ok_def)
  with down(2) undisturbed_po_get [OF assms(4,6,3)] False assms(5) show ?thesis
    by (auto simp: find_request_def request_state_def request_down_def)
qed

text \<open>C23: Taking a post down and restoring it brings back every listing and every housing
  request as it was, its status included, but for the time of the last change, and touches nothing
  else: whatever statements fail on the way, if both succeed and nothing else commits meanwhile. The
  ledger has two more entries, of the admin who took it down and of the one who restored it, and the
  second keeps the reason of the takedown, which the post itself no longer carries.\<close>

theorem takedown_round_trip:
  assumes "calm w" and "content_ok (db w)"
    and "run_state (RemovePost actor subject i why) w = (Inr (), w1)"
    and "run_state (RestorePost actor' subject i why') w1 = (Inr (), w2)"
  shows "settled (db w2) = settled (db w) \<and> (\<exists>down up. admin_actions (db w2) = admin_actions (db w) @ [down, up] \<and>
    logs ''remove_post'' subject i actor down \<and> logs ''restore_post'' subject i actor' up \<and>
    (''removed_reason'', JString (trimmedReason why)) \<in> set (a_detail up))"
proof -
  from assms(1,3) obtain d1 down where w1: "calm w1" "put_down subject i actor (trimmedReason why) (db w) d1"
      "db w1 = d1\<lparr>admin_actions := admin_actions d1 @ [down]\<rparr>" "logs ''remove_post'' subject i actor down"
    by (rule RemovePost_effect)
  from w1(1) assms(4) obtain d2 up ops old v v' where w2: "put_up subject i (db w1) d2"
      "db w2 = d2\<lparr>admin_actions := admin_actions d2 @ [up]\<rparr>" "logs ''restore_post'' subject i actor' up"
      "opsFor subject = Inr ops" "undisturbed v" "db v = db w1" "run_state (po_get ops i) v = (Inr old, v')"
      "\<And>s. ps_removed_reason old = Some s \<Longrightarrow> (''removed_reason'', JString s) \<in> set (a_detail up)"
    by (rule RestorePost_effect) blast
  have "ps_removed_reason old = Some (trimmedReason why)"
    by (rule reason_after_down [OF assms(2) w1(2) w2(4,5) _ w2(7)]) (simp add: w2(6) w1(3))
  then show ?thesis
    using settled_round_trip [OF assms(2) w1(2) w2(1) w1(3)] w1(4) w2(2,3,8) by auto
qed

lemma takedown_round_trip_witness:
  "let down = run_state (RemovePost 3 ''listing'' 10 ''Not a real room'') sample_world;
       up = run_state (RestorePost 3 ''listing'' 10 ''It is a real room'') (snd down)
   in fst down = Inr () \<and> fst up = Inr () \<and> settled (db (snd up)) = settled sample_db"
proof -
  let ?down = "run_state (RemovePost 3 ''listing'' 10 ''Not a real room'') sample_world"
  let ?up = "run_state (RestorePost 3 ''listing'' 10 ''It is a real room'') (snd ?down)"
  have calm: "calm sample_world" by (simp add: calm_def undisturbed_def sample_world_def)
  have ok: "content_ok (db sample_world)" by code_simp
  have "fst ?down = Inr ()" "fst ?up = Inr ()" by code_simp+
  moreover from this have "?down = (Inr (), snd ?down)" "?up = (Inr (), snd ?up)" by (metis prod.collapse)+
  note takedown_round_trip [OF calm ok this]
  ultimately show ?thesis by (simp add: Let_def sample_world_def)
qed

end
