(* ===== verification/SeedData.thy ===== *)
theory SeedData
  imports Email
begin

text \<open>
  The fixtures of \<open>internal/db/seed/seed.go\<close> and \<open>requests.go\<close>: the accounts, the listings and the
  requests a development database starts with, each literal with its fields.
\<close>

section \<open>Types\<close>

record seed_poster =
  sp_username :: string
  sp_email :: string

record seed_listing =
  sl_poster :: string
  sl_title :: string
  sl_body :: string
  sl_conditions :: "string list"
  sl_price_cents :: int
  sl_deposit_cents :: "int option"
  sl_start_date :: string
  sl_end_date :: string
  sl_lease_months :: int
  sl_term_tag :: string
  sl_unit_type :: string
  sl_bedrooms_total :: int
  sl_bedroom_of :: "int option"
  sl_bathrooms :: rat
  sl_bath_type :: string
  sl_furnished :: bool
  sl_utilities :: "string list"
  sl_parking :: bool
  sl_pets :: bool
  sl_laundry :: bool
  sl_address_line :: string
  sl_neighbourhood :: string
  sl_distance_m :: int
  sl_commute_minutes :: int
  sl_commute_mode :: string
  sl_minutes_to_transit :: "int option"
  sl_minutes_to_grocery :: "int option"
  sl_shorter_stays :: bool
  sl_min_stay_months :: "int option"
  sl_bills_estimate_cents :: "int option"
  sl_views :: int
  sl_replies :: int
  sl_posted_days_ago :: int

record seed_request =
  sq_poster :: string
  sq_title :: string
  sq_body :: string
  sq_budget_cents :: int
  sq_start_date :: string
  sq_end_date :: string
  sq_lease_months :: int
  sq_term_tag :: string
  sq_occupants :: int
  sq_pets :: bool
  sq_furnished_preferred :: bool
  sq_parking_needed :: bool
  sq_laundry_needed :: bool
  sq_max_distance_m :: "int option"
  sq_neighbourhood :: string
  sq_posted_days_ago :: int
  sq_views :: int

section \<open>Fixtures\<close>

definition seed_posters :: "seed_poster list" where
  "seed_posters =
    [\<lparr>sp_username = ''meil'', sp_email = ''meil@uwaterloo.ca''\<rparr>,
     \<lparr>sp_username = ''danielo'', sp_email = ''danielo@uwaterloo.ca''\<rparr>,
     \<lparr>sp_username = ''priyas'', sp_email = ''priyas@uwaterloo.ca''\<rparr>,
     \<lparr>sp_username = ''ahmedr'', sp_email = ''ahmedr@uwaterloo.ca''\<rparr>,
     \<lparr>sp_username = ''kaylam'', sp_email = ''kaylam@uwaterloo.ca''\<rparr>,
     \<lparr>sp_username = ''tomasv'', sp_email = ''tomasv@uwaterloo.ca''\<rparr>]"

definition listing_of_meil :: seed_listing where
  "listing_of_meil =
     \<lparr>sl_poster = ''meil'', sl_title = ''Bright room in a 4-bed student house'',
      sl_body = ''I am heading to Ottawa for a Winter co-op and need someone to take my room from '' @
        ''January. It is the back bedroom on the second floor, so you get the quiet side of the '' @
        ''house '' @ em_dash @
        '' no street noise, and the room holds a double bed, a desk and a dresser with room left '' @
        ''over.'' @ newline2 @
        ''Three housemates are staying: two in 3B Environment and one in 2A Math. Everyone is '' @
        ''fairly quiet, cooks their own food and cleans the kitchen on a rota. The bus stop on '' @
        ''University Ave is a two-minute walk if you would rather not walk in February.'',
      sl_conditions = [''I would like to leave a few boxes and my winter tires in the basement storage.'',
        ''Sublet runs through the landlord's standard agreement '' @ em_dash @
        '' I will send the template before anything is signed.'',
        ''Looking for another student. Happy to come down on rent slightly for someone the house '' @
        ''gets on with.'',
        ''No smoking inside. Pets would need the landlord's approval.''],
      sl_price_cents = 84500, sl_deposit_cents = Some 84500, sl_start_date = ''2027-01-01'',
      sl_end_date = ''2027-04-30'', sl_lease_months = 4, sl_term_tag = ''Winter term'',
      sl_unit_type = ''room'', sl_bedrooms_total = 4, sl_bedroom_of = Some 1, sl_bathrooms = 1,
      sl_bath_type = ''shared'', sl_furnished = True,
      sl_utilities = [''internet'', ''hydro'', ''water'', ''heat''], sl_parking = False,
      sl_pets = False, sl_laundry = False, sl_address_line = ''Hazel St'',
      sl_neighbourhood = ''Northdale'', sl_distance_m = 800, sl_commute_minutes = 9,
      sl_commute_mode = ''walk'', sl_minutes_to_transit = Some 2, sl_minutes_to_grocery = Some 6,
      sl_shorter_stays = True, sl_min_stay_months = Some 2, sl_bills_estimate_cents = Some 1500,
      sl_views = 214, sl_replies = 6, sl_posted_days_ago = 2\<rparr>"

definition listing_of_danielo :: seed_listing where
  "listing_of_danielo =
     \<lparr>sl_poster = ''danielo'', sl_title = ''Quiet 1-bedroom basement apartment'',
      sl_body = ''Separate entrance at the side of the house, so you come and go without passing anyone. '' @
        ''The ceiling is a little low at the far end but the bedroom itself is a good size and '' @
        ''the windows are above ground.'',
      sl_conditions = [''Eight-month lease, no shorter.'', ''No smoking.''], sl_price_cents = 110000,
      sl_deposit_cents = None, sl_start_date = ''2027-01-01'', sl_end_date = ''2027-08-31'',
      sl_lease_months = 8, sl_term_tag = ''8 months'', sl_unit_type = ''unit'', sl_bedrooms_total = 1,
      sl_bedroom_of = None, sl_bathrooms = 1, sl_bath_type = ''private'', sl_furnished = False,
      sl_utilities = [''hydro''], sl_parking = False, sl_pets = False, sl_laundry = False,
      sl_address_line = ''Regina St N'', sl_neighbourhood = ''Uptown'', sl_distance_m = 1300,
      sl_commute_minutes = 14, sl_commute_mode = ''walk'', sl_minutes_to_transit = Some 4,
      sl_minutes_to_grocery = Some 3, sl_shorter_stays = True, sl_min_stay_months = Some 4,
      sl_bills_estimate_cents = Some 9500, sl_views = 98, sl_replies = 3, sl_posted_days_ago = 1\<rparr>"

definition listing_of_priyas :: seed_listing where
  "listing_of_priyas =
     \<lparr>sl_poster = ''priyas'', sl_title = ''Private room, sound-isolated corner unit'',
      sl_body = ''Corner room on the top floor with no shared walls to another bedroom. I put acoustic '' @
        ''panels on the one wall that adjoins the hallway and they are staying. Ensuite bathroom, '' @
        ''so no queue in the morning.'',
      sl_conditions = [''Spring term only.'', ''Quiet hours after 11pm '' @ em_dash @ '' the house keeps to them.''],
      sl_price_cents = 76000, sl_deposit_cents = None, sl_start_date = ''2027-05-01'',
      sl_end_date = ''2027-08-31'', sl_lease_months = 4, sl_term_tag = ''Spring term'',
      sl_unit_type = ''room'', sl_bedrooms_total = 5, sl_bedroom_of = Some 1, sl_bathrooms = 1,
      sl_bath_type = ''ensuite'', sl_furnished = True,
      sl_utilities = [''internet'', ''hydro'', ''water'', ''heat'', ''gas''], sl_parking = False,
      sl_pets = False, sl_laundry = False, sl_address_line = ''Lester St'',
      sl_neighbourhood = ''Northdale'', sl_distance_m = 500, sl_commute_minutes = 6,
      sl_commute_mode = ''walk'', sl_minutes_to_transit = Some 3, sl_minutes_to_grocery = Some 8,
      sl_shorter_stays = False, sl_min_stay_months = None, sl_bills_estimate_cents = Some 0,
      sl_views = 331, sl_replies = 11, sl_posted_days_ago = 4\<rparr>"

definition listing_of_ahmedr :: seed_listing where
  "listing_of_ahmedr =
     \<lparr>sl_poster = ''ahmedr'', sl_title = ''Two-bedroom unit, ideal for a pair of co-ops'',
      sl_body = ''Whole two-bedroom on the second floor of a small building. Both bedrooms fit a double '' @
        ''bed and a desk. One parking spot comes with it, which is rare this close to a bus route.'',
      sl_conditions = [''Two occupants maximum.'', ''Parking spot is for one car.''],
      sl_price_cents = 165000, sl_deposit_cents = Some 165000, sl_start_date = ''2027-09-01'',
      sl_end_date = ''2028-04-30'', sl_lease_months = 8, sl_term_tag = ''Fall + Winter'',
      sl_unit_type = ''unit'', sl_bedrooms_total = 2, sl_bedroom_of = None, sl_bathrooms = 1,
      sl_bath_type = ''private'', sl_furnished = True, sl_utilities = [''water'', ''heat''],
      sl_parking = True, sl_pets = False, sl_laundry = False, sl_address_line = ''King St N'',
      sl_neighbourhood = ''Uptown'', sl_distance_m = 2600, sl_commute_minutes = 18,
      sl_commute_mode = ''bus'', sl_minutes_to_transit = Some 1, sl_minutes_to_grocery = Some 4,
      sl_shorter_stays = False, sl_min_stay_months = None, sl_bills_estimate_cents = None,
      sl_views = 142, sl_replies = 2, sl_posted_days_ago = 6\<rparr>"

definition listing_of_kaylam :: seed_listing where
  "listing_of_kaylam =
     \<lparr>sl_poster = ''kaylam'', sl_title = ''Room in a townhouse with three grad students'',
      sl_body = ''Quiet house '' @ em_dash @
        '' everyone here is writing a thesis and keeps sensible hours. In-unit laundry, and the '' @
        ''landlord is fine with cats.'',
      sl_conditions = [''Cats are fine, dogs would need a conversation.'', ''Shared cleaning rota.''],
      sl_price_cents = 70000, sl_deposit_cents = None, sl_start_date = ''2027-01-01'',
      sl_end_date = ''2027-04-30'', sl_lease_months = 4, sl_term_tag = ''Winter term'',
      sl_unit_type = ''room'', sl_bedrooms_total = 4, sl_bedroom_of = Some 1, sl_bathrooms = 3 / 2,
      sl_bath_type = ''shared'', sl_furnished = False, sl_utilities = [''internet'', ''water''],
      sl_parking = False, sl_pets = True, sl_laundry = True, sl_address_line = ''Columbia St W'',
      sl_neighbourhood = ''Westmount'', sl_distance_m = 1100, sl_commute_minutes = 11,
      sl_commute_mode = ''walk'', sl_minutes_to_transit = Some 5, sl_minutes_to_grocery = Some 7,
      sl_shorter_stays = False, sl_min_stay_months = None, sl_bills_estimate_cents = Some 8500,
      sl_views = 187, sl_replies = 8, sl_posted_days_ago = 3\<rparr>"

definition listing_of_tomasv :: seed_listing where
  "listing_of_tomasv =
     \<lparr>sl_poster = ''tomasv'', sl_title = ''Studio with a desk wall and blackout blinds'',
      sl_body = ''Purpose-built studio: one room, kitchenette along the wall, own bathroom. The previous '' @
        ''tenant built a desk the full width of the window wall and it stays. Blackout blinds '' @
        ''throughout, which matters if you are working nights.'',
      sl_conditions = [''Full-year lease.'', ''No subletting on.''], sl_price_cents = 129000,
      sl_deposit_cents = Some 129000, sl_start_date = ''2027-01-01'', sl_end_date = ''2027-12-31'',
      sl_lease_months = 12, sl_term_tag = ''Full year'', sl_unit_type = ''studio'',
      sl_bedrooms_total = 0, sl_bedroom_of = None, sl_bathrooms = 1, sl_bath_type = ''private'',
      sl_furnished = True, sl_utilities = [''internet'', ''hydro'', ''water'', ''heat''],
      sl_parking = False, sl_pets = False, sl_laundry = False, sl_address_line = ''University Ave W'',
      sl_neighbourhood = ''Northdale'', sl_distance_m = 600, sl_commute_minutes = 7,
      sl_commute_mode = ''walk'', sl_minutes_to_transit = Some 2, sl_minutes_to_grocery = Some 9,
      sl_shorter_stays = False, sl_min_stay_months = None, sl_bills_estimate_cents = None,
      sl_views = 256, sl_replies = 5, sl_posted_days_ago = 5\<rparr>"

definition seed_listings :: "seed_listing list" where
  "seed_listings = [listing_of_meil, listing_of_danielo, listing_of_priyas, listing_of_ahmedr, listing_of_kaylam, listing_of_tomasv]"

definition request_of_danielo :: seed_request where
  "request_of_danielo =
     \<lparr>sq_poster = ''danielo'', sq_title = ''Quiet room within walking distance, Winter term'',
      sq_body = ''Coming back from a Toronto co-op in January. I study late and sleep light, so sound '' @
        ''isolation matters more to me than square footage. Clean, no parties, happy to sign a '' @
        ''sublet agreement and pay the term up front if that helps.'',
      sq_budget_cents = 90000, sq_start_date = ''2027-01-01'', sq_end_date = ''2027-04-30'',
      sq_lease_months = 4, sq_term_tag = ''Winter term'', sq_occupants = 1, sq_pets = False,
      sq_furnished_preferred = True, sq_parking_needed = False, sq_laundry_needed = False,
      sq_max_distance_m = Some 2000, sq_neighbourhood = ''Northdale'', sq_posted_days_ago = 2,
      sq_views = 41\<rparr>"

definition request_of_priyas :: seed_request where
  "request_of_priyas =
     \<lparr>sq_poster = ''priyas'', sq_title = ''Two roommates looking for a 2-bed from January'',
      sq_body = ''We have lived together since first year and are both on the same co-op cycle. Tidy, '' @
        ''quiet, references from our current landlord available. A second bathroom would be a '' @
        ''luxury but we can share.'',
      sq_budget_cents = 175000, sq_start_date = ''2027-01-01'', sq_end_date = ''2027-08-31'',
      sq_lease_months = 8, sq_term_tag = ''8 months'', sq_occupants = 2, sq_pets = False,
      sq_furnished_preferred = False, sq_parking_needed = False, sq_laundry_needed = True,
      sq_max_distance_m = Some 3000, sq_neighbourhood = ''Uptown'', sq_posted_days_ago = 4,
      sq_views = 88\<rparr>"

definition request_of_ahmedr :: seed_request where
  "request_of_ahmedr =
     \<lparr>sq_poster = ''ahmedr'', sq_title = ''Spring term sublet, anywhere on a bus route'',
      sq_body = ''Four months in Waterloo for a research term. I do not need to be close to campus as '' @
        ''long as the bus is direct, which should widen the field a good deal. Parking for a '' @
        ''small car would help.'',
      sq_budget_cents = 80000, sq_start_date = ''2027-05-01'', sq_end_date = ''2027-08-31'',
      sq_lease_months = 4, sq_term_tag = ''Spring term'', sq_occupants = 1, sq_pets = False,
      sq_furnished_preferred = False, sq_parking_needed = True, sq_laundry_needed = False,
      sq_max_distance_m = None, sq_neighbourhood = [], sq_posted_days_ago = 6, sq_views = 23\<rparr>"

definition request_of_kaylam :: seed_request where
  "request_of_kaylam =
     \<lparr>sq_poster = ''kaylam'', sq_title = ''Room with a desk for a full year, pets welcome either way'',
      sq_body = ''Starting a master's in September and would rather sign once than move twice. I have a '' @
        ''cat, so I need somewhere that allows one '' @ em_dash @
        '' that is the hard constraint, everything else is negotiable.'',
      sq_budget_cents = 110000, sq_start_date = ''2027-09-01'', sq_end_date = ''2028-08-31'',
      sq_lease_months = 12, sq_term_tag = ''Full year'', sq_occupants = 1, sq_pets = True,
      sq_furnished_preferred = True, sq_parking_needed = False, sq_laundry_needed = False,
      sq_max_distance_m = Some 1500, sq_neighbourhood = ''Northdale'', sq_posted_days_ago = 9,
      sq_views = 64\<rparr>"

definition request_of_tomasv :: seed_request where
  "request_of_tomasv =
     \<lparr>sq_poster = ''tomasv'', sq_title = ''Fall + Winter, studio or a very quiet room'',
      sq_body = ''I work nights and sleep through part of the morning, which has not gone well in a '' @
        ''shared house before. A studio is ideal; a room in a quiet place with an understanding '' @
        ''housemate is fine too.'',
      sq_budget_cents = 130000, sq_start_date = ''2027-09-01'', sq_end_date = ''2028-04-30'',
      sq_lease_months = 8, sq_term_tag = ''Fall + Winter'', sq_occupants = 1, sq_pets = False,
      sq_furnished_preferred = False, sq_parking_needed = False, sq_laundry_needed = False,
      sq_max_distance_m = Some 6000, sq_neighbourhood = [], sq_posted_days_ago = 12, sq_views = 31\<rparr>"

definition seed_requests :: "seed_request list" where
  "seed_requests = [request_of_danielo, request_of_priyas, request_of_ahmedr, request_of_kaylam, request_of_tomasv]"

end
