(* ===== verification/Seed.thy ===== *)
theory Seed
  imports SeedData Browse Config
begin

text \<open>
  \<open>Run\<close> of \<open>internal/db/seed/seed.go\<close>, which loads the fixtures, with the two statements only it uses,
  and \<open>cmd/seed/main.go\<close>, which calls it. \<open>Run\<close> is not a transaction: each statement commits, and the
  first error ends it where it stands.
\<close>

section \<open>Deleting\<close>

text \<open>
  The rows that refer to a deleted row go with it (\<open>ON DELETE CASCADE\<close>, migrations 3, 7 and 11): with
  a listing its photos, the offers of it and the conversations about it with their messages. An
  offer left behind loses its reference to a deleted conversation (\<open>ON DELETE SET NULL\<close>, migration 13).
\<close>

definition delete_conversations :: "uuid set \<Rightarrow> time \<Rightarrow> database \<Rightarrow> database" where
  "delete_conversations gone t d = d\<lparr>
     conversations := filter (\<lambda>c. c_id c \<notin> gone) (conversations d),
     messages := filter (\<lambda>m. m_conversation_id m \<notin> gone) (messages d),
     offers := update_where (\<lambda>x. o_conversation_id x \<in> Some ` gone)
       (\<lambda>x. x\<lparr>o_conversation_id := None, o_updated_at := t\<rparr>) (offers d)\<rparr>"

definition delete_listings :: "uuid set \<Rightarrow> time \<Rightarrow> database \<Rightarrow> database" where
  "delete_listings gone t d =
     delete_conversations (c_id ` {c \<in> set (conversations d). c_listing_id c \<in> gone}) t (d\<lparr>
       listings := filter (\<lambda>l. l_id l \<notin> gone) (listings d),
       photos := filter (\<lambda>p. ph_listing_id p \<notin> gone) (photos d),
       offers := filter (\<lambda>x. o_listing_id x \<notin> gone) (offers d)\<rparr>)"

definition delete_requests :: "uuid set \<Rightarrow> database \<Rightarrow> database" where
  "delete_requests gone d = d\<lparr>
     requests := filter (\<lambda>q. q_id q \<notin> gone) (requests d),
     offers := filter (\<lambda>x. o_request_id x \<notin> gone) (offers d)\<rparr>"

definition DeleteAllListings :: "unit res go" where
  "DeleteAllListings = exec (\<lambda>t d. (Inr (), delete_listings (l_id ` set (listings d)) t d))"

definition DeleteAllRequests :: "unit res go" where
  "DeleteAllRequests = exec (\<lambda>t d. (Inr (), delete_requests (q_id ` set (requests d)) d))"

section \<open>Dates\<close>

text \<open>\<open>time.Parse(time.DateOnly, s)\<close>: four digits, two and two, of a day the calendar has.\<close>

definition parse_date :: "string \<Rightarrow> date res" where
  "parse_date s =
     (let bad = Inl (OtherError ''parsing time'')
      in if length s \<noteq> 10 \<or> s ! 4 \<noteq> CHR ''-'' \<or> s ! 7 \<noteq> CHR ''-'' then bad
         else case (digits_value 0 (take 4 s), digits_value 0 (take 2 (drop 5 s)), digits_value 0 (drop 8 s)) of
           (Some y, Some m, Some d) \<Rightarrow>
             if 1 \<le> m \<and> m \<le> 12 \<and> 1 \<le> d \<and> days_from_civil y m d \<le> last_day y m
             then Inr (days_from_civil y m d) else bad
         | _ \<Rightarrow> bad)"

text \<open>\<open>now.AddDate(0, 0, -n)\<close> in a zone without changes of its offset, such as UTC.\<close>

definition days_before :: "int \<Rightarrow> time \<Rightarrow> time" where
  "days_before n now = now - n * (24 * hour)"

section \<open>Run\<close>

definition seedPassword :: string where
  "seedPassword = ''seed account password''"

fun seed_users ::
  "string \<Rightarrow> seed_poster list \<Rightarrow> (string \<Rightarrow> uuid option) \<Rightarrow> (string \<Rightarrow> uuid option) res go" where
  "seed_users hash [] owners = State_Monad.return (Inr owners)"
| "seed_users hash (p # ps) owners = do {
     found \<leftarrow> GetUserByEmail (sp_email p);
     case found of
       Inr user \<Rightarrow> seed_users hash ps (owners(sp_username p \<mapsto> u_id user))
     | Inl e \<Rightarrow>
         if errors_is e ErrNoRows then do {
           created \<leftarrow> CreateUser (sp_email p) (sp_username p) hash;
           case created of
             Inl e \<Rightarrow> State_Monad.return (Inl (Wrapped (''create seed user '' @ sp_username p) e))
           | Inr user \<Rightarrow> do {
               marked \<leftarrow> MarkUserVerified (u_id user);
               case marked of
                 Inl e \<Rightarrow> State_Monad.return (Inl (Wrapped (''verify seed user '' @ sp_username p) e))
               | Inr _ \<Rightarrow> seed_users hash ps (owners(sp_username p \<mapsto> u_id user)) } }
         else State_Monad.return (Inl (Wrapped (''look up seed user '' @ sp_username p) e)) }"

text \<open>No title and no name of a fixture has a character that \<open>%q\<close> would escape.\<close>

definition post_label :: "string \<Rightarrow> string \<Rightarrow> string" where
  "post_label kind title = kind @ '' '' @ dquote @ title @ dquote"

definition unknown_poster :: "string \<Rightarrow> string \<Rightarrow> string \<Rightarrow> error" where
  "unknown_poster kind title poster = OtherError
     (post_label kind title @ '' references unknown poster '' @ dquote @ poster @ dquote)"

definition seed_listing_params :: "uuid \<Rightarrow> date \<Rightarrow> date \<Rightarrow> time \<Rightarrow> seed_listing \<Rightarrow> listing" where
  "seed_listing_params owner start_on end_on now l =
     \<lparr>l_id = 0, l_owner_id = owner, l_title = sl_title l, l_body = sl_body l,
      l_conditions = sl_conditions l, l_price_cents = sl_price_cents l,
      l_deposit_cents = sl_deposit_cents l, l_start_date = start_on, l_end_date = end_on,
      l_lease_months = sl_lease_months l, l_term_tag = sl_term_tag l, l_unit_type = sl_unit_type l,
      l_bedrooms_total = sl_bedrooms_total l, l_bedroom_of = sl_bedroom_of l,
      l_bathrooms = sl_bathrooms l, l_bath_type = sl_bath_type l, l_furnished = sl_furnished l,
      l_utilities = sl_utilities l, l_parking = sl_parking l, l_pets = sl_pets l,
      l_laundry = sl_laundry l, l_address_line = sl_address_line l,
      l_neighbourhood = sl_neighbourhood l, l_lat = None, l_lng = None,
      l_distance_m = Some (sl_distance_m l), l_commute_minutes = Some (sl_commute_minutes l),
      l_commute_mode = sl_commute_mode l, l_minutes_to_transit = sl_minutes_to_transit l,
      l_minutes_to_grocery = sl_minutes_to_grocery l, l_status = ''published'', l_views = sl_views l,
      l_replies = sl_replies l, l_saves = 0, l_created_at = days_before (sl_posted_days_ago l) now,
      l_updated_at = now, l_published_at = None, l_removed_at = None, l_removed_by = None,
      l_removed_reason = None, l_shorter_stays = sl_shorter_stays l,
      l_min_stay_months = sl_min_stay_months l, l_bills_estimate_cents = sl_bills_estimate_cents l,
      l_cross_streets = []\<rparr>"

definition seed_request_params :: "uuid \<Rightarrow> date \<Rightarrow> date \<Rightarrow> time \<Rightarrow> seed_request \<Rightarrow> housing_request" where
  "seed_request_params poster start_on end_on now r =
     \<lparr>q_id = 0, q_poster_id = poster, q_title = sq_title r, q_body = sq_body r,
      q_budget_cents = sq_budget_cents r, q_start_date = start_on, q_end_date = end_on,
      q_lease_months = sq_lease_months r, q_term_tag = sq_term_tag r, q_occupants = sq_occupants r,
      q_pets = sq_pets r, q_furnished_preferred = sq_furnished_preferred r,
      q_parking_needed = sq_parking_needed r, q_laundry_needed = sq_laundry_needed r,
      q_max_distance_m = sq_max_distance_m r, q_neighbourhood = sq_neighbourhood r,
      q_status = ''published'', q_published_at = None, q_views = sq_views r,
      q_created_at = days_before (sq_posted_days_ago r) now, q_updated_at = now, q_removed_at = None,
      q_removed_by = None, q_removed_reason = None\<rparr>"

fun put_listings :: "(string \<Rightarrow> uuid option) \<Rightarrow> time \<Rightarrow> seed_listing list \<Rightarrow> unit res go" where
  "put_listings owners now [] = State_Monad.return (Inr ())"
| "put_listings owners now (l # ls) =
     (case owners (sl_poster l) of
        None \<Rightarrow> State_Monad.return (Inl (unknown_poster ''listing'' (sl_title l) (sl_poster l)))
      | Some owner \<Rightarrow>
          (case parse_date (sl_start_date l) of
             Inl e \<Rightarrow> State_Monad.return (Inl (Wrapped (post_label ''listing'' (sl_title l) @ '' start date'') e))
           | Inr start_on \<Rightarrow>
               (case parse_date (sl_end_date l) of
                  Inl e \<Rightarrow> State_Monad.return (Inl (Wrapped (post_label ''listing'' (sl_title l) @ '' end date'') e))
                | Inr end_on \<Rightarrow> do {
                    r \<leftarrow> CreateListing_sql (seed_listing_params owner start_on end_on now l);
                    case r of
                      Inl e \<Rightarrow> State_Monad.return (Inl (Wrapped (post_label ''create listing'' (sl_title l)) e))
                    | Inr _ \<Rightarrow> put_listings owners now ls })))"

fun put_requests :: "(string \<Rightarrow> uuid option) \<Rightarrow> time \<Rightarrow> seed_request list \<Rightarrow> unit res go" where
  "put_requests owners now [] = State_Monad.return (Inr ())"
| "put_requests owners now (r # rs) =
     (case owners (sq_poster r) of
        None \<Rightarrow> State_Monad.return (Inl (unknown_poster ''request'' (sq_title r) (sq_poster r)))
      | Some poster \<Rightarrow>
          (case parse_date (sq_start_date r) of
             Inl e \<Rightarrow> State_Monad.return (Inl (Wrapped (post_label ''request'' (sq_title r) @ '' start date'') e))
           | Inr start_on \<Rightarrow>
               (case parse_date (sq_end_date r) of
                  Inl e \<Rightarrow> State_Monad.return (Inl (Wrapped (post_label ''request'' (sq_title r) @ '' end date'') e))
                | Inr end_on \<Rightarrow> do {
                    x \<leftarrow> CreateRequest_sql (seed_request_params poster start_on end_on now r);
                    case x of
                      Inl e \<Rightarrow> State_Monad.return (Inl (Wrapped (post_label ''create request'' (sq_title r)) e))
                    | Inr _ \<Rightarrow> put_requests owners now rs })))"

definition Run :: "env \<Rightarrow> int res go" where
  "Run env = do {
     h \<leftarrow> HashPassword env seedPassword;
     case h of
       Inl e \<Rightarrow> State_Monad.return (Inl (Wrapped ''hash seed password'' e))
     | Inr hash \<Rightarrow> do {
         users \<leftarrow> seed_users hash seed_posters (\<lambda>_. None);
         case users of
           Inl e \<Rightarrow> State_Monad.return (Inl e)
         | Inr owners \<Rightarrow> do {
             cleared \<leftarrow> DeleteAllListings;
             case cleared of
               Inl e \<Rightarrow> State_Monad.return (Inl (Wrapped ''clear listings'' e))
             | Inr _ \<Rightarrow> do {
                 now \<leftarrow> time_now;
                 posted \<leftarrow> put_listings owners now seed_listings;
                 case posted of
                   Inl e \<Rightarrow> State_Monad.return (Inl e)
                 | Inr _ \<Rightarrow> do {
                     cleared \<leftarrow> DeleteAllRequests;
                     case cleared of
                       Inl e \<Rightarrow> State_Monad.return (Inl (Wrapped ''clear requests'' e))
                     | Inr _ \<Rightarrow> do {
                         asked \<leftarrow> put_requests owners now seed_requests;
                         State_Monad.return (case asked of
                             Inl e \<Rightarrow> Inl e
                           | Inr _ \<Rightarrow> Inr (int (length seed_listings + length seed_requests))) } } } } } }"

section \<open>The command\<close>

datatype seed_exit =
    BadSettings "problem list"
  | RefusedToSeed
  | NoDatabase error
  | SeedFailed error
  | Seeded int

text \<open>\<open>open_pool\<close> is the connection of the database, which may fail.\<close>

definition seed_main ::
  "(string \<Rightarrow> string) \<Rightarrow> (string \<Rightarrow> (string \<times> string) option) \<Rightarrow> (string \<Rightarrow> unit res go) \<Rightarrow> env \<Rightarrow>
   seed_exit go" where
  "seed_main getenv ParseAddress open_pool env =
     (case Load getenv ParseAddress of
        Inl bad \<Rightarrow> State_Monad.return (BadSettings bad)
      | Inr cfg \<Rightarrow>
          if \<not> IsDevelopment cfg then State_Monad.return RefusedToSeed
          else do {
            pool \<leftarrow> open_pool (DatabaseURL cfg);
            case pool of
              Inl e \<Rightarrow> State_Monad.return (NoDatabase e)
            | Inr _ \<Rightarrow> do {
                r \<leftarrow> Run env;
                State_Monad.return (case r of Inl e \<Rightarrow> SeedFailed e | Inr n \<Rightarrow> Seeded n) } })"

lemma no_seeding_outside_development:
  "Load getenv ParseAddress = Inr cfg \<Longrightarrow> \<not> IsDevelopment cfg \<Longrightarrow>
   run_state (seed_main getenv ParseAddress open_pool env) w = (RefusedToSeed, w)"
  by (simp add: seed_main_def)

end
