(* ===== verification/SeedProofs.thy ===== *)
theory SeedProofs
  imports Seed Integrity AuthProofs
begin

text \<open>
  What seeding a development database guarantees: the fixtures are ones the service would accept,
  the database stays well formed wherever the seed stops, and running it again ends where the first
  run did.
\<close>

section \<open>The fixtures\<close>

text \<open>What the service's own validation and the table say of a post, its dates read.\<close>

definition listing_acceptable :: "uuid \<Rightarrow> time \<Rightarrow> seed_listing \<Rightarrow> bool" where
  "listing_acceptable owner now l =
     (case (parse_date (sl_start_date l), parse_date (sl_end_date l)) of
        (Inr a, Inr b) \<Rightarrow>
          (let p = seed_listing_params owner a b now l
           in validateListing p = [] \<and> listing_violation p = None \<and> numeric31 (l_bathrooms p) = l_bathrooms p)
      | _ \<Rightarrow> False)"

definition request_acceptable :: "uuid \<Rightarrow> time \<Rightarrow> seed_request \<Rightarrow> bool" where
  "request_acceptable poster now r =
     (case (parse_date (sq_start_date r), parse_date (sq_end_date r)) of
        (Inr a, Inr b) \<Rightarrow>
          (let p = seed_request_params poster a b now r in validateRequest p = [] \<and> request_violation p = None)
      | _ \<Rightarrow> False)"

definition known_poster :: "string \<Rightarrow> bool" where
  "known_poster n = list_ex (\<lambda>p. sp_username p = n) seed_posters"

lemma request_acceptableI:
  assumes "case (parse_date (sq_start_date r), parse_date (sq_end_date r)) of (Inr a, Inr b) \<Rightarrow> a < b | _ \<Rightarrow> False"
    and "8 \<le> length (trim_space (sq_title r)) \<and> rune_count (sq_title r) \<le> 200"
    and "rune_count (sq_term_tag r) \<le> 40 \<and> rune_count (sq_neighbourhood r) \<le> 80"
    and "0 < sq_budget_cents r \<and> 1 \<le> sq_lease_months r \<and> sq_lease_months r \<le> 24"
    and "1 \<le> sq_occupants r \<and> sq_occupants r \<le> 12 \<and> 0 \<le> sq_views r"
    and "1 \<le> default_if_nil (sq_max_distance_m r) 1"
  shows "request_acceptable poster now r"
proof -
  have status: "rune_count ''published'' = 9" by code_simp
  from assms(1) obtain a b where "parse_date (sq_start_date r) = Inr a" "parse_date (sq_end_date r) = Inr b" "a < b"
    by (auto split: sum.splits)
  then show ?thesis
    using assms(2-) status
    by (cases "sq_max_distance_m r")
      (simp_all add: request_acceptable_def validateRequest_def validateRequestRow_def request_rules_def
        seed_request_params_def request_violation_def requests_fit_def requests_check_def statuses_def)
qed


section \<open>What stays well formed\<close>

lemma filter_referring: "f ` set xs \<subseteq> A \<Longrightarrow> filter (\<lambda>x. f x \<notin> A) xs = []"
  by (auto simp: filter_empty_conv)

lemma delete_every_listing:
  assumes "references d"
  shows "delete_listings (l_id ` set (listings d)) t d = d\<lparr>
    photos := filter (\<lambda>p. ph_listing_id p \<notin> l_id ` set (listings d)) (photos d),
    listings := [], offers := [], conversations := [], messages := []\<rparr>"
proof -
  have "filter (\<lambda>l. l_id l \<notin> l_id ` set (listings d)) (listings d) = []"
    "filter (\<lambda>x. o_listing_id x \<notin> l_id ` set (listings d)) (offers d) = []"
    using assms by (intro filter_referring; simp add: references_def)+
  moreover have talks: "{c \<in> set (conversations d). c_listing_id c \<in> l_id ` set (listings d)} = set (conversations d)"
    using assms by (auto simp: references_def)
  moreover have "filter (\<lambda>c. c_id c \<notin> c_id ` set (conversations d)) (conversations d) = []"
    "filter (\<lambda>m. m_conversation_id m \<notin> c_id ` set (conversations d)) (messages d) = []"
    using assms by (intro filter_referring; simp add: references_def)+
  ultimately show ?thesis
    by (simp add: delete_listings_def delete_conversations_def update_where_def)
qed

lemma delete_every_request:
  assumes "references d"
  shows "delete_requests (q_id ` set (requests d)) d = d\<lparr>requests := [], offers := []\<rparr>"
proof -
  have "filter (\<lambda>q. q_id q \<notin> q_id ` set (requests d)) (requests d) = []"
    "filter (\<lambda>x. o_request_id x \<notin> q_id ` set (requests d)) (offers d) = []"
    using assms by (intro filter_referring; simp add: references_def)+
  then show ?thesis by (simp add: delete_requests_def)
qed

lemma content_deletes [keeps_intros]:
  "keeps (db_inv content_ok) DeleteAllListings" "keeps (db_inv content_ok) DeleteAllRequests"
  unfolding DeleteAllListings_def DeleteAllRequests_def
  by (rule db_inv_exec;
      simp add: content_ok_def delete_every_listing delete_every_request table_ok_def; simp add: references_def)+

lemma accounts_posts [keeps_intros]:
  "keeps (db_inv accounts_ok) DeleteAllListings" "keeps (db_inv accounts_ok) DeleteAllRequests"
  "keeps (db_inv accounts_ok) (CreateListing_sql p)" "keeps (db_inv accounts_ok) (CreateRequest_sql q)"
  unfolding DeleteAllListings_def DeleteAllRequests_def post_query_defs
  by (rule db_inv_exec db_inv_insert_row;
      simp add: accounts_ok_def delete_listings_def delete_conversations_def delete_requests_def Let_def
        split: option.split)+

lemma keeps_fixtures:
  assumes "\<And>email. keeps I (GetUserByEmail email)" "\<And>email username h. keeps I (CreateUser email username h)"
    "\<And>i. keeps I (MarkUserVerified i)" "\<And>p. keeps I (CreateListing_sql p)" "\<And>q. keeps I (CreateRequest_sql q)"
  shows "keeps I (seed_users hash ps owners)" "keeps I (put_listings owners now ls)"
    "keeps I (put_requests owners now rs)"
proof -
  show "keeps I (seed_users hash ps owners)"
    by (induction ps arbitrary: owners) (simp_all, (intro keeps_intros assms | assumption)+)
  show "keeps I (put_listings owners now ls)"
    by (induction ls) (simp_all, (intro keeps_intros assms | assumption)+)
  show "keeps I (put_requests owners now rs)"
    by (induction rs) (simp_all, (intro keeps_intros assms | assumption)+)
qed


section \<open>Accounts\<close>

definition account :: "user list \<Rightarrow> string \<Rightarrow> user option" where
  "account us email = List.find (\<lambda>u. to_lower (u_email u) = to_lower email) us"

definition account_id :: "user list \<Rightarrow> string \<Rightarrow> uuid" where
  "account_id us email = (case account us email of None \<Rightarrow> 0 | Some u \<Rightarrow> u_id u)"

text \<open>The map of the loop: each name to the account that has its address.\<close>

definition owners_of :: "user list \<Rightarrow> seed_poster list \<Rightarrow> (string \<Rightarrow> uuid option) \<Rightarrow> string \<Rightarrow> uuid option" where
  "owners_of us ps m = fold (\<lambda>p m. m(sp_username p \<mapsto> account_id us (sp_email p))) ps m"

lemma account_append: "account (us @ vs) email = (case account us email of None \<Rightarrow> account vs email | Some u \<Rightarrow> Some u)"
  by (induction us) (simp_all add: account_def)

lemma account_kept: "account us email = Some u \<Longrightarrow> account (us @ vs) email = Some u"
  by (simp add: account_append)

lemma run_GetUserByEmail:
  "events w = [] \<Longrightarrow> run_state (GetUserByEmail email) w =
     (case account (users (db w)) email of None \<Rightarrow> Inl ErrNoRows | Some u \<Rightarrow> Inr u, w)"
  by (simp add: GetUserByEmail_def stmt_simps account_def)

lemma run_CreateUser:
  assumes "events w = []" and "run_state (CreateUser email username hash) w = (Inr u, w')"
  shows "events w' = [] \<and> db w' = (db w)\<lparr>users := users (db w) @ [u]\<rparr> \<and> u_email u = email \<and>
    u_id u \<notin> u_id ` set (users (db w)) \<and> clock w' = clock w"
  using assms
  by (auto simp: CreateUser_def stmt_simps Let_def list_ex_iff users_clash_def split: if_splits)

lemma run_MarkUserVerified_last:
  assumes "events w = []" and "users (db w) = us @ [u]" and "u_id u \<notin> u_id ` set us"
    and "run_state (MarkUserVerified (u_id u)) w = (Inr v, w')"
  shows "events w' = [] \<and> clock w' = clock w \<and> u_id v = u_id u \<and> u_email v = u_email u \<and> u_verified v \<and>
    db w' = (db w)\<lparr>users := us @ [v]\<rparr>"
proof -
  have other: "u_id x \<noteq> u_id u" if "x \<in> set us" for x
    using that assms(3) by (metis image_eqI)
  then have "List.find (\<lambda>x. u_id x = u_id u) us = None"
    by (simp add: find_None_iff)
  then have found: "List.find (\<lambda>x. u_id x = u_id u) (us @ [u]) = Some u"
    by (induction us) (auto split: if_splits)
  have "update_where (\<lambda>x. u_id x = u_id u) f (us @ [u]) = us @ [f u]" for f
    using other by (induction us) (auto simp: update_where_def)
  with assms found show ?thesis
    by (auto simp: MarkUserVerified_def stmt_simps update_user_def Let_def split: if_splits)
qed

text \<open>
  The loop over the accounts appends the ones that are missing, verified, and touches nothing else.
\<close>

lemma seed_users_run:
  assumes "events w = []" and "run_state (seed_users hash ps m) w = (Inr owners, w')"
  shows "\<exists>new. events w' = [] \<and> clock w' = clock w \<and> db w' = (db w)\<lparr>users := users (db w) @ new\<rparr> \<and>
    list_all u_verified new \<and> owners = owners_of (users (db w')) ps m \<and>
    list_all (\<lambda>p. account (users (db w')) (sp_email p) \<noteq> None) ps \<and>
    (list_all (\<lambda>p. account (users (db w)) (sp_email p) \<noteq> None) ps \<longrightarrow> new = [])"
  using assms
proof (induction ps arbitrary: m w)
  case Nil
  then show ?case by (auto simp: owners_of_def intro: exI [of _ "[]"])
next
  case (Cons p ps)
  show ?case
  proof (cases "account (users (db w)) (sp_email p)")
    case (Some u)
    with Cons.prems have run: "run_state (seed_users hash ps (m(sp_username p \<mapsto> u_id u))) w = (Inr owners, w')"
      by (simp add: run_GetUserByEmail)
    from Cons.IH [OF Cons.prems(1) run] obtain new where new:
      "events w' = []" "clock w' = clock w" "db w' = (db w)\<lparr>users := users (db w) @ new\<rparr>" "list_all u_verified new"
      "owners = owners_of (users (db w')) ps (m(sp_username p \<mapsto> u_id u))"
      "list_all (\<lambda>p. account (users (db w')) (sp_email p) \<noteq> None) ps"
      "list_all (\<lambda>p. account (users (db w)) (sp_email p) \<noteq> None) ps \<longrightarrow> new = []"
      by blast
    have "account (users (db w')) (sp_email p) = Some u" using Some new(3) by (simp add: account_kept)
    then show ?thesis
      using new by (intro exI [of _ new]) (simp add: owners_of_def account_id_def)
  next
    case None
    with Cons.prems obtain u w1 v w2 where steps:
      "run_state (CreateUser (sp_email p) (sp_username p) hash) w = (Inr u, w1)"
      "run_state (MarkUserVerified (u_id u)) w1 = (Inr v, w2)"
      "run_state (seed_users hash ps (m(sp_username p \<mapsto> u_id u))) w2 = (Inr owners, w')"
      by (auto simp: run_GetUserByEmail split: prod.splits sum.splits)
    note made = run_CreateUser [OF Cons.prems(1) steps(1)]
    have marked: "events w2 = []" "clock w2 = clock w" "u_id v = u_id u" "u_email v = sp_email p" "u_verified v"
      "db w2 = (db w)\<lparr>users := users (db w) @ [v]\<rparr>"
      using run_MarkUserVerified_last [OF _ _ _ steps(2), of "users (db w)"] made by auto
    from Cons.IH [OF marked(1) steps(3)] obtain new where new:
      "events w' = []" "clock w' = clock w2" "db w' = (db w2)\<lparr>users := users (db w2) @ new\<rparr>" "list_all u_verified new"
      "owners = owners_of (users (db w')) ps (m(sp_username p \<mapsto> u_id u))"
      "list_all (\<lambda>p. account (users (db w')) (sp_email p) \<noteq> None) ps"
      by blast
    have "account (users (db w) @ [v]) (sp_email p) = Some v"
      using None marked(4) by (simp add: account_append) (simp add: account_def)
    from account_kept [OF this, of new] have "account (users (db w')) (sp_email p) = Some v"
      using new(3) marked(6) by simp
    then show ?thesis
      using new marked None by (intro exI [of _ "v # new"]) (simp add: owners_of_def account_id_def)
  qed
qed

section \<open>Posts\<close>

text \<open>A row without what differs from run to run: its key and its timestamps.\<close>

definition timeless_listing :: "listing \<Rightarrow> listing" where
  "timeless_listing l = l\<lparr>l_id := 0, l_created_at := 0, l_updated_at := 0\<rparr>"

definition timeless_request :: "housing_request \<Rightarrow> housing_request" where
  "timeless_request q = q\<lparr>q_id := 0, q_published_at := None, q_created_at := 0, q_updated_at := 0\<rparr>"

definition date_of :: "string \<Rightarrow> date" where
  "date_of s = (case parse_date s of Inl _ \<Rightarrow> 0 | Inr d \<Rightarrow> d)"

text \<open>The row a fixture becomes.\<close>

definition listing_row_of :: "(string \<Rightarrow> uuid option) \<Rightarrow> seed_listing \<Rightarrow> listing" where
  "listing_row_of owners l =
     (let p = seed_listing_params (default_if_nil (owners (sl_poster l)) 0)
                (date_of (sl_start_date l)) (date_of (sl_end_date l)) 0 l
      in timeless_listing (p\<lparr>l_bathrooms := numeric31 (l_bathrooms p)\<rparr>))"

definition request_row_of :: "(string \<Rightarrow> uuid option) \<Rightarrow> seed_request \<Rightarrow> housing_request" where
  "request_row_of owners r =
     timeless_request (seed_request_params (default_if_nil (owners (sq_poster r)) 0)
       (date_of (sq_start_date r)) (date_of (sq_end_date r)) 0 r)"

lemma run_CreateListing_sql:
  assumes "events w = []" and "run_state (CreateListing_sql p) w = (Inr l, w')"
  shows "events w' = [] \<and> db w' = (db w)\<lparr>listings := listings (db w) @ [l]\<rparr> \<and>
    (\<exists>i. l = p\<lparr>l_id := i, l_bathrooms := numeric31 (l_bathrooms p), l_saves := 0, l_updated_at := clock w,
      l_published_at := None, l_removed_at := None, l_removed_by := None, l_removed_reason := None\<rparr>)"
  using assms
  by (auto simp: CreateListing_sql_def stmt_simps Let_def split: if_splits option.splits)

lemma run_CreateRequest_sql:
  assumes "events w = []" and "run_state (CreateRequest_sql p) w = (Inr q, w')"
  shows "events w' = [] \<and> db w' = (db w)\<lparr>requests := requests (db w) @ [q]\<rparr> \<and>
    (\<exists>i. q = p\<lparr>q_id := i, q_published_at := (if q_status p = ''published'' then Some (clock w) else None),
      q_updated_at := clock w, q_removed_at := None, q_removed_by := None, q_removed_reason := None\<rparr>)"
  using assms
  by (auto simp: CreateRequest_sql_def stmt_simps Let_def split: if_splits option.splits)

lemma put_listings_run:
  assumes "events w = []" and "run_state (put_listings owners now ls) w = (Inr (), w')"
  shows "\<exists>rows. events w' = [] \<and> db w' = (db w)\<lparr>listings := listings (db w) @ rows\<rparr> \<and>
    map timeless_listing rows = map (listing_row_of owners) ls"
  using assms
proof (induction ls arbitrary: w)
  case Nil
  then show ?case by (auto intro: exI [of _ "[]"])
next
  case (Cons l ls)
  from Cons.prems obtain owner a b row w1 where steps:
    "owners (sl_poster l) = Some owner" "parse_date (sl_start_date l) = Inr a" "parse_date (sl_end_date l) = Inr b"
    "run_state (CreateListing_sql (seed_listing_params owner a b now l)) w = (Inr row, w1)"
    "run_state (put_listings owners now ls) w1 = (Inr (), w')"
    by (auto split: prod.splits sum.splits option.splits)
  note made = run_CreateListing_sql [OF Cons.prems(1) steps(4)]
  from Cons.IH [OF _ steps(5)] made obtain rows where rows:
    "events w' = []" "db w' = (db w1)\<lparr>listings := listings (db w1) @ rows\<rparr>"
    "map timeless_listing rows = map (listing_row_of owners) ls"
    by blast
  have "timeless_listing row = listing_row_of owners l"
    using made steps(1-3)
    by (elim conjE exE)
      (simp add: listing_row_of_def timeless_listing_def date_of_def seed_listing_params_def Let_def)
  then show ?case using rows made by (intro exI [of _ "row # rows"]) simp
qed

lemma put_requests_run:
  assumes "events w = []" and "run_state (put_requests owners now rs) w = (Inr (), w')"
  shows "\<exists>rows. events w' = [] \<and> db w' = (db w)\<lparr>requests := requests (db w) @ rows\<rparr> \<and>
    map timeless_request rows = map (request_row_of owners) rs"
  using assms
proof (induction rs arbitrary: w)
  case Nil
  then show ?case by (auto intro: exI [of _ "[]"])
next
  case (Cons r rs)
  from Cons.prems obtain poster a b row w1 where steps:
    "owners (sq_poster r) = Some poster" "parse_date (sq_start_date r) = Inr a" "parse_date (sq_end_date r) = Inr b"
    "run_state (CreateRequest_sql (seed_request_params poster a b now r)) w = (Inr row, w1)"
    "run_state (put_requests owners now rs) w1 = (Inr (), w')"
    by (auto split: prod.splits sum.splits option.splits)
  note made = run_CreateRequest_sql [OF Cons.prems(1) steps(4)]
  from Cons.IH [OF _ steps(5)] made obtain rows where rows:
    "events w' = []" "db w' = (db w1)\<lparr>requests := requests (db w1) @ rows\<rparr>"
    "map timeless_request rows = map (request_row_of owners) rs"
    by blast
  have "timeless_request row = request_row_of owners r"
    using made steps(1-3)
    by (elim conjE exE)
      (simp add: request_row_of_def timeless_request_def date_of_def seed_request_params_def)
  then show ?case using rows made by (intro exI [of _ "row # rows"]) simp
qed

section \<open>The outcome\<close>

text \<open>A seeded database: the accounts are there, the posts are the fixtures, and nothing refers to them.\<close>

definition seeded :: "database \<Rightarrow> bool" where
  "seeded d \<longleftrightarrow>
     list_all (\<lambda>p. account (users d) (sp_email p) \<noteq> None) seed_posters \<and>
     (let owners = owners_of (users d) seed_posters (\<lambda>_. None)
      in map timeless_listing (listings d) = map (listing_row_of owners) seed_listings \<and>
         map timeless_request (requests d) = map (request_row_of owners) seed_requests) \<and>
     offers d = [] \<and> conversations d = [] \<and> messages d = []"

lemma run_HashPassword:
  "run_state (HashPassword env p) w = (r, w') \<Longrightarrow> db w' = db w \<and> events w' = events w"
  by (auto simp: HashPassword_def rand_read_def split: option.splits prod.splits sum.splits)

lemma run_DeleteAllListings:
  assumes "events w = []" and "references (db w)" and "run_state DeleteAllListings w = (r, w')"
  shows "events w' = [] \<and> users (db w') = users (db w) \<and> listings (db w') = [] \<and>
    offers (db w') = [] \<and> conversations (db w') = [] \<and> messages (db w') = []"
  using assms by (auto simp: DeleteAllListings_def stmt_simps delete_every_listing)

lemma run_DeleteAllRequests:
  assumes "events w = []" and "offers (db w) = []" and "run_state DeleteAllRequests w = (r, w')"
  shows "events w' = [] \<and> db w' = (db w)\<lparr>requests := []\<rparr>"
proof -
  have "filter (\<lambda>q. q_id q \<notin> q_id ` set (requests (db w))) (requests (db w)) = []"
    by (rule filter_referring) simp
  with assms show ?thesis by (auto simp: DeleteAllRequests_def stmt_simps delete_requests_def)
qed

text \<open>The steps of a run that succeeds.\<close>

lemma run_Run:
  assumes "run_state (Run env) w = (Inr n, w')"
  obtains hash owners w0 w1 w2 w3 w4 where
    "run_state (HashPassword env seedPassword) w = (Inr hash, w0)"
    "run_state (seed_users hash seed_posters (\<lambda>_. None)) w0 = (Inr owners, w1)"
    "run_state DeleteAllListings w1 = (Inr (), w2)"
    "run_state (put_listings owners (clock w2) seed_listings) w2 = (Inr (), w3)"
    "run_state DeleteAllRequests w3 = (Inr (), w4)"
    "run_state (put_requests owners (clock w2) seed_requests) w4 = (Inr (), w')" "n = 11"
  using assms unfolding Run_def
  by (auto simp: time_now_def seed_listings_def seed_requests_def split: prod.splits sum.splits)

lemma run_new_accounts:
  assumes "events w = []" and "content_ok (db w)"
    and "run_state (HashPassword env seedPassword) w = (Inr hash, w0)"
    and "run_state (seed_users hash seed_posters (\<lambda>_. None)) w0 = (Inr owners, w1)"
  obtains new where "events w1 = []" "references (db w1)" "users (db w1) = users (db w) @ new"
    "list_all u_verified new" "owners = owners_of (users (db w1)) seed_posters (\<lambda>_. None)"
    "list_all (\<lambda>p. account (users (db w1)) (sp_email p) \<noteq> None) seed_posters"
    "list_all (\<lambda>p. account (users (db w)) (sp_email p) \<noteq> None) seed_posters \<longrightarrow> new = []"
proof -
  from run_HashPassword [OF assms(3)] assms(1) have w0: "events w0 = []" "db w0 = db w" by simp_all
  from seed_users_run [OF w0(1) assms(4)] w0(2) obtain new where new:
    "events w1 = []" "db w1 = (db w)\<lparr>users := users (db w) @ new\<rparr>" "list_all u_verified new"
    "owners = owners_of (users (db w1)) seed_posters (\<lambda>_. None)"
    "list_all (\<lambda>p. account (users (db w1)) (sp_email p) \<noteq> None) seed_posters"
    "list_all (\<lambda>p. account (users (db w)) (sp_email p) \<noteq> None) seed_posters \<longrightarrow> new = []"
    by auto
  moreover have "references (db w1)"
    using content_users [OF assms(2), of "users (db w) @ new"] new(2) by (simp add: content_ok_def image_Un)
  ultimately show ?thesis using that [of new] by simp
qed

text \<open>C37: a seed of a well-formed database that nobody else writes to, once it
  succeeds, has posted the eleven fixtures and nothing else, under the accounts with the fixtures' addresses;
  the accounts that were there are as they were, the new ones are verified, and a database that had
  been seeded before gets no new account: seeding it again leads to the same posts, up to their ids and
  timestamps. All offers, conversations and messages are gone with the posts they were about.\<close>

theorem seed_is_repeatable:
  assumes "events w = []" and "content_ok (db w)" and "run_state (Run env) w = (Inr n, w')"
  shows "n = 11 \<and> seeded (db w') \<and>
    (\<exists>new. users (db w') = users (db w) @ new \<and> list_all u_verified new \<and> (seeded (db w) \<longrightarrow> new = []))"
proof -
  from run_Run [OF assms(3)] obtain hash owners w0 w1 w2 w3 w4 where
    hash: "run_state (HashPassword env seedPassword) w = (Inr hash, w0)" and
    accounts: "run_state (seed_users hash seed_posters (\<lambda>_. None)) w0 = (Inr owners, w1)" and
    cleared: "run_state DeleteAllListings w1 = (Inr (), w2)" and
    posted: "run_state (put_listings owners (clock w2) seed_listings) w2 = (Inr (), w3)" and
    emptied: "run_state DeleteAllRequests w3 = (Inr (), w4)" and
    asked: "run_state (put_requests owners (clock w2) seed_requests) w4 = (Inr (), w')" and "n = 11" .
  from run_new_accounts [OF assms(1,2) hash accounts] obtain new where new:
    "events w1 = []" "references (db w1)" "users (db w1) = users (db w) @ new" "list_all u_verified new"
    "owners = owners_of (users (db w1)) seed_posters (\<lambda>_. None)"
    "list_all (\<lambda>p. account (users (db w1)) (sp_email p) \<noteq> None) seed_posters"
    "list_all (\<lambda>p. account (users (db w)) (sp_email p) \<noteq> None) seed_posters \<longrightarrow> new = []" .
  note w2 = run_DeleteAllListings [OF new(1,2) cleared]
  from put_listings_run [OF _ posted] w2 obtain ls where w3:
    "events w3 = []" "db w3 = (db w2)\<lparr>listings := ls\<rparr>"
    "map timeless_listing ls = map (listing_row_of owners) seed_listings"
    by auto
  have w4: "events w4 = [] \<and> db w4 = (db w3)\<lparr>requests := []\<rparr>"
    by (rule run_DeleteAllRequests [OF w3(1) _ emptied]) (simp add: w3(2) w2)
  from put_requests_run [OF _ asked] w4 obtain qs where w':
    "db w' = (db w3)\<lparr>requests := qs\<rparr>" "map timeless_request qs = map (request_row_of owners) seed_requests"
    by auto
  have "seeded (db w')"
    unfolding seeded_def Let_def using new(5,6) w2 w3(2,3) w' by simp
  moreover have "new = []" if "seeded (db w)" using that new(7) by (simp add: seeded_def)
  ultimately show ?thesis using new(3,4) w2 w3(2) w'(1) \<open>n = 11\<close> by auto
qed

lemma sample_seeds: "fst (run_state (Run sample_env) sample_world) = Inr 11"
  by code_simp

theorem seed_is_repeatable_witness:
  "seeded (db (snd (run_state (Run sample_env) sample_world)))"
  using seed_is_repeatable [of sample_world sample_env 11 "snd (run_state (Run sample_env) sample_world)"]
    sample_seeds sample_quiet sample_content
  by (cases "run_state (Run sample_env) sample_world") (simp add: quiet_def sample_world_def)

end
