(* ===== verification/Startup.thy ===== *)
theory Startup
  imports World Config
begin

text \<open>
  The life of a process: \<open>Open\<close> of \<open>internal/db/pool.go\<close>, \<open>run\<close> of \<open>cmd/api/main.go\<close>, and \<open>cmd/migrate\<close>.
  What the database, the network and the operator do is a parameter, what the process does to the
  outside a trace. Deferred calls run when the function returns, in the reverse of their order.
\<close>

section \<open>The pool\<close>

definition maxConns :: int where "maxConns = 25"
definition minConns :: int where "minConns = 2"
definition maxConnLifetime :: duration where "maxConnLifetime = 2 * (3600 * 10 ^ 9)"
definition maxConnIdleTime :: duration where "maxConnIdleTime = 15 * (60 * 10 ^ 9)"
definition connectTimeout :: duration where "connectTimeout = 10 * 10 ^ 9"

record pool_config =
  pc_url :: string
  pc_max_conns :: int
  pc_min_conns :: int
  pc_max_lifetime :: duration
  pc_max_idle :: duration

text \<open>
  \<open>pgxpool\<close>: the parser of the connection string, the constructor and the ping, and what the process
  meets later: the server fails or a signal arrives, the requests in flight end before the deadline
  or not, and so do the emails.
\<close>

record surroundings =
  su_parse :: "string \<Rightarrow> pool_config res"
  su_new :: "pool_config \<Rightarrow> error option"
  su_ping :: "pool_config \<Rightarrow> duration \<Rightarrow> error option"
  su_serve :: "string \<Rightarrow> error option"
  su_shutdown :: "duration \<Rightarrow> error option"
  su_mails_done :: "duration \<Rightarrow> bool"

datatype process_event =
    PoolOpened pool_config
  | PoolClosed
  | Listening string sender
  | Draining
  | AwaitingMails
  | MailsCutOff

definition Open :: "surroundings \<Rightarrow> string \<Rightarrow> process_event list \<times> error option" where
  "Open s url =
     (case su_parse s url of
        Inl e \<Rightarrow> ([], Some (Wrapped ''parse PG_DSN'' e))
      | Inr cfg \<Rightarrow>
          (let cfg = cfg\<lparr>pc_max_conns := maxConns, pc_min_conns := minConns,
                         pc_max_lifetime := maxConnLifetime, pc_max_idle := maxConnIdleTime\<rparr>
           in case su_new s cfg of
                Some e \<Rightarrow> ([], Some (Wrapped ''open pool'' e))
              | None \<Rightarrow>
                  (case su_ping s cfg connectTimeout of
                     Some e \<Rightarrow> ([PoolOpened cfg, PoolClosed], Some (Wrapped ''database unreachable'' e))
                   | None \<Rightarrow> ([PoolOpened cfg], None))))"

section \<open>The service\<close>

definition shutdownTimeout :: duration where "shutdownTimeout = 15 * 10 ^ 9"

datatype run_error = BadConfig "problem list" | RunFailed error

text \<open>
  \<open>su_serve\<close> is what arrives first: the error of \<open>ListenAndServe\<close>, or the signal that cancels the
  context. Emails that are still being sent at the deadline are reported and cut off.
\<close>

definition run ::
  "(string \<Rightarrow> string) \<Rightarrow> (string \<Rightarrow> (string \<times> string) option) \<Rightarrow> surroundings \<Rightarrow>
   process_event list \<times> run_error option" where
  "run getenv ParseAddress s =
     (case Load getenv ParseAddress of
        Inl bad \<Rightarrow> ([], Some (BadConfig bad))
      | Inr cfg \<Rightarrow>
          (let (opening, e) = Open s (DatabaseURL cfg)
           in case e of
                Some e \<Rightarrow> (opening, Some (RunFailed e))
              | None \<Rightarrow>
                  (let started = opening @ [Listening (Addr cfg) (newMailer cfg)]
                   in case su_serve s (Addr cfg) of
                        Some e \<Rightarrow> (started @ [PoolClosed], Some (RunFailed e))
                      | None \<Rightarrow>
                          (case su_shutdown s shutdownTimeout of
                             Some e \<Rightarrow> (started @ [Draining, PoolClosed], Some (RunFailed e))
                           | None \<Rightarrow>
                               (started @ [Draining, AwaitingMails] @
                                (if su_mails_done s shutdownTimeout then [] else [MailsCutOff]) @
                                [PoolClosed], None)))))"

section \<open>The order of things\<close>

text \<open>
  The phases of a process, as the comments of \<open>run\<close> promise them: it serves only while the pool is
  open, drains before it waits for the emails, and closes the pool once, at the end.
\<close>

datatype phase = Down | Up | Serving | Drained | Awaited

fun phase_step :: "phase \<Rightarrow> process_event \<Rightarrow> phase option" where
  "phase_step Down (PoolOpened _) = Some Up"
| "phase_step Up (Listening _ _) = Some Serving"
| "phase_step Serving Draining = Some Drained"
| "phase_step Drained AwaitingMails = Some Awaited"
| "phase_step Awaited MailsCutOff = Some Awaited"
| "phase_step Down PoolClosed = None"
| "phase_step _ PoolClosed = Some Down"
| "phase_step _ _ = None"

fun phases :: "phase \<Rightarrow> process_event list \<Rightarrow> phase option" where
  "phases p [] = Some p"
| "phases p (e # es) = (case phase_step p e of None \<Rightarrow> None | Some q \<Rightarrow> phases q es)"

lemma Open_phases:
  "Open s url = (tr, e) \<Longrightarrow> (case e of None \<Rightarrow> \<exists>c. tr = [PoolOpened c] | Some _ \<Rightarrow> phases Down tr = Some Down)"
  by (auto simp: Open_def Let_def split: sum.splits option.splits)


section \<open>Migrations\<close>

text \<open>\<open>golang-migrate\<close> is a parameter: what a call and the version say.\<close>

datatype migration_call = MigrateUp | MigrateDown | MigrateSteps int | MigrateTo nat

datatype migrate_error = ErrNoChange | ErrNilVersion | MigrateError string

datatype migrate_exit =
    MigrateUsage
  | UnknownMigration string
  | ConfigFailed "problem list"
  | OpenFailed migrate_error
  | NotAVersion string
  | NoMigrations
  | AtVersion nat bool
  | VersionFailed migrate_error
  | NoChange
  | MigrateFailed migrate_error
  | Migrated

text \<open>\<open>strconv.ParseUint(s, 10, 32)\<close>\<close>

definition parse_uint32 :: "string \<Rightarrow> nat option" where
  "parse_uint32 s =
     (if s = [] then None
      else case digits_value 0 s of
        None \<Rightarrow> None
      | Some v \<Rightarrow> if v < 2 ^ 32 then Some (nat v) else None)"

definition migrated :: "(migration_call \<Rightarrow> migrate_error option) \<Rightarrow> migration_call \<Rightarrow> migrate_exit" where
  "migrated m c =
     (case m c of
        None \<Rightarrow> Migrated
      | Some e \<Rightarrow> if e = ErrNoChange then NoChange else MigrateFailed e)"

text \<open>The arguments are those after the program's name.\<close>

definition migrate_main ::
  "string list \<Rightarrow> problem list + Config \<Rightarrow> (string \<Rightarrow> migrate_error option) \<Rightarrow>
   (migration_call \<Rightarrow> migrate_error option) \<Rightarrow> migrate_error + (nat \<times> bool) \<Rightarrow> migrate_exit" where
  "migrate_main args settings open_source m version =
     (case args of
        [] \<Rightarrow> MigrateUsage
      | cmd # rest \<Rightarrow>
          (case settings of
             Inl bad \<Rightarrow> ConfigFailed bad
           | Inr cfg \<Rightarrow>
               (case open_source (DatabaseURL cfg) of
                  Some e \<Rightarrow> OpenFailed e
                | None \<Rightarrow>
                    if cmd = ''up'' then migrated m MigrateUp
                    else if cmd = ''down'' then migrated m MigrateDown
                    else if cmd = ''down-one'' then migrated m (MigrateSteps (- 1))
                    else if cmd = ''goto'' then
                      (case rest of
                         [] \<Rightarrow> MigrateUsage
                       | v # _ \<Rightarrow>
                           (case parse_uint32 v of
                              None \<Rightarrow> NotAVersion v
                            | Some n \<Rightarrow> migrated m (MigrateTo n)))
                    else if cmd = ''version'' then
                      (case version of
                         Inl e \<Rightarrow> if e = ErrNilVersion then NoMigrations else VersionFailed e
                       | Inr (n, dirty) \<Rightarrow> AtVersion n dirty)
                    else UnknownMigration cmd)))"

lemma parse_uint32_digits: "n < 2 ^ 32 \<Longrightarrow> parse_uint32 (digits n) = Some n"
  using digits_value_digits [of n] digits.simps [of n] by (auto simp: parse_uint32_def)

end
