(* ===== verification/Spec2Isabelle.thy ===== *)
theory Spec2Isabelle
  imports AuthProofs LimitProofs AppendOnly Lifecycle LedgerProofs Deals RouterProofs Conform Enumerated Retry Privacy Config
    Resend Admins Takedown
    SeedProofs Startup
begin

text \<open>
  Verification of the WaterlooStar backend, a Go service with which verified students of the
  University of Waterloo offer housing (listings), look for it (requests), talk about it
  (conversations and offers), and with which admins moderate.

  \<^bold>\<open>The program.\<close> A request passes the middleware chain of \<open>internal/httpapi/router.go\<close> (request id, CORS,
  authentication, CSRF, rate limits), is bound by the generated layer \<open>internal/httpapi/gen\<close>, and is
  served by a method of \<open>*Server\<close> in \<open>internal/httpapi\<close>. The handlers run the generated queries of
  \<open>internal/db/sqlcgen\<close>, some in transactions of \<open>internal/db\<close>, send mail (\<open>internal/email\<close>), and consult
  the limiter (\<open>internal/ratelimit\<close>). \<open>cmd/api\<close> wires one process from its configuration
  (\<open>internal/config\<close>); \<open>cmd/admin\<close> changes roles from the host.

  \<^bold>\<open>How it is modelled.\<close> \<open>Prelude\<close>, \<open>GoText\<close> and \<open>GoFloat\<close> give what the code uses of Go: byte strings and
  runes, \<open>strings\<close>, \<open>strconv\<close>, \<open>encoding/hex\<close>, and float64 rounding as exact rationals. \<open>Store\<close> holds the
  rows and the database, a record of tables that are lists in the order of insertion. \<open>World\<close> is what a
  handler runs against: the database, the limiter, the outbox, the clock, the sources of UUIDs and
  random bytes, and a list of \<open>events\<close>. A computation is a state monad over the world; every statement
  first takes one event, which lets it run, makes it fail, or lets other requests commit first
  (\<open>READ COMMITTED\<close>). A theorem for every world is therefore one for every placement of faults and,
  where it does not ask for calm or quiet worlds, of interference. bcrypt, SHA-256, JWT, UUID parsing and
  PostgreSQL's full-text match are fields of \<open>env\<close>, the decoders of parameters and JSON bodies fields
  of \<open>binders\<close>, and the mail address parser and the HTTP client of the mail provider arguments.

  \<^bold>\<open>Which theory models what.\<close>
    \<^item> \<open>RateLimit\<close>, \<open>Policy\<close>, \<open>RateLimitMw\<close>: \<open>internal/ratelimit\<close>, \<open>httpapi/ratelimit_mw.go\<close>.
    \<^item> \<open>AccountStore\<close>, \<open>PostStore\<close>, \<open>ConversationStore\<close>, \<open>Ledger\<close>, \<open>Admin\<close>, \<open>Browse\<close>: the queries of
      \<open>db/sqlcgen/*.sql.go\<close> with the constraints of \<open>migrations/\<close>, and \<open>db/audit.go\<close>, \<open>accounts.go\<close>,
      \<open>roles.go\<close>, \<open>posts.go\<close>.
    \<^item> \<open>Http\<close>, \<open>AuthLib\<close>, \<open>Auth\<close>, \<open>Email\<close>, \<open>Resend\<close>: error envelopes and replies, \<open>internal/auth\<close>,
      \<open>httpapi/auth.go\<close> and \<open>me.go\<close>, \<open>internal/email\<close>.
    \<^item> \<open>Views\<close>, \<open>Listings\<close>, \<open>Requests\<close>, \<open>Conversations\<close>, \<open>Offers\<close>, \<open>Admin\<close>, \<open>Browse\<close>: \<open>httpapi/mapping.go\<close>,
      the validation, and the handlers of the files of those names, \<open>messages.go\<close> and \<open>notifications.go\<close>.
    \<^item> \<open>Service\<close>, \<open>Dispatch\<close>, \<open>Middleware\<close>, \<open>Router\<close>: the operations of the strict server, their typed replies,
      \<open>internal/middleware\<close>, and \<open>router.go\<close> with the route table and bindings of \<open>gen/server.gen.go\<close>.
    \<^item> \<open>Generated\<close>: the functions \<open>gen/server.gen.go\<close> has per operation, one by one: its responses, its
      strict handler and its wrapper; \<open>Enums\<close>: its enumerations; \<open>Retry\<close>: the loop of \<open>httpapi/offers.go\<close> as a loop.
    \<^item> \<open>Config\<close>, \<open>Startup\<close>, \<open>Cli\<close>: \<open>internal/config\<close>; \<open>cmd/api\<close>, \<open>db/pool.go\<close> and \<open>cmd/migrate\<close>; \<open>cmd/admin\<close>.
    \<^item> \<open>SeedData\<close>, \<open>Seed\<close>: the fixtures of \<open>internal/db/seed\<close>, the run that loads them, \<open>cmd/seed\<close>.

  \<^bold>\<open>What is shown.\<close> \<open>Keeps\<close> has the rules by which a computation preserves an invariant of the world;
  \<open>Preserve\<close> turns them into the locale \<open>preserved\<close>, which asks of a property of the database that it
  survives each write as the handlers issue it, and gives that it survives every request. Its
  interpretations are the invariants of the whole service: \<open>Integrity\<close> (constraints, uniqueness and
  references), \<open>AppendOnly\<close> (nothing is lost), \<open>Protected\<close> (owners and participants), \<open>Authority\<close> (addresses,
  messages, moderation), \<open>Lifecycle\<close> (archived is final) and \<open>Admins\<close> (an admin remains). \<open>Atomic\<close> says
  what a transaction leaves when statements fail, with triples for the handlers built on it: \<open>LedgerProofs\<close>
  (every moderation is recorded), \<open>Deals\<close> (offers and conversations, all or nothing) and \<open>Takedown\<close>
  (a takedown can be undone). \<open>AuthProofs\<close> has the accounts, tokens and logins, \<open>ListingProofs\<close> the
  exact outcome of the listing handlers and what validation lets through, \<open>RateBound\<close> and
  \<open>LimitProofs\<close> the limiter against an abstract token bucket and its middleware. \<open>RouterProofs\<close> carries
  the middleware to the router, \<open>Privacy\<close> follows two runs of each read to show that places stay
  hidden. \<open>Conform\<close> shows that what every handler returns is a response its operation declares, and so
  that the generated server is the composition \<open>Router\<close> has for it; \<open>Enumerated\<close> that what the
  tables let in are the values the description declares, so that responses carry no other; \<open>Retry\<close> that the loop of an offer
  ends. \<open>SeedProofs\<close> has the fixtures, what a seed leaves and that it may be repeated, and \<open>Config\<close>,
  \<open>Startup\<close>, \<open>Resend\<close> and \<open>Cli\<close> end with their own theorems. \<open>Sample\<close> is the concrete world
  at which theorems with hypotheses are applied. Some theorems exhibit behaviour the code's
  comments rule out: races, a 500 where validation should refuse, a limit that can be avoided.

  \<^bold>\<open>Bounds and termination.\<close> Every definition is total but the loop \<open>offer_loop\<close>, a partial
  function whose termination is a theorem; there is no fuel. Widths are kept where the code
  truncates (\<open>int32\<close> of \<open>httpapi/mapping.go\<close>) or saturates (\<open>time.Duration\<close>), and UUIDs are 128-bit words.

  \<^bold>\<open>Not modelled.\<close> Logging, panics, connection handling and timeouts (a timeout is a statement that fails),
  JSON and HTTP encoding, the embedded API description, the SQL of the migrations beyond the constraints, and the test
  support of \<open>db/dbtest\<close>: they are I/O or no part of the running service. Locks are not: two requests interleave at statements, and a
  statement is atomic.
\<close>

end
